(* ===== verification/Prelude.thy ===== *)
theory Prelude imports Main "HOL-Library.Word" "HOL-Library.State_Monad" begin

text \<open>
  Shared vocabulary of the development: the weakest-precondition calculus for the state
  monad in which every handler is written, list lemmas for tables, and Go's strings.

  A Go \<open>string\<close> is a byte sequence, here HOL's \<open>string\<close> (a list of 8-bit characters).
  \<open>len\<close> is \<^const>\<open>length\<close>; ranging over a string, \<open>[]rune(s)\<close>, \<open>strings.Fields\<close>,
  \<open>strings.TrimSpace\<close>, \<open>strings.ToLower\<close> and \<open>strings.ToUpper\<close> decode UTF-8 first, with Go's
  rule that each byte that starts no valid sequence is the rune U+FFFD of width one.
\<close>

section \<open>Weakest preconditions of state transformers\<close>

named_theorems wp \<open>weakest-precondition equations, used as rewrite rules\<close>
named_theorems handler_defs \<open>definitions of handlers and of the helpers they are built from\<close>

definition wp :: "('s, 'a) state \<Rightarrow> ('a \<Rightarrow> 's \<Rightarrow> bool) \<Rightarrow> 's \<Rightarrow> bool" where
  "wp m Q s = (case run_state m s of (a, s') \<Rightarrow> Q a s')"

lemma wp_return [wp]: "wp (State_Monad.return a) Q s = Q a s"
  by (simp add: wp_def)

lemma wp_bind [wp]: "wp (m \<bind> f) Q s = wp m (\<lambda>a. wp (f a) Q) s"
  by (simp add: wp_def split: prod.splits)

lemma wp_if [wp]: "wp (if b then m else n) Q s = (if b then wp m Q s else wp n Q s)"
  by simp

lemma wp_sum_case [wp]:
  "wp (case x of Inl e \<Rightarrow> f e | Inr a \<Rightarrow> g a) Q s
     = (case x of Inl e \<Rightarrow> wp (f e) Q s | Inr a \<Rightarrow> wp (g a) Q s)"
  by (cases x) simp_all

lemma wp_option_case [wp]:
  "wp (case x of None \<Rightarrow> m | Some a \<Rightarrow> g a) Q s
     = (case x of None \<Rightarrow> wp m Q s | Some a \<Rightarrow> wp (g a) Q s)"
  by (cases x) simp_all

lemma wp_prod_case [wp]:
  "wp (case x of (a, b) \<Rightarrow> g a b) Q s = (case x of (a, b) \<Rightarrow> wp (g a b) Q s)"
  by (cases x) simp

lemma wp_State [wp]: "wp (State f) Q s = (case f s of (a, s') \<Rightarrow> Q a s')"
  by (simp add: wp_def)

lemma wp_mono: "wp m Q s \<Longrightarrow> (\<And>a t. Q a t \<Longrightarrow> R a t) \<Longrightarrow> wp m R s"
  by (auto simp: wp_def split: prod.splits)

lemma wp_conj: "wp m Q s \<Longrightarrow> wp m R s \<Longrightarrow> wp m (\<lambda>a t. Q a t \<and> R a t) s"
  by (auto simp: wp_def split: prod.splits)

lemma wp_run: "wp m Q s \<Longrightarrow> run_state m s = (a, t) \<Longrightarrow> Q a t"
  by (simp add: wp_def)

lemma wp_runI: "(\<And>a t. run_state m s = (a, t) \<Longrightarrow> Q a t) \<Longrightarrow> wp m Q s"
  by (simp add: wp_def split: prod.splits)

text \<open>The result and the final state of an operation; names for what a proof need not compute.\<close>

definition result :: "('s, 'a) state \<Rightarrow> 's \<Rightarrow> 'a" where
  "result m s = fst (run_state m s)"

definition final :: "('s, 'a) state \<Rightarrow> 's \<Rightarrow> 's" where
  "final m s = snd (run_state m s)"

lemma wp_result: "wp m Q s = Q (result m s) (final m s)"
  by (simp add: wp_def result_def final_def split: prod.splits)

section \<open>Go's error handling\<close>

text \<open>
  \<open>check m bad k\<close> is \<open>x, err := m; if err != nil { bad; return }; k(x)\<close>; \<open>check_some\<close> is the same
  for operations whose error carries nothing; \<open>orfail m f k\<close> returns \<open>f err\<close> as the caller's error.
\<close>

definition check :: "('s, 'e + 'a) state \<Rightarrow> ('s, 'b) state \<Rightarrow> ('a \<Rightarrow> ('s, 'b) state) \<Rightarrow> ('s, 'b) state" where
  "check m bad k = m \<bind> (\<lambda>x. case x of Inl _ \<Rightarrow> bad | Inr a \<Rightarrow> k a)"

definition check_some :: "('s, 'a option) state \<Rightarrow> ('s, 'b) state \<Rightarrow> ('a \<Rightarrow> ('s, 'b) state) \<Rightarrow> ('s, 'b) state" where
  "check_some m bad k = m \<bind> (\<lambda>x. case x of None \<Rightarrow> bad | Some a \<Rightarrow> k a)"

definition orfail ::
  "('s, 'e + 'a) state \<Rightarrow> ('e \<Rightarrow> 'f) \<Rightarrow> ('a \<Rightarrow> ('s, 'f + 'b) state) \<Rightarrow> ('s, 'f + 'b) state" where
  "orfail m f k = m \<bind> (\<lambda>x. case x of Inl e \<Rightarrow> State_Monad.return (Inl (f e)) | Inr a \<Rightarrow> k a)"

lemma wp_check [wp]:
  "wp (check m bad k) Q s = wp m (\<lambda>x t. case x of Inl _ \<Rightarrow> wp bad Q t | Inr a \<Rightarrow> wp (k a) Q t) s"
  by (simp add: check_def wp_def wp_return split: prod.splits sum.splits option.splits)

lemma wp_check_some [wp]:
  "wp (check_some m bad k) Q s = wp m (\<lambda>x t. case x of None \<Rightarrow> wp bad Q t | Some a \<Rightarrow> wp (k a) Q t) s"
  by (simp add: check_some_def wp_def wp_return split: prod.splits sum.splits option.splits)

lemma wp_orfail [wp]:
  "wp (orfail m f k) Q s = wp m (\<lambda>x t. case x of Inl e \<Rightarrow> Q (Inl (f e)) t | Inr a \<Rightarrow> wp (k a) Q t) s"
  by (simp add: orfail_def wp_def wp_return split: prod.splits sum.splits option.splits)

section \<open>Rows of a table\<close>

text \<open>A table is a list of rows in insertion order; \<^const>\<open>find\<close> is a one-row \<open>SELECT\<close>.\<close>

definition update_where :: "('r \<Rightarrow> bool) \<Rightarrow> ('r \<Rightarrow> 'r) \<Rightarrow> 'r list \<Rightarrow> 'r list" where
  "update_where p f rows = map (\<lambda>r. if p r then f r else r) rows"

definition count_where :: "('r \<Rightarrow> bool) \<Rightarrow> 'r list \<Rightarrow> nat" where
  "count_where p rows = length (filter p rows)"

definition delete_where :: "('r \<Rightarrow> bool) \<Rightarrow> 'r list \<Rightarrow> 'r list" where
  "delete_where p rows = filter (\<lambda>r. \<not> p r) rows"

definition exists_where :: "('r \<Rightarrow> bool) \<Rightarrow> 'r list \<Rightarrow> bool" where
  "exists_where p rows = list_ex p rows"

lemma exists_where_iff: "exists_where p rows \<longleftrightarrow> (\<exists>r \<in> set rows. p r)"
  by (simp add: exists_where_def list_ex_iff)

lemma count_where_0_iff: "count_where p rows = 0 \<longleftrightarrow> (\<forall>r \<in> set rows. \<not> p r)"
  by (simp add: count_where_def filter_empty_conv)

lemma in_update_where:
  "r \<in> set (update_where p f rows) \<longleftrightarrow> (\<exists>q \<in> set rows. r = (if p q then f q else q))"
  by (auto simp: update_where_def)

lemma in_delete_where [simp]:
  "r \<in> set (delete_where p rows) \<longleftrightarrow> r \<in> set rows \<and> \<not> p r"
  by (simp add: delete_where_def)

lemma map_update_where:
  "(\<And>r. k (f r) = k r) \<Longrightarrow> map k (update_where p f rows) = map k rows"
  by (simp add: update_where_def)

lemma update_where_append [simp]:
  "update_where p f (xs @ ys) = update_where p f xs @ update_where p f ys"
  by (simp add: update_where_def)

lemma find_in_set: "find p xs = Some x \<Longrightarrow> x \<in> set xs \<and> p x"
  by (auto simp: find_Some_iff)

lemma find_unique:
  assumes "distinct (map k xs)" and "x \<in> set xs" and "y \<in> set xs" and "k x = k y"
  shows "x = y"
  using assms by (metis distinct_map inj_onD)

lemma find_eq_unique:
  assumes d: "distinct (map k xs)" and x: "x \<in> set xs" and p: "p x"
    and only: "\<And>y. y \<in> set xs \<Longrightarrow> p y \<Longrightarrow> k y = k x"
  shows "find p xs = Some x"
proof -
  obtain y where y: "find p xs = Some y"
    using x p by (cases "find p xs") (auto simp: find_None_iff)
  then have "y \<in> set xs" and "p y" by (auto dest: find_in_set)
  with d x only have "y = x" by (blast intro: find_unique)
  with y show ?thesis by simp
qed

lemma find_update_where:
  "(\<And>r. p (f r) = p r) \<Longrightarrow> find p (update_where q f xs) = map_option (\<lambda>r. if q r then f r else r) (find p xs)"
  by (induction xs) (auto simp: update_where_def)

lemma find_append: "find p (xs @ ys) = (case find p xs of None \<Rightarrow> find p ys | Some x \<Rightarrow> Some x)"
  by (induction xs) auto

text \<open>
  A table that only grows: \<open>evolves R xs ys\<close> if the rows of \<open>xs\<close> are, each related to itself by
  \<open>R\<close>, the first rows of \<open>ys\<close>.
\<close>

definition evolves :: "('r \<Rightarrow> 'r \<Rightarrow> bool) \<Rightarrow> 'r list \<Rightarrow> 'r list \<Rightarrow> bool" where
  "evolves R xs ys \<longleftrightarrow> (\<exists>us vs. ys = us @ vs \<and> list_all2 R xs us)"

lemma evolves_refl: "(\<And>r. R r r) \<Longrightarrow> evolves R xs xs"
  by (auto simp: evolves_def intro: exI [of _ xs] exI [of _ "[]"] list.rel_refl)

lemma evolves_append: "evolves R xs ys \<Longrightarrow> evolves R xs (ys @ zs)"
  unfolding evolves_def by (metis append_assoc)

lemma evolves_update:
  assumes "evolves R xs ys" and "\<And>x y. R x y \<Longrightarrow> q y \<Longrightarrow> R x (f y)"
  shows "evolves R xs (update_where q f ys)"
proof -
  obtain us vs where "ys = us @ vs" "list_all2 R xs us" using assms(1) by (auto simp: evolves_def)
  moreover from this(2) have "list_all2 R xs (update_where q f us)"
    by (auto simp: update_where_def list_all2_map2 assms(2) elim!: list.rel_mono_strong)
  ultimately show ?thesis by (auto simp: evolves_def)
qed

lemma evolves_trans:
  assumes "evolves R xs ys" "evolves R ys zs" and trans: "\<And>a b c. R a b \<Longrightarrow> R b c \<Longrightarrow> R a c"
  shows "evolves R xs zs"
proof -
  obtain us vs where ys: "ys = us @ vs" "list_all2 R xs us" using assms(1) by (auto simp: evolves_def)
  obtain us' vs' ws where "zs = (us' @ vs') @ ws" "list_all2 R us us'"
    using assms(2) by (auto simp: evolves_def ys(1) list_all2_append1)
  moreover from ys(2) this(2) have "list_all2 R xs us'"
    by (rule list_all2_trans [rotated]) (rule trans)
  ultimately show ?thesis by (auto simp: evolves_def)
qed

lemma evolves_find:
  assumes "evolves R xs ys" "find p xs = Some x" and same: "\<And>a b. R a b \<Longrightarrow> p a = p b"
  shows "\<exists>y. find p ys = Some y \<and> R x y"
proof -
  obtain us vs where ys: "ys = us @ vs" "list_all2 R xs us" using assms(1) by (auto simp: evolves_def)
  from ys(2) assms(2) have "\<exists>y. find p us = Some y \<and> R x y"
    by (induction rule: list_all2_induct) (auto simp: same split: if_splits)
  then show ?thesis by (auto simp: ys(1) find_append)
qed

text \<open>An inner join, in the order of the left table.\<close>

definition join :: "('a \<Rightarrow> 'b \<Rightarrow> bool) \<Rightarrow> 'a list \<Rightarrow> 'b list \<Rightarrow> ('a \<times> 'b) list" where
  "join on xs ys = concat (map (\<lambda>x. map (Pair x) (filter (on x) ys)) xs)"

lemma in_join [simp]: "(x, y) \<in> set (join on xs ys) \<longleftrightarrow> x \<in> set xs \<and> y \<in> set ys \<and> on x y"
  by (auto simp: join_def)

lemma join_eval [simp]:
  "join on [] ys = []"
  "join on (x # xs) ys = map (Pair x) (filter (on x) ys) @ join on xs ys"
  by (simp_all add: join_def)

section \<open>Ordering\<close>

text \<open>\<open>ORDER BY\<close>: a stable insertion sort by a given order.\<close>

fun insort_by :: "('a \<Rightarrow> 'a \<Rightarrow> bool) \<Rightarrow> 'a \<Rightarrow> 'a list \<Rightarrow> 'a list" where
  "insort_by le x [] = [x]"
| "insort_by le x (y # ys) = (if le x y then x # y # ys else y # insort_by le x ys)"

definition order_by :: "('a \<Rightarrow> 'a \<Rightarrow> bool) \<Rightarrow> 'a list \<Rightarrow> 'a list" where
  "order_by le xs = foldr (insort_by le) xs []"

lemma set_insort_by [simp]: "set (insort_by le x ys) = insert x (set ys)"
  by (induction ys) auto

lemma set_order_by [simp]: "set (order_by le xs) = set xs"
  by (induction xs) (simp_all add: order_by_def)

lemma length_insort_by [simp]: "length (insort_by le x ys) = Suc (length ys)"
  by (induction ys) auto

lemma length_order_by [simp]: "length (order_by le xs) = length xs"
  by (induction xs) (simp_all add: order_by_def)

end
