(* ===== verification/Go_Strings.thy ===== *)
theory Go_Strings imports Prelude begin

text \<open>
  The string functions of Go's standard library that the program uses (packages \<open>strings\<close>,
  \<open>unicode\<close>, \<open>unicode/utf8\<close>), on byte strings.

  Classification and case mapping of ASCII runes are written out; for the other runes they are
  the Unicode character data Go was built with, a parameter of type \<open>ucd\<close>.
\<close>

section \<open>Unicode data\<close>

record ucd =
  uc_upper :: "nat \<Rightarrow> bool"
  uc_lower :: "nat \<Rightarrow> bool"
  uc_digit :: "nat \<Rightarrow> bool"
  uc_punct_or_symbol :: "nat \<Rightarrow> bool"
  uc_to_upper :: "nat \<Rightarrow> nat"
  uc_to_lower :: "nat \<Rightarrow> nat"
  uc_fold :: "nat \<Rightarrow> nat"

definition isUpper :: "ucd \<Rightarrow> nat \<Rightarrow> bool" where
  "isUpper u r = (if r < 128 then 65 \<le> r \<and> r \<le> 90 else uc_upper u r)"

definition isLower :: "ucd \<Rightarrow> nat \<Rightarrow> bool" where
  "isLower u r = (if r < 128 then 97 \<le> r \<and> r \<le> 122 else uc_lower u r)"

definition isDigit :: "ucd \<Rightarrow> nat \<Rightarrow> bool" where
  "isDigit u r = (if r < 128 then 48 \<le> r \<and> r \<le> 57 else uc_digit u r)"

text \<open>\<open>unicode.IsPunct(r) || unicode.IsSymbol(r)\<close>: the two classes share out ASCII punctuation.\<close>

definition isPunctOrSymbol :: "ucd \<Rightarrow> nat \<Rightarrow> bool" where
  "isPunctOrSymbol u r =
     (if r < 128 then 33 \<le> r \<and> r \<le> 47 \<or> 58 \<le> r \<and> r \<le> 64 \<or> 91 \<le> r \<and> r \<le> 96 \<or> 123 \<le> r \<and> r \<le> 126
      else uc_punct_or_symbol u r)"

definition isSpace :: "nat \<Rightarrow> bool" where
  "isSpace r \<longleftrightarrow> 9 \<le> r \<and> r \<le> 13 \<or> r = 32 \<or> r = 133 \<or> r = 160 \<or> r = 5760
     \<or> 8192 \<le> r \<and> r \<le> 8202 \<or> r = 8232 \<or> r = 8233 \<or> r = 8239 \<or> r = 8287 \<or> r = 12288"

definition toUpperRune :: "ucd \<Rightarrow> nat \<Rightarrow> nat" where
  "toUpperRune u r =
     (if r < 128 then if 97 \<le> r \<and> r \<le> 122 then r - 32 else r else uc_to_upper u r)"

definition toLowerRune :: "ucd \<Rightarrow> nat \<Rightarrow> nat" where
  "toLowerRune u r =
     (if r < 128 then if 65 \<le> r \<and> r \<le> 90 then r + 32 else r else uc_to_lower u r)"

text \<open>A representative of the rune's simple-folding orbit: U+017F and U+212A fold to ASCII.\<close>

definition foldRune :: "ucd \<Rightarrow> nat \<Rightarrow> nat" where
  "foldRune u r =
     (if r < 128 then if 65 \<le> r \<and> r \<le> 90 then r + 32 else r
      else if r = 383 then 115 else if r = 8490 then 107 else uc_fold u r)"

section \<open>UTF-8\<close>

definition runeError :: nat where
  "runeError = 65533"

definition is_cont :: "nat \<Rightarrow> bool" where
  "is_cont b \<longleftrightarrow> 128 \<le> b \<and> b < 192"

text \<open>The multi-byte sequence led by \<open>b\<close>: its rune and the number of bytes after the first.\<close>

fun utf8_seq :: "nat \<Rightarrow> nat list \<Rightarrow> (nat \<times> nat) option" where
  "utf8_seq b (b1 # bs) =
     (if 194 \<le> b \<and> b \<le> 223 \<and> is_cont b1 then Some ((b - 192) * 64 + (b1 - 128), 1)
      else case bs of
        [] \<Rightarrow> None
      | b2 # bs2 \<Rightarrow>
        if 224 \<le> b \<and> b \<le> 239 \<and> is_cont b1 \<and> is_cont b2
            \<and> (b = 224 \<longrightarrow> 160 \<le> b1) \<and> (b = 237 \<longrightarrow> b1 \<le> 159)
        then Some ((b - 224) * 4096 + (b1 - 128) * 64 + (b2 - 128), 2)
        else case bs2 of
          [] \<Rightarrow> None
        | b3 # _ \<Rightarrow>
          if 240 \<le> b \<and> b \<le> 244 \<and> is_cont b1 \<and> is_cont b2 \<and> is_cont b3
              \<and> (b = 240 \<longrightarrow> 144 \<le> b1) \<and> (b = 244 \<longrightarrow> b1 \<le> 143)
          then Some ((b - 240) * 262144 + (b1 - 128) * 4096 + (b2 - 128) * 64 + (b3 - 128), 3)
          else None)"
| "utf8_seq b [] = None"

text \<open>The runes of a string, each with the bytes it was read from.\<close>

function chunks :: "string \<Rightarrow> (nat \<times> string) list" where
  "chunks [] = []"
| "chunks (c # cs) =
     (if of_char c < (128::nat) then (of_char c, [c]) # chunks cs
      else case utf8_seq (of_char c) (map of_char (take 3 cs)) of
        None \<Rightarrow> (runeError, [c]) # chunks cs
      | Some (r, k) \<Rightarrow> (r, c # take k cs) # chunks (drop k cs))"
  by pat_completeness auto
termination by (relation "measure length") auto

definition runes :: "string \<Rightarrow> nat list" where
  "runes s = map fst (chunks s)"

definition unchunks :: "(nat \<times> string) list \<Rightarrow> string" where
  "unchunks cs = concat (map snd cs)"

lemma unchunks_chunks [simp]: "unchunks (chunks s) = s"
  by (induction s rule: chunks.induct) (auto simp: unchunks_def split: option.splits)

lemma unchunks_append [simp]: "unchunks (a @ b) = unchunks a @ unchunks b"
  by (simp add: unchunks_def)

lemma chunk_nonempty: "(r, c) \<in> set (chunks s) \<Longrightarrow> c \<noteq> []"
  by (induction s rule: chunks.induct) (auto split: option.splits if_splits)

lemma length_chunks_le: "length (chunks s) \<le> length s"
proof (induction s rule: chunks.induct)
  case (2 c cs)
  then show ?case by (force split: option.splits)
qed simp

lemma length_runes_le: "length (runes s) \<le> length s"
  by (simp add: runes_def length_chunks_le)

definition utf8_encode :: "nat \<Rightarrow> string" where
  "utf8_encode r = map char_of
     (if r < 128 then [r]
      else if r < 2048 then [192 + r div 64, 128 + r mod 64]
      else if r < 65536 then [224 + r div 4096, 128 + r div 64 mod 64, 128 + r mod 64]
      else [240 + r div 262144, 128 + r div 4096 mod 64, 128 + r div 64 mod 64, 128 + r mod 64])"

definition toLower :: "ucd \<Rightarrow> string \<Rightarrow> string" where
  "toLower u s = concat (map (utf8_encode \<circ> toLowerRune u) (runes s))"

definition toUpper :: "ucd \<Rightarrow> string \<Rightarrow> string" where
  "toUpper u s = concat (map (utf8_encode \<circ> toUpperRune u) (runes s))"

definition equalFold :: "ucd \<Rightarrow> string \<Rightarrow> string \<Rightarrow> bool" where
  "equalFold u s t \<longleftrightarrow> map (foldRune u) (runes s) = map (foldRune u) (runes t)"

section \<open>Fields and trimming\<close>

fun fields_of :: "(nat \<times> string) list \<Rightarrow> string \<Rightarrow> string list" where
  "fields_of [] cur = (if cur = [] then [] else [cur])"
| "fields_of ((r, c) # cs) cur =
     (if isSpace r then if cur = [] then fields_of cs [] else cur # fields_of cs []
      else fields_of cs (cur @ c))"

definition strings_Fields :: "string \<Rightarrow> string list" where
  "strings_Fields s = fields_of (chunks s) []"

definition trimSpace :: "string \<Rightarrow> string" where
  "trimSpace s = unchunks (rev (dropWhile (\<lambda>(r, _). isSpace r)
     (rev (dropWhile (\<lambda>(r, _). isSpace r) (chunks s)))))"

section \<open>Searching, splitting and joining\<close>

definition hasPrefix :: "string \<Rightarrow> string \<Rightarrow> bool" where
  "hasPrefix s p \<longleftrightarrow> take (length p) s = p"

definition hasSuffix :: "string \<Rightarrow> string \<Rightarrow> bool" where
  "hasSuffix s p \<longleftrightarrow> length p \<le> length s \<and> drop (length s - length p) s = p"

fun strings_Contains :: "string \<Rightarrow> string \<Rightarrow> bool" where
  "strings_Contains [] p = (p = [])"
| "strings_Contains (c # cs) p = (hasPrefix (c # cs) p \<or> strings_Contains cs p)"

text \<open>\<open>strings.Cut\<close> at one byte: before, after and whether it was found.\<close>

fun cut_byte :: "char \<Rightarrow> string \<Rightarrow> string \<times> string \<times> bool" where
  "cut_byte d [] = ([], [], False)"
| "cut_byte d (c # cs) =
     (if c = d then ([], cs, True)
      else case cut_byte d cs of (a, b, found) \<Rightarrow> if found then (c # a, b, True) else (c # cs, [], False))"

text \<open>\<open>strings.Split\<close> at one byte.\<close>

fun split_byte :: "char \<Rightarrow> string \<Rightarrow> string list" where
  "split_byte d [] = [[]]"
| "split_byte d (c # cs) =
     (if c = d then [] # split_byte d cs
      else case split_byte d cs of [] \<Rightarrow> [[c]] | w # ws \<Rightarrow> (c # w) # ws)"

fun strings_Join :: "string list \<Rightarrow> string \<Rightarrow> string" where
  "strings_Join [] sep = []"
| "strings_Join [w] sep = w"
| "strings_Join (w # v # ws) sep = w @ sep @ strings_Join (v # ws) sep"

definition trimRight_byte :: "char \<Rightarrow> string \<Rightarrow> string" where
  "trimRight_byte d s = rev (dropWhile (\<lambda>c. c = d) (rev s))"

lemma split_byte_nonempty [simp]: "split_byte d s \<noteq> []"
  by (induction s) (auto split: list.splits)

lemma split_byte_no_sep: "d \<notin> set s \<Longrightarrow> split_byte d s = [s]"
  by (induction s) auto

lemma split_byte_append: "d \<notin> set a \<Longrightarrow> split_byte d (a @ d # b) = a # split_byte d b"
  by (induction a) auto

lemma cut_byte_no_sep: "d \<notin> set s \<Longrightarrow> cut_byte d s = (s, [], False)"
  by (induction s) auto

lemma cut_byte_append: "d \<notin> set a \<Longrightarrow> cut_byte d (a @ d # b) = (a, b, True)"
  by (induction a) auto

lemma set_trimSpace: "set (trimSpace s) \<subseteq> set s"
proof -
  have sub: "set (unchunks (dropWhile P cs)) \<subseteq> set (unchunks cs)" for P cs
    by (auto simp: unchunks_def dest: set_dropWhileD)
  have rev_set: "set (unchunks (rev cs)) = set (unchunks cs)" for cs
    by (auto simp: unchunks_def)
  have "set (trimSpace s) \<subseteq> set (unchunks (chunks s))"
    unfolding trimSpace_def rev_set using sub rev_set by (metis order_trans)
  then show ?thesis by simp
qed

section \<open>ASCII strings\<close>

definition ascii :: "string \<Rightarrow> bool" where
  "ascii s \<longleftrightarrow> (\<forall>c \<in> set s. of_char c < (128::nat))"

lemma chunks_ascii: "ascii s \<Longrightarrow> chunks s = map (\<lambda>c. (of_char c, [c])) s"
  by (induction s) (auto simp: ascii_def)

lemma runes_ascii: "ascii s \<Longrightarrow> runes s = map of_char s"
  by (simp add: runes_def chunks_ascii comp_def)

lemma ascii_append [simp]: "ascii (a @ b) \<longleftrightarrow> ascii a \<and> ascii b"
  by (auto simp: ascii_def)

end
