(* ===== verification/Sha256.thy ===== *)
theory Sha256 imports Prelude begin

text \<open>
  SHA-256 as \<open>crypto/sha256\<close> computes it (FIPS 180-4), on byte strings: 32-bit words with
  wrap-around addition, the message schedule, the 64-round compression and the padding.
  The development needs it for \<open>security.SHA256String\<close> and for PKCE's S256 method; no
  lemma relies on more than its being a function, except the test vectors, which evaluate it.
\<close>

unbundle bit_operations_syntax

type_synonym w32 = "32 word"
type_synonym u8 = "8 word"

definition rotr :: "nat \<Rightarrow> w32 \<Rightarrow> w32" where
  "rotr n x = drop_bit n x OR push_bit (32 - n) x"

definition sig0 :: "w32 \<Rightarrow> w32" where
  "sig0 x = rotr 7 x XOR rotr 18 x XOR drop_bit 3 x"

definition sig1 :: "w32 \<Rightarrow> w32" where
  "sig1 x = rotr 17 x XOR rotr 19 x XOR drop_bit 10 x"

definition Sig0 :: "w32 \<Rightarrow> w32" where
  "Sig0 x = rotr 2 x XOR rotr 13 x XOR rotr 22 x"

definition Sig1 :: "w32 \<Rightarrow> w32" where
  "Sig1 x = rotr 6 x XOR rotr 11 x XOR rotr 25 x"

definition Ch :: "w32 \<Rightarrow> w32 \<Rightarrow> w32 \<Rightarrow> w32" where
  "Ch x y z = (x AND y) XOR (NOT x AND z)"

definition Maj :: "w32 \<Rightarrow> w32 \<Rightarrow> w32 \<Rightarrow> w32" where
  "Maj x y z = (x AND y) XOR (x AND z) XOR (y AND z)"

text \<open>The round constants and the initial state, as integers.\<close>

definition round_constants :: "int list" where
  "round_constants = [
    1116352408, 1899447441, 3049323471, 3921009573, 961987163, 1508970993, 2453635748,
    2870763221, 3624381080, 310598401, 607225278, 1426881987, 1925078388, 2162078206,
    2614888103, 3248222580, 3835390401, 4022224774, 264347078, 604807628, 770255983,
    1249150122, 1555081692, 1996064986, 2554220882, 2821834349, 2952996808, 3210313671,
    3336571891, 3584528711, 113926993, 338241895, 666307205, 773529912, 1294757372,
    1396182291, 1695183700, 1986661051, 2177026350, 2456956037, 2730485921, 2820302411,
    3259730800, 3345764771, 3516065817, 3600352804, 4094571909, 275423344, 430227734,
    506948616, 659060556, 883997877, 958139571, 1322822218, 1537002063, 1747873779,
    1955562222, 2024104815, 2227730452, 2361852424, 2428436474, 2756734187, 3204031479,
    3329325298]"

definition initial_state :: "int list" where
  "initial_state = [
    1779033703, 3144134277, 1013904242, 2773480762, 1359893119, 2600822924, 528734635,
    1541459225]"

definition K256 :: "w32 list" where
  "K256 = map word_of_int round_constants"

definition H256 :: "w32 list" where
  "H256 = map word_of_int initial_state"

text \<open>The schedule keeps the last sixteen words as a window, oldest first.\<close>

fun next_w :: "w32 list \<Rightarrow> w32" where
  "next_w ws = sig1 (ws ! 14) + ws ! 9 + sig0 (ws ! 1) + ws ! 0"

fun round256 :: "w32 list \<Rightarrow> w32 \<Rightarrow> w32 \<Rightarrow> w32 list" where
  "round256 [a, b, c, d, e, f, g, h] k w =
     (let t1 = h + Sig1 e + Ch e f g + k + w; t2 = Sig0 a + Maj a b c
      in [t1 + t2, a, b, c, d + t1, e, f, g])"
| "round256 v k w = v"

fun rounds256 :: "w32 list \<Rightarrow> w32 list \<Rightarrow> w32 list \<Rightarrow> w32 list" where
  "rounds256 [] ws v = v"
| "rounds256 (k # ks) ws v = rounds256 ks (tl ws @ [next_w ws]) (round256 v k (hd ws))"

definition compress256 :: "w32 list \<Rightarrow> w32 list \<Rightarrow> w32 list" where
  "compress256 h block = map2 (+) h (rounds256 K256 block h)"

fun be_word :: "u8 list \<Rightarrow> w32" where
  "be_word [a, b, c, d] =
     push_bit 24 (ucast a) OR push_bit 16 (ucast b) OR push_bit 8 (ucast c) OR ucast d"
| "be_word bs = 0"

definition be_bytes4 :: "w32 \<Rightarrow> u8 list" where
  "be_bytes4 w = [ucast (drop_bit 24 w), ucast (drop_bit 16 w), ucast (drop_bit 8 w), ucast w]"

definition be_bytes8 :: "64 word \<Rightarrow> u8 list" where
  "be_bytes8 w = be_bytes4 (ucast (drop_bit 32 w)) @ be_bytes4 (ucast w)"

text \<open>The words of one 64-byte block, and the padding; the message length is kept as a
  64-bit count of bits, as the Go implementation does.\<close>

fun words_of :: "u8 list \<Rightarrow> w32 list" where
  "words_of (a # b # c # d # bs) = be_word [a, b, c, d] # words_of bs"
| "words_of bs = []"

definition pad256 :: "u8 list \<Rightarrow> u8 list" where
  "pad256 m = m @ [128] @ replicate (nat ((119 - int (length m)) mod 64)) 0
     @ be_bytes8 (word_of_int (8 * int (length m)))"

function blocks256 :: "w32 list \<Rightarrow> w32 list \<Rightarrow> w32 list" where
  "blocks256 h ws =
     (if length ws < 16 then h else blocks256 (compress256 h (take 16 ws)) (drop 16 ws))"
  by pat_completeness auto
termination by (relation "measure (\<lambda>(h, ws). length ws)") auto

declare blocks256.simps [simp del]

definition sha256 :: "u8 list \<Rightarrow> u8 list" where
  "sha256 m = concat (map be_bytes4 (blocks256 H256 (words_of (pad256 m))))"

end
