(* ===== verification/Encoding.thy ===== *)
theory Encoding imports Go_Strings Sha256 begin

text \<open>
  The encodings the program takes from Go's standard library: unpadded base64 with the URL and
  the standard alphabet (\<open>base64.RawURLEncoding\<close>, \<open>base64.RawStdEncoding\<close>), padded standard
  base64 decoding (the master key), unpadded base32, lower-case hexadecimal, decimal numbers.
  Byte slices are strings of bytes. Each encoding that is decoded somewhere has its round trip.
\<close>

section \<open>Base64\<close>

definition b64_alphabet :: "bool \<Rightarrow> string" where
  "b64_alphabet url = ''ABCDEFGHIJKLMNOPQRSTUVWXYZabcdefghijklmnopqrstuvwxyz0123456789''
     @ (if url then ''-_'' else ''+/'')"

definition b64_digit :: "bool \<Rightarrow> nat \<Rightarrow> char" where
  "b64_digit url n = b64_alphabet url ! n"

definition b64_value :: "bool \<Rightarrow> char \<Rightarrow> nat option" where
  "b64_value url c =
     (let n = of_char c :: nat
      in if 65 \<le> n \<and> n \<le> 90 then Some (n - 65)
         else if 97 \<le> n \<and> n \<le> 122 then Some (n - 71)
         else if 48 \<le> n \<and> n \<le> 57 then Some (n + 4)
         else if c = (if url then CHR ''-'' else CHR ''+'') then Some 62
         else if c = (if url then CHR ''_'' else CHR ''/'') then Some 63
         else None)"

fun b64_digits :: "nat list \<Rightarrow> nat list" where
  "b64_digits [] = []"
| "b64_digits [a] = [a div 4, (a mod 4) * 16]"
| "b64_digits [a, b] = [a div 4, (a mod 4) * 16 + b div 16, (b mod 16) * 4]"
| "b64_digits (a # b # c # bs) =
     [a div 4, (a mod 4) * 16 + b div 16, (b mod 16) * 4 + c div 64, c mod 64] @ b64_digits bs"

text \<open>A last group of two or three digits gives one or two bytes; one digit alone is an error.
  The unused low bits of a short group are ignored, as the non-strict Go decoder does.\<close>

fun b64_bytes :: "nat list \<Rightarrow> nat list option" where
  "b64_bytes [] = Some []"
| "b64_bytes [w] = None"
| "b64_bytes [w, x] = Some [w * 4 + x div 16]"
| "b64_bytes [w, x, y] = Some [w * 4 + x div 16, (x mod 16) * 16 + y div 4]"
| "b64_bytes (w # x # y # z # ds) =
     map_option (\<lambda>bs. [w * 4 + x div 16, (x mod 16) * 16 + y div 4, (y mod 4) * 64 + z] @ bs)
       (b64_bytes ds)"

definition base64_encode :: "bool \<Rightarrow> string \<Rightarrow> string" where
  "base64_encode url s = map (b64_digit url) (b64_digits (map of_char s))"

definition base64_decode :: "bool \<Rightarrow> string \<Rightarrow> string option" where
  "base64_decode url s =
     Option.bind (those (map (b64_value url) (filter (\<lambda>c. c \<noteq> CHR 0x0A \<and> c \<noteq> CHR 0x0D) s)))
       (\<lambda>ds. map_option (map char_of) (b64_bytes ds))"

lemma b64_digit_table:
  "n < 64 \<Longrightarrow> b64_value url (b64_digit url n) = Some n \<and> b64_digit url n \<noteq> CHR 0x0A
     \<and> b64_digit url n \<noteq> CHR 0x0D \<and> of_char (b64_digit url n) < (128::nat)
     \<and> b64_digit url n \<noteq> CHR ''$'' \<and> b64_digit url n \<noteq> CHR ''.''"
proof -
  have *: "\<forall>n \<in> set [0 ..< 64]. b64_value u (b64_digit u n) = Some n \<and> b64_digit u n \<noteq> CHR 0x0A
     \<and> b64_digit u n \<noteq> CHR 0x0D \<and> of_char (b64_digit u n) < (128::nat)
     \<and> b64_digit u n \<noteq> CHR ''$'' \<and> b64_digit u n \<noteq> CHR ''.''" for u
    by (cases u) (simp_all add: upt_rec b64_digit_def b64_alphabet_def b64_value_def)
  assume "n < 64"
  then show ?thesis using * [of url] by simp
qed

lemma b64_digits_bound: "\<forall>b \<in> set bs. b < 256 \<Longrightarrow> \<forall>d \<in> set (b64_digits bs). d < 64"
  by (induction bs rule: b64_digits.induct) auto

lemma b64_bytes_digits: "\<forall>b \<in> set bs. b < 256 \<Longrightarrow> b64_bytes (b64_digits bs) = Some bs"
proof (induction bs rule: b64_digits.induct)
  case (4 a b c bs)
  have "(a div 4) * 4 + ((a mod 4) * 16 + b div 16) div 16 = a" using "4.prems" by auto
  moreover have "(((a mod 4) * 16 + b div 16) mod 16) * 16 + ((b mod 16) * 4 + c div 64) div 4 = b"
    using "4.prems" by auto
  moreover have "(((b mod 16) * 4 + c div 64) mod 4) * 64 + c mod 64 = c" using "4.prems" by auto
  ultimately show ?case using 4 by simp
qed auto

lemma those_map_Some: "(\<And>x. x \<in> set xs \<Longrightarrow> f (g x) = Some x) \<Longrightarrow> those (map f (map g xs)) = Some xs"
  by (induction xs) auto

lemma base64_chars:
  assumes "c \<in> set (base64_encode url s)"
  shows "c \<noteq> CHR 0x0A \<and> c \<noteq> CHR 0x0D \<and> of_char c < (128::nat) \<and> c \<noteq> CHR ''$'' \<and> c \<noteq> CHR ''.''"
proof -
  from assms obtain d where d: "d \<in> set (b64_digits (map of_char s))" "c = b64_digit url d"
    by (auto simp: base64_encode_def)
  have "d < 64" using d(1) b64_digits_bound [of "map of_char s"] by auto
  from b64_digit_table [OF this] show ?thesis by (simp add: d(2))
qed

theorem base64_roundtrip [simp]: "base64_decode url (base64_encode url s) = Some s"
proof -
  let ?ds = "b64_digits (map of_char s)"
  have bound: "\<forall>d \<in> set ?ds. d < 64" by (rule b64_digits_bound) simp
  have "filter (\<lambda>c. c \<noteq> CHR 0x0A \<and> c \<noteq> CHR 0x0D) (base64_encode url s) = base64_encode url s"
    by (rule filter_True) (use base64_chars in blast)
  moreover have "those (map (b64_value url) (map (b64_digit url) ?ds)) = Some ?ds"
    by (rule those_map_Some) (use bound b64_digit_table in blast)
  moreover have "b64_bytes ?ds = Some (map of_char s)" by (rule b64_bytes_digits) simp
  ultimately show ?thesis by (simp add: base64_decode_def base64_encode_def comp_def)
qed

text \<open>\<open>base64.StdEncoding\<close>: the standard alphabet, padded to a multiple of four.\<close>

definition std64_encode :: "string \<Rightarrow> string" where
  "std64_encode s = base64_encode False s @ replicate ((3 - length s mod 3) mod 3) CHR ''=''"

definition std64_decode :: "string \<Rightarrow> string option" where
  "std64_decode s = (let t = filter (\<lambda>c. c \<noteq> CHR 0x0A \<and> c \<noteq> CHR 0x0D) s;
     pad = (if hasSuffix t ''=='' then 2 else if hasSuffix t ''='' then 1 else 0)
   in if length t mod 4 \<noteq> 0 then None else base64_decode False (take (length t - pad) t))"

lemma base64_encode_inject [simp]: "base64_encode url s = base64_encode url t \<longleftrightarrow> s = t"
  by (metis base64_roundtrip option.inject)

lemma base64_ascii [simp]: "ascii (base64_encode url s)"
  using base64_chars by (auto simp: ascii_def)

lemma length_b64_digits: "length (b64_digits bs) = (4 * length bs + 2) div 3"
  by (induction bs rule: b64_digits.induct) auto

lemma length_base64: "length (base64_encode url s) = (4 * length s + 2) div 3"
  by (simp add: base64_encode_def length_b64_digits)

section \<open>Decimal and hexadecimal numbers\<close>

function show_nat :: "nat \<Rightarrow> string" where
  "show_nat n = (if n < 10 then [char_of (48 + n)] else show_nat (n div 10) @ [char_of (48 + n mod 10)])"
  by pat_completeness auto
termination by (relation "measure id") auto

declare show_nat.simps [simp del]

definition digit_value :: "char \<Rightarrow> nat option" where
  "digit_value c = (let n = of_char c :: nat in if 48 \<le> n \<and> n \<le> 57 then Some (n - 48) else None)"

text \<open>\<open>strconv.ParseUint(s, 10, 32)\<close>.\<close>

definition parse_uint32 :: "string \<Rightarrow> nat option" where
  "parse_uint32 s =
     (if s = [] then None
      else case those (map digit_value s) of
        None \<Rightarrow> None
      | Some ds \<Rightarrow> let n = foldl (\<lambda>a d. a * 10 + d) 0 ds in if n < 2 ^ 32 then Some n else None)"

definition hex_digit :: "nat \<Rightarrow> char" where
  "hex_digit n = ''0123456789abcdef'' ! n"

definition hex :: "string \<Rightarrow> string" where
  "hex s = concat (map (\<lambda>c. [hex_digit (of_char c div 16), hex_digit (of_char c mod 16)]) s)"

lemma those_append:
  "those (xs @ ys) = Option.bind (those xs) (\<lambda>a. map_option (\<lambda>b. a @ b) (those ys))"
  by (induction xs) (auto split: option.splits simp: option.map_comp comp_def map_option_case)

lemma digit_value_char_of: "n < 10 \<Longrightarrow> digit_value (char_of (48 + n)) = Some n"
  by (simp add: digit_value_def Let_def)

lemma show_nat_digits:
  "\<exists>ds. those (map digit_value (show_nat n)) = Some ds \<and> foldl (\<lambda>a d. a * 10 + d) 0 ds = n
     \<and> show_nat n \<noteq> []"
proof (induction n rule: show_nat.induct)
  case (1 n)
  show ?case
  proof (cases "n < 10")
    case True
    then show ?thesis by (subst (1 2) show_nat.simps) (simp add: digit_value_char_of)
  next
    case False
    with 1 obtain ds where ds: "those (map digit_value (show_nat (n div 10))) = Some ds"
      "foldl (\<lambda>a d. a * 10 + d) 0 ds = n div 10" by blast
    have "show_nat n = show_nat (n div 10) @ [char_of (48 + n mod 10)]"
      using False by (subst show_nat.simps) simp
    with ds show ?thesis by (simp add: those_append digit_value_char_of del: char_of_nat)
  qed
qed

lemma parse_show_nat: "n < 2 ^ 32 \<Longrightarrow> parse_uint32 (show_nat n) = Some n"
  using show_nat_digits [of n] by (auto simp: parse_uint32_def Let_def)

section \<open>The hash of a string\<close>

definition sha256_string :: "string \<Rightarrow> string" where
  "sha256_string s = map (char_of \<circ> unat) (sha256 (map (word_of_nat \<circ> of_char) s))"

end
