(* ===== verification/Schema.thy ===== *)
theory Schema imports Encoding begin

text \<open>
  The PostgreSQL tables of \<open>backend/internal/database/migrations\<close>, as the Go code reads and
  writes them: one record per row type, one list of rows per table, in insertion order.

  Identifiers of type \<open>uuid\<close> are strings in PostgreSQL's canonical text form. A \<open>timestamptz\<close>
  is an integer number of microseconds; \<open>NULL\<close> is \<^const>\<open>None\<close>. Tables whose primary key is a
  pair hold pairs. The one-row configuration tables (\<open>id = 1\<close>) are options.
\<close>

type_synonym uuid = string
type_synonym instant = int

abbreviation seconds :: "int \<Rightarrow> int" where "seconds n \<equiv> n * 1000000"
abbreviation minutes :: "int \<Rightarrow> int" where "minutes n \<equiv> n * 60000000"

section \<open>Identity\<close>

record user =
  u_id :: uuid
  u_username :: string
  u_email :: string
  u_display_name :: string
  u_active :: bool
  u_failed_logins :: int
  u_locked_until :: "instant option"
  u_must_change :: bool
  u_created_at :: instant
  u_updated_at :: instant

record credential =
  pc_user :: uuid
  pc_hash :: string
  pc_changed_at :: instant

record role =
  ro_id :: uuid
  ro_name :: string
  ro_description :: string

record permission =
  pe_id :: uuid
  pe_name :: string

record group =
  g_id :: uuid
  g_name :: string
  g_description :: string
  g_created_at :: instant

record membership =
  gm_group :: uuid
  gm_user :: uuid
  gm_created_at :: instant

section \<open>Applications\<close>

record application =
  a_id :: uuid
  a_name :: string
  a_protocol :: string
  a_enabled :: bool
  a_created_at :: instant

record oauth_client_row =
  oc_app :: uuid
  oc_client_id :: string
  oc_secret_hash :: "string option"
  oc_public :: bool
  oc_require_pkce :: bool
  oc_scopes :: "string list"
  oc_access_ttl :: int
  oc_id_ttl :: int
  oc_refresh_ttl :: int
  oc_initiate :: "string option"

record saml_sp =
  sp_app :: uuid
  sp_entity :: string
  sp_metadata :: string
  sp_require_signed :: bool
  sp_initiate :: "string option"

section \<open>Sessions, policy, audit\<close>

record session =
  se_id :: uuid
  se_user :: uuid
  se_hash :: string
  se_ip :: "string option"
  se_agent :: string
  se_created_at :: instant
  se_last_seen :: instant
  se_expires :: instant
  se_revoked :: "instant option"
  se_mfa_verified :: "instant option"

record securityPolicy =
  PasswordMinLength :: int
  PasswordRequireUpper :: bool
  PasswordRequireLower :: bool
  PasswordRequireDigit :: bool
  PasswordRequireSymbol :: bool
  LockoutThreshold :: int
  LockoutMinutes :: int
  SessionTTLMinutes :: int
  MFARequired :: bool

record audit_event =
  ae_at :: instant
  ae_actor :: "uuid option"
  ae_event :: string
  ae_target_type :: string
  ae_target_id :: string
  ae_result :: string
  ae_ip :: "string option"
  ae_agent :: string
  ae_request_id :: string

section \<open>OAuth\<close>

record consent =
  co_user :: uuid
  co_app :: uuid
  co_scopes :: "string list"
  co_granted_at :: instant
  co_updated_at :: instant

record auth_request =
  aq_id :: uuid
  aq_hash :: string
  aq_app :: uuid
  aq_user :: uuid
  aq_redirect :: string
  aq_state :: string
  aq_nonce :: string
  aq_scope :: string
  aq_challenge :: string
  aq_expires :: instant
  aq_consumed :: "instant option"

record auth_code =
  cd_id :: uuid
  cd_hash :: string
  cd_app :: uuid
  cd_user :: uuid
  cd_redirect :: string
  cd_scope :: string
  cd_nonce :: string
  cd_challenge :: string
  cd_expires :: instant
  cd_consumed :: "instant option"

record refresh_token =
  rt_id :: uuid
  rt_hash :: string
  rt_family :: uuid
  rt_parent :: "uuid option"
  rt_app :: uuid
  rt_user :: uuid
  rt_scope :: string
  rt_issued :: instant
  rt_expires :: instant
  rt_consumed :: "instant option"
  rt_revoked :: "instant option"

record access_token =
  at_jti :: uuid
  at_app :: uuid
  at_user :: "uuid option"
  at_subject :: string
  at_scope :: string
  at_issued :: instant
  at_expires :: instant
  at_revoked :: "instant option"

section \<open>Multi-factor authentication\<close>

record totp_row =
  tp_user :: uuid
  tp_secret :: string
  tp_active :: bool
  tp_created_at :: instant
  tp_verified :: "instant option"
  tp_last_used :: "instant option"

record recovery_code =
  rc_id :: uuid
  rc_user :: uuid
  rc_hash :: string
  rc_used :: "instant option"

record wa_credential =
  wc_id :: uuid
  wc_user :: uuid
  wc_credential_id :: string
  wc_encrypted :: string
  wc_display_name :: string
  wc_discoverable :: bool
  wc_created_at :: instant
  wc_last_used :: "instant option"

section \<open>SAML\<close>

record saml_request =
  sr_key :: string
  sr_saml_id :: string
  sr_app :: uuid
  sr_issuer :: string
  sr_destination :: string
  sr_acs :: string
  sr_binding :: string
  sr_relay :: string
  sr_user :: "uuid option"
  sr_expires :: instant
  sr_completed :: "instant option"
  sr_consumed :: "instant option"

section \<open>Branding\<close>

record loginUISettings =
  Enabled :: bool
  BrandName :: string
  Heading :: string
  Subheading :: string
  LogoURL :: string
  BackgroundImageURL :: string
  BackgroundColor :: string
  CardColor :: string
  TextColor :: string
  MutedTextColor :: string
  PrimaryColor :: string
  InputBackgroundColor :: string
  BorderColor :: string
  CardRadius :: int
  CardWidth :: int
  NoticeText :: string
  FooterText :: string
  ShowBrandName :: bool
  ShowFooter :: bool

section \<open>The database\<close>

record db =
  system_state :: "bool option"
  users :: "user list"
  credentials :: "credential list"
  roles :: "role list"
  permissions :: "permission list"
  role_permissions :: "(uuid \<times> uuid) list"
  role_assignments :: "(uuid \<times> uuid) list"
  groups :: "group list"
  memberships :: "membership list"
  applications :: "application list"
  oauth_clients :: "oauth_client_row list"
  redirect_uris :: "(uuid \<times> string) list"
  post_logout_uris :: "(uuid \<times> string) list"
  user_assignments :: "(uuid \<times> uuid) list"
  group_assignments :: "(uuid \<times> uuid) list"
  sessions :: "session list"
  security_policies :: "securityPolicy option"
  audit_events :: "audit_event list"
  consents :: "consent list"
  auth_requests :: "auth_request list"
  auth_codes :: "auth_code list"
  refresh_tokens :: "refresh_token list"
  access_tokens :: "access_token list"
  totp_rows :: "totp_row list"
  recovery_codes :: "recovery_code list"
  wa_users :: "(uuid \<times> string) list"
  wa_credentials :: "wa_credential list"
  group_mfa_policies :: "(uuid \<times> bool) list"
  application_mfa_policies :: "(uuid \<times> bool) list"
  saml_sps :: "saml_sp list"
  saml_requests :: "saml_request list"
  login_ui :: "loginUISettings option"

text \<open>
  The two key tables. They are kept apart from the others because a rotation runs in a
  transaction of its own, on its own connection, also while a token transaction is open.
\<close>

record signing_key =
  sk_kid :: string
  sk_encrypted :: string
  sk_jwk :: "(string \<times> string) list"
  sk_active :: bool
  sk_created_at :: instant
  sk_retired :: "instant option"

record saml_cert =
  sc_kid :: string
  sc_encrypted :: string
  sc_der :: string
  sc_not_before :: instant
  sc_not_after :: instant
  sc_active :: bool
  sc_created_at :: instant
  sc_retired :: "instant option"

record keydb =
  signing_keys :: "signing_key list"
  saml_certs :: "saml_cert list"

end
