(* ===== verification/Store.thy ===== *)
theory Store imports Schema begin

text \<open>
  The server's surroundings and the operations through which the handlers reach them.

  \<open>server\<close> holds the configuration and, as functions, everything the code calls that is not
  under \<open>src/\<close> or is a cryptographic primitive: which I/O operations fail, what
  \<open>crypto/rand\<close> and \<open>gen_random_uuid()\<close> return, PostgreSQL's \<open>uuid\<close> cast and \<open>lower\<close>, Argon2,
  the JWT library, RSA, AES-GCM. A theorem that relies on one of them says so in a hypothesis.

  \<open>st\<close> is what an operation can change: the committed database, Redis, and counters that
  number the I/O operations, the entropy draws and the generated identifiers. Three clocks
  are kept, the Go process's, PostgreSQL's and Redis's: the code compares instants across them.

  A transaction is a value: \<open>tx_begin\<close> returns the view it starts from, each statement
  returns the next view, \<open>tx_commit\<close> makes a view the database. A view that is never
  committed is the \<open>defer tx.Rollback\<close> of the source.
\<close>

section \<open>The server and its environment\<close>

record config =
  ListenAddr :: string
  PublicURL :: string
  DatabaseURL :: string
  RedisURL :: string
  CookieSecure :: bool
  TrustProxyHeaders :: bool
  SessionTTL :: int
  BootstrapToken :: string
  MasterKey :: string

record jwt_claims =
  jc_iss :: string
  jc_sub :: string
  jc_aud :: "string list"
  jc_exp :: "int option"
  jc_iat :: "int option"
  jc_jti :: string
  jc_scope :: string
  jc_token_use :: string
  jc_nonce :: string
  jc_name :: string
  jc_preferred_username :: string
  jc_email :: string
  jc_email_verified :: "bool option"
  jc_groups :: "string list"

text \<open>A WebAuthn account and credential, as the WebAuthn library takes and returns them.\<close>

record wa_cred =
  wk_id :: string
  wk_json :: string
  wk_rk :: "bool option"

record wa_account =
  wa_handle :: string
  wa_name :: string
  wa_display :: string
  wa_creds :: "wa_cred list"

text \<open>Service provider metadata as the SAML library parses it.\<close>

record saml_metadata =
  md_entity :: string
  md_sp :: "(string \<times> string) list option"

record server = config +
  fault :: "nat \<Rightarrow> bool"
  cut :: "nat \<Rightarrow> nat option"
  rand_read :: "nat \<Rightarrow> nat \<Rightarrow> string option"
  gen_random_uuid :: "nat \<Rightarrow> uuid"
  to_uuid :: "string \<Rightarrow> uuid option"
  pg_lower :: "string \<Rightarrow> string"
  inet_text :: "string \<Rightarrow> string"
  audit_serial :: "nat \<Rightarrow> int"
  udata :: ucd
  argon2_key :: "string \<Rightarrow> string \<Rightarrow> nat \<Rightarrow> nat \<Rightarrow> nat \<Rightarrow> nat \<Rightarrow> string"
  jwt_sign :: "string \<Rightarrow> string \<Rightarrow> jwt_claims \<Rightarrow> string option"
  jwt_header :: "string \<Rightarrow> (string \<times> string) option"
  jwt_check :: "nat \<times> nat \<Rightarrow> string \<Rightarrow> instant \<Rightarrow> string \<Rightarrow> jwt_claims option"
  rsa_generate :: "nat \<Rightarrow> string option"
  rsa_public :: "string \<Rightarrow> nat \<times> nat"
  pkcs8_marshal :: "string \<Rightarrow> string option"
  pkcs8_parse :: "string \<Rightarrow> string option"
  gcm_seal :: "string \<Rightarrow> string \<Rightarrow> string \<Rightarrow> string \<Rightarrow> string"
  gcm_open :: "string \<Rightarrow> string \<Rightarrow> string \<Rightarrow> string \<Rightarrow> string option"
  collate :: "string \<Rightarrow> string \<Rightarrow> bool"
  error_text :: "string \<Rightarrow> string"
  totp_generate :: "nat \<Rightarrow> string \<Rightarrow> (string \<times> string) option"
  totp_image :: "string \<Rightarrow> string option"
  totp_validate :: "string \<Rightarrow> string \<Rightarrow> instant \<Rightarrow> bool option"
  wa_begin_registration :: "nat \<Rightarrow> wa_account \<Rightarrow> bool \<Rightarrow> (string \<times> string) option"
  wa_finish_registration :: "wa_account \<Rightarrow> string \<Rightarrow> string \<Rightarrow> wa_cred option"
  wa_begin_login :: "nat \<Rightarrow> wa_account \<Rightarrow> (string \<times> string) option"
  wa_finish_login :: "wa_account \<Rightarrow> string \<Rightarrow> string \<Rightarrow> wa_cred option"
  wa_unmarshal :: "string \<Rightarrow> wa_cred option"
  x509_create :: "string \<Rightarrow> nat \<Rightarrow> instant \<Rightarrow> instant \<Rightarrow> string option"
  rand_int :: "nat \<Rightarrow> nat option"
  saml_parse :: "string \<Rightarrow> saml_metadata option"
  saml_provider_ok :: "string \<Rightarrow> bool"
  post_binding :: string

record ceremony =
  ce_user :: uuid
  ce_kind :: string
  ce_session :: string

record redis =
  counters :: "string \<rightharpoonup> int \<times> instant option"
  blobs :: "string \<rightharpoonup> ceremony \<times> instant"

record st =
  main :: db
  keys :: keydb
  redis :: redis
  go_now :: instant
  pg_now :: instant
  redis_now :: instant
  ios :: nat
  draws :: nat
  uuids :: nat

datatype dberr = NoRows | DbError

type_synonym 'a query = "instant \<Rightarrow> db \<Rightarrow> 'a option"
type_synonym statement = "instant \<Rightarrow> db \<Rightarrow> (nat \<times> db) option"

abbreviation tick :: "st \<Rightarrow> st" where "tick s \<equiv> s\<lparr>ios := Suc (ios s)\<rparr>"

text \<open>Every I/O operation takes the next number, and fails if the environment says so.\<close>

definition io :: "server \<Rightarrow> (st \<Rightarrow> (dberr + 'a) \<times> st) \<Rightarrow> (st, dberr + 'a) state" where
  "io S f = State (\<lambda>s. if fault S (ios s) then (Inl DbError, tick s) else f (tick s))"

lemma wp_io:
  "wp (io S f) Q s =
     (if fault S (ios s) then Q (Inl DbError) (tick s) else case f (tick s) of (a, t) \<Rightarrow> Q a t)"
  by (simp add: io_def wp)

definition query_result :: "'a option \<Rightarrow> dberr + 'a" where
  "query_result x = (case x of None \<Rightarrow> Inl NoRows | Some a \<Rightarrow> Inr a)"

definition exec_result :: "'a option \<Rightarrow> dberr + 'a" where
  "exec_result x = (case x of None \<Rightarrow> Inl DbError | Some a \<Rightarrow> Inr a)"

lemma query_result_simps [simp]:
  "query_result None = Inl NoRows" "query_result (Some a) = Inr a"
  "query_result x = Inr a \<longleftrightarrow> x = Some a" "query_result x = Inl e \<longleftrightarrow> x = None \<and> e = NoRows"
  by (auto simp: query_result_def split: option.splits)

lemma exec_result_simps [simp]:
  "exec_result None = Inl DbError" "exec_result (Some a) = Inr a"
  "exec_result x = Inr a \<longleftrightarrow> x = Some a" "exec_result x = Inl e \<longleftrightarrow> x = None \<and> e = DbError"
  by (auto simp: exec_result_def split: option.splits)

section \<open>Statements outside a transaction\<close>

text \<open>\<open>db.QueryRow(...).Scan(...)\<close>.\<close>

definition query :: "server \<Rightarrow> 'a query \<Rightarrow> (st, dberr + 'a) state" where
  "query S q = io S (\<lambda>s. (query_result (q (pg_now s) (main s)), s))"

text \<open>\<open>db.Exec\<close>: the rows affected, or an error (a constraint, a failed cast, a lost connection).\<close>

definition exec :: "server \<Rightarrow> statement \<Rightarrow> (st, dberr + nat) state" where
  "exec S c = io S (\<lambda>s. case c (pg_now s) (main s) of
     None \<Rightarrow> (Inl DbError, s) | Some (n, d) \<Rightarrow> (Inr n, s\<lparr>main := d\<rparr>))"

text \<open>\<open>db.QueryRow\<close> of a statement that writes and returns a row (\<open>RETURNING\<close>).\<close>

definition exec_row :: "server \<Rightarrow> (instant \<Rightarrow> db \<Rightarrow> dberr + ('a \<times> db)) \<Rightarrow> (st, dberr + 'a) state" where
  "exec_row S c = io S (\<lambda>s. case c (pg_now s) (main s) of
     Inl e \<Rightarrow> (Inl e, s) | Inr (a, d) \<Rightarrow> (Inr a, s\<lparr>main := d\<rparr>))"

text \<open>\<open>_, _ = db.Exec\<close>: a write whose failure is ignored. \<open>effect\<close> is the database after it.\<close>

definition effect :: "server \<Rightarrow> statement \<Rightarrow> st \<Rightarrow> db" where
  "effect S c s = (if fault S (ios s) then main s
     else case c (pg_now s) (main s) of None \<Rightarrow> main s | Some (n, d) \<Rightarrow> d)"

definition try_exec :: "server \<Rightarrow> statement \<Rightarrow> (st, unit) state" where
  "try_exec S c = do { _ \<leftarrow> exec S c; State_Monad.return () }"

text \<open>
  \<open>db.Query\<close> and its \<open>rows.Next\<close> loop: the rows read, and whether the loop ended because of
  an error (\<open>rows.Err() != nil\<close>), in which case only a prefix was read.
\<close>

definition rows_read :: "nat option \<Rightarrow> 'a list \<Rightarrow> 'a list \<times> bool" where
  "rows_read c rows = (case c of None \<Rightarrow> (rows, False) | Some n \<Rightarrow> (take n rows, True))"

definition query_rows ::
  "server \<Rightarrow> (instant \<Rightarrow> db \<Rightarrow> 'a list option) \<Rightarrow> (st, dberr + ('a list \<times> bool)) state" where
  "query_rows S q = io S (\<lambda>s.
     (map_sum id (rows_read (cut S (ios s))) (exec_result (q (pg_now s) (main s))), s))"

text \<open>
  A statement with a \<open>uuid\<close> argument that is not one in text form: PostgreSQL refuses it.
  Identifiers that were read from the database are canonical and need no cast.
\<close>

definition with_uuid :: "server \<Rightarrow> string \<Rightarrow> (uuid \<Rightarrow> (st, dberr + 'a) state) \<Rightarrow> (st, dberr + 'a) state" where
  "with_uuid S raw m = (case to_uuid S raw of
     None \<Rightarrow> io S (\<lambda>s. (Inl DbError, s)) | Some uid \<Rightarrow> m uid)"

text \<open>The same when the handler goes on with the identifier: \<open>bad\<close> is what it answers to the refusal.\<close>

definition cast_uuid :: "server \<Rightarrow> string \<Rightarrow> (st, 'a) state \<Rightarrow> (uuid \<Rightarrow> (st, 'a) state) \<Rightarrow> (st, 'a) state" where
  "cast_uuid S raw bad k = (case to_uuid S raw of
     None \<Rightarrow> check (io S (\<lambda>s. (Inl DbError :: dberr + unit, s))) bad (\<lambda>_. bad) | Some uid \<Rightarrow> k uid)"

section \<open>Transactions\<close>

definition tx_begin :: "server \<Rightarrow> (st, dberr + db) state" where
  "tx_begin S = io S (\<lambda>s. (Inr (main s), s))"

definition tx_query :: "server \<Rightarrow> db \<Rightarrow> 'a query \<Rightarrow> (st, dberr + 'a) state" where
  "tx_query S v q = io S (\<lambda>s. (query_result (q (pg_now s) v), s))"

definition tx_exec :: "server \<Rightarrow> db \<Rightarrow> statement \<Rightarrow> (st, dberr + (nat \<times> db)) state" where
  "tx_exec S v c = io S (\<lambda>s. (exec_result (c (pg_now s) v), s))"

definition tx_commit :: "server \<Rightarrow> db \<Rightarrow> (st, dberr + unit) state" where
  "tx_commit S v = io S (\<lambda>s. (Inr (), s\<lparr>main := v\<rparr>))"

section \<open>The key tables\<close>

definition key_query :: "server \<Rightarrow> (instant \<Rightarrow> keydb \<Rightarrow> 'a option) \<Rightarrow> (st, dberr + 'a) state" where
  "key_query S q = io S (\<lambda>s. (query_result (q (pg_now s) (keys s)), s))"

definition key_rows ::
  "server \<Rightarrow> (instant \<Rightarrow> keydb \<Rightarrow> 'a list option) \<Rightarrow> (st, dberr + ('a list \<times> bool)) state" where
  "key_rows S q = io S (\<lambda>s.
     (map_sum id (rows_read (cut S (ios s))) (exec_result (q (pg_now s) (keys s))), s))"

definition key_begin :: "server \<Rightarrow> (st, dberr + keydb) state" where
  "key_begin S = io S (\<lambda>s. (Inr (keys s), s))"

definition key_tx_query ::
  "server \<Rightarrow> keydb \<Rightarrow> (instant \<Rightarrow> keydb \<Rightarrow> 'a option) \<Rightarrow> (st, dberr + 'a) state" where
  "key_tx_query S v q = io S (\<lambda>s. (query_result (q (pg_now s) v), s))"

definition key_tx_exec ::
  "server \<Rightarrow> keydb \<Rightarrow> (instant \<Rightarrow> keydb \<Rightarrow> keydb option) \<Rightarrow> (st, dberr + keydb) state" where
  "key_tx_exec S v c = io S (\<lambda>s. (exec_result (c (pg_now s) v), s))"

definition key_commit :: "server \<Rightarrow> keydb \<Rightarrow> (st, dberr + unit) state" where
  "key_commit S v = io S (\<lambda>s. (Inr (), s\<lparr>keys := v\<rparr>))"

section \<open>Entropy, identifiers and clocks\<close>

text \<open>\<open>rand.Read\<close> into a slice of \<open>n\<close> bytes.\<close>

definition rand_bytes :: "server \<Rightarrow> nat \<Rightarrow> (st, string option) state" where
  "rand_bytes S n = State (\<lambda>s. (rand_read S (draws s) n, s\<lparr>draws := Suc (draws s)\<rparr>))"

text \<open>The default \<open>gen_random_uuid()\<close> of an \<open>id\<close> column.\<close>

definition new_uuid :: "server \<Rightarrow> (st, uuid) state" where
  "new_uuid S = State (\<lambda>s. (gen_random_uuid S (uuids s), s\<lparr>uuids := Suc (uuids s)\<rparr>))"

text \<open>The next draw of a library that reads \<open>crypto/rand\<close> itself.\<close>

definition next_draw :: "(st, nat) state" where
  "next_draw = State (\<lambda>s. (draws s, s\<lparr>draws := Suc (draws s)\<rparr>))"

definition time_now :: "(st, instant) state" where
  "time_now = State (\<lambda>s. (go_now s, s))"

section \<open>Redis counters\<close>

text \<open>A counter whose time to live has passed is gone.\<close>

definition live_counter :: "instant \<Rightarrow> (int \<times> instant option) option \<Rightarrow> int \<times> instant option" where
  "live_counter now c = (case c of
     None \<Rightarrow> (0, None)
   | Some (n, None) \<Rightarrow> (n, None)
   | Some (n, Some t) \<Rightarrow> if now < t then (n, Some t) else (0, None))"

definition incr_counter :: "instant \<Rightarrow> string \<Rightarrow> redis \<Rightarrow> int \<times> redis" where
  "incr_counter now k r = (case live_counter now (counters r k) of (n, e) \<Rightarrow>
     (n + 1, r\<lparr>counters := (counters r)(k \<mapsto> (n + 1, e))\<rparr>))"

definition expire_counter :: "instant \<Rightarrow> string \<Rightarrow> redis \<Rightarrow> redis" where
  "expire_counter t k r = (case counters r k of
     None \<Rightarrow> r | Some (n, _) \<Rightarrow> r\<lparr>counters := (counters r)(k \<mapsto> (n, Some t))\<rparr>)"

text \<open>\<open>SET\<close> with a time to live, and \<open>GETDEL\<close>.\<close>

definition redis_set :: "server \<Rightarrow> string \<Rightarrow> ceremony \<Rightarrow> int \<Rightarrow> (st, dberr + unit) state" where
  "redis_set S k c ttl = io S (\<lambda>s. (Inr (), s\<lparr>redis := (redis s)\<lparr>blobs :=
     (blobs (redis s))(k \<mapsto> (c, redis_now s + ttl))\<rparr>\<rparr>))"

definition live_blob :: "instant \<Rightarrow> (ceremony \<times> instant) option \<Rightarrow> ceremony option" where
  "live_blob now b = (case b of None \<Rightarrow> None | Some (c, t) \<Rightarrow> if now < t then Some c else None)"

definition redis_getdel :: "server \<Rightarrow> string \<Rightarrow> (st, dberr + ceremony) state" where
  "redis_getdel S k = io S (\<lambda>s. (query_result (live_blob (redis_now s) (blobs (redis s) k)),
     s\<lparr>redis := (redis s)\<lparr>blobs := (blobs (redis s))(k := None)\<rparr>\<rparr>))"

definition redis_incr :: "server \<Rightarrow> string \<Rightarrow> (st, dberr + int) state" where
  "redis_incr S k = io S (\<lambda>s. case incr_counter (redis_now s) k (redis s) of (n, r) \<Rightarrow>
     (Inr n, s\<lparr>redis := r\<rparr>))"

definition redis_expire :: "server \<Rightarrow> string \<Rightarrow> int \<Rightarrow> (st, dberr + unit) state" where
  "redis_expire S k ttl = io S (\<lambda>s. (Inr (), s\<lparr>redis := expire_counter (redis_now s + ttl) k (redis s)\<rparr>))"

section \<open>Their weakest preconditions\<close>

lemma wp_query [wp]:
  "wp (query S q) Q s =
     (if fault S (ios s) then Q (Inl DbError) (tick s)
      else Q (query_result (q (pg_now s) (main s))) (tick s))"
  by (simp add: query_def wp_io)

lemma wp_exec [wp]:
  "wp (exec S c) Q s =
     (if fault S (ios s) then Q (Inl DbError) (tick s)
      else case c (pg_now s) (main s) of
        None \<Rightarrow> Q (Inl DbError) (tick s)
      | Some (n, d) \<Rightarrow> Q (Inr n) ((tick s)\<lparr>main := d\<rparr>))"
  by (simp add: exec_def wp_io split: option.splits)

lemma wp_exec_row [wp]:
  "wp (exec_row S c) Q s =
     (if fault S (ios s) then Q (Inl DbError) (tick s)
      else case c (pg_now s) (main s) of
        Inl e \<Rightarrow> Q (Inl e) (tick s)
      | Inr (a, d) \<Rightarrow> Q (Inr a) ((tick s)\<lparr>main := d\<rparr>))"
  by (simp add: exec_row_def wp_io split: sum.splits prod.splits)

lemma st_main_id [simp]: "s\<lparr>main := main s\<rparr> = s" "s\<lparr>ios := i, main := main s\<rparr> = s\<lparr>ios := i\<rparr>"
  by simp_all

lemma wp_try_exec [wp]: "wp (try_exec S c) Q s = Q () ((tick s)\<lparr>main := effect S c s\<rparr>)"
  by (simp add: try_exec_def effect_def wp split: option.splits)

lemma effect_cases: "effect S c s = main s \<or> (\<exists>n. c (pg_now s) (main s) = Some (n, effect S c s))"
  by (auto simp: effect_def split: option.splits)

text \<open>If a statement keeps something of the database, so does its effect.\<close>

lemma effect_keeps: "(\<And>now n d d'. c now d = Some (n, d') \<Longrightarrow> f d' = f d) \<Longrightarrow> f (effect S c s) = f (main s)"
  using effect_cases [of S c s] by metis

lemma wp_with_uuid [wp]:
  "wp (with_uuid S raw m) Q s = (case to_uuid S raw of
     None \<Rightarrow> Q (Inl DbError) (tick s) | Some uid \<Rightarrow> wp (m uid) Q s)"
  by (simp add: with_uuid_def wp_io split: option.splits)

lemma wp_cast_uuid [wp]:
  "wp (cast_uuid S raw bad k) Q s = (case to_uuid S raw of
     None \<Rightarrow> wp bad Q (tick s) | Some uid \<Rightarrow> wp (k uid) Q s)"
  by (simp add: cast_uuid_def wp wp_io split: option.splits)

lemma wp_query_rows [wp]:
  "wp (query_rows S q) Q s =
     (if fault S (ios s) then Q (Inl DbError) (tick s)
      else Q (map_sum id (rows_read (cut S (Suc (ios s)))) (exec_result (q (pg_now s) (main s)))) (tick s))"
  by (simp add: query_rows_def wp_io)

lemma wp_tx_begin [wp]:
  "wp (tx_begin S) Q s = (if fault S (ios s) then Q (Inl DbError) (tick s) else Q (Inr (main s)) (tick s))"
  by (simp add: tx_begin_def wp_io)

lemma wp_tx_query [wp]:
  "wp (tx_query S v q) Q s =
     (if fault S (ios s) then Q (Inl DbError) (tick s) else Q (query_result (q (pg_now s) v)) (tick s))"
  by (simp add: tx_query_def wp_io)

lemma wp_tx_exec [wp]:
  "wp (tx_exec S v c) Q s =
     (if fault S (ios s) then Q (Inl DbError) (tick s) else Q (exec_result (c (pg_now s) v)) (tick s))"
  by (simp add: tx_exec_def wp_io)

lemma wp_tx_commit [wp]:
  "wp (tx_commit S v) Q s =
     (if fault S (ios s) then Q (Inl DbError) (tick s) else Q (Inr ()) ((tick s)\<lparr>main := v\<rparr>))"
  by (simp add: tx_commit_def wp_io)

lemma wp_key_query [wp]:
  "wp (key_query S q) Q s =
     (if fault S (ios s) then Q (Inl DbError) (tick s)
      else Q (query_result (q (pg_now s) (keys s))) (tick s))"
  by (simp add: key_query_def wp_io)

lemma wp_key_rows [wp]:
  "wp (key_rows S q) Q s =
     (if fault S (ios s) then Q (Inl DbError) (tick s)
      else Q (map_sum id (rows_read (cut S (Suc (ios s)))) (exec_result (q (pg_now s) (keys s)))) (tick s))"
  by (simp add: key_rows_def wp_io)

lemma wp_key_begin [wp]:
  "wp (key_begin S) Q s = (if fault S (ios s) then Q (Inl DbError) (tick s) else Q (Inr (keys s)) (tick s))"
  by (simp add: key_begin_def wp_io)

lemma wp_key_tx_query [wp]:
  "wp (key_tx_query S v q) Q s =
     (if fault S (ios s) then Q (Inl DbError) (tick s) else Q (query_result (q (pg_now s) v)) (tick s))"
  by (simp add: key_tx_query_def wp_io)

lemma wp_key_tx_exec [wp]:
  "wp (key_tx_exec S v c) Q s =
     (if fault S (ios s) then Q (Inl DbError) (tick s) else Q (exec_result (c (pg_now s) v)) (tick s))"
  by (simp add: key_tx_exec_def wp_io)

lemma wp_key_commit [wp]:
  "wp (key_commit S v) Q s =
     (if fault S (ios s) then Q (Inl DbError) (tick s) else Q (Inr ()) ((tick s)\<lparr>keys := v\<rparr>))"
  by (simp add: key_commit_def wp_io)

lemma wp_redis_incr [wp]:
  "wp (redis_incr S k) Q s =
     (if fault S (ios s) then Q (Inl DbError) (tick s)
      else case incr_counter (redis_now s) k (redis s) of (n, r) \<Rightarrow> Q (Inr n) ((tick s)\<lparr>redis := r\<rparr>))"
  by (simp add: redis_incr_def wp_io split: prod.splits)

lemma wp_redis_expire [wp]:
  "wp (redis_expire S k ttl) Q s =
     (if fault S (ios s) then Q (Inl DbError) (tick s)
      else Q (Inr ()) ((tick s)\<lparr>redis := expire_counter (redis_now s + ttl) k (redis s)\<rparr>))"
  by (simp add: redis_expire_def wp_io)

lemma wp_redis_set [wp]:
  "wp (redis_set S k c ttl) Q s =
     (if fault S (ios s) then Q (Inl DbError) (tick s)
      else Q (Inr ()) ((tick s)\<lparr>redis := (redis s)\<lparr>blobs :=
        (blobs (redis s))(k \<mapsto> (c, redis_now s + ttl))\<rparr>\<rparr>))"
  by (simp add: redis_set_def wp_io)

lemma wp_redis_getdel [wp]:
  "wp (redis_getdel S k) Q s =
     (if fault S (ios s) then Q (Inl DbError) (tick s)
      else Q (query_result (live_blob (redis_now s) (blobs (redis s) k)))
        ((tick s)\<lparr>redis := (redis s)\<lparr>blobs := (blobs (redis s))(k := None)\<rparr>\<rparr>))"
  by (simp add: redis_getdel_def wp_io)

lemma wp_next_draw [wp]: "wp next_draw Q s = Q (draws s) (s\<lparr>draws := Suc (draws s)\<rparr>)"
  by (simp add: wp_def next_draw_def)

lemma wp_rand_bytes [wp]:
  "wp (rand_bytes S n) Q s = Q (rand_read S (draws s) n) (s\<lparr>draws := Suc (draws s)\<rparr>)"
  by (simp add: wp_def rand_bytes_def)

lemma wp_new_uuid [wp]:
  "wp (new_uuid S) Q s = Q (gen_random_uuid S (uuids s)) (s\<lparr>uuids := Suc (uuids s)\<rparr>)"
  by (simp add: wp_def new_uuid_def)

lemma wp_time_now [wp]: "wp time_now Q s = Q (go_now s) s"
  by (simp add: wp_def time_now_def)

section \<open>Operations that leave most of the state alone\<close>

text \<open>
  \<open>keeps_data\<close>: the committed database, Redis and the clocks are as before (the key tables and
  the counters may change); \<open>reads_only\<close>: so are the key tables, the draws and the identifiers.
\<close>

definition keeps_data :: "(st, 'a) state \<Rightarrow> bool" where
  "keeps_data m \<longleftrightarrow> (\<forall>s. main (final m s) = main s \<and> redis (final m s) = redis s
     \<and> go_now (final m s) = go_now s \<and> pg_now (final m s) = pg_now s \<and> redis_now (final m s) = redis_now s)"

definition reads_only :: "(st, 'a) state \<Rightarrow> bool" where
  "reads_only m \<longleftrightarrow> keeps_data m \<and> (\<forall>s. keys (final m s) = keys s \<and> draws (final m s) = draws s
     \<and> uuids (final m s) = uuids s)"

lemma keeps_dataI:
  "(\<And>s. wp m (\<lambda>_ t. main t = main s \<and> redis t = redis s \<and> go_now t = go_now s \<and> pg_now t = pg_now s
     \<and> redis_now t = redis_now s) s) \<Longrightarrow> keeps_data m"
  by (simp add: keeps_data_def wp_result)

lemma reads_onlyI:
  "(\<And>s. wp m (\<lambda>_ t. main t = main s \<and> redis t = redis s \<and> go_now t = go_now s \<and> pg_now t = pg_now s
     \<and> redis_now t = redis_now s \<and> keys t = keys s \<and> draws t = draws s \<and> uuids t = uuids s) s) \<Longrightarrow> reads_only m"
  by (simp add: reads_only_def keeps_data_def wp_result)

lemma keeps_data_simps:
  assumes "keeps_data m"
  shows "main (final m s) = main s" "redis (final m s) = redis s" "go_now (final m s) = go_now s"
    "pg_now (final m s) = pg_now s" "redis_now (final m s) = redis_now s"
  using assms by (simp_all add: keeps_data_def)

lemma reads_only_simps:
  assumes "reads_only m"
  shows "main (final m s) = main s" "redis (final m s) = redis s" "go_now (final m s) = go_now s"
    "pg_now (final m s) = pg_now s" "redis_now (final m s) = redis_now s" "keys (final m s) = keys s"
    "draws (final m s) = draws s" "uuids (final m s) = uuids s"
  using assms by (simp_all add: reads_only_def keeps_data_def)

text \<open>A postcondition of an operation is a fact about its result; \<open>if_ok P x\<close>: \<open>P\<close> of a success.\<close>

lemma wp_resultD: "wp m (\<lambda>x _. P x) s \<Longrightarrow> P (result m s)"
  by (simp add: wp_result)

definition if_ok :: "('a \<Rightarrow> bool) \<Rightarrow> 'e + 'a \<Rightarrow> bool" where
  "if_ok P x = (case x of Inl _ \<Rightarrow> True | Inr a \<Rightarrow> P a)"

lemma if_ok_simps [simp]: "if_ok P (Inl e)" "if_ok P (Inr a) = P a"
  by (simp_all add: if_ok_def)

lemma if_okD: "if_ok P x \<Longrightarrow> x = Inr a \<Longrightarrow> P a"
  by simp

end
