(* ===== verification/Sealed_Box.thy ===== *)
theory Sealed_Box imports Security begin

text \<open>
  Encryption at rest. The same construction appears three times: \<open>secretBox\<close>
  (\<open>backend/internal/mfa/crypto.go\<close>), and \<open>encryptPrivateKey\<close>/\<open>decryptPrivateKey\<close> of
  \<open>backend/internal/oidc/keys.go\<close> and \<open>backend/internal/samlidp/certificates.go\<close>: a fresh
  12-byte nonce, then AES-GCM under the master key with associated data that names the row.

  The locale \<open>sealed_box\<close> is their contract, on the condition that AES-GCM is the AEAD it is
  documented to be and that \<open>rand.Read\<close> fills its buffer: what was sealed opens under the same
  name, and under no other name. So a row cannot be moved to another user, credential or key.
\<close>

section \<open>The contract\<close>

locale sealed_box =
  fixes sound :: bool
    and seal :: "string \<Rightarrow> string \<Rightarrow> (st, string option) state"
    and unseal :: "string \<Rightarrow> string \<Rightarrow> string option"
  assumes opens: "sound \<Longrightarrow> run_state (seal name secret) s = (Some box, s') \<Longrightarrow> unseal name box = Some secret"
    and bound: "sound \<Longrightarrow> run_state (seal name secret) s = (Some box, s') \<Longrightarrow>
      unseal name' box = Some other \<Longrightarrow> name' = name"
begin

lemma not_elsewhere:
  "sound \<Longrightarrow> run_state (seal name secret) s = (Some box, s') \<Longrightarrow> name' \<noteq> name \<Longrightarrow> unseal name' box = None"
  using bound by (cases "unseal name' box") auto

lemma seal_inj:
  "sound \<Longrightarrow> run_state (seal name a) s = (Some box, s') \<Longrightarrow> run_state (seal name' b) t = (Some box, t') \<Longrightarrow>
     name = name' \<and> a = b"
  using opens bound by (metis option.inject)

end

section \<open>AES-GCM and entropy as documented\<close>

definition aead_sound :: "server \<Rightarrow> bool" where
  "aead_sound S \<longleftrightarrow>
     (\<forall>k n p a. gcm_open S k n (gcm_seal S k n p a) a = Some p \<and> gcm_seal S k n p a \<noteq> [])
     \<and> (\<forall>k n p a a' q. gcm_open S k n (gcm_seal S k n p a) a' = Some q \<longrightarrow> a' = a)
     \<and> (\<forall>i n b. rand_read S i n = Some b \<longrightarrow> length b = n)"

definition pkcs8_sound :: "server \<Rightarrow> bool" where
  "pkcs8_sound S \<longleftrightarrow> (\<forall>key der. pkcs8_marshal S key = Some der \<longrightarrow> pkcs8_parse S der = Some key)"

definition aes_key_ok :: "string \<Rightarrow> bool" where
  "aes_key_ok k \<longleftrightarrow> length k \<in> {16, 24, 32}"

section \<open>The MFA secret box\<close>

definition newSecretBox :: "string \<Rightarrow> string option" where
  "newSecretBox key = (if length key \<noteq> 32 then None else Some key)"

definition encrypt :: "server \<Rightarrow> string \<Rightarrow> string \<Rightarrow> (st, string option) state" where
  "encrypt S plaintext aad =
     (if \<not> aes_key_ok (MasterKey S) then State_Monad.return None
      else check_some (rand_bytes S 12) (State_Monad.return None) (\<lambda>nonce.
        State_Monad.return (Some (nonce @ gcm_seal S (MasterKey S) nonce plaintext aad))))"

definition decrypt :: "server \<Rightarrow> string \<Rightarrow> string \<Rightarrow> string option" where
  "decrypt S ciphertext aad =
     (if \<not> aes_key_ok (MasterKey S) then None
      else if length ciphertext \<le> 12 then None
      else gcm_open S (MasterKey S) (take 12 ciphertext) (drop 12 ciphertext) aad)"

section \<open>Private keys\<close>

definition encryptPrivateKey :: "server \<Rightarrow> string \<Rightarrow> string \<Rightarrow> (st, string option) state" where
  "encryptPrivateKey S kid key = (case pkcs8_marshal S key of
     None \<Rightarrow> State_Monad.return None
   | Some der \<Rightarrow>
       if \<not> aes_key_ok (MasterKey S) then State_Monad.return None
       else check_some (rand_bytes S 12) (State_Monad.return None) (\<lambda>nonce.
         State_Monad.return (Some (nonce @ gcm_seal S (MasterKey S) nonce der kid))))"

definition decryptPrivateKey :: "server \<Rightarrow> string \<Rightarrow> string \<Rightarrow> string option" where
  "decryptPrivateKey S kid encrypted =
     (if \<not> aes_key_ok (MasterKey S) then None
      else if length encrypted \<le> 12 then None
      else case gcm_open S (MasterKey S) (take 12 encrypted) (drop 12 encrypted) kid of
        None \<Rightarrow> None
      | Some der \<Rightarrow> pkcs8_parse S der)"

definition saml_encryptPrivateKey :: "server \<Rightarrow> string \<Rightarrow> string \<Rightarrow> (st, string option) state" where
  "saml_encryptPrivateKey S kid key = (case pkcs8_marshal S key of
     None \<Rightarrow> State_Monad.return None
   | Some der \<Rightarrow>
       if \<not> aes_key_ok (MasterKey S) then State_Monad.return None
       else check_some (rand_bytes S 12) (State_Monad.return None) (\<lambda>nonce.
         State_Monad.return (Some (nonce @ gcm_seal S (MasterKey S) nonce der (''saml:'' @ kid)))))"

definition saml_decryptPrivateKey :: "server \<Rightarrow> string \<Rightarrow> string \<Rightarrow> string option" where
  "saml_decryptPrivateKey S kid encrypted =
     (if \<not> aes_key_ok (MasterKey S) then None
      else if length encrypted \<le> 12 then None
      else case gcm_open S (MasterKey S) (take 12 encrypted) (drop 12 encrypted) (''saml:'' @ kid) of
        None \<Rightarrow> None
      | Some der \<Rightarrow> pkcs8_parse S der)"

lemma encryptPrivateKey_encrypt:
  "encryptPrivateKey S kid key = (case pkcs8_marshal S key of
     None \<Rightarrow> State_Monad.return None | Some der \<Rightarrow> encrypt S der kid)"
  "saml_encryptPrivateKey S kid key = (case pkcs8_marshal S key of
     None \<Rightarrow> State_Monad.return None | Some der \<Rightarrow> encrypt S der (''saml:'' @ kid))"
  unfolding encryptPrivateKey_def saml_encryptPrivateKey_def encrypt_def by (rule refl)+

lemma decryptPrivateKey_decrypt:
  "decryptPrivateKey S kid box = Option.bind (decrypt S box kid) (pkcs8_parse S)"
  "saml_decryptPrivateKey S kid box = Option.bind (decrypt S box (''saml:'' @ kid)) (pkcs8_parse S)"
  by (auto simp: decryptPrivateKey_def saml_decryptPrivateKey_def decrypt_def split: option.splits)

section \<open>They meet the contract\<close>

lemma wp_encrypt [wp]:
  "wp (encrypt S pt aad) Q s =
     (if \<not> aes_key_ok (MasterKey S) then Q None s
      else case rand_read S (draws s) 12 of
        None \<Rightarrow> Q None (s\<lparr>draws := Suc (draws s)\<rparr>)
      | Some nonce \<Rightarrow> Q (Some (nonce @ gcm_seal S (MasterKey S) nonce pt aad)) (s\<lparr>draws := Suc (draws s)\<rparr>))"
  by (simp add: encrypt_def wp split: option.splits)

lemma encrypt_result:
  assumes "run_state (encrypt S pt aad) s = (Some box, s')"
  obtains nonce where "rand_read S (draws s) 12 = Some nonce" "aes_key_ok (MasterKey S)"
    "box = nonce @ gcm_seal S (MasterKey S) nonce pt aad"
proof -
  have "wp (encrypt S pt aad) (\<lambda>b _. b = Some box \<longrightarrow> (\<exists>nonce. rand_read S (draws s) 12 = Some nonce
      \<and> aes_key_ok (MasterKey S) \<and> box = nonce @ gcm_seal S (MasterKey S) nonce pt aad)) s"
    by (auto simp: wp split: option.splits)
  from wp_run [OF this assms] that show ?thesis by blast
qed

lemma decrypt_encrypted:
  assumes "aead_sound S" "run_state (encrypt S pt aad) s = (Some box, s')"
  shows "decrypt S box aad' = gcm_open S (MasterKey S) (take 12 box)
    (gcm_seal S (MasterKey S) (take 12 box) pt aad) aad'"
proof -
  obtain nonce where n: "rand_read S (draws s) 12 = Some nonce" "aes_key_ok (MasterKey S)"
    "box = nonce @ gcm_seal S (MasterKey S) nonce pt aad"
    using encrypt_result [OF assms(2)] .
  have "length nonce = 12" "gcm_seal S (MasterKey S) nonce pt aad \<noteq> []"
    using assms(1) n(1) by (auto simp: aead_sound_def)
  then show ?thesis using n by (simp add: decrypt_def)
qed

interpretation mfa_box: sealed_box "aead_sound S" "\<lambda>name secret. encrypt S secret name"
  "\<lambda>name box. decrypt S box name"
  by unfold_locales (simp_all add: decrypt_encrypted aead_sound_def, blast)

lemma encryptPrivateKey_result:
  "run_state (encryptPrivateKey S kid key) s = (Some box, s') \<Longrightarrow>
     \<exists>der. pkcs8_marshal S key = Some der \<and> run_state (encrypt S der kid) s = (Some box, s')"
  "run_state (saml_encryptPrivateKey S kid key) s = (Some box, s') \<Longrightarrow>
     \<exists>der. pkcs8_marshal S key = Some der \<and> run_state (encrypt S der (''saml:'' @ kid)) s = (Some box, s')"
  by (auto simp: encryptPrivateKey_encrypt split: option.splits)

interpretation oidc_key_box: sealed_box "aead_sound S \<and> pkcs8_sound S"
  "encryptPrivateKey S" "decryptPrivateKey S"
proof unfold_locales
  fix name secret s box s'
  assume *: "aead_sound S \<and> pkcs8_sound S" "run_state (encryptPrivateKey S name secret) s = (Some box, s')"
  then show "decryptPrivateKey S name box = Some secret"
    using mfa_box.opens by (auto dest!: encryptPrivateKey_result simp: decryptPrivateKey_decrypt pkcs8_sound_def)
  fix name' other
  assume "decryptPrivateKey S name' box = Some other"
  then show "name' = name"
    using * mfa_box.bound by (auto dest!: encryptPrivateKey_result simp: decryptPrivateKey_decrypt Option.bind_eq_Some_conv)
qed

interpretation saml_key_box: sealed_box "aead_sound S \<and> pkcs8_sound S"
  "saml_encryptPrivateKey S" "saml_decryptPrivateKey S"
proof unfold_locales
  fix name secret s box s'
  assume *: "aead_sound S \<and> pkcs8_sound S" "run_state (saml_encryptPrivateKey S name secret) s = (Some box, s')"
  then obtain der where der: "pkcs8_marshal S secret = Some der"
    "run_state (encrypt S der (''saml:'' @ name)) s = (Some box, s')"
    using encryptPrivateKey_result(2) by blast
  show "saml_decryptPrivateKey S name box = Some secret"
    using * der mfa_box.opens [OF conjunct1 [OF *(1)] der(2)]
    by (simp add: decryptPrivateKey_decrypt pkcs8_sound_def)
  fix name' other
  assume "saml_decryptPrivateKey S name' box = Some other"
  then obtain q where "decrypt S box (''saml:'' @ name') = Some q"
    by (auto simp: decryptPrivateKey_decrypt Option.bind_eq_Some_conv)
  from mfa_box.bound [OF _ der(2) this] * show "name' = name" by simp
qed

end
