(* ===== verification/Http.thy ===== *)
theory Http imports Store begin

text \<open>
  Requests and responses as the handlers of \<open>backend/internal/httpapi\<close> see them, and the
  helpers of \<open>server.go\<close> every handler uses: \<open>writeJSON\<close>, \<open>problem\<close>, \<open>oauthJSONError\<close>,
  \<open>clientIP\<close>, \<open>nullableIP\<close>, \<open>truncate\<close>, \<open>audit\<close>, \<open>auditTx\<close>, \<open>bearerToken\<close>.

  A request carries what \<open>net/http\<close> has parsed. The body that \<open>decodeJSON\<close> reads is a separate
  argument of the handlers that call it: the decoded struct, or \<^const>\<open>None\<close> when decoding
  fails. A response is the value the handler writes; \<open>Panicked\<close> is a handler that panics
  (\<open>net/http\<close> recovers and drops the connection).
\<close>

section \<open>Requests\<close>

record request =
  rq_method :: string
  rq_path :: string
  rq_host :: string
  rq_remote :: string
  rq_uri :: string
  rq_headers :: "(string \<times> string) list"
  rq_cookies :: "(string \<times> string) list"
  rq_query :: "(string \<times> string) list"
  rq_form :: "(string \<times> string) list"
  rq_form_ok :: bool
  rq_basic :: "(string \<times> string) option"
  rq_pathvals :: "(string \<times> string) list"
  rq_id :: string

text \<open>\<open>Get\<close> of a header, a query, a form; \<open>PathValue\<close>: the first value, or the empty string.\<close>

definition get_first :: "(string \<times> string) list \<Rightarrow> string \<Rightarrow> string" where
  "get_first kvs k = (case map_of kvs k of None \<Rightarrow> [] | Some v \<Rightarrow> v)"

abbreviation header :: "request \<Rightarrow> string \<Rightarrow> string" where
  "header r k \<equiv> get_first (rq_headers r) k"
abbreviation form :: "request \<Rightarrow> string \<Rightarrow> string" where
  "form r k \<equiv> get_first (rq_form r) k"
abbreviation url_query :: "request \<Rightarrow> string \<Rightarrow> string" where
  "url_query r k \<equiv> get_first (rq_query r) k"
abbreviation path_value :: "request \<Rightarrow> string \<Rightarrow> string" where
  "path_value r k \<equiv> get_first (rq_pathvals r) k"
abbreviation cookie :: "request \<Rightarrow> string \<Rightarrow> string option" where
  "cookie r k \<equiv> map_of (rq_cookies r) k"

text \<open>The \<open>principal\<close> that the authentication wrappers put into the request context.\<close>

record principal =
  SessionID :: uuid
  UserID :: uuid
  Username :: string
  MustChangePassword :: bool
  MFAVerified :: bool

section \<open>Responses\<close>

datatype jval =
    JNull
  | JBool bool
  | JInt int
  | JStr string
  | JTime instant
  | JArr "jval list"
  | JObj "(string \<times> jval) list"

record set_cookie =
  ck_name :: string
  ck_value :: string
  ck_http_only :: bool
  ck_secure :: bool
  ck_expires :: "instant option"
  ck_delete :: bool

text \<open>
  \<open>Redirect target params\<close> is \<open>http.Redirect\<close> with status 302 to \<open>target\<close> after \<open>Set\<close> of each
  parameter on its query; \<open>NoStoreJSON\<close> is \<open>writeOAuthJSON\<close>, which adds the no-store headers; \<open>Plain\<close>
  is \<open>http.Error\<close>, or another body that is not JSON.
\<close>

datatype response =
    JSON nat jval
  | NoStoreJSON nat jval
  | Status nat
  | Plain nat string
  | Redirect string "(string \<times> string) list"
  | ConsentPage string "string list" string string
  | WithCookies "set_cookie list" response
  | Panicked

type_synonym handler = "(st, response) state"

abbreviation respond :: "response \<Rightarrow> handler" where
  "respond r \<equiv> State_Monad.return r"

definition statusText :: "nat \<Rightarrow> string" where
  "statusText n =
     (if n = 400 then ''Bad Request'' else if n = 401 then ''Unauthorized''
      else if n = 403 then ''Forbidden'' else if n = 404 then ''Not Found''
      else if n = 409 then ''Conflict'' else if n = 429 then ''Too Many Requests''
      else if n = 500 then ''Internal Server Error'' else if n = 503 then ''Service Unavailable''
      else '''')"

definition problem :: "nat \<Rightarrow> string \<Rightarrow> response" where
  "problem n detail = JSON n (JObj [(''error'', JStr (statusText n)), (''detail'', JStr detail)])"

definition oauthJSONError :: "nat \<Rightarrow> string \<Rightarrow> string \<Rightarrow> response" where
  "oauthJSONError n code description =
     NoStoreJSON n (JObj [(''error'', JStr code), (''error_description'', JStr description)])"

definition invalid_body :: handler where
  "invalid_body = respond (problem 400 ''invalid JSON body'')"

fun opt_time :: "instant option \<Rightarrow> jval" where
  "opt_time None = JNull"
| "opt_time (Some t) = JTime t"

definition items :: "jval list \<Rightarrow> response" where
  "items rows = JSON 200 (JObj [(''items'', JArr rows)])"

fun status_of :: "response \<Rightarrow> nat" where
  "status_of (JSON n _) = n"
| "status_of (NoStoreJSON n _) = n"
| "status_of (Status n) = n"
| "status_of (Plain n _) = n"
| "status_of (Redirect _ _) = 302"
| "status_of (ConsentPage _ _ _ _) = 200"
| "status_of (WithCookies _ r) = status_of r"
| "status_of Panicked = 0"

lemma status_problem [simp]: "status_of (problem n d) = n"
  by (simp add: problem_def)

lemma status_oauthJSONError [simp]: "status_of (oauthJSONError n c d) = n"
  by (simp add: oauthJSONError_def)

lemma wp_invalid_body [wp]: "wp invalid_body Q s = Q (problem 400 ''invalid JSON body'') s"
  by (simp add: invalid_body_def wp)

lemma status_items [simp]: "status_of (items rows) = 200"
  by (simp add: items_def)

lemma problem_noteq [simp]:
  "problem n d \<noteq> NoStoreJSON m v" "problem n d \<noteq> Status m" "problem n d \<noteq> Redirect t ps"
  "problem n d \<noteq> ConsentPage a b c e" "problem n d \<noteq> WithCookies cs r" "problem n d \<noteq> Panicked"
  by (simp_all add: problem_def)

lemma oauthJSONError_noteq [simp]:
  "oauthJSONError n c d \<noteq> JSON m v" "oauthJSONError n c d \<noteq> Status m"
  "oauthJSONError n c d \<noteq> Redirect t ps" "oauthJSONError n c d \<noteq> ConsentPage a b e f"
  "oauthJSONError n c d \<noteq> WithCookies cs r" "oauthJSONError n c d \<noteq> Panicked"
  by (simp_all add: oauthJSONError_def)

lemma problem_eq_JSON [simp]:
  "problem n d = JSON m v \<longleftrightarrow> n = m \<and> v = JObj [(''error'', JStr (statusText n)), (''detail'', JStr d)]"
  by (auto simp: problem_def)

lemma oauthJSONError_eq [simp]:
  "oauthJSONError n c d = NoStoreJSON m v \<longleftrightarrow>
     n = m \<and> v = JObj [(''error'', JStr c), (''error_description'', JStr d)]"
  by (auto simp: oauthJSONError_def)

fun json_field :: "jval \<Rightarrow> string \<Rightarrow> jval option" where
  "json_field (JObj kvs) k = map_of kvs k"
| "json_field v k = None"

section \<open>IP addresses\<close>

definition ipv4_field :: "string \<Rightarrow> bool" where
  "ipv4_field w \<longleftrightarrow> w \<noteq> [] \<and> (length w = 1 \<or> hd w \<noteq> CHR ''0'')
     \<and> (case those (map digit_value w) of None \<Rightarrow> False
        | Some ds \<Rightarrow> foldl (\<lambda>a d. a * 10 + d) 0 ds \<le> (255::nat))"

definition ipv4_ok :: "string \<Rightarrow> bool" where
  "ipv4_ok s \<longleftrightarrow> (let fs = split_byte CHR ''.'' s in length fs = 4 \<and> list_all ipv4_field fs)"

definition is_hex :: "char \<Rightarrow> bool" where
  "is_hex c \<longleftrightarrow> (let n = of_char c :: nat in 48 \<le> n \<and> n \<le> 57 \<or> 65 \<le> n \<and> n \<le> 70 \<or> 97 \<le> n \<and> n \<le> 102)"

definition ipv6_end :: "nat \<Rightarrow> bool \<Rightarrow> bool" where
  "ipv6_end i ell \<longleftrightarrow> (if i < 16 then ell else \<not> ell)"

text \<open>\<open>i\<close> bytes read so far; \<open>ell\<close>: a \<open>::\<close> was read.\<close>

function ipv6_loop :: "nat \<Rightarrow> bool \<Rightarrow> string \<Rightarrow> bool" where
  "ipv6_loop i ell s =
     (if 16 \<le> i then s = [] \<and> ipv6_end i ell
      else let h = takeWhile is_hex s; r = dropWhile is_hex s
      in if h = [] \<or> 4 < length h then False
         else case r of
           [] \<Rightarrow> ipv6_end (i + 2) ell
         | c # r1 \<Rightarrow>
             if c = CHR ''.'' then (ell \<or> i = 12) \<and> i + 4 \<le> 16 \<and> ipv4_ok s \<and> ipv6_end (i + 4) ell
             else if c \<noteq> CHR '':'' \<or> r1 = [] then False
             else if hd r1 = CHR '':''
               then \<not> ell \<and> (if tl r1 = [] then ipv6_end (i + 2) True else ipv6_loop (i + 2) True (tl r1))
             else ipv6_loop (i + 2) ell r1)"
  by pat_completeness auto
termination by (relation "measure (\<lambda>(i, ell, s). 16 - i)") auto

declare ipv6_loop.simps [simp del]

definition ipv6_ok :: "string \<Rightarrow> bool" where
  "ipv6_ok s =
     (if hasPrefix s ''::'' then (if drop 2 s = [] then True else ipv6_loop 0 True (drop 2 s))
      else ipv6_loop 0 False s)"

text \<open>\<open>net.ParseIP(s) != nil\<close>; a zone (\<open>%\<close>) is refused.\<close>

definition parseIP :: "string \<Rightarrow> bool" where
  "parseIP s \<longleftrightarrow> CHR ''%'' \<notin> set s
     \<and> (case dropWhile (\<lambda>c. c \<noteq> CHR ''.'' \<and> c \<noteq> CHR '':'') s of
          [] \<Rightarrow> False
        | c # _ \<Rightarrow> if c = CHR ''.'' then ipv4_ok s else ipv6_ok s)"

text \<open>The host of \<open>net.SplitHostPort\<close>, \<^const>\<open>None\<close> on its errors.\<close>

definition split_host_port :: "string \<Rightarrow> string option" where
  "split_host_port hp =
     (if CHR '':'' \<notin> set hp then None
      else let front = rev (tl (dropWhile (\<lambda>c. c \<noteq> CHR '':'') (rev hp)));
               port = rev (takeWhile (\<lambda>c. c \<noteq> CHR '':'') (rev hp))
      in if hd hp = CHR ''['' then
           (if CHR '']'' \<notin> set hp then None
            else let host = takeWhile (\<lambda>c. c \<noteq> CHR '']'') (tl hp)
            in if front = CHR ''['' # host @ [CHR '']''] \<and> CHR ''['' \<notin> set host
                  \<and> CHR ''['' \<notin> set port \<and> CHR '']'' \<notin> set port then Some host else None)
         else if CHR '':'' \<in> set front \<or> CHR ''['' \<in> set hp \<or> CHR '']'' \<in> set hp then None
         else Some front)"

definition clientIP :: "request \<Rightarrow> string" where
  "clientIP r =
     (let forwarded = header r ''X-Forwarded-For'';
          candidate = trimSpace (hd (split_byte CHR '','' forwarded));
          realIP = trimSpace (header r ''X-Real-Ip'')
      in if forwarded \<noteq> [] \<and> parseIP candidate then candidate
         else if parseIP realIP then realIP
         else case split_host_port (rq_remote r) of Some h \<Rightarrow> h | None \<Rightarrow> rq_remote r)"

definition nullableIP :: "string \<Rightarrow> string option" where
  "nullableIP ip = (if parseIP ip then Some ip else None)"

definition truncate_str :: "string \<Rightarrow> nat \<Rightarrow> string" where
  "truncate_str v n = (if length v > n then take n v else v)"

section \<open>The audit trail\<close>

text \<open>\<open>actor_user_id\<close> references \<open>users\<close>: an unknown actor makes the insert fail.\<close>

definition insert_audit ::
  "uuid option \<Rightarrow> string \<Rightarrow> string \<Rightarrow> string \<Rightarrow> string \<Rightarrow> request \<Rightarrow> statement" where
  "insert_audit actor event target_type target_id outcome r now d =
     (case actor of
        Some a \<Rightarrow> if exists_where (\<lambda>u. u_id u = a) (users d) then Some () else None
      | None \<Rightarrow> Some ()) \<bind> (\<lambda>_. Some (1, d\<lparr>audit_events := audit_events d @
        [\<lparr>ae_at = now, ae_actor = actor, ae_event = event, ae_target_type = target_type,
          ae_target_id = target_id, ae_result = outcome, ae_ip = nullableIP (clientIP r),
          ae_agent = truncate_str (header r ''User-Agent'') 512, ae_request_id = rq_id r\<rparr>]\<rparr>))"

definition audit ::
  "server \<Rightarrow> uuid option \<Rightarrow> string \<Rightarrow> string \<Rightarrow> string \<Rightarrow> string \<Rightarrow> request \<Rightarrow> (st, unit) state" where
  "audit S actor event target_type target_id outcome r =
     try_exec S (insert_audit actor event target_type target_id outcome r)"

definition auditTx ::
  "server \<Rightarrow> db \<Rightarrow> uuid option \<Rightarrow> string \<Rightarrow> string \<Rightarrow> string \<Rightarrow> string \<Rightarrow> request
    \<Rightarrow> (st, dberr + (nat \<times> db)) state" where
  "auditTx S v actor event target_type target_id outcome r =
     tx_exec S v (insert_audit actor event target_type target_id outcome r)"

text \<open>An audit insert changes the audit trail and nothing else.\<close>

lemma insert_audit_frame:
  "insert_audit a e tt ti res r now d = Some (n, d') \<Longrightarrow> \<exists>ev. d' = d\<lparr>audit_events := audit_events d @ [ev]\<rparr>"
  by (auto simp: insert_audit_def split: option.splits if_splits)

text \<open>The audit trail after a best-effort \<open>audit\<close>; the rest of the database is as before.\<close>

definition audit_log ::
  "server \<Rightarrow> uuid option \<Rightarrow> string \<Rightarrow> string \<Rightarrow> string \<Rightarrow> string \<Rightarrow> request \<Rightarrow> st \<Rightarrow> audit_event list" where
  "audit_log S a e tt ti res r s = audit_events (effect S (insert_audit a e tt ti res r) s)"

lemma wp_audit [wp]:
  "wp (audit S a e tt ti res r) Q s =
     Q () ((tick s)\<lparr>main := (main s)\<lparr>audit_events := audit_log S a e tt ti res r s\<rparr>\<rparr>)"
proof -
  have "effect S (insert_audit a e tt ti res r) s = (main s)\<lparr>audit_events := audit_log S a e tt ti res r s\<rparr>"
    unfolding audit_log_def using effect_cases [of S "insert_audit a e tt ti res r" s]
    by (auto dest!: insert_audit_frame)
  then show ?thesis by (simp add: audit_def wp)
qed

lemma wp_auditTx [wp]:
  "wp (auditTx S v a e tt ti res r) Q s =
     (if fault S (ios s) then Q (Inl DbError) (tick s)
      else Q (exec_result (insert_audit a e tt ti res r (pg_now s) v)) (tick s))"
  by (simp add: auditTx_def wp)

section \<open>Bearer tokens and random tokens\<close>

definition bearerToken :: "server \<Rightarrow> request \<Rightarrow> string" where
  "bearerToken S r = (let h = header r ''Authorization'' in
     if length h < 8 \<or> \<not> equalFold (udata S) (take 7 h) ''Bearer '' then []
     else trimSpace (drop 7 h))"

end
