(* ===== verification/Rate_Limit.thy ===== *)
theory Rate_Limit imports Http begin

text \<open>
  The three Redis rate limiters: \<open>allowLogin\<close> (server.go), \<open>allowOAuthRequest\<close> (oauth.go) and
  \<open>Allow\<close> of the MFA service. Each increments a counter per key, sets its time to live on the
  first hit, ignoring an error there, and allows the request while the count is at most a limit.

  The locale \<open>fixed_window\<close> states what a limiter promises about one counting window; its
  theorem bounds the requests allowed in it, whatever else is counted in between. The three
  limiters are interpretations.
\<close>

section \<open>The interface of a limiter\<close>

text \<open>A run of requests: each has a key and the time at which it arrives.\<close>

fun attempts ::
  "('k \<Rightarrow> 's \<Rightarrow> bool \<times> 's) \<Rightarrow> (int \<Rightarrow> 's \<Rightarrow> 's) \<Rightarrow> ('k \<times> int) list \<Rightarrow> 's \<Rightarrow> ('k \<times> bool) list \<times> 's" where
  "attempts allow at [] s = ([], s)"
| "attempts allow at ((k, now) # reqs) s =
     (case allow k (at now s) of (b, s1) \<Rightarrow>
        case attempts allow at reqs s1 of (out, s2) \<Rightarrow> ((k, b) # out, s2))"

definition allowed :: "'k \<Rightarrow> ('k \<times> bool) list \<Rightarrow> int" where
  "allowed k out = int (count_where (\<lambda>o'. o' = (k, True)) out)"

lemma allowed_simps [simp]:
  "allowed k [] = 0"
  "allowed k ((k', b) # out) = (if k' = k \<and> b then 1 else 0) + allowed k out"
  by (auto simp: allowed_def count_where_def)

lemma allowed_nonneg [simp]: "0 \<le> allowed k out"
  by (simp add: allowed_def)

locale fixed_window =
  fixes allow :: "'k \<Rightarrow> 's \<Rightarrow> bool \<times> 's"
    and at :: "int \<Rightarrow> 's \<Rightarrow> 's"
    and load :: "'k \<Rightarrow> 's \<Rightarrow> int"
    and opens :: "'k \<Rightarrow> int \<Rightarrow> 's \<Rightarrow> bool"
    and fresh :: "'k \<Rightarrow> int \<Rightarrow> 's \<Rightarrow> bool"
    and limit :: int
    and ttl :: int
  assumes within: "opens k T s \<Longrightarrow> now < T \<Longrightarrow> allow k (at now s) = (b, s') \<Longrightarrow>
      opens k T s' \<and> load k s + (if b then 1 else 0) \<le> load k s' \<and> (b \<longrightarrow> load k s' \<le> limit)"
    and others: "k' \<noteq> k \<Longrightarrow> opens k T s \<Longrightarrow> allow k' (at now s) = (b, s') \<Longrightarrow>
      opens k T s' \<and> load k s' = load k s"
    and first: "fresh k now s \<Longrightarrow> allow k (at now s) = (b, s') \<Longrightarrow>
      (if b then opens k (now + ttl) s' \<and> load k s' = 1
       else fresh k now s' \<or> opens k (now + ttl) s' \<and> 1 \<le> load k s')"
    and limit_pos: "1 \<le> limit"
begin

lemma bounded:
  "opens k T s \<Longrightarrow> \<forall>(k', now) \<in> set reqs. now < T \<Longrightarrow> attempts allow at reqs s = (out, s') \<Longrightarrow>
     load k s + allowed k out \<le> max (load k s) limit"
proof (induction reqs arbitrary: s out)
  case (Cons req reqs)
  obtain k' now where req: "req = (k', now)" by (cases req)
  obtain b s1 where a: "allow k' (at now s) = (b, s1)" by (cases "allow k' (at now s)")
  obtain out1 where r: "attempts allow at reqs s1 = (out1, s')" and out: "out = (k', b) # out1"
    using Cons.prems(3) by (auto simp: req a split: prod.splits)
  have now: "now < T" using Cons.prems(2) by (simp add: req)
  have ih: "opens k T s1 \<Longrightarrow> load k s1 + allowed k out1 \<le> max (load k s1) limit"
    using Cons.IH Cons.prems(2) r by simp
  show ?case
  proof (cases "k' = k")
    case True
    with within [OF Cons.prems(1) now] a ih show ?thesis
      by (fastforce simp: out split: if_splits)
  next
    case False
    with others [OF False Cons.prems(1) a] ih show ?thesis by (simp add: out)
  qed
qed simp

text \<open>From a fresh key, at most \<open>limit\<close> requests pass before the window of the first one ends.\<close>

lemma window_bound:
  "fresh k t0 s \<Longrightarrow> \<forall>req \<in> set reqs. fst req = k \<and> snd req < t0 + ttl \<Longrightarrow>
     allow k (at t0 s) = (True, s1) \<Longrightarrow> attempts allow at reqs s1 = (out, s') \<Longrightarrow>
     1 + allowed k out \<le> limit"
proof -
  assume f: "fresh k t0 s" and reqs: "\<forall>req \<in> set reqs. fst req = k \<and> snd req < t0 + ttl"
    and a: "allow k (at t0 s) = (True, s1)" and r: "attempts allow at reqs s1 = (out, s')"
  have o1: "opens k (t0 + ttl) s1" and l1: "load k s1 = 1" using first [OF f a] by auto
  have "\<forall>(k', now) \<in> set reqs. now < t0 + ttl" using reqs by auto
  from bounded [OF o1 this r] l1 limit_pos show ?thesis by simp
qed

end

section \<open>The limiters of the program\<close>

definition allowLogin :: "server \<Rightarrow> string \<Rightarrow> (st, bool) state" where
  "allowLogin S ip = do {
     e \<leftarrow> redis_incr S (''opensso:login:'' @ ip);
     case e of
       Inl _ \<Rightarrow> State_Monad.return False
     | Inr n \<Rightarrow> do {
         _ \<leftarrow> (if n = 1 then redis_expire S (''opensso:login:'' @ ip) (minutes 5) else State_Monad.return (Inr ()));
         State_Monad.return (n \<le> 30)
       }
   }"

definition allowOAuthRequest :: "server \<Rightarrow> string \<Rightarrow> string \<Rightarrow> int \<Rightarrow> int \<Rightarrow> (st, bool) state" where
  "allowOAuthRequest S bucket key limit ttl = do {
     let redisKey = ''opensso:oauth:'' @ bucket @ '':'' @ key;
     e \<leftarrow> redis_incr S redisKey;
     case e of
       Inl _ \<Rightarrow> State_Monad.return False
     | Inr n \<Rightarrow> do {
         _ \<leftarrow> (if n = 1 then redis_expire S redisKey ttl else State_Monad.return (Inr ()));
         State_Monad.return (n \<le> limit)
       }
   }"

definition Allow :: "server \<Rightarrow> string \<Rightarrow> string \<Rightarrow> int \<Rightarrow> int \<Rightarrow> (st, bool) state" where
  "Allow S bucket key limit ttl = do {
     let redisKey = ''opensso:mfa:'' @ bucket @ '':'' @ key;
     e \<leftarrow> redis_incr S redisKey;
     case e of
       Inl _ \<Rightarrow> State_Monad.return False
     | Inr n \<Rightarrow> do {
         _ \<leftarrow> (if n = 1 then redis_expire S redisKey ttl else State_Monad.return (Inr ()));
         State_Monad.return (n \<le> limit)
       }
   }"

section \<open>What they share\<close>

definition hit :: "server \<Rightarrow> string \<Rightarrow> int \<Rightarrow> int \<Rightarrow> (st, bool) state" where
  "hit S k limit ttl = do {
     e \<leftarrow> redis_incr S k;
     case e of
       Inl _ \<Rightarrow> State_Monad.return False
     | Inr n \<Rightarrow> do {
         _ \<leftarrow> (if n = 1 then redis_expire S k ttl else State_Monad.return (Inr ()));
         State_Monad.return (n \<le> limit)
       }
   }"

lemma limiters_hit:
  "allowLogin S ip = hit S (''opensso:login:'' @ ip) 30 (minutes 5)"
  "allowOAuthRequest S bucket key limit ttl = hit S (''opensso:oauth:'' @ bucket @ '':'' @ key) limit ttl"
  "Allow S bucket key limit ttl = hit S (''opensso:mfa:'' @ bucket @ '':'' @ key) limit ttl"
  unfolding allowLogin_def allowOAuthRequest_def Allow_def hit_def Let_def by (rule refl)+

definition set_redis_clock :: "int \<Rightarrow> st \<Rightarrow> st" where
  "set_redis_clock now s = s\<lparr>redis_now := now\<rparr>"

definition counter_load :: "string \<Rightarrow> st \<Rightarrow> int" where
  "counter_load k s = (case counters (redis s) k of None \<Rightarrow> 0 | Some (n, _) \<Rightarrow> n)"

definition counter_opens :: "string \<Rightarrow> int \<Rightarrow> st \<Rightarrow> bool" where
  "counter_opens k T s = (case counters (redis s) k of
     None \<Rightarrow> False | Some (n, e) \<Rightarrow> 1 \<le> n \<and> (case e of None \<Rightarrow> True | Some t \<Rightarrow> T \<le> t))"

definition counter_fresh :: "string \<Rightarrow> int \<Rightarrow> st \<Rightarrow> bool" where
  "counter_fresh k now s = (live_counter now (counters (redis s) k) = (0, None))"

lemma wp_hit:
  "wp (hit S k limit ttl) Q s =
     (if fault S (ios s) then Q False (tick s)
      else case incr_counter (redis_now s) k (redis s) of (n, r) \<Rightarrow>
        (if n = 1 then
           if fault S (Suc (ios s)) then Q (n \<le> limit) (s\<lparr>redis := r, ios := Suc (Suc (ios s))\<rparr>)
           else Q (n \<le> limit)
             (s\<lparr>ios := Suc (Suc (ios s)), redis := expire_counter (redis_now s + ttl) k r\<rparr>)
         else Q (n \<le> limit) ((tick s)\<lparr>redis := r\<rparr>)))"
  by (simp add: hit_def wp split: prod.splits)

lemmas counter_defs =
  counter_load_def counter_opens_def counter_fresh_def set_redis_clock_def
  live_counter_def incr_counter_def expire_counter_def

lemma incr_counter_frame:
  "incr_counter now k' r = (n, r') \<Longrightarrow> k' \<noteq> k \<Longrightarrow> counters r' k = counters r k"
  by (auto simp: incr_counter_def split: prod.splits)

lemma expire_counter_frame: "k' \<noteq> k \<Longrightarrow> counters (expire_counter t k' r) k = counters r k"
  by (auto simp: expire_counter_def split: option.splits)

lemma hit_within:
  assumes "counter_opens k T s" "now < T" "run_state (hit S k limit ttl) (set_redis_clock now s) = (b, s')"
  shows "counter_opens k T s' \<and> counter_load k s + (if b then 1 else 0) \<le> counter_load k s'
     \<and> (b \<longrightarrow> counter_load k s' \<le> limit)"
proof -
  obtain n e where c: "counters (redis s) k = Some (n, e)"
    and o: "1 \<le> n" "case e of None \<Rightarrow> True | Some t \<Rightarrow> T \<le> t"
    using assms(1) by (auto simp: counter_opens_def split: option.splits)
  have live: "e = Some t \<Longrightarrow> now < t" for t using o(2) assms(2) by simp
  have "wp (hit S k limit ttl) (\<lambda>b s'. counter_opens k T s'
      \<and> counter_load k s + (if b then 1 else 0) \<le> counter_load k s' \<and> (b \<longrightarrow> counter_load k s' \<le> limit))
      (set_redis_clock now s)"
    using o live by (cases e) (auto simp: wp_hit counter_defs c)
  from wp_run [OF this assms(3)] show ?thesis .
qed

lemma hit_others:
  assumes "k' \<noteq> k" "counter_opens k T s" "run_state (hit S k' limit ttl) (set_redis_clock now s) = (b, s')"
  shows "counter_opens k T s' \<and> counter_load k s' = counter_load k s"
proof -
  have "wp (hit S k' limit ttl) (\<lambda>b s'. counter_opens k T s' \<and> counter_load k s' = counter_load k s)
      (set_redis_clock now s)"
    using assms(1,2) incr_counter_frame [of now k' "redis s"] expire_counter_frame [of k' k]
    by (auto simp: wp_hit counter_load_def counter_opens_def set_redis_clock_def split: prod.splits)
  from wp_run [OF this assms(3)] show ?thesis .
qed

lemma hit_first:
  assumes "counter_fresh k now s" "run_state (hit S k limit ttl) (set_redis_clock now s) = (b, s')"
  shows "if b then counter_opens k (now + ttl) s' \<and> counter_load k s' = 1
     else counter_fresh k now s' \<or> counter_opens k (now + ttl) s' \<and> 1 \<le> counter_load k s'"
proof -
  have "wp (hit S k limit ttl) (\<lambda>b s'. if b then counter_opens k (now + ttl) s' \<and> counter_load k s' = 1
      else counter_fresh k now s' \<or> counter_opens k (now + ttl) s' \<and> 1 \<le> counter_load k s')
      (set_redis_clock now s)"
    using assms(1) by (auto simp: wp_hit counter_defs split: prod.splits option.splits if_splits)
  from wp_run [OF this assms(2)] show ?thesis .
qed

interpretation login_window: fixed_window
  "\<lambda>ip. run_state (allowLogin S ip)" set_redis_clock
  "\<lambda>ip. counter_load (''opensso:login:'' @ ip)" "\<lambda>ip. counter_opens (''opensso:login:'' @ ip)"
  "\<lambda>ip. counter_fresh (''opensso:login:'' @ ip)" 30 "minutes 5"
  by unfold_locales (unfold limiters_hit, (rule hit_within; assumption), (rule hit_others; simp),
    (rule hit_first; assumption), simp)

interpretation oauth_window: fixed_window
  "\<lambda>key. run_state (allowOAuthRequest S bucket key (max 1 limit) ttl)" set_redis_clock
  "\<lambda>key. counter_load (''opensso:oauth:'' @ bucket @ '':'' @ key)"
  "\<lambda>key. counter_opens (''opensso:oauth:'' @ bucket @ '':'' @ key)"
  "\<lambda>key. counter_fresh (''opensso:oauth:'' @ bucket @ '':'' @ key)" "max 1 limit" ttl
  by unfold_locales (unfold limiters_hit, (rule hit_within; assumption), (rule hit_others; simp),
    (rule hit_first; assumption), simp)

interpretation mfa_window: fixed_window
  "\<lambda>key. run_state (Allow S bucket key (max 1 limit) ttl)" set_redis_clock
  "\<lambda>key. counter_load (''opensso:mfa:'' @ bucket @ '':'' @ key)"
  "\<lambda>key. counter_opens (''opensso:mfa:'' @ bucket @ '':'' @ key)"
  "\<lambda>key. counter_fresh (''opensso:mfa:'' @ bucket @ '':'' @ key)" "max 1 limit" ttl
  by unfold_locales (unfold limiters_hit, (rule hit_within; assumption), (rule hit_others; simp),
    (rule hit_first; assumption), simp)


section \<open>What else a limiter changes: nothing\<close>

lemma final_hit:
  "main (final (hit S k limit ttl) s) = main s" "keys (final (hit S k limit ttl) s) = keys s"
  "go_now (final (hit S k limit ttl) s) = go_now s" "pg_now (final (hit S k limit ttl) s) = pg_now s"
  "redis_now (final (hit S k limit ttl) s) = redis_now s" "draws (final (hit S k limit ttl) s) = draws s"
  "uuids (final (hit S k limit ttl) s) = uuids s"
proof -
  have "wp (hit S k limit ttl) (\<lambda>_ t. main t = main s \<and> keys t = keys s \<and> go_now t = go_now s \<and> pg_now t = pg_now s
     \<and> redis_now t = redis_now s \<and> draws t = draws s \<and> uuids t = uuids s) s"
    by (auto simp: wp_hit split: prod.splits)
  then show "main (final (hit S k limit ttl) s) = main s" "keys (final (hit S k limit ttl) s) = keys s"
    "go_now (final (hit S k limit ttl) s) = go_now s" "pg_now (final (hit S k limit ttl) s) = pg_now s"
    "redis_now (final (hit S k limit ttl) s) = redis_now s" "draws (final (hit S k limit ttl) s) = draws s"
    "uuids (final (hit S k limit ttl) s) = uuids s"
    by (simp_all add: wp_result)
qed

lemmas wp_limiters [wp] =
  wp_result [of "allowLogin S ip" for S ip] wp_result [of "allowOAuthRequest S b k l ttl" for S b k l ttl]
  wp_result [of "Allow S b k l ttl" for S b k l ttl]

lemmas final_limiters [simp] =
  final_hit [of S "''opensso:login:'' @ ip" 30 "minutes 5" for S ip, folded limiters_hit(1)]
  final_hit [of S "''opensso:oauth:'' @ b @ '':'' @ k" for S b k, folded limiters_hit(2)]
  final_hit [of S "''opensso:mfa:'' @ b @ '':'' @ k" for S b k, folded limiters_hit(3)]

end
