(* ===== verification/Mfa.thy ===== *)
theory Mfa imports Sealed_Box Rate_Limit begin

text \<open>
  \<open>backend/internal/mfa/service.go\<close>: when MFA is required, TOTP enrolment and verification,
  recovery codes, the reset of a user's factors, and the three levels of MFA policy.

  The TOTP library is a parameter (\<open>totp_generate\<close>, \<open>totp_image\<close>, \<open>totp_validate\<close>). A service
  function returns the Go error as the left value; errors of the database and of libraries that
  are only passed on are \<open>MfaOther\<close> with their text.
\<close>

datatype mfa_error =
    ErrNotEnrolled
  | ErrAlreadyEnrolled
  | ErrInvalidCode
  | ErrLastRequiredFactor
  | MfaOther string

text \<open>\<open>err.Error()\<close>.\<close>

definition mfa_error_text :: "mfa_error \<Rightarrow> string" where
  "mfa_error_text e = (case e of
     ErrNotEnrolled \<Rightarrow> ''MFA factor is not enrolled''
   | ErrAlreadyEnrolled \<Rightarrow> ''MFA factor is already enrolled''
   | ErrInvalidCode \<Rightarrow> ''invalid MFA code''
   | ErrLastRequiredFactor \<Rightarrow> ''cannot remove the final MFA factor while policy requires MFA''
   | MfaOther text \<Rightarrow> text)"

definition db_err :: "server \<Rightarrow> dberr \<Rightarrow> mfa_error" where
  "db_err S e = MfaOther (case e of NoRows \<Rightarrow> ''no rows in result set'' | DbError \<Rightarrow> error_text S ''database'')"

definition lib_err :: "server \<Rightarrow> string \<Rightarrow> mfa_error" where
  "lib_err S what = MfaOther (error_text S what)"

record mfa_status =
  IsRequired :: bool
  TOTPEnabled :: bool
  WebAuthnCredentials :: int
  Passkeys :: int
  RecoveryCodesRemaining :: int
  HasPrimaryFactor :: bool

section \<open>Is MFA required?\<close>

text \<open>The global policy, or a policy of one of the user's groups, or one of the application.\<close>

definition mfa_required :: "uuid \<Rightarrow> uuid option \<Rightarrow> db \<Rightarrow> bool option" where
  "mfa_required uid app d = map_option (\<lambda>sp.
     MFARequired sp
     \<or> list_ex (\<lambda>gm. gm_user gm = uid \<and> exists_where (\<lambda>gp. gp = (gm_group gm, True)) (group_mfa_policies d))
         (memberships d)
     \<or> (case app of None \<Rightarrow> False
        | Some a \<Rightarrow> exists_where (\<lambda>ap. ap = (a, True)) (application_mfa_policies d)))
     (security_policies d)"

definition Required :: "server \<Rightarrow> uuid \<Rightarrow> uuid option \<Rightarrow> (st, dberr + bool) state" where
  "Required S uid app = query S (\<lambda>_ d. mfa_required uid app d)"

definition totp_enabled :: "uuid \<Rightarrow> db \<Rightarrow> bool" where
  "totp_enabled uid d = exists_where (\<lambda>t. tp_user t = uid \<and> tp_active t) (totp_rows d)"

definition webauthn_count :: "uuid \<Rightarrow> db \<Rightarrow> nat" where
  "webauthn_count uid d = count_where (\<lambda>c. wc_user c = uid) (wa_credentials d)"

definition unused_codes :: "uuid \<Rightarrow> db \<Rightarrow> nat" where
  "unused_codes uid d = count_where (\<lambda>c. rc_user c = uid \<and> rc_used c = None) (recovery_codes d)"

text \<open>The invariant behind \<open>HasPrimaryFactor\<close>: some factor with which the user can verify.\<close>

definition has_factor :: "uuid \<Rightarrow> db \<Rightarrow> bool" where
  "has_factor uid d \<longleftrightarrow> totp_enabled uid d \<or> webauthn_count uid d > 0"

definition StatusOf :: "server \<Rightarrow> uuid \<Rightarrow> uuid option \<Rightarrow> (st, dberr + mfa_status) state" where
  "StatusOf S uid app =
     orfail (query S (\<lambda>_ d. Some (totp_enabled uid d, webauthn_count uid d,
         count_where (\<lambda>c. wc_user c = uid \<and> wc_discoverable c) (wa_credentials d), unused_codes uid d))) id
       (\<lambda>(totp, wa, passkeys, unused).
     orfail (Required S uid app) id (\<lambda>required.
       State_Monad.return (Inr \<lparr>IsRequired = required, TOTPEnabled = totp, WebAuthnCredentials = int wa,
         Passkeys = int passkeys, RecoveryCodesRemaining = int unused,
         HasPrimaryFactor = (totp \<or> int wa > 0)\<rparr>)))"

section \<open>Recovery codes\<close>

definition b32_digit :: "nat \<Rightarrow> char" where
  "b32_digit n = ''ABCDEFGHIJKLMNOPQRSTUVWXYZ234567'' ! n"

text \<open>Unpadded base32: five bytes are eight digits; a shorter tail yields fewer.\<close>

fun b32_digits :: "nat list \<Rightarrow> nat list" where
  "b32_digits [] = []"
| "b32_digits [a] = [a div 8, (a mod 8) * 4]"
| "b32_digits [a, b] = [a div 8, (a mod 8) * 4 + b div 64, b div 2 mod 32, (b mod 2) * 16]"
| "b32_digits [a, b, c] =
     [a div 8, (a mod 8) * 4 + b div 64, b div 2 mod 32, (b mod 2) * 16 + c div 16, (c mod 16) * 2]"
| "b32_digits [a, b, c, d] =
     [a div 8, (a mod 8) * 4 + b div 64, b div 2 mod 32, (b mod 2) * 16 + c div 16,
      (c mod 16) * 2 + d div 128, d div 4 mod 32, (d mod 4) * 8]"
| "b32_digits (a # b # c # d # e # rest) =
     [a div 8, (a mod 8) * 4 + b div 64, b div 2 mod 32, (b mod 2) * 16 + c div 16,
      (c mod 16) * 2 + d div 128, d div 4 mod 32, (d mod 4) * 8 + e div 32, e mod 32] @ b32_digits rest"

definition base32_encode :: "string \<Rightarrow> string" where
  "base32_encode s = map b32_digit (b32_digits (map of_char s))"

definition normalizeRecoveryCode :: "server \<Rightarrow> string \<Rightarrow> string" where
  "normalizeRecoveryCode S code = toUpper (udata S) (filter (\<lambda>c. c \<noteq> CHR ''-'') (trimSpace code))"

definition format_recovery :: "string \<Rightarrow> string" where
  "format_recovery compact = strings_Join
     [take 4 compact, take 4 (drop 4 compact), take 4 (drop 8 compact), take 4 (drop 12 compact)] ''-''"

definition insert_recovery :: "uuid \<Rightarrow> uuid \<Rightarrow> string \<Rightarrow> statement" where
  "insert_recovery rid uid hash now d =
     (if \<not> exists_where (\<lambda>u. u_id u = uid) (users d)
         \<or> exists_where (\<lambda>c. rc_user c = uid \<and> rc_hash c = hash) (recovery_codes d) then None
      else Some (1, d\<lparr>recovery_codes := recovery_codes d @
        [\<lparr>rc_id = rid, rc_user = uid, rc_hash = hash, rc_used = None\<rparr>]\<rparr>))"

fun generateRecoveryCodesTx ::
  "server \<Rightarrow> db \<Rightarrow> uuid \<Rightarrow> nat \<Rightarrow> string list \<Rightarrow> (st, mfa_error + (string list \<times> db)) state" where
  "generateRecoveryCodesTx S v uid 0 codes = State_Monad.return (Inr (codes, v))"
| "generateRecoveryCodesTx S v uid (Suc n) codes =
     check_some (rand_bytes S 10) (State_Monad.return (Inl (lib_err S ''entropy''))) (\<lambda>raw. do {
       let code = format_recovery (base32_encode raw);
       let hash = SHA256String (normalizeRecoveryCode S code);
       rid \<leftarrow> new_uuid S;
       orfail (tx_exec S v (insert_recovery rid uid hash)) (db_err S) (\<lambda>(_, v1).
         generateRecoveryCodesTx S v1 uid n (codes @ [code]))
     })"

definition delete_recovery :: "uuid \<Rightarrow> statement" where
  "delete_recovery uid now d = Some (count_where (\<lambda>c. rc_user c = uid) (recovery_codes d),
     d\<lparr>recovery_codes := delete_where (\<lambda>c. rc_user c = uid) (recovery_codes d)\<rparr>)"

definition RegenerateRecoveryCodes :: "server \<Rightarrow> uuid \<Rightarrow> (st, mfa_error + string list) state" where
  "RegenerateRecoveryCodes S uid =
     orfail (tx_begin S) (db_err S) (\<lambda>v0.
     orfail (tx_exec S v0 (delete_recovery uid)) (db_err S) (\<lambda>(_, v1).
     orfail (generateRecoveryCodesTx S v1 uid 10 []) id (\<lambda>(codes, v2).
     orfail (tx_commit S v2) (db_err S) (\<lambda>_. State_Monad.return (Inr codes)))))"

definition EnsureRecoveryCodes :: "server \<Rightarrow> uuid \<Rightarrow> (st, mfa_error + string list) state" where
  "EnsureRecoveryCodes S uid =
     orfail (query S (\<lambda>_ d. Some (unused_codes uid d))) (db_err S) (\<lambda>unused.
       if unused > 0 then State_Monad.return (Inr []) else RegenerateRecoveryCodes S uid)"

definition use_recovery :: "uuid \<Rightarrow> statement" where
  "use_recovery rid now d = Some (count_where (\<lambda>c. rc_id c = rid) (recovery_codes d),
     d\<lparr>recovery_codes := update_where (\<lambda>c. rc_id c = rid) (\<lambda>c. c\<lparr>rc_used := Some now\<rparr>) (recovery_codes d)\<rparr>)"

definition VerifyRecoveryCode :: "server \<Rightarrow> uuid \<Rightarrow> string \<Rightarrow> (st, mfa_error + unit) state" where
  "VerifyRecoveryCode S uid code = do {
     let hash = SHA256String (normalizeRecoveryCode S code);
     orfail (tx_begin S) (db_err S) (\<lambda>v0.
     orfail (tx_query S v0 (\<lambda>_ d. find (\<lambda>c. rc_user c = uid \<and> rc_hash c = hash) (recovery_codes d)))
         (\<lambda>_. ErrInvalidCode) (\<lambda>row.
     if rc_used row \<noteq> None then State_Monad.return (Inl ErrInvalidCode)
     else orfail (tx_exec S v0 (use_recovery (rc_id row))) (db_err S) (\<lambda>(_, v1).
       orfail (tx_commit S v1) (db_err S) (\<lambda>_. State_Monad.return (Inr ())))))
   }"

section \<open>TOTP\<close>

definition totp_name :: "uuid \<Rightarrow> string" where
  "totp_name uid = ''totp:'' @ uid"

definition upsert_totp :: "uuid \<Rightarrow> string \<Rightarrow> statement" where
  "upsert_totp uid encrypted now d =
     (if \<not> exists_where (\<lambda>u. u_id u = uid) (users d) then None
      else let row = \<lparr>tp_user = uid, tp_secret = encrypted, tp_active = False, tp_created_at = now,
                      tp_verified = None, tp_last_used = None\<rparr>
      in Some (1, d\<lparr>totp_rows :=
        (if exists_where (\<lambda>t. tp_user t = uid) (totp_rows d)
         then update_where (\<lambda>t. tp_user t = uid) (\<lambda>_. row) (totp_rows d) else totp_rows d @ [row])\<rparr>))"

definition BeginTOTP :: "server \<Rightarrow> uuid \<Rightarrow> string \<Rightarrow> (st, mfa_error + (string \<times> string \<times> string)) state" where
  "BeginTOTP S uid accountName = do {
     active \<leftarrow> query S (\<lambda>_ d. map_option tp_active (find (\<lambda>t. tp_user t = uid) (totp_rows d)));
     if active = Inr True then State_Monad.return (Inl ErrAlreadyEnrolled)
     else if active = Inl DbError then State_Monad.return (Inl (db_err S DbError))
     else do {
       n \<leftarrow> next_draw;
       case totp_generate S n accountName of
         None \<Rightarrow> State_Monad.return (Inl (lib_err S ''totp.Generate''))
       | Some (secret, url) \<Rightarrow>
           check_some (encrypt S secret (totp_name uid)) (State_Monad.return (Inl (lib_err S ''encrypt'')))
             (\<lambda>encrypted.
           orfail (exec S (upsert_totp uid encrypted)) (db_err S) (\<lambda>_.
           case totp_image S url of
             None \<Rightarrow> State_Monad.return (Inl (lib_err S ''png''))
           | Some png \<Rightarrow> State_Monad.return (Inr (secret, url, ''data:image/png;base64,'' @ std64_encode png))))
     }
   }"

definition totpSecret :: "server \<Rightarrow> uuid \<Rightarrow> bool \<Rightarrow> (st, mfa_error + string) state" where
  "totpSecret S uid activeOnly =
     orfail (query S (\<lambda>_ d. find (\<lambda>t. tp_user t = uid \<and> (activeOnly \<longrightarrow> tp_active t)) (totp_rows d)))
       (\<lambda>e. if e = NoRows then ErrNotEnrolled else db_err S e) (\<lambda>row.
     State_Monad.return (case decrypt S (tp_secret row) (totp_name uid) of
         None \<Rightarrow> Inl (lib_err S ''decrypt'')
       | Some secret \<Rightarrow> Inr secret))"

definition activate_totp :: "uuid \<Rightarrow> statement" where
  "activate_totp uid now d = Some (count_where (\<lambda>t. tp_user t = uid) (totp_rows d),
     d\<lparr>totp_rows := update_where (\<lambda>t. tp_user t = uid)
       (\<lambda>t. t\<lparr>tp_active := True, tp_verified := Some now, tp_last_used := Some now\<rparr>) (totp_rows d)\<rparr>)"

definition ConfirmTOTP :: "server \<Rightarrow> uuid \<Rightarrow> string \<Rightarrow> (st, mfa_error + string list) state" where
  "ConfirmTOTP S uid code =
     orfail (totpSecret S uid False) id (\<lambda>secret. do {
       now \<leftarrow> time_now;
       case totp_validate S (trimSpace code) secret now of
         None \<Rightarrow> State_Monad.return (Inl (lib_err S ''totp.Validate''))
       | Some valid \<Rightarrow>
           if \<not> valid then State_Monad.return (Inl ErrInvalidCode)
           else orfail (tx_begin S) (db_err S) (\<lambda>v0.
             orfail (tx_exec S v0 (activate_totp uid)) (db_err S) (\<lambda>(_, v1).
             orfail (tx_query S v1 (\<lambda>_ d. Some (unused_codes uid d))) (db_err S) (\<lambda>unused.
             orfail (if unused = 0 then generateRecoveryCodesTx S v1 uid 10 []
                     else State_Monad.return (Inr ([], v1))) id (\<lambda>(codes, v2).
             orfail (tx_commit S v2) (db_err S) (\<lambda>_. State_Monad.return (Inr codes))))))
     })"

definition touch_totp :: "uuid \<Rightarrow> statement" where
  "touch_totp uid now d = Some (count_where (\<lambda>t. tp_user t = uid \<and> tp_active t) (totp_rows d),
     d\<lparr>totp_rows := update_where (\<lambda>t. tp_user t = uid \<and> tp_active t)
       (\<lambda>t. t\<lparr>tp_last_used := Some now\<rparr>) (totp_rows d)\<rparr>)"

definition VerifyTOTP :: "server \<Rightarrow> uuid \<Rightarrow> string \<Rightarrow> (st, mfa_error + unit) state" where
  "VerifyTOTP S uid code =
     orfail (totpSecret S uid True) id (\<lambda>secret. do {
       now \<leftarrow> time_now;
       case totp_validate S (trimSpace code) secret now of
         None \<Rightarrow> State_Monad.return (Inl (lib_err S ''totp.Validate''))
       | Some valid \<Rightarrow>
           if \<not> valid then State_Monad.return (Inl ErrInvalidCode)
           else orfail (exec S (touch_totp uid)) (db_err S) (\<lambda>_. State_Monad.return (Inr ()))
     })"

definition delete_totp :: "uuid \<Rightarrow> statement" where
  "delete_totp uid now d = Some (count_where (\<lambda>t. tp_user t = uid) (totp_rows d),
     d\<lparr>totp_rows := delete_where (\<lambda>t. tp_user t = uid) (totp_rows d)\<rparr>)"

definition DisableTOTP :: "server \<Rightarrow> uuid \<Rightarrow> (st, mfa_error + unit) state" where
  "DisableTOTP S uid =
     orfail (Required S uid None) (db_err S) (\<lambda>required.
     orfail (if required then query S (\<lambda>_ d. Some (webauthn_count uid d)) else State_Monad.return (Inr 1))
         (db_err S) (\<lambda>other.
     if other = 0 then State_Monad.return (Inl ErrLastRequiredFactor)
     else orfail (exec S (delete_totp uid)) (db_err S) (\<lambda>n.
       State_Monad.return (if n = 0 then Inl ErrNotEnrolled else Inr ()))))"

definition VerifyFactor :: "server \<Rightarrow> uuid \<Rightarrow> string \<Rightarrow> string \<Rightarrow> (st, mfa_error + unit) state" where
  "VerifyFactor S uid method code =
     (if method = ''totp'' then VerifyTOTP S uid code
      else if method = ''recovery'' then VerifyRecoveryCode S uid code
      else State_Monad.return (Inl (MfaOther ''unsupported MFA method'')))"

section \<open>Resetting a user and setting policies\<close>

definition revoke_user_sessions :: "uuid \<Rightarrow> statement" where
  "revoke_user_sessions uid now d =
     Some (count_where (\<lambda>s. se_user s = uid \<and> se_revoked s = None) (sessions d),
       d\<lparr>sessions := update_where (\<lambda>s. se_user s = uid \<and> se_revoked s = None)
         (\<lambda>s. s\<lparr>se_revoked := Some now\<rparr>) (sessions d)\<rparr>)"

definition delete_webauthn :: "uuid \<Rightarrow> statement" where
  "delete_webauthn uid now d = Some (count_where (\<lambda>c. wc_user c = uid) (wa_credentials d),
     d\<lparr>wa_credentials := delete_where (\<lambda>c. wc_user c = uid) (wa_credentials d)\<rparr>)"

definition delete_handle :: "uuid \<Rightarrow> statement" where
  "delete_handle uid now d = Some (count_where (\<lambda>h. fst h = uid) (wa_users d),
     d\<lparr>wa_users := delete_where (\<lambda>h. fst h = uid) (wa_users d)\<rparr>)"

text \<open>The five statements of \<open>ResetUser\<close>, in the order in which they run.\<close>

definition reset_statements :: "uuid \<Rightarrow> statement list" where
  "reset_statements uid =
     [delete_totp uid, delete_recovery uid, delete_webauthn uid, delete_handle uid, revoke_user_sessions uid]"

fun run_statements :: "server \<Rightarrow> db \<Rightarrow> statement list \<Rightarrow> (st, dberr + db) state" where
  "run_statements S v [] = State_Monad.return (Inr v)"
| "run_statements S v (c # cs) = orfail (tx_exec S v c) id (\<lambda>(_, v1). run_statements S v1 cs)"

definition ResetUser :: "server \<Rightarrow> uuid \<Rightarrow> (st, dberr + unit) state" where
  "ResetUser S uid =
     orfail (tx_begin S) id (\<lambda>v0.
     orfail (run_statements S v0 (reset_statements uid)) id (\<lambda>v1. tx_commit S v1))"

definition set_global_mfa :: "bool \<Rightarrow> statement" where
  "set_global_mfa required now d = (case security_policies d of
     None \<Rightarrow> Some (0, d)
   | Some p \<Rightarrow> Some (1, d\<lparr>security_policies := Some (p\<lparr>MFARequired := required\<rparr>)\<rparr>))"

definition SetGlobalPolicy :: "server \<Rightarrow> bool \<Rightarrow> (st, dberr + nat) state" where
  "SetGlobalPolicy S required = exec S (set_global_mfa required)"

definition upsert_policy :: "uuid \<Rightarrow> (uuid \<times> bool) list \<Rightarrow> (uuid \<times> bool) list" where
  "upsert_policy k ps =
     (if exists_where (\<lambda>p. fst p = k) ps then update_where (\<lambda>p. fst p = k) (\<lambda>_. (k, True)) ps
      else ps @ [(k, True)])"

text \<open>A policy that is not required has no row.\<close>

definition set_group_mfa :: "uuid \<Rightarrow> bool \<Rightarrow> statement" where
  "set_group_mfa gid required now d =
     (if \<not> required then Some (count_where (\<lambda>p. fst p = gid) (group_mfa_policies d),
        d\<lparr>group_mfa_policies := delete_where (\<lambda>p. fst p = gid) (group_mfa_policies d)\<rparr>)
      else if \<not> exists_where (\<lambda>g. g_id g = gid) (groups d) then None
      else Some (1, d\<lparr>group_mfa_policies := upsert_policy gid (group_mfa_policies d)\<rparr>))"

definition SetGroupPolicy :: "server \<Rightarrow> uuid \<Rightarrow> bool \<Rightarrow> (st, dberr + nat) state" where
  "SetGroupPolicy S gid required = exec S (set_group_mfa gid required)"

definition set_application_mfa :: "uuid \<Rightarrow> bool \<Rightarrow> statement" where
  "set_application_mfa aid required now d =
     (if \<not> required then Some (count_where (\<lambda>p. fst p = aid) (application_mfa_policies d),
        d\<lparr>application_mfa_policies := delete_where (\<lambda>p. fst p = aid) (application_mfa_policies d)\<rparr>)
      else if \<not> exists_where (\<lambda>a. a_id a = aid) (applications d) then None
      else Some (1, d\<lparr>application_mfa_policies := upsert_policy aid (application_mfa_policies d)\<rparr>))"

definition SetApplicationPolicy :: "server \<Rightarrow> uuid \<Rightarrow> bool \<Rightarrow> (st, dberr + nat) state" where
  "SetApplicationPolicy S aid required = exec S (set_application_mfa aid required)"

definition policy_of :: "uuid \<Rightarrow> (uuid \<times> bool) list \<Rightarrow> bool" where
  "policy_of k ps = (case find (\<lambda>p. fst p = k) ps of None \<Rightarrow> False | Some p \<Rightarrow> snd p)"

definition GroupPolicy :: "server \<Rightarrow> uuid \<Rightarrow> (st, dberr + bool) state" where
  "GroupPolicy S gid = query S (\<lambda>_ d. Some (policy_of gid (group_mfa_policies d)))"

definition ApplicationPolicy :: "server \<Rightarrow> uuid \<Rightarrow> (st, dberr + bool) state" where
  "ApplicationPolicy S aid = query S (\<lambda>_ d. Some (policy_of aid (application_mfa_policies d)))"


section \<open>Reading changes nothing\<close>

lemma wp_Required [wp]:
  "wp (Required S uid app) Q s =
     (if fault S (ios s) then Q (Inl DbError) (tick s)
      else Q (query_result (mfa_required uid app (main s))) (tick s))"
  by (simp add: Required_def wp)

lemma reads_only_StatusOf: "reads_only (StatusOf S uid app)"
  by (rule reads_onlyI) (auto simp: StatusOf_def wp split: sum.splits option.splits)

lemmas final_StatusOf [simp] = reads_only_simps [OF reads_only_StatusOf]

lemma StatusOf_result:
  "if_ok (\<lambda>status. mfa_required uid app (main s) = Some (IsRequired status)
     \<and> HasPrimaryFactor status = has_factor uid (main s)) (result (StatusOf S uid app) s)"
  by (rule wp_resultD) (auto simp: StatusOf_def wp has_factor_def split: sum.splits option.splits)

lemmas wp_StatusOf [wp] = wp_result [of "StatusOf S uid app" for S uid app]

end
