(* ===== verification/Policy.thy ===== *)
theory Policy imports Security Http begin

text \<open>
  The security policy (\<open>backend/internal/httpapi/stage1.go\<close>, lines 12 to 98): its one row, the
  handlers that read and replace it, and the password rule derived from it.
\<close>

definition getSecurityPolicy :: "server \<Rightarrow> (st, dberr + securityPolicy) state" where
  "getSecurityPolicy S = query S (\<lambda>_ d. security_policies d)"

definition policy_json :: "securityPolicy \<Rightarrow> jval" where
  "policy_json p = JObj
     [(''password_min_length'', JInt (PasswordMinLength p)),
      (''password_require_upper'', JBool (PasswordRequireUpper p)),
      (''password_require_lower'', JBool (PasswordRequireLower p)),
      (''password_require_digit'', JBool (PasswordRequireDigit p)),
      (''password_require_symbol'', JBool (PasswordRequireSymbol p)),
      (''lockout_threshold'', JInt (LockoutThreshold p)),
      (''lockout_minutes'', JInt (LockoutMinutes p)),
      (''session_ttl_minutes'', JInt (SessionTTLMinutes p)),
      (''mfa_required'', JBool (MFARequired p))]"

definition securityPolicyHandler :: "server \<Rightarrow> handler" where
  "securityPolicyHandler S =
     check (getSecurityPolicy S) (respond (problem 500 ''database error''))
       (\<lambda>p. respond (JSON 200 (policy_json p)))"

definition policy_values_invalid :: "securityPolicy \<Rightarrow> bool" where
  "policy_values_invalid p \<longleftrightarrow>
     PasswordMinLength p < 12 \<or> PasswordMinLength p > 128 \<or>
     LockoutThreshold p < 3 \<or> LockoutThreshold p > 100 \<or>
     LockoutMinutes p < 1 \<or> LockoutMinutes p > 1440 \<or>
     SessionTTLMinutes p < 5 \<or> SessionTTLMinutes p > 10080"

definition set_policy :: "securityPolicy \<Rightarrow> statement" where
  "set_policy p now d = (case security_policies d of
     None \<Rightarrow> Some (0, d) | Some _ \<Rightarrow> Some (1, d\<lparr>security_policies := Some p\<rparr>))"

definition updateSecurityPolicy :: "server \<Rightarrow> request \<Rightarrow> securityPolicy option \<Rightarrow> principal \<Rightarrow> handler" where
  "updateSecurityPolicy S r body p = (case body of None \<Rightarrow> invalid_body | Some inp \<Rightarrow>
     if policy_values_invalid inp then respond (problem 400 ''invalid security policy values'')
     else check (exec S (set_policy inp)) (respond (problem 500 ''database error'')) (\<lambda>_. do {
       audit S (Some (UserID p)) ''POLICY_CHANGED'' ''security_policy'' ''1'' ''success'' r;
       respond (JSON 200 (policy_json inp))
     }))"

section \<open>The password rule\<close>

definition passwordPolicyViolation :: "ucd \<Rightarrow> securityPolicy \<Rightarrow> string \<Rightarrow> string" where
  "passwordPolicyViolation u policy password =
     (if int (length (runes password)) < PasswordMinLength policy
      then ''password does not meet current minimum length''
      else
        let upper = list_ex (isUpper u) (runes password);
            lower = list_ex (isLower u) (runes password);
            digit = list_ex (isDigit u) (runes password);
            symbol = list_ex (isPunctOrSymbol u) (runes password)
        in if PasswordRequireUpper policy \<and> \<not> upper then ''password must contain an uppercase letter''
           else if PasswordRequireLower policy \<and> \<not> lower then ''password must contain a lowercase letter''
           else if PasswordRequireDigit policy \<and> \<not> digit then ''password must contain a digit''
           else if PasswordRequireSymbol policy \<and> \<not> symbol then ''password must contain a symbol''
           else [])"

text \<open>What a caller may rely on: an empty message is exactly the conjunction of the rules.\<close>

definition password_meets :: "ucd \<Rightarrow> securityPolicy \<Rightarrow> string \<Rightarrow> bool" where
  "password_meets u p pw \<longleftrightarrow>
     PasswordMinLength p \<le> int (length (runes pw))
     \<and> (PasswordRequireUpper p \<longrightarrow> (\<exists>r \<in> set (runes pw). isUpper u r))
     \<and> (PasswordRequireLower p \<longrightarrow> (\<exists>r \<in> set (runes pw). isLower u r))
     \<and> (PasswordRequireDigit p \<longrightarrow> (\<exists>r \<in> set (runes pw). isDigit u r))
     \<and> (PasswordRequireSymbol p \<longrightarrow> (\<exists>r \<in> set (runes pw). isPunctOrSymbol u r))"

lemma no_violation_iff: "passwordPolicyViolation u p pw = [] \<longleftrightarrow> password_meets u p pw"
  by (auto simp: passwordPolicyViolation_def password_meets_def Let_def list_ex_iff)

definition policy_ok :: "securityPolicy \<Rightarrow> bool" where
  "policy_ok p \<longleftrightarrow> \<not> policy_values_invalid p"

definition stored_policy_ok :: "db \<Rightarrow> bool" where
  "stored_policy_ok d \<longleftrightarrow> (\<forall>p. security_policies d = Some p \<longrightarrow> policy_ok p)"

text \<open>Twelve runes are at least twelve bytes, so the length check of \<open>HashPassword\<close> is implied.\<close>

lemma policy_implies_length:
  "policy_ok p \<Longrightarrow> passwordPolicyViolation u p pw = [] \<Longrightarrow> 12 \<le> length pw"
  using length_runes_le [of pw]
  by (auto simp: no_violation_iff password_meets_def policy_ok_def policy_values_invalid_def)

lemma wp_getSecurityPolicy [wp]:
  "wp (getSecurityPolicy S) Q s =
     (if fault S (ios s) then Q (Inl DbError) (tick s)
      else Q (query_result (security_policies (main s))) (tick s))"
  by (simp add: getSecurityPolicy_def wp)

lemma policy_kept_by_audit:
  "insert_audit a e tt ti res r now d = Some (n, d') \<Longrightarrow> security_policies d' = security_policies d"
  by (drule insert_audit_frame) auto

lemma updateSecurityPolicy_stored:
  assumes "stored_policy_ok (main s)"
  shows "wp (updateSecurityPolicy S r body p) (\<lambda>resp t. stored_policy_ok (main t)) s"
  using assms unfolding updateSecurityPolicy_def
  by (auto simp: wp stored_policy_ok_def set_policy_def policy_ok_def
      split: option.splits dest!: policy_kept_by_audit)

end
