(* ===== verification/Go_Url.thy ===== *)
theory Go_Url imports Http begin

text \<open>
  \<open>net/url\<close>: \<open>Parse\<close> and \<open>ParseRequestURI\<close>, as far as the program looks at their result: the
  scheme, the host, the fragment, whether there is user information, and whether parsing fails.
\<close>

record url =
  Scheme :: string
  Host :: string
  Path :: string
  RawQuery :: string
  Fragment :: string
  HasUser :: bool

datatype encoding = EncodePath | EncodeHost | EncodeZone | EncodeUserPassword | EncodeFragment

section \<open>Percent-decoding\<close>

definition unhex :: "char \<Rightarrow> nat" where
  "unhex c = (let n = of_char c :: nat in
     if 48 \<le> n \<and> n \<le> 57 then n - 48 else if 97 \<le> n \<and> n \<le> 102 then n - 87 else n - 55)"

definition alnum :: "char \<Rightarrow> bool" where
  "alnum c \<longleftrightarrow> (let n = of_char c :: nat in
     97 \<le> n \<and> n \<le> 122 \<or> 65 \<le> n \<and> n \<le> 90 \<or> 48 \<le> n \<and> n \<le> 57)"

text \<open>\<open>shouldEscape(c, encodeHost)\<close>, which is the same for \<open>encodeZone\<close>.\<close>

definition host_escape :: "char \<Rightarrow> bool" where
  "host_escape c \<longleftrightarrow> \<not> alnum c \<and> c \<notin> set (''!$&()*+,;=:[]<>-_.~'' @ [CHR 0x22, CHR 0x27])"

fun unescape :: "encoding \<Rightarrow> string \<Rightarrow> string option" where
  "unescape mode [] = Some []"
| "unescape mode (c # cs) =
     (if c = CHR ''%'' then
        (case cs of
           a # b # rest \<Rightarrow>
             (let v = char_of (unhex a * 16 + unhex b) in
              if \<not> is_hex a \<or> \<not> is_hex b then None
              else if mode = EncodeHost \<and> unhex a < 8 \<and> \<not> (a = CHR ''2'' \<and> b = CHR ''5'') then None
              else if mode = EncodeZone \<and> \<not> (a = CHR ''2'' \<and> b = CHR ''5'') \<and> v \<noteq> CHR '' '' \<and> host_escape v
                then None
              else map_option ((#) v) (unescape mode rest))
         | _ \<Rightarrow> None)
      else if (mode = EncodeHost \<or> mode = EncodeZone) \<and> (of_char c :: nat) < 128 \<and> host_escape c then None
      else map_option ((#) c) (unescape mode cs))"

section \<open>Schemes and authorities\<close>

fun scheme_loop :: "string \<Rightarrow> string \<Rightarrow> string \<Rightarrow> (string \<times> string) option" where
  "scheme_loop raw seen [] = Some ([], raw)"
| "scheme_loop raw seen (c # cs) =
     (let n = of_char c :: nat in
      if 97 \<le> n \<and> n \<le> 122 \<or> 65 \<le> n \<and> n \<le> 90 then scheme_loop raw (seen @ [c]) cs
      else if 48 \<le> n \<and> n \<le> 57 \<or> c \<in> set ''+-.'' then
        (if seen = [] then Some ([], raw) else scheme_loop raw (seen @ [c]) cs)
      else if c = CHR '':'' then (if seen = [] then None else Some (seen, cs))
      else Some ([], raw))"

definition getScheme :: "string \<Rightarrow> (string \<times> string) option" where
  "getScheme raw = scheme_loop raw [] raw"

definition validOptionalPort :: "string \<Rightarrow> bool" where
  "validOptionalPort port \<longleftrightarrow> (case port of
     [] \<Rightarrow> True
   | c # cs \<Rightarrow> c = CHR '':'' \<and> list_all (\<lambda>d. digit_value d \<noteq> None) cs)"

text \<open>Before and from the last occurrence of a byte.\<close>

definition before_last :: "char \<Rightarrow> string \<Rightarrow> string" where
  "before_last d s = rev (tl (dropWhile (\<lambda>c. c \<noteq> d) (rev s)))"

definition after_last :: "char \<Rightarrow> string \<Rightarrow> string" where
  "after_last d s = rev (takeWhile (\<lambda>c. c \<noteq> d) (rev s))"

fun index_zone :: "string \<Rightarrow> nat option" where
  "index_zone [] = None"
| "index_zone (c # cs) = (if hasPrefix (c # cs) ''%25'' then Some 0 else map_option Suc (index_zone cs))"

text \<open>
  In brackets only an IPv6 address is allowed, with a zone that is not empty. Outside brackets,
  an \<open>http\<close> or \<open>https\<close> host has at most one colon (Go 1.26).
\<close>

definition ipv6_literal :: "string \<Rightarrow> bool" where
  "ipv6_literal h \<longleftrightarrow>
     (let addr = takeWhile (\<lambda>c. c \<noteq> CHR ''%'') h; zone = dropWhile (\<lambda>c. c \<noteq> CHR ''%'') h in
      (case dropWhile (\<lambda>c. c \<noteq> CHR ''.'' \<and> c \<noteq> CHR '':'') addr of [] \<Rightarrow> False | c # _ \<Rightarrow> c = CHR '':'')
      \<and> ipv6_ok addr \<and> length zone \<noteq> 1)"

definition parse_literal :: "string \<Rightarrow> string option" where
  "parse_literal host =
     (let hostname = tl (before_last CHR '']'' host);
          plain = (case index_zone hostname of
            None \<Rightarrow> unescape EncodeHost hostname
          | Some z \<Rightarrow> (case (unescape EncodeHost (take z hostname), unescape EncodeZone (drop z hostname)) of
              (Some a, Some b) \<Rightarrow> Some (a @ b) | _ \<Rightarrow> None))
      in case (unescape EncodeHost (after_last CHR '']'' host), plain) of
           (Some port, Some h) \<Rightarrow> if ipv6_literal h then Some (''['' @ h @ '']'' @ port) else None
         | _ \<Rightarrow> None)"

definition parseHost :: "string \<Rightarrow> string \<Rightarrow> string option" where
  "parseHost scheme host =
     (if CHR ''['' \<in> set (tl host) then None
      else if hasPrefix host ''['' then
        (if CHR '']'' \<notin> set host \<or> \<not> validOptionalPort (after_last CHR '']'' host) then None
         else parse_literal host)
      else if CHR '':'' \<in> set host \<and> \<not> validOptionalPort
          (if scheme = ''http'' \<or> scheme = ''https'' then dropWhile (\<lambda>c. c \<noteq> CHR '':'') host
           else CHR '':'' # after_last CHR '':'' host) then None
      else unescape EncodeHost host)"

definition validUserinfo :: "string \<Rightarrow> bool" where
  "validUserinfo s \<longleftrightarrow> list_all (\<lambda>c. alnum c \<or> c \<in> set (''-._:~!$&()*+,;=%@'' @ [CHR 0x27])) s"

definition parseAuthority :: "string \<Rightarrow> string \<Rightarrow> string option" where
  "parseAuthority scheme authority =
     (if CHR ''@'' \<notin> set authority then parseHost scheme authority
      else case parseHost scheme (after_last CHR ''@'' authority) of
        None \<Rightarrow> None
      | Some host \<Rightarrow>
          let userinfo = before_last CHR ''@'' authority in
          if \<not> validUserinfo userinfo then None
          else (case cut_byte CHR '':'' userinfo of (user, password, found) \<Rightarrow>
            if unescape EncodeUserPassword user = None
              \<or> found \<and> unescape EncodeUserPassword password = None then None
            else Some host))"

section \<open>Parsing\<close>

definition has_ctl :: "string \<Rightarrow> bool" where
  "has_ctl s \<longleftrightarrow> list_ex (\<lambda>c. (of_char c :: nat) < 32 \<or> (of_char c :: nat) = 127) s"

definition empty_url :: url where
  "empty_url = \<lparr>Scheme = [], Host = [], Path = [], RawQuery = [], Fragment = [], HasUser = False\<rparr>"

definition with_path :: "url \<Rightarrow> string \<Rightarrow> url option" where
  "with_path u p = map_option (\<lambda>x. u\<lparr>Path := x\<rparr>) (unescape EncodePath p)"

definition url_parse_raw :: "ucd \<Rightarrow> string \<Rightarrow> bool \<Rightarrow> url option" where
  "url_parse_raw U raw viaRequest =
     (if has_ctl raw then None
      else if raw = [] \<and> viaRequest then None
      else if raw = ''*'' then Some (empty_url\<lparr>Path := ''*''\<rparr>)
      else case getScheme raw of
        None \<Rightarrow> None
      | Some (scheme0, rest0) \<Rightarrow>
          let scheme = toLower U scheme0 in
          (case cut_byte CHR ''?'' rest0 of (rest, qs, _) \<Rightarrow>
             let u = empty_url\<lparr>Scheme := scheme, RawQuery := qs\<rparr> in
             if \<not> hasPrefix rest ''/'' \<and> scheme \<noteq> [] then Some u
             else if \<not> hasPrefix rest ''/'' \<and> viaRequest then None
             else if \<not> hasPrefix rest ''/'' \<and> CHR '':'' \<in> set (takeWhile (\<lambda>c. c \<noteq> CHR ''/'') rest) then None
             else if (scheme \<noteq> [] \<or> \<not> viaRequest \<and> \<not> hasPrefix rest ''///'') \<and> hasPrefix rest ''//'' then
               (let authority = takeWhile (\<lambda>c. c \<noteq> CHR ''/'') (drop 2 rest);
                    path = dropWhile (\<lambda>c. c \<noteq> CHR ''/'') (drop 2 rest)
                in case parseAuthority scheme authority of
                     None \<Rightarrow> None
                   | Some host \<Rightarrow> with_path (u\<lparr>Host := host, HasUser := CHR ''@'' \<in> set authority\<rparr>) path)
             else with_path u rest))"

definition url_Parse :: "ucd \<Rightarrow> string \<Rightarrow> url option" where
  "url_Parse U raw = (case cut_byte CHR ''#'' raw of (whole, frag, _) \<Rightarrow>
     case url_parse_raw U whole False of
       None \<Rightarrow> None
     | Some u \<Rightarrow> if frag = [] then Some u
         else map_option (\<lambda>f. u\<lparr>Fragment := f\<rparr>) (unescape EncodeFragment frag))"

definition url_ParseRequestURI :: "ucd \<Rightarrow> string \<Rightarrow> url option" where
  "url_ParseRequestURI U raw = url_parse_raw U raw True"

text \<open>
  The check on redirect URIs that \<open>createApplication\<close>, \<open>updateApplication\<close> and the SAML
  handlers repeat: absolute, with a host, without fragment and without wildcard.
\<close>

definition redirect_uri_ok :: "ucd \<Rightarrow> string \<Rightarrow> bool" where
  "redirect_uri_ok U raw \<longleftrightarrow> (case url_Parse U raw of
     None \<Rightarrow> False
   | Some u \<Rightarrow> \<not> (Scheme u = [] \<or> Host u = [] \<or> Fragment u \<noteq> [] \<or> strings_Contains raw ''*''))"

text \<open>A request URI is never split at \<open>#\<close>: its fragment is always empty.\<close>

lemma url_parse_raw_fragment: "url_parse_raw U raw v = Some u \<Longrightarrow> Fragment u = []"
  by (auto simp: url_parse_raw_def with_path_def empty_url_def Let_def
      split: if_splits option.splits prod.splits)

lemma request_uri_no_fragment: "url_ParseRequestURI U raw = Some u \<Longrightarrow> Fragment u = []"
  by (simp add: url_ParseRequestURI_def url_parse_raw_fragment)

end
