(* ===== verification/Auth.thy ===== *)
theory Auth imports Mfa Policy Go_Url begin

text \<open>
  Sessions and the gates in front of every handler (\<open>backend/internal/httpapi/server.go\<close>):
  the host and CSRF middleware, the three authentication wrappers \<open>withPrincipalRaw\<close>,
  \<open>withPrincipal\<close> and \<open>require\<close>, first-time setup, login, logout and \<open>me\<close>; and
  \<open>sessionPrincipal\<close> of \<open>oauth.go\<close>, the same lookup for the authorization endpoint.
\<close>

section \<open>Middleware\<close>

definition delete_header :: "string \<Rightarrow> request \<Rightarrow> request" where
  "delete_header k r = r\<lparr>rq_headers := filter (\<lambda>h. fst h \<noteq> k) (rq_headers r)\<rparr>"

definition csrf_exempt :: "request \<Rightarrow> bool" where
  "csrf_exempt r \<longleftrightarrow> \<not> (hasPrefix (rq_path r) ''/api/v1/'' \<and> rq_method r \<noteq> ''GET'' \<and> rq_method r \<noteq> ''HEAD''
     \<and> rq_method r \<noteq> ''OPTIONS'' \<and> rq_path r \<noteq> ''/api/v1/auth/login'' \<and> rq_path r \<noteq> ''/api/v1/setup/bootstrap'')"

definition csrf_ok :: "request \<Rightarrow> bool" where
  "csrf_ok r \<longleftrightarrow> (let h = header r ''X-Csrf-Token'' in
     case cookie r ''opensso_csrf'' of None \<Rightarrow> False | Some c \<Rightarrow> \<not> (h = [] \<or> c \<noteq> h))"

definition middleware :: "server \<Rightarrow> (request \<Rightarrow> handler) \<Rightarrow> request \<Rightarrow> handler" where
  "middleware S next_handler r0 = do {
     let r = (if TrustProxyHeaders S then r0
              else delete_header ''X-Real-Ip'' (delete_header ''X-Forwarded-For'' r0));
     rid \<leftarrow> RandomToken S 12;
     let accepted = (if csrf_exempt r \<or> csrf_ok r
                     then next_handler (r\<lparr>rq_id := (case rid of None \<Rightarrow> [] | Some x \<Rightarrow> x)\<rparr>)
                     else respond (problem 403 ''CSRF validation failed''));
     if hasPrefix (rq_path r) ''/health/'' then accepted
     else case url_Parse (udata S) (PublicURL S) of
         None \<Rightarrow> respond (problem 500 ''invalid public URL configuration'')
       | Some expected \<Rightarrow>
           if Host expected = [] then respond (problem 500 ''invalid public URL configuration'')
           else if \<not> equalFold (udata S) (rq_host r) (Host expected) then respond (problem 400 ''invalid host'')
           else accepted
   }"

definition live :: handler where
  "live = respond (JSON 200 (JObj [(''status'', JStr ''ok'')]))"

definition ready :: "server \<Rightarrow> handler" where
  "ready S =
     check (query S (\<lambda>_ _. Some ())) (respond (problem 503 ''database unavailable'')) (\<lambda>_.
     check (io S (\<lambda>s. (Inr (), s))) (respond (problem 503 ''redis unavailable'')) (\<lambda>_.
     respond (JSON 200 (JObj [(''status'', JStr ''ready'')]))))"

section \<open>First-time setup\<close>

text \<open>\<open>hash, e := security.HashPassword(...)\<close> with its error reported as the problem detail.\<close>

definition hash_error_text :: "server \<Rightarrow> hash_error \<Rightarrow> string" where
  "hash_error_text S e = (case e of
     TooShort \<Rightarrow> ''password must contain at least 12 characters'' | NoEntropy \<Rightarrow> error_text S ''entropy'')"

definition with_hash :: "server \<Rightarrow> string \<Rightarrow> (string \<Rightarrow> handler) \<Rightarrow> handler" where
  "with_hash S password k = do {
     h \<leftarrow> HashPassword S password;
     case h of Inl e \<Rightarrow> respond (problem 400 (hash_error_text S e)) | Inr hash \<Rightarrow> k hash
   }"

definition setupStatus :: "server \<Rightarrow> handler" where
  "setupStatus S =
     check (query S (\<lambda>_ d. system_state d)) (respond (problem 500 ''database error''))
       (\<lambda>initialized. respond (JSON 200 (JObj [(''initialized'', JBool initialized)])))"

definition insert_user :: "uuid \<Rightarrow> string \<Rightarrow> string \<Rightarrow> string \<Rightarrow> bool \<Rightarrow> statement" where
  "insert_user uid username email display must_change now d =
     (if exists_where (\<lambda>u. u_id u = uid \<or> u_username u = username \<or> u_email u = email) (users d) then None
      else Some (1, d\<lparr>users := users d @
        [\<lparr>u_id = uid, u_username = username, u_email = email, u_display_name = display, u_active = True,
          u_failed_logins = 0, u_locked_until = None, u_must_change = must_change,
          u_created_at = now, u_updated_at = now\<rparr>]\<rparr>))"

definition insert_credential :: "uuid \<Rightarrow> string \<Rightarrow> statement" where
  "insert_credential uid hash now d =
     (if exists_where (\<lambda>c. pc_user c = uid) (credentials d)
         \<or> \<not> exists_where (\<lambda>u. u_id u = uid) (users d) then None
      else Some (1, d\<lparr>credentials := credentials d @
        [\<lparr>pc_user = uid, pc_hash = hash, pc_changed_at = now\<rparr>]\<rparr>))"

text \<open>\<open>INSERT ... SELECT $1,id FROM roles WHERE name=...\<close>, without and with \<open>ON CONFLICT DO NOTHING\<close>.\<close>

definition new_assignments :: "uuid \<Rightarrow> string \<Rightarrow> db \<Rightarrow> (uuid \<times> uuid) list" where
  "new_assignments uid role d = map (\<lambda>r. (uid, ro_id r)) (filter (\<lambda>r. ro_name r = role) (roles d))"

definition assign_role_by_name :: "uuid \<Rightarrow> string \<Rightarrow> statement" where
  "assign_role_by_name uid role now d =
     (let new = new_assignments uid role d in
      if list_ex (\<lambda>a. a \<in> set (role_assignments d)) new \<or> \<not> exists_where (\<lambda>u. u_id u = uid) (users d) \<and> new \<noteq> []
      then None
      else Some (length new, d\<lparr>role_assignments := role_assignments d @ new\<rparr>))"

definition mark_initialized :: statement where
  "mark_initialized now d = Some (1, d\<lparr>system_state := map_option (\<lambda>_. True) (system_state d)\<rparr>)"

definition bootstrap :: "server \<Rightarrow> request \<Rightarrow> (string \<times> string \<times> string \<times> string) option \<Rightarrow> handler" where
  "bootstrap S r body =
     (if BootstrapToken S = [] then respond (problem 403 ''bootstrap is disabled'')
      else if header r ''Authorization'' \<noteq> ''Bearer '' @ BootstrapToken S
        then respond (problem 403 ''invalid bootstrap credential'')
      else case body of None \<Rightarrow> invalid_body | Some (username0, email0, display_name, password) \<Rightarrow>
      let username = toLower (udata S) (trimSpace username0);
          email = toLower (udata S) (trimSpace email0)
      in if length username < 3 \<or> \<not> strings_Contains email ''@''
        then respond (problem 400 ''invalid username or email'')
      else check (getSecurityPolicy S) (respond (problem 500 ''database error'')) (\<lambda>policy.
      let violation = passwordPolicyViolation (udata S) policy password in
      if violation \<noteq> [] then respond (problem 400 violation)
      else with_hash S password (\<lambda>hash.
      check (tx_begin S) (respond (problem 500 ''database error'')) (\<lambda>v0. do {
        initialized \<leftarrow> tx_query S v0 (\<lambda>_ d. system_state d);
        if initialized \<noteq> Inr False then respond (problem 409 ''installation already initialized'')
        else do {
          uid \<leftarrow> new_uuid S;
          check (tx_exec S v0 (insert_user uid username email (trimSpace display_name) False))
            (respond (problem 409 ''username or email already exists'')) (\<lambda>(_, v1).
          check (tx_exec S v1 (insert_credential uid hash)) (respond (problem 500 ''database error'')) (\<lambda>(_, v2).
          check (tx_exec S v2 (assign_role_by_name uid ''Super Admin''))
            (respond (problem 500 ''database error'')) (\<lambda>(_, v3).
          check (tx_exec S v3 mark_initialized)
            (respond (problem 500 ''database error'')) (\<lambda>(_, v4).
          check (auditTx S v4 (Some uid) ''USER_CREATED'' ''user'' uid ''success'' r)
            (respond (problem 500 ''audit error'')) (\<lambda>(_, v5).
          check (tx_commit S v5) (respond (problem 500 ''database error'')) (\<lambda>_.
          respond (JSON 201 (JObj [(''user_id'', JStr uid)]))))))))
        }
      }))))"

section \<open>Login\<close>

definition login_row :: "server \<Rightarrow> string \<Rightarrow> (user \<times> credential) query" where
  "login_row S name now d = find
     (\<lambda>(u, _). pg_lower S (u_username u) = pg_lower S name \<or> pg_lower S (u_email u) = pg_lower S name)
     (join (\<lambda>u c. pc_user c = u_id u) (users d) (credentials d))"

definition not_locked :: "instant \<Rightarrow> user \<Rightarrow> bool" where
  "not_locked now u \<longleftrightarrow> (case u_locked_until u of None \<Rightarrow> True | Some t \<Rightarrow> t < now)"

text \<open>\<^const>\<open>None\<close> is a panic inside \<open>VerifyPassword\<close>.\<close>

definition login_valid :: "server \<Rightarrow> instant \<Rightarrow> dberr + (user \<times> credential) \<Rightarrow> string \<Rightarrow> bool option" where
  "login_valid S now row password = (case row of
     Inl _ \<Rightarrow> Some False
   | Inr (u, c) \<Rightarrow>
       if u_active u \<and> not_locked now u then VerifyPassword S (pc_hash c) password else Some False)"

definition count_failure :: "uuid \<Rightarrow> securityPolicy \<Rightarrow> statement" where
  "count_failure uid p now d = Some (count_where (\<lambda>u. u_id u = uid) (users d),
     d\<lparr>users := update_where (\<lambda>u. u_id u = uid) (\<lambda>u. u
       \<lparr>u_failed_logins := u_failed_logins u + 1,
        u_locked_until := (if u_failed_logins u + 1 \<ge> LockoutThreshold p
          then Some (now + minutes (LockoutMinutes p)) else u_locked_until u)\<rparr>) (users d)\<rparr>)"

definition clear_failures :: "uuid \<Rightarrow> statement" where
  "clear_failures uid now d = Some (count_where (\<lambda>u. u_id u = uid) (users d),
     d\<lparr>users := update_where (\<lambda>u. u_id u = uid)
       (\<lambda>u. u\<lparr>u_failed_logins := 0, u_locked_until := None\<rparr>) (users d)\<rparr>)"

definition insert_session ::
  "uuid \<Rightarrow> uuid \<Rightarrow> string \<Rightarrow> string option \<Rightarrow> string \<Rightarrow> instant \<Rightarrow> statement" where
  "insert_session sid uid hash ip agent expires now d =
     (if exists_where (\<lambda>s. se_id s = sid \<or> se_hash s = hash) (sessions d)
         \<or> \<not> exists_where (\<lambda>u. u_id u = uid) (users d) then None
      else Some (1, d\<lparr>sessions := sessions d @
        [\<lparr>se_id = sid, se_user = uid, se_hash = hash, se_ip = ip, se_agent = agent, se_created_at = now,
          se_last_seen = now, se_expires = expires, se_revoked = None, se_mfa_verified = None\<rparr>]\<rparr>))"

definition session_cookies :: "server \<Rightarrow> string \<Rightarrow> string \<Rightarrow> instant \<Rightarrow> set_cookie list" where
  "session_cookies S token csrf expires =
     [\<lparr>ck_name = ''opensso_session'', ck_value = token, ck_http_only = True, ck_secure = CookieSecure S,
       ck_expires = Some expires, ck_delete = False\<rparr>,
      \<lparr>ck_name = ''opensso_csrf'', ck_value = csrf, ck_http_only = False, ck_secure = CookieSecure S,
       ck_expires = Some expires, ck_delete = False\<rparr>]"

definition clearSessionCookies :: "server \<Rightarrow> set_cookie list" where
  "clearSessionCookies S =
     [\<lparr>ck_name = ''opensso_session'', ck_value = [], ck_http_only = True, ck_secure = CookieSecure S,
       ck_expires = None, ck_delete = True\<rparr>,
      \<lparr>ck_name = ''opensso_csrf'', ck_value = [], ck_http_only = False, ck_secure = CookieSecure S,
       ck_expires = None, ck_delete = True\<rparr>]"

definition login_succeed :: "server \<Rightarrow> request \<Rightarrow> securityPolicy \<Rightarrow> user \<Rightarrow> handler" where
  "login_succeed S r policy u = (let uid = u_id u in
     check (StatusOf S uid None) (respond (problem 500 ''MFA policy lookup failed'')) (\<lambda>status.
     check_some (RandomToken S 32) (respond (problem 500 ''entropy failure'')) (\<lambda>token. do {
       now \<leftarrow> time_now;
       let expires = now + minutes (SessionTTLMinutes policy);
       sid \<leftarrow> new_uuid S;
       check (exec S (insert_session sid uid (SHA256String token) (nullableIP (clientIP r))
           (truncate_str (header r ''User-Agent'') 512) expires)) (respond (problem 500 ''database error'')) (\<lambda>_. do {
         try_exec S (clear_failures uid);
         audit S (Some uid) (if IsRequired status then ''LOGIN_PRIMARY_SUCCESS'' else ''LOGIN_SUCCESS'')
               ''user'' uid ''success'' r;
         check_some (RandomToken S 24) (respond (problem 500 ''entropy failure'')) (\<lambda>csrf.
           respond (WithCookies (session_cookies S token csrf expires) (JSON 200 (JObj
             [(''user_id'', JStr uid), (''username'', JStr (u_username u)), (''session_id'', JStr sid),
              (''expires_at'', JTime expires), (''mfa_required'', JBool (IsRequired status)),
              (''mfa_enrollment_required'', JBool (IsRequired status \<and> \<not> HasPrimaryFactor status))]))))
       })
     })))"

definition login_fail :: "server \<Rightarrow> request \<Rightarrow> securityPolicy \<Rightarrow> dberr + (user \<times> credential) \<Rightarrow> handler" where
  "login_fail S r policy row = do {
     (case row of
        Inl _ \<Rightarrow> State_Monad.return ()
      | Inr (u, _) \<Rightarrow> try_exec S (count_failure (u_id u) policy));
     audit S None ''LOGIN_FAILED'' ''user'' (case row of Inl _ \<Rightarrow> [] | Inr (u, _) \<Rightarrow> u_id u) ''failure'' r;
     respond (problem 401 ''invalid credentials'')
   }"

definition login :: "server \<Rightarrow> request \<Rightarrow> (string \<times> string) option \<Rightarrow> handler" where
  "login S r body = do {
     ok \<leftarrow> allowLogin S (clientIP r);
     if \<not> ok then respond (problem 429 ''too many login attempts'')
     else check (getSecurityPolicy S) (respond (problem 500 ''database error'')) (\<lambda>policy.
       case body of None \<Rightarrow> invalid_body | Some (username, password) \<Rightarrow> do {
         row \<leftarrow> query S (login_row S (trimSpace username));
         now \<leftarrow> time_now;
         case login_valid S now row password of
           None \<Rightarrow> respond Panicked
         | Some valid \<Rightarrow>
             if \<not> valid then login_fail S r policy row
             else (case row of Inl _ \<Rightarrow> respond Panicked | Inr (u, _) \<Rightarrow> login_succeed S r policy u)
       })
   }"

section \<open>Sessions of later requests\<close>

definition session_live :: "instant \<Rightarrow> session \<Rightarrow> bool" where
  "session_live now s \<longleftrightarrow> se_revoked s = None \<and> se_expires s > now"

definition session_row :: "string \<Rightarrow> (session \<times> user) query" where
  "session_row hash now d = find (\<lambda>(s, u). se_hash s = hash \<and> session_live now s \<and> u_active u)
     (join (\<lambda>s u. u_id u = se_user s) (sessions d) (users d))"

definition principal_of :: "session \<times> user \<Rightarrow> principal" where
  "principal_of su = (case su of (s, u) \<Rightarrow>
     \<lparr>SessionID = se_id s, UserID = u_id u, Username = u_username u, MustChangePassword = u_must_change u,
      MFAVerified = (se_mfa_verified s \<noteq> None)\<rparr>)"

definition touch_session :: "uuid \<Rightarrow> statement" where
  "touch_session sid now d = Some (count_where (\<lambda>s. se_id s = sid) (sessions d),
     d\<lparr>sessions := update_where (\<lambda>s. se_id s = sid) (\<lambda>s. s\<lparr>se_last_seen := now\<rparr>) (sessions d)\<rparr>)"

definition sessionPrincipal :: "server \<Rightarrow> request \<Rightarrow> (st, principal option) state" where
  "sessionPrincipal S r = (case cookie r ''opensso_session'' of
     None \<Rightarrow> State_Monad.return None
   | Some c \<Rightarrow> check (query S (\<lambda>now d. map_option principal_of (session_row (SHA256String c) now d)))
       (State_Monad.return None) (\<lambda>p. do {
         try_exec S (touch_session (SessionID p));
         State_Monad.return (Some p)
       }))"

definition withPrincipalRaw :: "server \<Rightarrow> request \<Rightarrow> (principal \<Rightarrow> handler) \<Rightarrow> handler" where
  "withPrincipalRaw S r next_handler = (case cookie r ''opensso_session'' of
     None \<Rightarrow> respond (problem 401 ''authentication required'')
   | Some c \<Rightarrow> check (query S (\<lambda>now d. map_option principal_of (session_row (SHA256String c) now d)))
       (respond (problem 401 ''authentication required'')) (\<lambda>p. do {
         try_exec S (touch_session (SessionID p));
         next_handler p
       }))"

definition withPrincipal :: "server \<Rightarrow> request \<Rightarrow> (principal \<Rightarrow> handler) \<Rightarrow> handler" where
  "withPrincipal S r next_handler = withPrincipalRaw S r (\<lambda>p.
     check (Required S (UserID p) None) (respond (problem 500 ''MFA policy lookup failed'')) (\<lambda>required.
     if required \<and> \<not> MFAVerified p then respond (problem 403 ''MFA verification required'')
     else next_handler p))"

definition has_permission :: "uuid \<Rightarrow> string \<Rightarrow> db \<Rightarrow> bool" where
  "has_permission uid perm d = exists_where (\<lambda>(ra, rp). fst ra = uid
       \<and> exists_where (\<lambda>p. pe_id p = snd rp \<and> pe_name p = perm) (permissions d))
     (join (\<lambda>ra rp. fst rp = snd ra) (role_assignments d) (role_permissions d))"

definition require :: "server \<Rightarrow> string \<Rightarrow> request \<Rightarrow> (principal \<Rightarrow> handler) \<Rightarrow> handler" where
  "require S perm r next_handler = withPrincipal S r (\<lambda>p.
     if MustChangePassword p then respond (problem 403 ''password change required'')
     else do {
       ok \<leftarrow> query S (\<lambda>_ d. Some (has_permission (UserID p) perm d));
       if ok \<noteq> Inr True then respond (problem 403 ''permission denied'') else next_handler p
     })"

definition revoke_by_hash :: "string \<Rightarrow> statement" where
  "revoke_by_hash hash now d =
     Some (count_where (\<lambda>s. se_hash s = hash \<and> se_revoked s = None) (sessions d),
       d\<lparr>sessions := update_where (\<lambda>s. se_hash s = hash \<and> se_revoked s = None)
         (\<lambda>s. s\<lparr>se_revoked := Some now\<rparr>) (sessions d)\<rparr>)"

definition logout :: "server \<Rightarrow> request \<Rightarrow> principal \<Rightarrow> handler" where
  "logout S r p = do {
     (case cookie r ''opensso_session'' of
        None \<Rightarrow> State_Monad.return ()
      | Some c \<Rightarrow> try_exec S (revoke_by_hash (SHA256String c)));
     audit S (Some (UserID p)) ''LOGOUT'' ''user'' (UserID p) ''success'' r;
     respond (WithCookies (clearSessionCookies S) (Status 204))
   }"

definition me :: "server \<Rightarrow> principal \<Rightarrow> handler" where
  "me S p = check (StatusOf S (UserID p) None) (respond (problem 500 ''MFA status lookup failed'')) (\<lambda>status.
     respond (JSON 200 (JObj
       [(''session_id'', JStr (SessionID p)), (''user_id'', JStr (UserID p)), (''username'', JStr (Username p)),
        (''must_change_password'', JBool (MustChangePassword p)), (''mfa_verified'', JBool (MFAVerified p)),
        (''mfa_required'', JBool (IsRequired status)),
        (''mfa_enrollment_required'', JBool (IsRequired status \<and> \<not> HasPrimaryFactor status))])))"


section \<open>What the gates let through\<close>

lemma session_row_props:
  "session_row hash now d = Some (s, u) \<Longrightarrow>
     s \<in> set (sessions d) \<and> u \<in> set (users d) \<and> u_id u = se_user s \<and> se_hash s = hash
     \<and> se_revoked s = None \<and> now < se_expires s \<and> u_active u"
  by (auto simp: session_row_def session_live_def dest!: find_in_set)

text \<open>\<open>acts_as\<close>: the request's cookie names a live session of the active user \<open>p\<close> describes.\<close>

definition acts_as :: "request \<Rightarrow> instant \<Rightarrow> db \<Rightarrow> principal \<Rightarrow> bool" where
  "acts_as r now d p \<longleftrightarrow> (\<exists>c s u. cookie r ''opensso_session'' = Some c
     \<and> s \<in> set (sessions d) \<and> u \<in> set (users d) \<and> se_hash s = SHA256String c
     \<and> se_revoked s = None \<and> now < se_expires s \<and> u_active u
     \<and> u_id u = se_user s \<and> p = principal_of (s, u))"

definition refusal :: "response \<Rightarrow> bool" where
  "refusal resp \<longleftrightarrow> status_of resp \<in> {401, 403, 500} \<and> (\<exists>d. resp = problem (status_of resp) d)"

lemma refusal_problem [simp]: "refusal (problem n d) \<longleftrightarrow> n \<in> {401, 403, 500}"
  by (auto simp: refusal_def)

text \<open>A wrapper only reads, apart from the session's \<open>last_seen_at\<close>.\<close>

definition only_sessions_touched :: "st \<Rightarrow> st \<Rightarrow> bool" where
  "only_sessions_touched s t \<longleftrightarrow> (\<exists>ss. main t = (main s)\<lparr>sessions := ss\<rparr>) \<and> keys t = keys s
     \<and> redis t = redis s \<and> go_now t = go_now s \<and> pg_now t = pg_now s \<and> redis_now t = redis_now s"

lemma only_sessions_touched_policy:
  "only_sessions_touched s t \<Longrightarrow> mfa_required uid app (main t) = mfa_required uid app (main s)
     \<and> has_permission uid perm (main t) = has_permission uid perm (main s)"
  by (cases app) (auto simp: only_sessions_touched_def mfa_required_def has_permission_def)

text \<open>\<open>reaches\<close>: the inner handler ran, for such a principal, and the response is its own.\<close>

definition reaches ::
  "request \<Rightarrow> (principal \<Rightarrow> bool) \<Rightarrow> (principal \<Rightarrow> handler) \<Rightarrow> st \<Rightarrow> response \<Rightarrow> st \<Rightarrow> bool" where
  "reaches r admitted next_handler s resp t \<longleftrightarrow> (\<exists>p s1. acts_as r (pg_now s) (main s) p \<and> admitted p
     \<and> only_sessions_touched s s1 \<and> run_state (next_handler p) s1 = (resp, t))"

lemma wp_reaches:
  "acts_as r (pg_now s) (main s) p \<Longrightarrow> admitted p \<Longrightarrow> only_sessions_touched s s1 \<Longrightarrow>
     wp (next_handler p) (\<lambda>resp t. refusal resp \<or> reaches r admitted next_handler s resp t) s1"
  by (rule wp_runI) (auto simp: reaches_def)

lemma only_sessions_touched_io:
  "only_sessions_touched s s1 \<Longrightarrow> only_sessions_touched s (tick s1)"
  by (simp add: only_sessions_touched_def)

lemma only_sessions_touched_refl: "only_sessions_touched s s"
  by (auto simp: only_sessions_touched_def intro: exI [of _ "sessions (main s)"])

lemma touch_effect: "\<exists>ss. effect S (touch_session sid) s = (main s)\<lparr>sessions := ss\<rparr>"
  by (rule effect_cases [of S "touch_session sid" s, THEN disjE])
    (auto simp: touch_session_def intro: exI [of _ "sessions (main s)"] dest!: sym [of _ "effect S c s" for c])

lemma withPrincipalRaw_gate:
  "wp (withPrincipalRaw S r next_handler)
     (\<lambda>resp t. refusal resp \<or> reaches r (\<lambda>_. True) next_handler s resp t) s"
proof (cases "cookie r ''opensso_session''")
  case None
  then show ?thesis by (simp add: withPrincipalRaw_def wp)
next
  case c: (Some c)
  show ?thesis
  proof (cases "session_row (SHA256String c) (pg_now s) (main s)")
    case None
    then show ?thesis using c by (simp add: withPrincipalRaw_def wp query_result_def)
  next
    case (Some su)
    obtain se u where su: "su = (se, u)" by (cases su)
    have acts: "acts_as r (pg_now s) (main s) (principal_of su)"
      using session_row_props [of "SHA256String c" "pg_now s" "main s" se u] Some su c
      unfolding acts_as_def by metis
    have frame: "only_sessions_touched s (s\<lparr>ios := i\<rparr>)"
      "only_sessions_touched s (s\<lparr>ios := i, main := effect S (touch_session sid) (s\<lparr>ios := j\<rparr>)\<rparr>)" for i j sid
      using touch_effect [of S sid "s\<lparr>ios := j\<rparr>"]
      by (auto simp: only_sessions_touched_def intro: exI [of _ "sessions (main s)"])
    show ?thesis using c Some acts frame
      by (auto simp: withPrincipalRaw_def wp query_result_def intro!: wp_reaches)
  qed
qed

lemma reaches_wp:
  assumes outer: "reaches r adm f s resp t"
    and inner: "\<And>p s1. acts_as r (pg_now s) (main s) p \<Longrightarrow> adm p \<Longrightarrow> only_sessions_touched s s1 \<Longrightarrow>
      wp (f p) (\<lambda>resp t. refusal resp \<or> reaches r admitted g s resp t) s1"
  shows "refusal resp \<or> reaches r admitted g s resp t"
proof -
  obtain p s1 where "acts_as r (pg_now s) (main s) p" "adm p" "only_sessions_touched s s1"
    and run: "run_state (f p) s1 = (resp, t)"
    using outer unfolding reaches_def by blast
  from wp_run [OF inner [OF this(1-3)] run] show ?thesis .
qed

lemma withPrincipal_gate:
  "wp (withPrincipal S r next_handler) (\<lambda>resp t. refusal resp \<or>
     reaches r (\<lambda>p. mfa_required (UserID p) None (main s) \<noteq> None
       \<and> (mfa_required (UserID p) None (main s) = Some True \<longrightarrow> MFAVerified p)) next_handler s resp t) s"
proof -
  let ?ok = "\<lambda>p. mfa_required (UserID p) None (main s) \<noteq> None
       \<and> (mfa_required (UserID p) None (main s) = Some True \<longrightarrow> MFAVerified p)"
  have inner: "wp (check (Required S (UserID p) None) (respond (problem 500 ''MFA policy lookup failed''))
       (\<lambda>required. if required \<and> \<not> MFAVerified p then respond (problem 403 ''MFA verification required'')
          else next_handler p)) (\<lambda>resp t. refusal resp \<or> reaches r ?ok next_handler s resp t) s1"
    if "acts_as r (pg_now s) (main s) p" "only_sessions_touched s s1" for p s1
    using that only_sessions_touched_policy [OF that(2), of "UserID p" None] only_sessions_touched_io [OF that(2)]
    by (cases "mfa_required (UserID p) None (main s)")
      (auto simp: Required_def wp query_result_def intro!: wp_reaches)
  show ?thesis unfolding withPrincipal_def
    by (rule wp_mono [OF withPrincipalRaw_gate], erule disjE, simp, erule reaches_wp, rule inner)
qed

text \<open>
  The gate of every administrative handler. \<open>require\<close> either refuses with 401, 403 or 500, or
  the handler runs for the active user of a live session, who has passed MFA where a policy
  asks for it, who has no password change pending, and one of whose roles has the permission.
\<close>

lemma require_gate:
  "wp (require S perm r next_handler) (\<lambda>resp t. refusal resp \<or>
     reaches r (\<lambda>p. (mfa_required (UserID p) None (main s) = Some False
         \<or> mfa_required (UserID p) None (main s) = Some True \<and> MFAVerified p)
       \<and> \<not> MustChangePassword p \<and> has_permission (UserID p) perm (main s)) next_handler s resp t) s"
proof -
  let ?mfa = "\<lambda>p. mfa_required (UserID p) None (main s) \<noteq> None
       \<and> (mfa_required (UserID p) None (main s) = Some True \<longrightarrow> MFAVerified p)"
  let ?ok = "\<lambda>p. (mfa_required (UserID p) None (main s) = Some False
         \<or> mfa_required (UserID p) None (main s) = Some True \<and> MFAVerified p)
       \<and> \<not> MustChangePassword p \<and> has_permission (UserID p) perm (main s)"
  have inner: "wp (if MustChangePassword p then respond (problem 403 ''password change required'')
       else do {
         ok \<leftarrow> query S (\<lambda>_ d. Some (has_permission (UserID p) perm d));
         if ok \<noteq> Inr True then respond (problem 403 ''permission denied'') else next_handler p
       }) (\<lambda>resp t. refusal resp \<or> reaches r ?ok next_handler s resp t) s1"
    if "acts_as r (pg_now s) (main s) p" "?mfa p" "only_sessions_touched s s1" for p s1
    using that only_sessions_touched_policy [OF that(3), of "UserID p" None perm]
      only_sessions_touched_io [OF that(3)]
    by (cases "mfa_required (UserID p) None (main s)")
      (auto simp: wp query_result_def intro!: wp_reaches)
  show ?thesis unfolding require_def
    by (rule wp_mono [OF withPrincipal_gate], erule disjE, simp, erule reaches_wp, rule inner)
qed


section \<open>What login does\<close>

text \<open>
  A successful login: the password was checked against an active, unlocked user, and the one
  new session carries the hash of the token in the cookie and no MFA verification.
\<close>

definition logged_in ::
  "server \<Rightarrow> string \<Rightarrow> string \<Rightarrow> st \<Rightarrow> response \<Rightarrow> st \<Rightarrow> bool" where
  "logged_in S name pw s resp t \<longleftrightarrow> (\<exists>u c p se token csrf j.
     login_row S (trimSpace name) (pg_now s) (main s) = Some (u, c)
     \<and> u_active u \<and> not_locked (go_now s) u \<and> VerifyPassword S (pc_hash c) pw = Some True
     \<and> security_policies (main s) = Some p
     \<and> sessions (main t) = sessions (main s) @ [se]
     \<and> se_user se = u_id u \<and> se_hash se = SHA256String token \<and> se_mfa_verified se = None
     \<and> se_revoked se = None \<and> se_expires se = go_now s + minutes (SessionTTLMinutes p)
     \<and> resp = WithCookies (session_cookies S token csrf (se_expires se)) (JSON 200 j))"

lemma effect_clear_failures [simp]:
  "sessions (effect S (clear_failures uid) s) = sessions (main s)"
  by (rule effect_keeps) (auto simp: clear_failures_def)

lemma effect_count_failure [simp]:
  "sessions (effect S (count_failure uid p) s) = sessions (main s)"
  by (rule effect_keeps) (auto simp: count_failure_def)

lemma login_succeed_session:
  assumes "login_row S (trimSpace name) (pg_now s0) (main s0) = Some (u, c)"
    "u_active u" "not_locked (go_now s0) u" "VerifyPassword S (pc_hash c) pw = Some True"
    "security_policies (main s0) = Some p" "main s = main s0" "pg_now s = pg_now s0" "go_now s = go_now s0"
  shows "wp (login_succeed S r p u) (\<lambda>resp t. status_of resp = 200 \<longrightarrow> logged_in S name pw s0 resp t) s"
  unfolding login_succeed_def Let_def
  by (auto simp: wp insert_session_def logged_in_def assms split: sum.splits option.splits if_splits)

lemma login_session:
  "wp (login S r (Some (name, pw))) (\<lambda>resp t. status_of resp = 200 \<longrightarrow> logged_in S name pw s resp t) s"
proof -
  have fail: "wp (login_fail S r p row) (\<lambda>resp t. status_of resp = 200 \<longrightarrow> logged_in S name pw s resp t) s1"
    for row p s1 by (auto simp: login_fail_def wp split: sum.splits prod.splits)
  show ?thesis unfolding login_def
    by (auto simp: wp query_result_def login_valid_def fail
        intro!: login_succeed_session split: sum.splits option.splits prod.splits if_splits)
qed

text \<open>And a refused one: no session appears, whatever fails on the way.\<close>

lemma login_refused:
  assumes refused: "login_valid S (go_now s) (query_result (login_row S (trimSpace name) (pg_now s) (main s))) pw
      = Some False"
  shows "wp (login S r (Some (name, pw)))
    (\<lambda>resp t. (status_of resp = 401 \<or> status_of resp = 429 \<or> status_of resp = 500) \<and> sessions (main t) = sessions (main s)) s"
proof -
  have fail: "sessions (main s1) = sessions (main s) \<Longrightarrow> wp (login_fail S r p row)
      (\<lambda>resp t. (status_of resp = 401 \<or> status_of resp = 429 \<or> status_of resp = 500) \<and> sessions (main t) = sessions (main s)) s1"
    for row p s1 by (auto simp: login_fail_def wp split: sum.splits prod.splits)
  have db: "login_valid S now (Inl DbError) pw = Some False" for now
    by (simp add: login_valid_def)
  show ?thesis unfolding login_def using refused
    by (auto simp: wp fail db split: sum.splits option.splits)
qed

end
