(* ===== verification/Key_Ring.thy ===== *)
theory Key_Ring imports Sealed_Box begin

text \<open>
  A ring of keys of which one is current: the interface that the OIDC signing keys and the SAML
  signing certificates share. Rotation retires the current key and adds a new one, or fails and
  leaves the ring alone; no key is ever removed, so what an old key signed can still be checked.
\<close>

locale key_ring =
  fixes ring :: "keydb \<Rightarrow> 'r list"
    and current :: "'r \<Rightarrow> bool"
    and kid :: "'r \<Rightarrow> string"
    and retire :: "instant \<Rightarrow> 'r \<Rightarrow> 'r"
    and rotate :: "(st, 'e + 'k) state"
  assumes rotated: "run_state rotate s = (Inr k, t) \<Longrightarrow> \<exists>now new.
      ring (keys t) = update_where current (retire now) (ring (keys s)) @ [new]
      \<and> current new \<and> kid new \<notin> kid ` set (ring (keys s))"
    and unchanged: "run_state rotate s = (Inl e, t) \<Longrightarrow> ring (keys t) = ring (keys s)"
    and retired: "\<not> current (retire now r)" "kid (retire now r) = kid r"
begin

lemma kid_update [simp]: "map kid (update_where current (retire now) rs) = map kid rs"
  by (rule map_update_where) (simp add: retired)

lemma one_current:
  "run_state rotate s = (Inr k, t) \<Longrightarrow> count_where current (ring (keys t)) = 1"
proof -
  assume "run_state rotate s = (Inr k, t)"
  then obtain now new where "ring (keys t) = update_where current (retire now) (ring (keys s)) @ [new]"
    and "current new" using rotated by blast
  moreover have "filter current (update_where current (retire now) rs) = []" for rs
    unfolding filter_empty_conv by (metis in_update_where retired(1))
  ultimately show ?thesis by (simp add: count_where_def)
qed

lemma at_most_one_current:
  "run_state rotate s = (x, t) \<Longrightarrow> count_where current (ring (keys s)) \<le> 1 \<Longrightarrow>
     count_where current (ring (keys t)) \<le> 1"
  using one_current unchanged by (cases x) fastforce+

lemma kids_kept:
  "run_state rotate s = (x, t) \<Longrightarrow> kid ` set (ring (keys s)) \<subseteq> kid ` set (ring (keys t))"
proof (cases x)
  case (Inr k)
  assume "run_state rotate s = (x, t)"
  then obtain now new where "ring (keys t) = update_where current (retire now) (ring (keys s)) @ [new]"
    using rotated Inr by blast
  then have "map kid (ring (keys t)) = map kid (ring (keys s)) @ [kid new]" by simp
  then have "set (map kid (ring (keys s))) \<subseteq> set (map kid (ring (keys t)))"
    by (metis Un_upper1 set_append)
  then show ?thesis by (simp only: set_map)
qed (simp add: unchanged)

lemma kids_distinct:
  "run_state rotate s = (x, t) \<Longrightarrow> distinct (map kid (ring (keys s))) \<Longrightarrow> distinct (map kid (ring (keys t)))"
proof (cases x)
  case (Inr k)
  assume r: "run_state rotate s = (x, t)" and d: "distinct (map kid (ring (keys s)))"
  obtain now new where "ring (keys t) = update_where current (retire now) (ring (keys s)) @ [new]"
    and "kid new \<notin> kid ` set (ring (keys s))"
    using rotated r Inr by blast
  then have "map kid (ring (keys t)) = map kid (ring (keys s)) @ [kid new]"
    and "kid new \<notin> set (map kid (ring (keys s)))" by simp_all
  with d show ?thesis by simp
qed (simp add: unchanged)

end

end
