(* ===== verification/Keys.thy ===== *)
theory Keys imports Key_Ring begin

text \<open>
  \<open>backend/internal/oidc/keys.go\<close>: the RSA keys that sign access and ID tokens. The active key
  is decrypted for signing and created on first use, \<open>Rotate\<close> replaces it, the public halves of
  all keys are the JWKS, and \<open>PublicKeyByKID\<close> reads one of them back to check a token.

  RSA itself, PKCS#8 and AES-GCM are parameters; the JWK encoding of a public key is not.
\<close>

section \<open>Public keys as JWK\<close>

text \<open>\<open>big.Int.Bytes\<close> and \<open>SetBytes\<close>: big-endian without leading zeros.\<close>

function nat_bytes :: "nat \<Rightarrow> string" where
  "nat_bytes n = (if n = 0 then [] else nat_bytes (n div 256) @ [char_of (n mod 256)])"
  by pat_completeness auto
termination by (relation "measure id") auto

declare nat_bytes.simps [simp del]

definition bytes_nat :: "string \<Rightarrow> nat" where
  "bytes_nat bs = foldl (\<lambda>a b. a * 256 + of_char b) 0 bs"

definition jwkFromPublicKey :: "string \<Rightarrow> nat \<times> nat \<Rightarrow> (string \<times> string) list" where
  "jwkFromPublicKey kid key =
     [(''kty'', ''RSA''), (''use'', ''sig''), (''alg'', ''RS256''), (''kid'', kid),
      (''n'', base64_encode True (nat_bytes (fst key))), (''e'', base64_encode True (nat_bytes (snd key)))]"

definition jwk_field :: "(string \<times> string) list \<Rightarrow> string \<Rightarrow> string" where
  "jwk_field jwk k = (case map_of jwk k of None \<Rightarrow> [] | Some v \<Rightarrow> v)"

text \<open>The exponent is accumulated in a Go \<open>int\<close>, 64 bits wide.\<close>

definition exponent_of :: "string \<Rightarrow> 64 word" where
  "exponent_of bs = foldl (\<lambda>e b. push_bit 8 e + word_of_nat (of_char b)) 0 bs"

definition publicKeyOfJWK :: "(string \<times> string) list \<Rightarrow> (nat \<times> nat) option" where
  "publicKeyOfJWK jwk =
     (if jwk_field jwk ''kty'' \<noteq> ''RSA'' then None
      else case base64_decode True (jwk_field jwk ''n'') of
        None \<Rightarrow> None
      | Some n \<Rightarrow>
          (case base64_decode True (jwk_field jwk ''e'') of
             None \<Rightarrow> None
           | Some e \<Rightarrow> if sint (exponent_of e) < 3 then None
               else Some (bytes_nat n, nat (sint (exponent_of e)))))"

lemma bytes_nat_bytes: "bytes_nat (nat_bytes n) = n"
proof (induction n rule: nat_bytes.induct)
  case (1 n)
  then show ?case
    by (subst nat_bytes.simps) (auto simp: bytes_nat_def)
qed

lemma exponent_bytes: "exponent_of (nat_bytes n) = word_of_nat n"
proof (induction n rule: nat_bytes.induct)
  case (1 n)
  have "word_of_nat n = (word_of_nat (n div 256) * 256 + word_of_nat (n mod 256) :: 64 word)"
    by (metis div_mult_mod_eq of_nat_add of_nat_mult of_nat_numeral)
  moreover have "push_bit 8 (word_of_nat (n div 256) :: 64 word) = word_of_nat (n div 256) * 256"
    by (simp add: push_bit_eq_mult)
  ultimately show ?case using 1
    by (subst nat_bytes.simps) (auto simp: exponent_of_def)
qed

text \<open>A public key survives its JWK when the exponent is one that RSA and a Go \<open>int\<close> allow.\<close>

lemma jwk_roundtrip_key:
  assumes "3 \<le> e" "e < 2 ^ 63"
  shows "publicKeyOfJWK (jwkFromPublicKey kid (n, e)) = Some (n, e)"
proof -
  have "sint (word_of_nat e :: 64 word) = int e"
    using assms by (simp add: signed_of_nat signed_take_bit_int_eq_self)
  then show ?thesis using assms
    by (simp add: publicKeyOfJWK_def jwkFromPublicKey_def jwk_field_def base64_roundtrip
        bytes_nat_bytes exponent_bytes)
qed

section \<open>The key manager\<close>

record SigningKey =
  Kid :: string
  PrivateKey :: string

definition active_key :: "keydb \<Rightarrow> signing_key option" where
  "active_key d = find sk_active (signing_keys d)"

definition retire_key :: "instant \<Rightarrow> signing_key \<Rightarrow> signing_key" where
  "retire_key now k = k\<lparr>sk_active := False, sk_retired := Some now\<rparr>"

definition retire_keys :: "instant \<Rightarrow> keydb \<Rightarrow> keydb option" where
  "retire_keys now d = Some (d\<lparr>signing_keys := update_where sk_active (retire_key now) (signing_keys d)\<rparr>)"

text \<open>\<open>kid\<close> is unique, and so is the active row (\<open>signing_keys_single_active_idx\<close>).\<close>

definition insert_key :: "string \<Rightarrow> string \<Rightarrow> (string \<times> string) list \<Rightarrow> instant \<Rightarrow> keydb \<Rightarrow> keydb option" where
  "insert_key kid encrypted jwk now d =
     (if exists_where (\<lambda>k. sk_kid k = kid \<or> sk_active k) (signing_keys d) then None
      else Some (d\<lparr>signing_keys := signing_keys d @
        [\<lparr>sk_kid = kid, sk_encrypted = encrypted, sk_jwk = jwk, sk_active = True, sk_created_at = now,
          sk_retired = None\<rparr>]\<rparr>))"

definition Rotate :: "server \<Rightarrow> (st, unit + SigningKey) state" where
  "Rotate S =
     orfail (key_begin S) (\<lambda>_. ()) (\<lambda>v0.
     orfail (key_tx_exec S v0 (\<lambda>_ d. Some d)) (\<lambda>_. ()) (\<lambda>v1. do {
       found \<leftarrow> key_tx_query S v1 (\<lambda>_ d. active_key d);
       orfail (case found of
           Inr _ \<Rightarrow> key_tx_exec S v1 retire_keys
         | Inl e \<Rightarrow> State_Monad.return (if e = NoRows then Inr v1 else Inl e)) (\<lambda>_. ()) (\<lambda>v2. do {
       n \<leftarrow> next_draw;
       case rsa_generate S n of
         None \<Rightarrow> State_Monad.return (Inl ())
       | Some private \<Rightarrow>
           check_some (RandomToken S 12) (State_Monad.return (Inl ())) (\<lambda>kid.
           check_some (encryptPrivateKey S kid private) (State_Monad.return (Inl ())) (\<lambda>encrypted.
           orfail (key_tx_exec S v2 (insert_key kid encrypted (jwkFromPublicKey kid (rsa_public S private))))
             (\<lambda>_. ()) (\<lambda>v3.
           orfail (key_commit S v3) (\<lambda>_. ()) (\<lambda>_.
           State_Monad.return (Inr \<lparr>Kid = kid, PrivateKey = private\<rparr>)))))
       })
     }))"

definition Active :: "server \<Rightarrow> (st, unit + SigningKey) state" where
  "Active S = do {
     found \<leftarrow> key_query S (\<lambda>_ d. active_key d);
     case found of
       Inr k \<Rightarrow> State_Monad.return (case decryptPrivateKey S (sk_kid k) (sk_encrypted k) of
           None \<Rightarrow> Inl ()
         | Some private \<Rightarrow> Inr \<lparr>Kid = sk_kid k, PrivateKey = private\<rparr>)
     | Inl DbError \<Rightarrow> State_Monad.return (Inl ())
     | Inl NoRows \<Rightarrow> Rotate S
   }"

definition newest_first :: "signing_key \<Rightarrow> signing_key \<Rightarrow> bool" where
  "newest_first a b \<longleftrightarrow> sk_active a \<and> \<not> sk_active b
     \<or> sk_active a = sk_active b \<and> sk_created_at a \<ge> sk_created_at b"

definition JWKS :: "server \<Rightarrow> (st, unit + (string \<times> string) list list) state" where
  "JWKS S = orfail (key_rows S (\<lambda>_ d. Some (order_by newest_first (signing_keys d)))) (\<lambda>_. ()) (\<lambda>(rows, failed).
     State_Monad.return (if failed then Inl () else Inr (map sk_jwk rows)))"

definition PublicKeyByKID :: "server \<Rightarrow> string \<Rightarrow> (st, unit + nat \<times> nat) state" where
  "PublicKeyByKID S kid =
     orfail (key_query S (\<lambda>_ d. find (\<lambda>k. sk_kid k = kid) (signing_keys d))) (\<lambda>_. ()) (\<lambda>k.
     State_Monad.return (case publicKeyOfJWK (sk_jwk k) of None \<Rightarrow> Inl () | Some key \<Rightarrow> Inr key))"

section \<open>The key manager is a key ring\<close>

text \<open>What \<open>Rotate\<close> does to the ring, and that it touches nothing else of the state.\<close>

definition ring_step :: "keydb \<Rightarrow> instant \<Rightarrow> unit + SigningKey \<Rightarrow> keydb \<Rightarrow> bool" where
  "ring_step d now x d' \<longleftrightarrow> (case x of
     Inl _ \<Rightarrow> d' = d
   | Inr k \<Rightarrow> (\<exists>new. d' = d\<lparr>signing_keys := update_where sk_active (retire_key now) (signing_keys d) @ [new]\<rparr>
       \<and> sk_active new \<and> sk_kid new = Kid k \<and> Kid k \<notin> sk_kid ` set (signing_keys d)))"

lemma update_where_none: "find p xs = None \<Longrightarrow> update_where p f xs = xs"
  by (induction xs) (auto simp: update_where_def find_None_iff split: if_splits)

lemma update_idem: "(\<And>r. \<not> p (f r)) \<Longrightarrow> \<not> exists_where p (update_where p f xs)"
  unfolding exists_where_iff by (metis in_update_where)

lemma retire_key_simps [simp]: "\<not> sk_active (retire_key now k)" "sk_kid (retire_key now k) = sk_kid k"
  by (simp_all add: retire_key_def)

lemma kid_in_retired:
  "exists_where (\<lambda>k. sk_kid k = kid) (update_where sk_active (retire_key now) ks) \<longleftrightarrow> kid \<in> sk_kid ` set ks"
proof -
  have "map sk_kid (update_where sk_active (retire_key now) ks) = map sk_kid ks"
    by (rule map_update_where) simp
  then have "sk_kid ` set (update_where sk_active (retire_key now) ks) = sk_kid ` set ks"
    by (metis set_map)
  moreover have "exists_where (\<lambda>k. sk_kid k = kid) xs \<longleftrightarrow> kid \<in> sk_kid ` set xs" for xs :: "signing_key list"
    by (auto simp: exists_where_iff)
  ultimately show ?thesis by (simp only:)
qed

lemma final_encryptPrivateKey [simp]:
  "main (final (encryptPrivateKey S kid key) s) = main s" "keys (final (encryptPrivateKey S kid key) s) = keys s"
  "redis (final (encryptPrivateKey S kid key) s) = redis s" "ios (final (encryptPrivateKey S kid key) s) = ios s"
  "go_now (final (encryptPrivateKey S kid key) s) = go_now s"
  "pg_now (final (encryptPrivateKey S kid key) s) = pg_now s"
  "redis_now (final (encryptPrivateKey S kid key) s) = redis_now s"
  "uuids (final (encryptPrivateKey S kid key) s) = uuids s"
proof -
  have "wp (encryptPrivateKey S kid key) (\<lambda>_ t. t = s\<lparr>draws := draws t\<rparr>) s"
    by (auto simp: encryptPrivateKey_encrypt wp split: option.splits)
  then have "final (encryptPrivateKey S kid key) s = s\<lparr>draws := draws (final (encryptPrivateKey S kid key) s)\<rparr>"
    by (simp add: wp_result)
  then obtain n where "final (encryptPrivateKey S kid key) s = s\<lparr>draws := n\<rparr>" by blast
  then show "main (final (encryptPrivateKey S kid key) s) = main s" "keys (final (encryptPrivateKey S kid key) s) = keys s"
    "redis (final (encryptPrivateKey S kid key) s) = redis s" "ios (final (encryptPrivateKey S kid key) s) = ios s"
    "go_now (final (encryptPrivateKey S kid key) s) = go_now s"
    "pg_now (final (encryptPrivateKey S kid key) s) = pg_now s"
    "redis_now (final (encryptPrivateKey S kid key) s) = redis_now s"
    "uuids (final (encryptPrivateKey S kid key) s) = uuids s"
    by simp_all
qed

lemmas wp_encryptPrivateKey [wp] = wp_result [of "encryptPrivateKey S kid key" for S kid key]

lemma active_key_cases:
  "active_key d = None \<Longrightarrow> \<not> exists_where sk_active (signing_keys d)"
  by (simp add: active_key_def find_None_iff exists_where_iff)

lemma update_where_inactive: "\<not> exists_where p xs \<Longrightarrow> update_where p f xs = xs"
  by (auto simp: exists_where_iff update_where_def intro: map_idI)

text \<open>The only write to the ring that can succeed after the current key was retired.\<close>

lemma insert_key_step:
  assumes i: "insert_key kid encrypted jwk now v = Some v'"
    and v: "v = d \<and> active_key d = None \<or> retire_keys now d = Some v"
  shows "ring_step d now (Inr \<lparr>Kid = kid, PrivateKey = pk\<rparr>) v'"
proof -
  have v': "v = d\<lparr>signing_keys := update_where sk_active (retire_key now) (signing_keys d)\<rparr>"
    using v by (auto simp: retire_keys_def update_where_inactive active_key_cases)
  then have "kid \<notin> sk_kid ` set (signing_keys d)"
    using i kid_in_retired [of kid now "signing_keys d"]
    by (auto simp: insert_key_def exists_where_iff split: if_splits)
  then show ?thesis using i v'
    by (auto simp: insert_key_def ring_step_def split: if_splits)
qed

lemma Rotate_step:
  "wp (Rotate S) (\<lambda>x t. ring_step (keys s) (pg_now s) x (keys t) \<and> main t = main s \<and> redis t = redis s
     \<and> go_now t = go_now s \<and> pg_now t = pg_now s \<and> redis_now t = redis_now s \<and> uuids t = uuids s) s"
proof -
  have err: "ring_step d now (Inl ()) d" for d now by (simp add: ring_step_def)
  show ?thesis unfolding Rotate_def
    by (auto simp: wp err query_result_def exec_result_def intro: insert_key_step
        split: option.splits sum.splits if_splits)
qed

lemma Rotate_ring:
  assumes "run_state (Rotate S) s = (x, t)"
  shows "ring_step (keys s) (pg_now s) x (keys t)"
  using wp_run [OF Rotate_step assms] by blast

interpretation oidc_keys: key_ring signing_keys sk_active sk_kid retire_key "Rotate S"
proof unfold_locales
  fix s k t assume "run_state (Rotate S) s = (Inr k, t)"
  from Rotate_ring [OF this] show "\<exists>now new. signing_keys (keys t) =
      update_where sk_active (retire_key now) (signing_keys (keys s)) @ [new] \<and> sk_active new
      \<and> sk_kid new \<notin> sk_kid ` set (signing_keys (keys s))"
    by (auto simp: ring_step_def intro!: exI [of _ "pg_now s"])
next
  fix s e t assume "run_state (Rotate S) s = (Inl e, t)"
  from Rotate_ring [OF this] show "signing_keys (keys t) = signing_keys (keys s)"
    by (simp add: ring_step_def)
qed simp_all

text \<open>\<open>Active\<close> returns an error, the decrypted active key, or the key of a rotation.\<close>

definition active_step :: "server \<Rightarrow> keydb \<Rightarrow> instant \<Rightarrow> unit + SigningKey \<Rightarrow> keydb \<Rightarrow> bool" where
  "active_step S d now x d' \<longleftrightarrow>
     x = Inl () \<and> d' = d
     \<or> (\<exists>k p. x = Inr \<lparr>Kid = sk_kid k, PrivateKey = p\<rparr> \<and> active_key d = Some k \<and> d' = d
          \<and> decryptPrivateKey S (sk_kid k) (sk_encrypted k) = Some p)
     \<or> active_key d = None \<and> ring_step d now x d'"

lemma wp_Active_step:
  "wp (Active S) (\<lambda>x t. active_step S (keys s) (pg_now s) x (keys t) \<and> main t = main s \<and> redis t = redis s
     \<and> go_now t = go_now s \<and> pg_now t = pg_now s \<and> redis_now t = redis_now s \<and> uuids t = uuids s) s"
proof -
  have rot: "active_key (keys s) = None \<Longrightarrow> wp (Rotate S) (\<lambda>x t. (x = Inl () \<and> keys t = keys s
      \<or> ring_step (keys s) (pg_now s) x (keys t)) \<and> main t = main s \<and> redis t = redis s \<and> go_now t = go_now s \<and> pg_now t = pg_now s \<and> redis_now t = redis_now s \<and> uuids t = uuids s)
      (tick s)"
    by (rule wp_mono [OF Rotate_step]) auto
  show ?thesis unfolding Active_def
    using rot by (auto simp: wp query_result_def active_step_def split: option.splits sum.splits dberr.splits)
qed

text \<open>So nothing but the key ring and the counters changes.\<close>

lemma keeps_data_Active: "keeps_data (Active S)"
  by (rule keeps_dataI) (rule wp_mono [OF wp_Active_step], simp)

lemmas final_Active [simp] = keeps_data_simps [OF keeps_data_Active]
lemmas wp_Active [wp] = wp_result [of "Active S" for S]

lemma reads_only_PublicKeyByKID: "reads_only (PublicKeyByKID S kid)"
  by (rule reads_onlyI) (auto simp: PublicKeyByKID_def wp split: sum.splits option.splits)

lemmas final_PublicKeyByKID [simp] = reads_only_simps [OF reads_only_PublicKeyByKID]
lemmas wp_PublicKeyByKID [wp] = wp_result [of "PublicKeyByKID S kid" for S kid]

end
