(* ===== verification/Scope.thy ===== *)
theory Scope imports Http begin

text \<open>
  Scope strings and PKCE, the pure part of \<open>backend/internal/httpapi/oauth.go\<close>.

  A scope string is split at white space, each scope is checked rune by rune, duplicates are
  dropped, and what is stored is the join of the rest. The main result is that this
  normalisation is idempotent, so a stored scope string is read back as the very list of scopes
  that was checked against the client's. It rests on UTF-8 decoding being compositional at the
  boundaries of decoded runes.
\<close>

section \<open>Membership\<close>

fun contains :: "string list \<Rightarrow> string \<Rightarrow> bool" where
  "contains [] target = False"
| "contains (v # vs) target = (v = target \<or> contains vs target)"

definition containsAll :: "string list \<Rightarrow> string list \<Rightarrow> bool" where
  "containsAll allowed requested = list_all (contains allowed) requested"

fun merge_loop :: "string list \<Rightarrow> string list \<Rightarrow> string list" where
  "merge_loop out [] = out"
| "merge_loop out (v # vs) = merge_loop (if contains out v then out else out @ [v]) vs"

definition mergeScopes :: "string list \<Rightarrow> string list \<Rightarrow> string list" where
  "mergeScopes a b = merge_loop a b"

definition audienceContains :: "string list \<Rightarrow> string \<Rightarrow> bool" where
  "audienceContains values target = contains values target"

lemma contains_iff [simp]: "contains vs t \<longleftrightarrow> t \<in> set vs"
  by (induction vs) auto

lemma containsAll_iff [simp]: "containsAll allowed requested \<longleftrightarrow> set requested \<subseteq> set allowed"
  by (auto simp: containsAll_def list_all_iff)

lemma set_merge_loop: "set (merge_loop out vs) = set out \<union> set vs"
  by (induction out vs rule: merge_loop.induct) auto

lemma distinct_merge_loop: "distinct out \<Longrightarrow> distinct (merge_loop out vs)"
  by (induction out vs rule: merge_loop.induct) auto

lemma merge_loop_id: "set vs \<subseteq> set out \<Longrightarrow> merge_loop out vs = out"
  by (induction out vs rule: merge_loop.induct) auto

section \<open>Splitting a scope string\<close>

definition scope_rune_ok :: "nat \<Rightarrow> bool" where
  "scope_rune_ok ch \<longleftrightarrow> \<not> (ch \<le> 32 \<or> ch = 127 \<or> ch = 34 \<or> ch = 92)"

fun split_loop :: "string list \<Rightarrow> string list \<Rightarrow> string list option" where
  "split_loop [] out = Some out"
| "split_loop (scope # ws) out =
     (if scope = [] then None
      else if \<not> list_all scope_rune_ok (runes scope) then None
      else split_loop ws (if contains out scope then out else out @ [scope]))"

definition splitScope :: "string \<Rightarrow> string list option" where
  "splitScope raw = (case split_loop (strings_Fields raw) [] of
     None \<Rightarrow> None
   | Some out \<Rightarrow> if out = [] then None else Some out)"

text \<open>\<open>scopes, _ := splitScope(scope)\<close>: the nil slice on an error.\<close>

definition scopes_or_nil :: "string \<Rightarrow> string list" where
  "scopes_or_nil raw = (case splitScope raw of None \<Rightarrow> [] | Some out \<Rightarrow> out)"

definition normalizeRequestedScope :: "string \<Rightarrow> (string \<times> string list) option" where
  "normalizeRequestedScope raw = (case splitScope raw of
     None \<Rightarrow> None
   | Some scopes \<Rightarrow> Some (strings_Join scopes '' '', scopes))"

lemma split_loop_props:
  "split_loop ws out = Some res \<Longrightarrow> distinct out \<Longrightarrow>
     set res = set out \<union> set ws \<and> distinct res
     \<and> (\<forall>w \<in> set ws. w \<noteq> [] \<and> list_all scope_rune_ok (runes w))"
proof (induction ws out arbitrary: res rule: split_loop.induct)
  case (2 w ws out)
  have ok: "w \<noteq> []" "list_all scope_rune_ok (runes w)"
    and rec: "split_loop ws (if contains out w then out else out @ [w]) = Some res"
    using "2.prems"(1) by (auto split: if_splits)
  have "distinct (if contains out w then out else out @ [w])" using "2.prems"(2) by simp
  note ih = "2.IH" [OF _ _ rec this]
  show ?case using ih ok by (cases "contains out w") auto
qed simp

lemma split_loop_fixed:
  "distinct (out @ ws) \<Longrightarrow> \<forall>w \<in> set ws. w \<noteq> [] \<and> list_all scope_rune_ok (runes w) \<Longrightarrow>
     split_loop ws out = Some (out @ ws)"
  by (induction ws arbitrary: out) auto

section \<open>Decoding is compositional\<close>

lemma utf8_seq_extend:
  "utf8_seq b (map of_char (take 3 p)) = Some rk \<Longrightarrow>
     utf8_seq b (map of_char (take 3 (p @ q))) = Some rk"
proof -
  assume a: "utf8_seq b (map of_char (take 3 p)) = Some rk"
  consider "p = []" | c where "p = [c]" | c d where "p = [c, d]"
    | c d e p' where "p = c # d # e # p'"
    by (metis list.exhaust)
  then show ?thesis
  proof cases
    case 2 then show ?thesis using a by (cases q; cases "tl q") (auto simp: Let_def split: if_splits list.splits)
  next
    case 3 then show ?thesis using a by (cases q) (auto split: if_splits list.splits)
  qed (use a in \<open>simp_all add: numeral_3_eq_3\<close>)
qed

lemma utf8_seq_restrict:
  "utf8_seq b (map of_char (take 3 (p @ q))) = Some (r, k) \<Longrightarrow> k \<le> length p \<Longrightarrow>
     utf8_seq b (map of_char (take 3 p)) = Some (r, k)"
proof -
  assume a: "utf8_seq b (map of_char (take 3 (p @ q))) = Some (r, k)" and k: "k \<le> length p"
  have pos: "0 < k"
    using a by (cases "map of_char (take 3 (p @ q)) :: nat list") (auto split: if_splits list.splits)
  consider "p = []" | c where "p = [c]" | c d where "p = [c, d]"
    | c d e p' where "p = c # d # e # p'"
    by (metis list.exhaust)
  then show ?thesis
  proof cases
    case 2 then show ?thesis using a k by (auto split: if_splits list.splits)
  next
    case 3 then show ?thesis using a k by (auto split: if_splits list.splits)
  qed (use a k pos in \<open>simp_all add: numeral_3_eq_3\<close>)
qed

lemma chunks_suffix: "chunks s = xs @ ys \<Longrightarrow> chunks (unchunks ys) = ys"
proof (induction s arbitrary: xs rule: chunks.induct)
  case (2 c cs)
  show ?case
  proof (cases xs)
    case Nil
    then show ?thesis using "2.prems" by (metis append_Nil unchunks_chunks)
  next
    case (Cons x xs')
    then show ?thesis
      using 2 by (auto split: if_splits option.splits)
  qed
qed (simp add: unchunks_def)

lemma chunks_prefix: "chunks s = xs @ ys \<Longrightarrow> chunks (unchunks xs) = xs"
proof (induction s arbitrary: xs rule: chunks.induct)
  case (2 c cs)
  show ?case
  proof (cases xs)
    case Nil
    then show ?thesis by (simp add: unchunks_def)
  next
    case (Cons x xs')
    define rest where "rest = unchunks (xs' @ ys)"
    show ?thesis
    proof (cases "utf8_seq (of_char c) (map of_char (take 3 cs))")
      case None
      let ?r = "if of_char c < (128::nat) then of_char c else runeError"
      have *: "x = (?r, [c])" "chunks cs = xs' @ ys"
        using "2.prems" Cons None by (auto split: if_splits)
      then have cs: "cs = unchunks xs' @ unchunks ys" by (metis unchunks_append unchunks_chunks)
      have none: "utf8_seq (of_char c) (map of_char (take 3 (unchunks xs'))) = None"
        using None utf8_seq_extend cs by (metis option.exhaust)
      have "chunks (unchunks xs') = xs'"
        using 2 * None by (cases "of_char c < (128::nat)") auto
      then show ?thesis using none * Cons by (simp add: unchunks_def)
    next
      case (Some rk)
      obtain r k where rk: "rk = (r, k)" by (cases rk)
      show ?thesis
      proof (cases "of_char c < (128::nat)")
        case True
        then have *: "x = (of_char c, [c])" "chunks cs = xs' @ ys" using "2.prems" Cons by auto
        then show ?thesis using True 2 Cons by (auto simp: unchunks_def)
      next
        case False
        have *: "x = (r, c # take k cs)" "chunks (drop k cs) = xs' @ ys"
          using "2.prems" Cons Some rk False by auto
        have ih: "chunks (unchunks xs') = xs'" using 2 * Some rk False by auto
        have "drop k cs = unchunks xs' @ unchunks ys"
          using *(2) by (metis unchunks_append unchunks_chunks)
        then have cs: "cs = (take k cs @ unchunks xs') @ unchunks ys"
          by (metis append.assoc append_take_drop_id)
        have klen: "k \<le> length cs"
          using Some rk by (cases cs; cases "tl cs"; cases "tl (tl cs)") (auto split: if_splits)
        have "utf8_seq (of_char c) (map of_char (take 3 (take k cs @ unchunks xs'))) = Some (r, k)"
          by (rule utf8_seq_restrict [of _ _ "unchunks ys"]) (use Some rk cs klen in auto)
        then show ?thesis using Cons * ih False klen by (simp add: unchunks_def)
      qed
    qed
  qed
qed (simp add: unchunks_def)

lemma utf8_seq_stop:
  assumes none: "utf8_seq b (map of_char (take 3 p)) = None" and c: "of_char c < (128::nat)"
  shows "utf8_seq b (map of_char (take 3 (p @ c # q))) = None"
proof -
  have nc: "\<not> is_cont (of_char c)" using c by (simp add: is_cont_def)
  consider "p = []" | d where "p = [d]" | d e where "p = [d, e]"
    | d e f p' where "p = d # e # f # p'"
    by (metis list.exhaust)
  then show ?thesis
  proof cases
    case 1 then show ?thesis using nc by (cases q; cases "tl q") (auto simp: Let_def)
  next
    case 2 then show ?thesis using nc none by (cases q) (auto simp: Let_def split: if_splits)
  next
    case 3 then show ?thesis using nc none by (auto simp: Let_def split: if_splits)
  qed (use none in \<open>simp_all add: numeral_3_eq_3\<close>)
qed

lemma chunks_append_ascii:
  "of_char c < (128::nat) \<Longrightarrow> chunks (a @ c # b) = chunks a @ chunks (c # b)"
proof (induction a rule: chunks.induct)
  case (2 d cs)
  note c = "2.prems"
  show ?case
  proof (cases "of_char d < (128::nat)")
    case True
    then show ?thesis using 2 by simp
  next
    case False
    show ?thesis
    proof (cases "utf8_seq (of_char d) (map of_char (take 3 cs))")
      case None
      then have "utf8_seq (of_char d) (map of_char (take 3 (cs @ c # b))) = None"
        using c utf8_seq_stop by blast
      then show ?thesis using None False 2 by simp
    next
      case (Some rk)
      obtain r k where rk: "rk = (r, k)" by (cases rk)
      have klen: "k \<le> length cs"
        using Some rk by (cases cs; cases "tl cs"; cases "tl (tl cs)") (auto split: if_splits)
      have "utf8_seq (of_char d) (map of_char (take 3 (cs @ c # b))) = Some (r, k)"
        using Some rk utf8_seq_extend by blast
      then show ?thesis using Some rk False 2 klen by simp
    qed
  qed
qed simp

section \<open>Fields and their join\<close>

abbreviation word :: "string \<Rightarrow> bool" where
  "word w \<equiv> w \<noteq> [] \<and> (\<forall>r \<in> set (runes w). \<not> isSpace r)"

lemma fields_of_words:
  "chunks s = pre @ cur @ cs \<Longrightarrow> \<forall>(r, c) \<in> set cur. \<not> isSpace r \<Longrightarrow>
     w \<in> set (fields_of cs (unchunks cur)) \<Longrightarrow> word w"
proof (induction cs arbitrary: pre cur)
  case Nil
  have "chunks (unchunks cur) = cur" using Nil(1) chunks_suffix by auto
  then show ?case using Nil by (auto simp: runes_def split: if_splits)
next
  case (Cons x cs)
  obtain r c where x: "x = (r, c)" by (cases x)
  have cur: "chunks (unchunks cur) = cur"
    using Cons.prems(1) by (metis chunks_prefix chunks_suffix)
  show ?case
  proof (cases "isSpace r")
    case True
    have "chunks s = (pre @ cur @ [x]) @ [] @ cs" using Cons.prems(1) by simp
    from Cons.IH [OF this] have "w \<in> set (fields_of cs []) \<Longrightarrow> word w"
      by (simp add: unchunks_def)
    then show ?thesis using Cons.prems x True cur by (auto simp: runes_def split: if_splits)
  next
    case False
    have "chunks s = pre @ (cur @ [x]) @ cs" using Cons.prems(1) by simp
    from Cons.IH [OF this] show ?thesis using Cons.prems x False
      by (auto simp: unchunks_def)
  qed
qed

lemma strings_Fields_words: "w \<in> set (strings_Fields s) \<Longrightarrow> word w"
  using fields_of_words [of s "[]" "[]" "chunks s" w] by (simp add: strings_Fields_def unchunks_def)

lemma fields_of_nonspace:
  "\<forall>(r, c) \<in> set xs. \<not> isSpace r \<Longrightarrow> fields_of (xs @ ys) cur = fields_of ys (cur @ unchunks xs)"
  by (induction xs arbitrary: cur) (auto simp: unchunks_def)

lemma fields_word_cons:
  assumes w: "word w"
  shows "strings_Fields w = [w]" "strings_Fields (w @ '' '' @ s) = w # strings_Fields s"
proof -
  have ns: "\<forall>(r, c) \<in> set (chunks w). \<not> isSpace r" using w by (force simp: runes_def)
  show "strings_Fields w = [w]"
    using fields_of_nonspace [OF ns, of "[]" "[]"] w by (simp add: strings_Fields_def)
  have "chunks (w @ '' '' @ s) = chunks w @ (32, '' '') # chunks s"
    using chunks_append_ascii [of "CHR '' ''" w s] by simp
  then show "strings_Fields (w @ '' '' @ s) = w # strings_Fields s"
    using fields_of_nonspace [OF ns, of "(32, '' '') # chunks s" "[]"] w
    by (simp add: strings_Fields_def isSpace_def)
qed

lemma fields_join: "\<forall>w \<in> set ws. word w \<Longrightarrow> strings_Fields (strings_Join ws '' '') = ws"
proof (induction ws "'' ''" rule: strings_Join.induct)
  case 1
  then show ?case by (simp add: strings_Fields_def)
next
  case (2 w)
  then show ?case using fields_word_cons by simp
next
  case (3 w v ws)
  then show ?case using fields_word_cons(2) [of w] by simp
qed

lemma splitScope_props:
  "splitScope raw = Some scopes \<Longrightarrow> scopes \<noteq> [] \<and> distinct scopes
     \<and> set scopes = set (strings_Fields raw)
     \<and> (\<forall>w \<in> set scopes. w \<noteq> [] \<and> list_all scope_rune_ok (runes w))"
  unfolding splitScope_def using split_loop_props [of "strings_Fields raw" "[]"]
  by (auto split: option.splits if_splits)

lemma splitScope_join:
  assumes s: "splitScope raw = Some scopes"
  shows "splitScope (strings_Join scopes '' '') = Some scopes"
proof -
  note props = splitScope_props [OF s]
  then have "strings_Fields (strings_Join scopes '' '') = scopes"
    using strings_Fields_words fields_join by metis
  then show ?thesis
    using props split_loop_fixed [of "[]" scopes] by (simp add: splitScope_def)
qed

lemma normalized_scopes:
  "normalizeRequestedScope raw = Some (scope, scopes) \<Longrightarrow> splitScope scope = Some scopes \<and> scopes_or_nil scope = scopes"
  by (auto simp: normalizeRequestedScope_def scopes_or_nil_def splitScope_join split: option.splits)

section \<open>PKCE\<close>

definition pkce_rune_ok :: "nat \<Rightarrow> bool" where
  "pkce_rune_ok c \<longleftrightarrow> 97 \<le> c \<and> c \<le> 122 \<or> 65 \<le> c \<and> c \<le> 90 \<or> 48 \<le> c \<and> c \<le> 57
     \<or> c \<in> set (runes ''-._~'')"

definition validPKCEVerifier :: "string \<Rightarrow> bool" where
  "validPKCEVerifier v \<longleftrightarrow> \<not> (length v < 43 \<or> length v > 128) \<and> list_all pkce_rune_ok (runes v)"

definition verifyPKCE :: "string \<Rightarrow> string \<Rightarrow> bool" where
  "verifyPKCE verifier expected \<longleftrightarrow> validPKCEVerifier verifier
     \<and> base64_encode True (sha256_string verifier) = expected"

text \<open>A verifier that passes is pure ASCII: an invalid byte decodes to a rune that is refused.\<close>

lemma pkce_runes_ascii:
  "list_all pkce_rune_ok (runes v) \<Longrightarrow> ascii v"
proof (induction v rule: chunks.induct)
  case (2 c cs)
  show ?case
  proof (cases "of_char c < (128::nat)")
    case True
    then show ?thesis using 2 by (auto simp: runes_def ascii_def)
  next
    case False
    have small: "pkce_rune_ok r \<Longrightarrow> r < 128" for r
      by (auto simp: pkce_rune_ok_def runes_def)
    show ?thesis
    proof (cases "utf8_seq (of_char c) (map of_char (take 3 cs))")
      case None
      then show ?thesis using 2 False small [of runeError] by (simp add: runes_def runeError_def)
    next
      case (Some rk)
      obtain r k where rk: "rk = (r, k)" by (cases rk)
      have "128 \<le> r"
        using Some rk by (cases cs; cases "tl cs"; cases "tl (tl cs)") (auto simp: is_cont_def split: if_splits)
      moreover have "pkce_rune_ok r" using "2.prems" Some rk False by (simp add: runes_def)
      ultimately show ?thesis using small [of r] by simp
    qed
  qed
qed (simp add: ascii_def)

end
