(* ===== verification/Tokens.thy ===== *)
theory Tokens imports Auth Keys Scope begin

text \<open>
  The token machinery of \<open>backend/internal/httpapi/oauth.go\<close>: clients and their
  authentication, issuing and storing access, ID and refresh tokens and authorization codes,
  parsing JWTs, and the redirects that carry codes and errors.

  The JWT library is a parameter: \<open>jwt_sign\<close> signs, \<open>jwt_header\<close> reads the algorithm and key
  identifier of a token, \<open>jwt_check\<close> verifies signature, issuer and expiry.
\<close>

record oauthClient =
  ApplicationID :: uuid
  Name :: string
  ClientID :: string
  SecretHash :: "string option"
  Public :: bool
  RequirePKCE :: bool
  AllowedScopes :: "string list"
  AccessTTL :: int
  IDTTL :: int
  RefreshTTL :: int

section \<open>Clients\<close>

definition client_of :: "oauth_client_row \<times> application \<Rightarrow> oauthClient" where
  "client_of ca = (case ca of (c, a) \<Rightarrow>
     \<lparr>ApplicationID = a_id a, Name = a_name a, ClientID = oc_client_id c, SecretHash = oc_secret_hash c,
      Public = oc_public c, RequirePKCE = oc_require_pkce c, AllowedScopes = oc_scopes c,
      AccessTTL = oc_access_ttl c, IDTTL = oc_id_ttl c, RefreshTTL = oc_refresh_ttl c\<rparr>)"

definition client_row :: "string \<Rightarrow> oauthClient query" where
  "client_row clientID now d = map_option client_of (find (\<lambda>(c, a). oc_client_id c = clientID \<and> a_enabled a)
     (join (\<lambda>c a. a_id a = oc_app c) (oauth_clients d) (applications d)))"

definition loadOAuthClient :: "server \<Rightarrow> string \<Rightarrow> (st, dberr + oauthClient) state" where
  "loadOAuthClient S clientID = query S (client_row clientID)"

definition client_credentials :: "request \<Rightarrow> string \<times> string \<times> bool" where
  "client_credentials r = (case rq_basic r of
     Some (user, pass) \<Rightarrow> (user, pass, True)
   | None \<Rightarrow> (form r ''client_id'', form r ''client_secret'', False))"

definition client_admitted :: "oauthClient \<Rightarrow> string \<Rightarrow> bool \<Rightarrow> bool" where
  "client_admitted c secret hasBasic =
     (if Public c then \<not> (hasBasic \<or> secret \<noteq> [])
      else if secret = [] then False
      else case SecretHash c of None \<Rightarrow> False | Some h \<Rightarrow> SHA256String secret = h)"

definition authenticateOAuthClient :: "server \<Rightarrow> request \<Rightarrow> (st, unit + oauthClient) state" where
  "authenticateOAuthClient S r = (case client_credentials r of (clientID, secret, hasBasic) \<Rightarrow>
     if clientID = [] then State_Monad.return (Inl ())
     else orfail (loadOAuthClient S clientID) (\<lambda>_. ()) (\<lambda>c.
       State_Monad.return (if client_admitted c secret hasBasic then Inr c else Inl ())))"

section \<open>Authorization codes\<close>

definition insert_code ::
  "uuid \<Rightarrow> string \<Rightarrow> uuid \<Rightarrow> uuid \<Rightarrow> string \<Rightarrow> string \<Rightarrow> string \<Rightarrow> string \<Rightarrow> statement" where
  "insert_code cid hash app uid redirect scope nonce challenge now d =
     (if exists_where (\<lambda>c. cd_id c = cid \<or> cd_hash c = hash) (auth_codes d)
         \<or> \<not> exists_where (\<lambda>a. a_id a = app) (applications d)
         \<or> \<not> exists_where (\<lambda>u. u_id u = uid) (users d) then None
      else Some (1, d\<lparr>auth_codes := auth_codes d @
        [\<lparr>cd_id = cid, cd_hash = hash, cd_app = app, cd_user = uid, cd_redirect = redirect,
          cd_scope = scope, cd_nonce = nonce, cd_challenge = challenge, cd_expires = now + minutes 2,
          cd_consumed = None\<rparr>]\<rparr>))"

definition storeAuthorizationCode ::
  "server \<Rightarrow> uuid \<Rightarrow> uuid \<Rightarrow> string \<Rightarrow> string \<Rightarrow> string \<Rightarrow> string \<Rightarrow> (st, unit + string) state" where
  "storeAuthorizationCode S app uid redirectURI scope nonce challenge =
     check_some (RandomToken S 32) (State_Monad.return (Inl ())) (\<lambda>code. do {
       cid \<leftarrow> new_uuid S;
       orfail (exec S (insert_code cid (SHA256String code) app uid redirectURI scope nonce challenge)) (\<lambda>_. ())
         (\<lambda>_. State_Monad.return (Inr code))
     })"

definition redirectAuthorizationCode :: "server \<Rightarrow> string \<Rightarrow> string \<Rightarrow> string \<Rightarrow> response" where
  "redirectAuthorizationCode S redirectURI ostate code = (case url_Parse (udata S) redirectURI of
     None \<Rightarrow> Panicked
   | Some _ \<Rightarrow> Redirect redirectURI [(''code'', code), (''state'', ostate)])"

definition redirectOAuthError :: "server \<Rightarrow> string \<Rightarrow> string \<Rightarrow> string \<Rightarrow> string \<Rightarrow> response" where
  "redirectOAuthError S redirectURI ostate code description = (case url_Parse (udata S) redirectURI of
     None \<Rightarrow> problem 400 description
   | Some _ \<Rightarrow> Redirect redirectURI ([(''error'', code)]
       @ (if description \<noteq> [] then [(''error_description'', description)] else [])
       @ (if ostate \<noteq> [] then [(''state'', ostate)] else [])))"

section \<open>Issuing tokens\<close>

text \<open>\<open>jwt.NewNumericDate\<close> and \<open>Unix()\<close> are whole seconds.\<close>

definition unix :: "instant \<Rightarrow> int" where
  "unix t = t div 1000000"

definition base_claims :: "server \<Rightarrow> string \<Rightarrow> oauthClient \<Rightarrow> instant \<Rightarrow> instant \<Rightarrow> jwt_claims" where
  "base_claims S subject c now expires =
     \<lparr>jc_iss = PublicURL S, jc_sub = subject, jc_aud = [ClientID c], jc_exp = Some (unix expires),
      jc_iat = Some (unix now), jc_jti = [], jc_scope = [], jc_token_use = [], jc_nonce = [], jc_name = [],
      jc_preferred_username = [], jc_email = [], jc_email_verified = None, jc_groups = []\<rparr>"

definition insert_access_token ::
  "uuid \<Rightarrow> uuid \<Rightarrow> uuid option \<Rightarrow> string \<Rightarrow> string \<Rightarrow> instant \<Rightarrow> statement" where
  "insert_access_token jti app uid subject scope expires now d =
     (if exists_where (\<lambda>a. at_jti a = jti) (access_tokens d)
         \<or> \<not> exists_where (\<lambda>a. a_id a = app) (applications d)
         \<or> (case uid of None \<Rightarrow> False | Some u \<Rightarrow> \<not> exists_where (\<lambda>x. u_id x = u) (users d)) then None
      else Some (1, d\<lparr>access_tokens := access_tokens d @
        [\<lparr>at_jti = jti, at_app = app, at_user = uid, at_subject = subject, at_scope = scope,
          at_issued = now, at_expires = expires, at_revoked = None\<rparr>]\<rparr>))"

definition issueAccessToken ::
  "server \<Rightarrow> db \<Rightarrow> oauthClient \<Rightarrow> string \<Rightarrow> uuid option \<Rightarrow> string
    \<Rightarrow> (st, unit + ((string \<times> jval) list \<times> db)) state" where
  "issueAccessToken S v c subject uid scope =
     orfail (Active S) id (\<lambda>key.
     check_some (RandomUUID S) (State_Monad.return (Inl ())) (\<lambda>jti. do {
       now \<leftarrow> time_now;
       let expires = now + seconds (AccessTTL c);
       let claims = (base_claims S subject c now expires)
             \<lparr>jc_jti := jti, jc_scope := scope, jc_token_use := ''access''\<rparr>;
       case jwt_sign S (PrivateKey key) (Kid key) claims of
         None \<Rightarrow> State_Monad.return (Inl ())
       | Some jws \<Rightarrow>
           orfail (tx_exec S v (insert_access_token jti (ApplicationID c) uid subject scope expires)) (\<lambda>_. ())
             (\<lambda>(_, v1). State_Monad.return (Inr
               ([(''access_token'', JStr jws), (''token_type'', JStr ''Bearer''),
                 (''expires_in'', JInt (AccessTTL c)), (''scope'', JStr scope)], v1)))
     }))"

definition group_names :: "server \<Rightarrow> uuid \<Rightarrow> db \<Rightarrow> string list" where
  "group_names S uid d = order_by (collate S) (map (\<lambda>(_, g). g_name g)
     (join (\<lambda>gm g. g_id g = gm_group gm) (filter (\<lambda>gm. gm_user gm = uid) (memberships d)) (groups d)))"

text \<open>An error while reading the groups is not reported: the names read so far are used.\<close>

definition userGroups :: "server \<Rightarrow> uuid \<Rightarrow> (st, string list) state" where
  "userGroups S uid = do {
     e \<leftarrow> query_rows S (\<lambda>_ d. Some (group_names S uid d));
     State_Monad.return (case e of Inl _ \<Rightarrow> [] | Inr (names, _) \<Rightarrow> names)
   }"

definition signIDToken ::
  "server \<Rightarrow> oauthClient \<Rightarrow> uuid \<Rightarrow> string \<Rightarrow> string \<Rightarrow> (st, unit + string) state" where
  "signIDToken S c uid scope nonce =
     orfail (Active S) id (\<lambda>key.
     orfail (query S (\<lambda>_ d. find (\<lambda>u. u_id u = uid) (users d))) (\<lambda>_. ()) (\<lambda>u.
     if \<not> u_active u then State_Monad.return (Inl ())
     else do {
       now \<leftarrow> time_now;
       let scopes = scopes_or_nil scope;
       let c0 = (base_claims S uid c now (now + seconds (IDTTL c)))\<lparr>jc_nonce := nonce\<rparr>;
       let c1 = (if contains scopes ''profile''
                 then c0\<lparr>jc_name := u_display_name u, jc_preferred_username := u_username u\<rparr> else c0);
       let c2 = (if contains scopes ''email''
                 then c1\<lparr>jc_email := u_email u, jc_email_verified := Some False\<rparr> else c1);
       gs \<leftarrow> (if contains scopes ''groups'' then userGroups S uid else State_Monad.return []);
       State_Monad.return (case jwt_sign S (PrivateKey key) (Kid key) (c2\<lparr>jc_groups := gs\<rparr>) of
         None \<Rightarrow> Inl () | Some token \<Rightarrow> Inr token)
     }))"

definition insert_refresh ::
  "uuid \<Rightarrow> string \<Rightarrow> uuid \<Rightarrow> uuid option \<Rightarrow> uuid \<Rightarrow> uuid \<Rightarrow> string \<Rightarrow> instant \<Rightarrow> statement" where
  "insert_refresh rid hash family parent app uid scope expires now d =
     (if exists_where (\<lambda>t. rt_id t = rid \<or> rt_hash t = hash) (refresh_tokens d)
         \<or> (case parent of None \<Rightarrow> False | Some p \<Rightarrow> \<not> exists_where (\<lambda>t. rt_id t = p) (refresh_tokens d))
         \<or> \<not> exists_where (\<lambda>a. a_id a = app) (applications d)
         \<or> \<not> exists_where (\<lambda>u. u_id u = uid) (users d) then None
      else Some (1, d\<lparr>refresh_tokens := refresh_tokens d @
        [\<lparr>rt_id = rid, rt_hash = hash, rt_family = family, rt_parent = parent, rt_app = app, rt_user = uid,
          rt_scope = scope, rt_issued = now, rt_expires = expires, rt_consumed = None, rt_revoked = None\<rparr>]\<rparr>))"

text \<open>The parts of \<open>issueUserTokens\<close> after the access token: the ID token, and the refresh token.\<close>

definition add_id_token ::
  "server \<Rightarrow> oauthClient \<Rightarrow> uuid \<Rightarrow> string \<Rightarrow> string \<Rightarrow> (string \<times> jval) list
    \<Rightarrow> (st, unit + (string \<times> jval) list) state" where
  "add_id_token S c uid scope nonce response =
     (if contains (scopes_or_nil scope) ''openid''
      then orfail (signIDToken S c uid scope nonce) id
             (\<lambda>t. State_Monad.return (Inr (response @ [(''id_token'', JStr t)])))
      else State_Monad.return (Inr response))"

definition add_refresh_token ::
  "server \<Rightarrow> db \<Rightarrow> oauthClient \<Rightarrow> uuid \<Rightarrow> string \<Rightarrow> uuid \<Rightarrow> uuid option \<Rightarrow> (string \<times> jval) list
    \<Rightarrow> (st, unit + ((string \<times> jval) list \<times> db)) state" where
  "add_refresh_token S v c uid scope familyID parentID response =
     check_some (RandomToken S 48) (State_Monad.return (Inl ())) (\<lambda>refresh.
     check_some (if familyID = [] then RandomUUID S else State_Monad.return (Some familyID))
       (State_Monad.return (Inl ())) (\<lambda>family. do {
       now \<leftarrow> time_now;
       rid \<leftarrow> new_uuid S;
       orfail (tx_exec S v (insert_refresh rid (SHA256String refresh) family parentID (ApplicationID c) uid scope
           (now + seconds (RefreshTTL c)))) (\<lambda>_. ())
         (\<lambda>(_, v1). State_Monad.return (Inr (response @ [(''refresh_token'', JStr refresh)], v1)))
     }))"

definition issueUserTokens ::
  "server \<Rightarrow> db \<Rightarrow> oauthClient \<Rightarrow> uuid \<Rightarrow> string \<Rightarrow> string \<Rightarrow> uuid \<Rightarrow> uuid option
    \<Rightarrow> (st, unit + ((string \<times> jval) list \<times> db)) state" where
  "issueUserTokens S v c uid scope nonce familyID parentID =
     orfail (issueAccessToken S v c uid (Some uid) scope) id (\<lambda>(response, v1).
     orfail (add_id_token S c uid scope nonce response) id (\<lambda>response1.
     add_refresh_token S v1 c uid scope familyID parentID response1))"

section \<open>Reading tokens\<close>

definition parseAccessToken :: "server \<Rightarrow> string \<Rightarrow> (st, unit + jwt_claims) state" where
  "parseAccessToken S raw = (case jwt_header S raw of
     None \<Rightarrow> State_Monad.return (Inl ())
   | Some (alg, kid) \<Rightarrow>
       if alg \<noteq> ''RS256'' then State_Monad.return (Inl ())
       else if kid = [] then State_Monad.return (Inl ())
       else orfail (PublicKeyByKID S kid) id (\<lambda>key. do {
         now \<leftarrow> time_now;
         State_Monad.return (case jwt_check S key raw now (PublicURL S) of
           None \<Rightarrow> Inl () | Some claims \<Rightarrow> Inr claims)
       }))"

text \<open>\<open>parseIDToken\<close> has the same body: the two claim types differ only in the fields they name.\<close>

definition parseIDToken :: "server \<Rightarrow> string \<Rightarrow> (st, unit + jwt_claims) state" where
  "parseIDToken S raw = (case jwt_header S raw of
     None \<Rightarrow> State_Monad.return (Inl ())
   | Some (alg, kid) \<Rightarrow>
       if alg \<noteq> ''RS256'' then State_Monad.return (Inl ())
       else if kid = [] then State_Monad.return (Inl ())
       else orfail (PublicKeyByKID S kid) id (\<lambda>key. do {
         now \<leftarrow> time_now;
         State_Monad.return (case jwt_check S key raw now (PublicURL S) of
           None \<Rightarrow> Inl () | Some claims \<Rightarrow> Inr claims)
       }))"

section \<open>What issuing does\<close>

text \<open>Issuing writes to the transaction's view; of the committed state only the keys can change.\<close>

definition active_user :: "db \<Rightarrow> uuid \<Rightarrow> bool" where
  "active_user d uid \<longleftrightarrow> (\<exists>u \<in> set (users d). u_id u = uid \<and> u_active u)"

lemma active_userI: "find (\<lambda>u. u_id u = uid) (users d) = Some u \<Longrightarrow> u_active u \<Longrightarrow> active_user d uid"
  by (auto simp: active_user_def dest!: find_in_set)

definition access_token_for :: "oauthClient \<Rightarrow> string \<Rightarrow> uuid option \<Rightarrow> string \<Rightarrow> instant \<Rightarrow> access_token \<Rightarrow> bool" where
  "access_token_for c subject uid scope now a \<longleftrightarrow> at_app a = ApplicationID c \<and> at_subject a = subject
     \<and> at_user a = uid \<and> at_scope a = scope \<and> at_expires a = now + seconds (AccessTTL c) \<and> at_revoked a = None"

definition refresh_token_for ::
  "oauthClient \<Rightarrow> uuid \<Rightarrow> string \<Rightarrow> uuid \<Rightarrow> uuid option \<Rightarrow> instant \<Rightarrow> refresh_token \<Rightarrow> bool" where
  "refresh_token_for c uid scope family parent now t \<longleftrightarrow> rt_app t = ApplicationID c \<and> rt_user t = uid
     \<and> rt_scope t = scope \<and> (family \<noteq> [] \<longrightarrow> rt_family t = family) \<and> rt_parent t = parent
     \<and> rt_expires t = now + seconds (RefreshTTL c) \<and> rt_consumed t = None \<and> rt_revoked t = None"

text \<open>A row appended to a table is the table's last row.\<close>

definition access_appended :: "db \<Rightarrow> db \<Rightarrow> (access_token \<Rightarrow> bool) \<Rightarrow> bool" where
  "access_appended v v' P \<longleftrightarrow> (let a = last (access_tokens v') in
     v' = v\<lparr>access_tokens := access_tokens v @ [a]\<rparr> \<and> P a)"

lemma access_appendedI [simp]:
  "access_appended v (v\<lparr>access_tokens := access_tokens v @ [a]\<rparr>) P = P a"
  by (simp add: access_appended_def)

definition refresh_appended :: "db \<Rightarrow> db \<Rightarrow> (refresh_token \<Rightarrow> bool) \<Rightarrow> bool" where
  "refresh_appended v v' P \<longleftrightarrow> (let t = last (refresh_tokens v') in
     v' = v\<lparr>refresh_tokens := refresh_tokens v @ [t]\<rparr> \<and> P t)"

lemma refresh_appendedI [simp]:
  "refresh_appended v (v\<lparr>refresh_tokens := refresh_tokens v @ [t]\<rparr>) P = P t"
  by (simp add: refresh_appended_def)

definition tokens_appended :: "db \<Rightarrow> db \<Rightarrow> (access_token \<Rightarrow> bool) \<Rightarrow> (refresh_token \<Rightarrow> bool) \<Rightarrow> bool" where
  "tokens_appended v v' P R \<longleftrightarrow> (let a = last (access_tokens v'); t = last (refresh_tokens v') in
     v' = v\<lparr>access_tokens := access_tokens v @ [a], refresh_tokens := refresh_tokens v @ [t]\<rparr> \<and> P a \<and> R t)"

lemma tokens_appendedI [simp]:
  "tokens_appended v (v\<lparr>access_tokens := access_tokens v @ [a], refresh_tokens := refresh_tokens v @ [t]\<rparr>) P R
     \<longleftrightarrow> P a \<and> R t"
  by (simp add: tokens_appended_def)

lemma tokens_appended_steps:
  assumes "access_appended v v1 P" and "refresh_appended v1 v2 R"
  shows "tokens_appended v v2 P R"
proof -
  from assms obtain a t where "v1 = v\<lparr>access_tokens := access_tokens v @ [a]\<rparr>" "P a"
    "v2 = v1\<lparr>refresh_tokens := refresh_tokens v1 @ [t]\<rparr>" "R t"
    unfolding access_appended_def refresh_appended_def Let_def by blast
  then show ?thesis by simp
qed

lemma keeps_data_issueAccessToken: "keeps_data (issueAccessToken S v c subject uid scope)"
  unfolding issueAccessToken_def Let_def
  by (rule keeps_dataI) (auto simp: wp split: sum.splits option.splits prod.splits)

lemma issueAccessToken_result:
  "if_ok (\<lambda>(resp, v'). access_appended v v' (access_token_for c subject uid scope (go_now s)))
     (result (issueAccessToken S v c subject uid scope) s)"
  unfolding issueAccessToken_def Let_def
  by (rule wp_resultD)
    (auto simp: wp insert_access_token_def access_token_for_def split: sum.splits option.splits if_splits)

lemmas final_issueAccessToken [simp] = keeps_data_simps [OF keeps_data_issueAccessToken]
lemmas wp_issueAccessToken [wp] = wp_result [of "issueAccessToken S v c subject uid scope" for S v c subject uid scope]

lemma reads_only_userGroups: "reads_only (userGroups S uid)"
  by (rule reads_onlyI) (auto simp: userGroups_def wp split: sum.splits prod.splits)

lemmas final_userGroups [simp] = reads_only_simps [OF reads_only_userGroups]
lemmas wp_userGroups [wp] = wp_result [of "userGroups S uid" for S uid]

lemma keeps_data_signIDToken: "keeps_data (signIDToken S c uid scope nonce)"
  unfolding signIDToken_def Let_def
  by (rule keeps_dataI) (auto simp: wp split: sum.splits option.splits prod.splits)

lemma signIDToken_result:
  "if_ok (\<lambda>_. active_user (main s) uid) (result (signIDToken S c uid scope nonce) s)"
  unfolding signIDToken_def Let_def
  by (rule wp_resultD) (auto simp: wp active_userI split: sum.splits option.splits)

lemmas final_signIDToken [simp] = keeps_data_simps [OF keeps_data_signIDToken]
lemmas wp_signIDToken [wp] = wp_result [of "signIDToken S c uid scope nonce" for S c uid scope nonce]

lemma keeps_data_add_id_token: "keeps_data (add_id_token S c uid scope nonce response)"
  unfolding add_id_token_def by (rule keeps_dataI) (auto simp: wp split: sum.splits)

lemma add_id_token_result:
  "if_ok (\<lambda>_. contains (scopes_or_nil scope) ''openid'' \<longrightarrow> active_user (main s) uid)
     (result (add_id_token S c uid scope nonce response) s)"
proof -
  have sign: "active_user (main s) uid" if "result (signIDToken S c uid scope nonce) s = Inr jws" for jws
    using if_okD [OF signIDToken_result that] .
  show ?thesis unfolding add_id_token_def
    by (rule wp_resultD) (auto simp: wp dest: sign split: sum.splits)
qed

lemmas final_add_id_token [simp] = keeps_data_simps [OF keeps_data_add_id_token]
lemmas wp_add_id_token [wp] = wp_result [of "add_id_token S c uid scope nonce response" for S c uid scope nonce response]

lemma keeps_data_add_refresh_token: "keeps_data (add_refresh_token S v c uid scope family parent response)"
  unfolding add_refresh_token_def
  by (rule keeps_dataI) (auto simp: wp split: sum.splits option.splits prod.splits)

lemma insert_refresh_result:
  "insert_refresh rid h f parent (ApplicationID c) uid scope (go + seconds (RefreshTTL c)) now v = Some (n, v') \<Longrightarrow>
   family \<noteq> [] \<longrightarrow> f = family \<Longrightarrow> refresh_appended v v' (refresh_token_for c uid scope family parent go)"
  by (auto simp: insert_refresh_def refresh_token_for_def split: if_splits)

lemma add_refresh_token_result:
  "if_ok (\<lambda>(resp, v'). refresh_appended v v' (refresh_token_for c uid scope family parent (go_now s)))
     (result (add_refresh_token S v c uid scope family parent response) s)"
  unfolding add_refresh_token_def
  by (rule wp_resultD, cases "family = []")
    (simp_all add: wp insert_refresh_result split: sum.split option.split)

lemmas final_add_refresh_token [simp] = keeps_data_simps [OF keeps_data_add_refresh_token]
lemmas wp_add_refresh_token [wp] =
  wp_result [of "add_refresh_token S v c uid scope family parent response" for S v c uid scope family parent response]

lemma keeps_data_issueUserTokens: "keeps_data (issueUserTokens S v c uid scope nonce family parent)"
  unfolding issueUserTokens_def
  by (rule keeps_dataI) (auto simp: wp split: sum.splits prod.splits)

lemma issueUserTokens_result:
  "if_ok (\<lambda>(resp, v'). tokens_appended v v' (access_token_for c uid (Some uid) scope (go_now s))
      (refresh_token_for c uid scope family parent (go_now s))
    \<and> (contains (scopes_or_nil scope) ''openid'' \<longrightarrow> active_user (main s) uid))
   (result (issueUserTokens S v c uid scope nonce family parent) s)"
  (is "if_ok ?P _")
proof -
  let ?access = "issueAccessToken S v c uid (Some uid) scope"
  have "if_ok ?P (result (add_refresh_token S v1 c uid scope family parent r2)
      (final (add_id_token S c uid scope nonce r1) (final ?access s)))"
    if a: "result ?access s = Inr (r1, v1)"
      and i: "result (add_id_token S c uid scope nonce r1) (final ?access s) = Inr r2" for r1 v1 r2
  proof -
    from if_okD [OF issueAccessToken_result a]
    have "access_appended v v1 (access_token_for c uid (Some uid) scope (go_now s))" by simp
    moreover from if_okD [OF add_id_token_result i]
    have "contains (scopes_or_nil scope) ''openid'' \<longrightarrow> active_user (main s) uid" by simp
    moreover note add_refresh_token_result [of v1 c uid scope family parent
      "final (add_id_token S c uid scope nonce r1) (final ?access s)" S r2]
    ultimately show ?thesis
      by (auto simp: if_ok_def intro: tokens_appended_steps split: sum.splits)
  qed
  then show ?thesis
    unfolding issueUserTokens_def
    by (intro wp_resultD [where P = "if_ok _"]) (simp add: wp split: sum.split prod.split)
qed

lemmas final_issueUserTokens [simp] = keeps_data_simps [OF keeps_data_issueUserTokens]
lemmas wp_issueUserTokens [wp] =
  wp_result [of "issueUserTokens S v c uid scope nonce family parent" for S v c uid scope nonce family parent]

end
