(* ===== verification/OAuth.thy ===== *)
theory OAuth imports Tokens begin

text \<open>
  The OAuth 2.0 and OpenID Connect endpoints of \<open>backend/internal/httpapi/oauth.go\<close>: the
  authorization endpoint and its consent page, the token endpoint with its three grants,
  userinfo, revocation, introspection, logout, discovery and the signing key administration.
\<close>

section \<open>The authorization endpoint\<close>

record auth_params =
  ap_client :: oauthClient
  ap_redirect :: string
  ap_scope :: string
  ap_scopes :: "string list"
  ap_state :: string
  ap_nonce :: string
  ap_challenge :: string

definition validateAuthorizationRequest :: "server \<Rightarrow> request \<Rightarrow> (st, response + auth_params) state" where
  "validateAuthorizationRequest S r =
     (let clientID = url_query r ''client_id''; redirectURI = url_query r ''redirect_uri'';
          ostate = url_query r ''state''; nonce = url_query r ''nonce'';
          challenge = url_query r ''code_challenge''
      in if url_query r ''response_type'' \<noteq> ''code'' \<or> clientID = [] \<or> redirectURI = [] \<or> ostate = []
        then State_Monad.return (Inl (problem 400 ''invalid authorization request''))
      else orfail (loadOAuthClient S clientID) (\<lambda>_. problem 400 ''unknown or disabled client'') (\<lambda>c. do {
        redirectOK \<leftarrow> query S (\<lambda>_ d. Some (exists_where (\<lambda>u. u = (ApplicationID c, redirectURI)) (redirect_uris d)));
        State_Monad.return
          (if redirectOK \<noteq> Inr True then Inl (problem 400 ''redirect_uri is not registered'')
           else if url_query r ''code_challenge_method'' \<noteq> ''S256'' \<or> challenge = []
             then Inl (redirectOAuthError S redirectURI ostate ''invalid_request'' ''PKCE S256 is required'')
           else case normalizeRequestedScope (url_query r ''scope'') of
             None \<Rightarrow> Inl (redirectOAuthError S redirectURI ostate ''invalid_scope'' ''requested scopes are not allowed'')
           | Some (scope, scopes) \<Rightarrow>
               if \<not> contains scopes ''openid'' \<or> \<not> containsAll (AllowedScopes c) scopes
               then Inl (redirectOAuthError S redirectURI ostate ''invalid_scope'' ''requested scopes are not allowed'')
               else Inr \<lparr>ap_client = c, ap_redirect = redirectURI, ap_scope = scope, ap_scopes = scopes,
                         ap_state = ostate, ap_nonce = nonce, ap_challenge = challenge\<rparr>)
      }))"

definition insert_auth_request ::
  "uuid \<Rightarrow> string \<Rightarrow> uuid \<Rightarrow> uuid \<Rightarrow> string \<Rightarrow> string \<Rightarrow> string \<Rightarrow> string \<Rightarrow> string \<Rightarrow> statement" where
  "insert_auth_request qid hash app uid redirect ostate nonce scope challenge now d =
     (if exists_where (\<lambda>q. aq_id q = qid \<or> aq_hash q = hash) (auth_requests d)
         \<or> \<not> exists_where (\<lambda>a. a_id a = app) (applications d)
         \<or> \<not> exists_where (\<lambda>u. u_id u = uid) (users d) then None
      else Some (1, d\<lparr>auth_requests := auth_requests d @
        [\<lparr>aq_id = qid, aq_hash = hash, aq_app = app, aq_user = uid, aq_redirect = redirect,
          aq_state = ostate, aq_nonce = nonce, aq_scope = scope, aq_challenge = challenge,
          aq_expires = now + minutes 5, aq_consumed = None\<rparr>]\<rparr>))"

definition login_redirect :: "request \<Rightarrow> response" where
  "login_redirect r = Redirect ''/'' [(''return_to'', rq_uri r)]"

definition granted_scopes :: "uuid \<Rightarrow> uuid \<Rightarrow> string list query" where
  "granted_scopes uid app now d =
     map_option co_scopes (find (\<lambda>c. co_user c = uid \<and> co_app c = app) (consents d))"

text \<open>The second half of \<open>authorize\<close>: consent was not given before, so the page asks for it.\<close>

definition ask_consent :: "server \<Rightarrow> request \<Rightarrow> principal \<Rightarrow> auth_params \<Rightarrow> handler" where
  "ask_consent S r p a =
     check_some (RandomToken S 32) (respond (problem 500 ''entropy failure'')) (\<lambda>requestToken. do {
       qid \<leftarrow> new_uuid S;
       check (exec S (insert_auth_request qid (SHA256String requestToken) (ApplicationID (ap_client a)) (UserID p)
           (ap_redirect a) (ap_state a) (ap_nonce a) (ap_scope a) (ap_challenge a)))
         (respond (problem 500 ''authorization request creation failed'')) (\<lambda>_.
       respond (case cookie r ''opensso_csrf'' of
           None \<Rightarrow> problem 403 ''CSRF token unavailable''
         | Some csrf \<Rightarrow> if csrf = [] then problem 403 ''CSRF token unavailable''
             else ConsentPage (Name (ap_client a)) (ap_scopes a) requestToken csrf))
     })"

text \<open>The request of a signed-in user, from the MFA policy on.\<close>

definition authorize_as :: "server \<Rightarrow> request \<Rightarrow> auth_params \<Rightarrow> principal \<Rightarrow> handler" where
  "authorize_as S r a p =
     check (Required S (UserID p) (Some (ApplicationID (ap_client a))))
       (respond (problem 500 ''MFA policy lookup failed'')) (\<lambda>mfaRequired.
     if mfaRequired \<and> \<not> MFAVerified p then
       respond (if url_query r ''prompt'' = ''none''
         then redirectOAuthError S (ap_redirect a) (ap_state a) ''interaction_required'' ''MFA verification required''
         else Redirect ''/'' [(''mfa'', ''required''), (''return_to'', rq_uri r)])
     else do {
       granted \<leftarrow> query S (granted_scopes (UserID p) (ApplicationID (ap_client a)));
       if (case granted of Inr g \<Rightarrow> containsAll g (ap_scopes a) | Inl _ \<Rightarrow> False) then
         check (storeAuthorizationCode S (ApplicationID (ap_client a)) (UserID p) (ap_redirect a) (ap_scope a)
             (ap_nonce a) (ap_challenge a)) (respond (problem 500 ''authorization code creation failed'')) (\<lambda>code.
         respond (redirectAuthorizationCode S (ap_redirect a) (ap_state a) code))
       else if granted = Inl DbError then respond (problem 500 ''consent lookup failed'')
       else if url_query r ''prompt'' = ''none'' then
         respond (redirectOAuthError S (ap_redirect a) (ap_state a) ''consent_required'' ''user consent required'')
       else ask_consent S r p a
     })"

definition authorize :: "server \<Rightarrow> request \<Rightarrow> handler" where
  "authorize S r = do {
     v \<leftarrow> validateAuthorizationRequest S r;
     case v of Inl resp \<Rightarrow> respond resp | Inr a \<Rightarrow> do {
       pr \<leftarrow> sessionPrincipal S r;
       case pr of
         None \<Rightarrow> respond (if url_query r ''prompt'' = ''none''
             then redirectOAuthError S (ap_redirect a) (ap_state a) ''login_required'' ''authentication required''
             else login_redirect r)
       | Some p \<Rightarrow> if MustChangePassword p then respond (login_redirect r) else authorize_as S r a p
     }
   }"

section \<open>Consent\<close>

definition consume_auth_request :: "uuid \<Rightarrow> statement" where
  "consume_auth_request qid now d = Some (count_where (\<lambda>q. aq_id q = qid) (auth_requests d),
     d\<lparr>auth_requests := update_where (\<lambda>q. aq_id q = qid) (\<lambda>q. q\<lparr>aq_consumed := Some now\<rparr>) (auth_requests d)\<rparr>)"

definition upsert_consent :: "uuid \<Rightarrow> uuid \<Rightarrow> string list \<Rightarrow> statement" where
  "upsert_consent uid app scopes now d =
     (if exists_where (\<lambda>c. co_user c = uid \<and> co_app c = app) (consents d) then
        Some (1, d\<lparr>consents := update_where (\<lambda>c. co_user c = uid \<and> co_app c = app)
          (\<lambda>c. c\<lparr>co_scopes := scopes, co_updated_at := now\<rparr>) (consents d)\<rparr>)
      else if \<not> exists_where (\<lambda>a. a_id a = app) (applications d)
         \<or> \<not> exists_where (\<lambda>u. u_id u = uid) (users d) then None
      else Some (1, d\<lparr>consents := consents d @
        [\<lparr>co_user = uid, co_app = app, co_scopes = scopes, co_granted_at = now, co_updated_at = now\<rparr>]\<rparr>))"

definition auth_request_usable :: "instant \<Rightarrow> principal \<Rightarrow> auth_request \<Rightarrow> bool" where
  "auth_request_usable now p q \<longleftrightarrow> \<not> (aq_user q \<noteq> UserID p \<or> aq_consumed q \<noteq> None \<or> now > aq_expires q)"

definition approve :: "server \<Rightarrow> db \<Rightarrow> auth_request \<Rightarrow> handler" where
  "approve S v1 q = do {
     existing \<leftarrow> tx_query S v1 (granted_scopes (aq_user q) (aq_app q));
     if existing = Inl DbError then respond (problem 500 ''database error'')
     else do {
       let merged = mergeScopes (case existing of Inr g \<Rightarrow> g | Inl _ \<Rightarrow> []) (scopes_or_nil (aq_scope q));
       check (tx_exec S v1 (upsert_consent (aq_user q) (aq_app q) merged))
         (respond (problem 500 ''database error'')) (\<lambda>(_, v2).
       check_some (RandomToken S 32) (respond (problem 500 ''entropy failure'')) (\<lambda>code. do {
         cid \<leftarrow> new_uuid S;
         check (tx_exec S v2 (insert_code cid (SHA256String code) (aq_app q) (aq_user q) (aq_redirect q) (aq_scope q)
             (aq_nonce q) (aq_challenge q))) (respond (problem 500 ''database error'')) (\<lambda>(_, v3).
         check (tx_commit S v3) (respond (problem 500 ''database error'')) (\<lambda>_.
         respond (redirectAuthorizationCode S (aq_redirect q) (aq_state q) code)))
       }))
     }
   }"

definition authorizeConsent :: "server \<Rightarrow> request \<Rightarrow> handler" where
  "authorizeConsent S r =
     (if \<not> rq_form_ok r then respond (problem 400 ''invalid consent form'')
      else if cookie r ''opensso_csrf'' \<noteq> Some (form r ''csrf'')
        then respond (problem 403 ''CSRF validation failed'')
      else do {
        pr \<leftarrow> sessionPrincipal S r;
        case pr of
          None \<Rightarrow> respond (problem 401 ''authentication required'')
        | Some p \<Rightarrow>
          if MustChangePassword p then respond (problem 401 ''authentication required'')
          else if form r ''request_token'' = [] then respond (problem 400 ''missing authorization request'')
          else check (tx_begin S) (respond (problem 500 ''database error'')) (\<lambda>v0. do {
            row \<leftarrow> tx_query S v0 (\<lambda>_ d. find (\<lambda>q. aq_hash q = SHA256String (form r ''request_token'')) (auth_requests d));
            now \<leftarrow> time_now;
            case row of
              Inl _ \<Rightarrow> respond (problem 400 ''authorization request is invalid or expired'')
            | Inr q \<Rightarrow>
              if \<not> auth_request_usable now p q
              then respond (problem 400 ''authorization request is invalid or expired'')
              else check (tx_exec S v0 (consume_auth_request (aq_id q)))
                (respond (problem 500 ''database error'')) (\<lambda>(_, v1).
              if form r ''action'' \<noteq> ''approve'' then
                check (tx_commit S v1) (respond (problem 500 ''database error'')) (\<lambda>_.
                respond (redirectOAuthError S (aq_redirect q) (aq_state q) ''access_denied'' ''user denied access''))
              else approve S v1 q)
          })
      })"

section \<open>The token endpoint\<close>

definition consume_code :: "uuid \<Rightarrow> statement" where
  "consume_code cid now d = Some (count_where (\<lambda>c. cd_id c = cid) (auth_codes d),
     d\<lparr>auth_codes := update_where (\<lambda>c. cd_id c = cid) (\<lambda>c. c\<lparr>cd_consumed := Some now\<rparr>) (auth_codes d)\<rparr>)"

definition code_usable :: "instant \<Rightarrow> string \<Rightarrow> string \<Rightarrow> auth_code \<Rightarrow> bool" where
  "code_usable now redirectURI verifier c \<longleftrightarrow>
     \<not> (cd_consumed c \<noteq> None \<or> now > cd_expires c \<or> cd_redirect c \<noteq> redirectURI
        \<or> \<not> verifyPKCE verifier (cd_challenge c))"

definition authorizationCodeGrant :: "server \<Rightarrow> request \<Rightarrow> oauthClient \<Rightarrow> handler" where
  "authorizationCodeGrant S r c =
     (let code = form r ''code''; redirectURI = form r ''redirect_uri''; verifier = form r ''code_verifier''
      in if code = [] \<or> redirectURI = [] \<or> \<not> validPKCEVerifier verifier
        then respond (oauthJSONError 400 ''invalid_request'' ''code, redirect_uri and valid code_verifier are required'')
      else check (tx_begin S) (respond (oauthJSONError 500 ''server_error'' ''database error'')) (\<lambda>v0. do {
        row \<leftarrow> tx_query S v0 (\<lambda>_ d. find (\<lambda>k. cd_hash k = SHA256String code \<and> cd_app k = ApplicationID c) (auth_codes d));
        now \<leftarrow> time_now;
        case row of
          Inl _ \<Rightarrow> respond (oauthJSONError 400 ''invalid_grant'' ''authorization code is invalid, expired or already used'')
        | Inr k \<Rightarrow>
          if \<not> code_usable now redirectURI verifier k
          then respond (oauthJSONError 400 ''invalid_grant'' ''authorization code is invalid, expired or already used'')
          else check (tx_exec S v0 (consume_code (cd_id k)))
            (respond (oauthJSONError 500 ''server_error'' ''database error'')) (\<lambda>(_, v1).
          check (issueUserTokens S v1 c (cd_user k) (cd_scope k) (cd_nonce k) [] None)
            (respond (oauthJSONError 500 ''server_error'' ''token issuance failed'')) (\<lambda>(response, v2).
          check (tx_commit S v2) (respond (oauthJSONError 500 ''server_error'' ''database error'')) (\<lambda>_.
          respond (NoStoreJSON 200 (JObj response)))))
      }))"

definition revoke_family :: "uuid \<Rightarrow> statement" where
  "revoke_family family now d = Some (count_where (\<lambda>t. rt_family t = family) (refresh_tokens d),
     d\<lparr>refresh_tokens := update_where (\<lambda>t. rt_family t = family)
       (\<lambda>t. t\<lparr>rt_revoked := (case rt_revoked t of None \<Rightarrow> Some now | Some x \<Rightarrow> Some x)\<rparr>) (refresh_tokens d)\<rparr>)"

definition consume_refresh :: "uuid \<Rightarrow> statement" where
  "consume_refresh rid now d = Some (count_where (\<lambda>t. rt_id t = rid) (refresh_tokens d),
     d\<lparr>refresh_tokens := update_where (\<lambda>t. rt_id t = rid) (\<lambda>t. t\<lparr>rt_consumed := Some now\<rparr>) (refresh_tokens d)\<rparr>)"

text \<open>
  A token that was used or revoked before: the whole family is revoked. Both errors, of the
  update and of the commit, are ignored; a failed update leaves nothing to commit.
\<close>

definition refresh_reuse :: "server \<Rightarrow> request \<Rightarrow> oauthClient \<Rightarrow> db \<Rightarrow> refresh_token \<Rightarrow> handler" where
  "refresh_reuse S r c v0 row = do {
     e \<leftarrow> tx_exec S v0 (revoke_family (rt_family row));
     _ \<leftarrow> tx_commit S (case e of Inl _ \<Rightarrow> v0 | Inr (_, v1) \<Rightarrow> v1);
     audit S (Some (rt_user row)) ''REFRESH_TOKEN_REUSE'' ''application'' (ApplicationID c) ''failure'' r;
     respond (oauthJSONError 400 ''invalid_grant'' ''refresh token reuse detected'')
   }"

definition refreshTokenGrant :: "server \<Rightarrow> request \<Rightarrow> oauthClient \<Rightarrow> handler" where
  "refreshTokenGrant S r c =
     (let raw = form r ''refresh_token'' in
      if raw = [] then respond (oauthJSONError 400 ''invalid_request'' ''refresh_token is required'')
      else check (tx_begin S) (respond (oauthJSONError 500 ''server_error'' ''database error'')) (\<lambda>v0.
      check (tx_query S v0 (\<lambda>_ d. find (\<lambda>t. rt_hash t = SHA256String raw \<and> rt_app t = ApplicationID c) (refresh_tokens d)))
        (respond (oauthJSONError 400 ''invalid_grant'' ''refresh token is invalid'')) (\<lambda>row.
      if rt_consumed row \<noteq> None \<or> rt_revoked row \<noteq> None then refresh_reuse S r c v0 row
      else do {
        now \<leftarrow> time_now;
        if now > rt_expires row then respond (oauthJSONError 400 ''invalid_grant'' ''refresh token expired'')
        else check (tx_exec S v0 (consume_refresh (rt_id row)))
          (respond (oauthJSONError 500 ''server_error'' ''database error'')) (\<lambda>(_, v1).
        check (issueUserTokens S v1 c (rt_user row) (rt_scope row) [] (rt_family row) (Some (rt_id row)))
          (respond (oauthJSONError 500 ''server_error'' ''token issuance failed'')) (\<lambda>(response, v2).
        check (tx_commit S v2) (respond (oauthJSONError 500 ''server_error'' ''database error'')) (\<lambda>_.
        respond (NoStoreJSON 200 (JObj response)))))
      })))"

definition clientCredentialsGrant :: "server \<Rightarrow> request \<Rightarrow> oauthClient \<Rightarrow> handler" where
  "clientCredentialsGrant S r c =
     (let bad = respond (oauthJSONError 400 ''invalid_scope'' ''requested scope is not allowed for client_credentials'') in
      if Public c then respond (oauthJSONError 400 ''unauthorized_client'' ''public clients cannot use client_credentials'')
      else case normalizeRequestedScope (form r ''scope'') of
        None \<Rightarrow> bad
      | Some (scope, scopes) \<Rightarrow>
        if \<not> containsAll (AllowedScopes c) scopes \<or> contains scopes ''openid'' then bad
        else check (tx_begin S) (respond (oauthJSONError 500 ''server_error'' ''database error'')) (\<lambda>v0.
          check (issueAccessToken S v0 c (ClientID c) None scope)
            (respond (oauthJSONError 500 ''server_error'' ''token issuance failed'')) (\<lambda>(response, v1).
          check (tx_commit S v1) (respond (oauthJSONError 500 ''server_error'' ''database error'')) (\<lambda>_.
          respond (NoStoreJSON 200 (JObj response))))))"

definition dispatch_grant :: "server \<Rightarrow> request \<Rightarrow> oauthClient \<Rightarrow> handler" where
  "dispatch_grant S r c =
     (if form r ''grant_type'' = ''authorization_code'' then authorizationCodeGrant S r c
      else if form r ''grant_type'' = ''refresh_token'' then refreshTokenGrant S r c
      else if form r ''grant_type'' = ''client_credentials'' then clientCredentialsGrant S r c
      else respond (oauthJSONError 400 ''unsupported_grant_type'' ''unsupported grant_type''))"

definition tokenEndpoint :: "server \<Rightarrow> request \<Rightarrow> handler" where
  "tokenEndpoint S r = do {
     ok \<leftarrow> allowOAuthRequest S ''token'' (clientIP r) 120 (minutes 1);
     if \<not> ok then respond (oauthJSONError 429 ''slow_down'' ''too many token requests'')
     else if \<not> rq_form_ok r then respond (oauthJSONError 400 ''invalid_request'' ''invalid form body'')
     else check (authenticateOAuthClient S r)
       (respond (oauthJSONError 401 ''invalid_client'' ''client authentication failed'')) (\<lambda>c.
     dispatch_grant S r c)
   }"

section \<open>Userinfo, revocation, introspection\<close>

definition access_row :: "uuid \<Rightarrow> access_token query" where
  "access_row jti now d =
     find (\<lambda>a. at_jti a = jti \<and> at_revoked a = None \<and> at_expires a > now) (access_tokens d)"

definition userinfo :: "server \<Rightarrow> request \<Rightarrow> handler" where
  "userinfo S r =
     (let raw = bearerToken S r in
      if raw = [] then respond (oauthJSONError 401 ''invalid_token'' ''bearer token required'')
      else check (parseAccessToken S raw)
        (respond (oauthJSONError 401 ''invalid_token'' ''access token is invalid'')) (\<lambda>claims.
      if jc_token_use claims \<noteq> ''access''
      then respond (oauthJSONError 401 ''invalid_token'' ''access token is invalid'')
      else check (with_uuid S (jc_jti claims) (\<lambda>jti. query S (access_row jti)))
        (respond (oauthJSONError 401 ''invalid_token'' ''access token is inactive'')) (\<lambda>a.
      if at_user a = None \<or> at_user a \<noteq> Some (jc_sub claims)
      then respond (oauthJSONError 401 ''invalid_token'' ''access token is inactive'')
      else do {
        u \<leftarrow> query S (\<lambda>_ d. find (\<lambda>u. Some (u_id u) = at_user a) (users d));
        case u of Inl _ \<Rightarrow> respond (oauthJSONError 401 ''invalid_token'' ''user is inactive'')
        | Inr u \<Rightarrow>
          if \<not> u_active u then respond (oauthJSONError 401 ''invalid_token'' ''user is inactive'')
          else do {
            let scopes = scopes_or_nil (at_scope a);
            let out = [(''sub'', JStr (u_id u))]
              @ (if contains scopes ''profile''
                 then [(''name'', JStr (u_display_name u)), (''preferred_username'', JStr (u_username u))] else [])
              @ (if contains scopes ''email''
                 then [(''email'', JStr (u_email u)), (''email_verified'', JBool False)] else []);
            if contains scopes ''groups'' then do {
              gs \<leftarrow> userGroups S (u_id u);
              respond (NoStoreJSON 200 (JObj (out @ [(''groups'', JArr (map JStr gs))])))
            } else respond (NoStoreJSON 200 (JObj out))
          }
      })))"

definition revoke_access :: "uuid \<Rightarrow> uuid \<Rightarrow> statement" where
  "revoke_access jti app now d = Some (count_where (\<lambda>a. at_jti a = jti \<and> at_app a = app) (access_tokens d),
     d\<lparr>access_tokens := update_where (\<lambda>a. at_jti a = jti \<and> at_app a = app)
       (\<lambda>a. a\<lparr>at_revoked := (case at_revoked a of None \<Rightarrow> Some now | Some x \<Rightarrow> Some x)\<rparr>) (access_tokens d)\<rparr>)"

definition refresh_row :: "string \<Rightarrow> uuid \<Rightarrow> refresh_token query" where
  "refresh_row hash app now d = find (\<lambda>t. rt_hash t = hash \<and> rt_app t = app) (refresh_tokens d)"

definition revokeToken :: "server \<Rightarrow> request \<Rightarrow> handler" where
  "revokeToken S r =
     (if \<not> rq_form_ok r then respond (oauthJSONError 400 ''invalid_request'' ''invalid form body'')
      else check (authenticateOAuthClient S r)
        (respond (oauthJSONError 401 ''invalid_client'' ''client authentication failed'')) (\<lambda>c.
      let raw = form r ''token'' in
      if raw = [] then respond (oauthJSONError 400 ''invalid_request'' ''token is required'')
      else do {
        row \<leftarrow> query S (refresh_row (SHA256String raw) (ApplicationID c));
        case row of
          Inr t \<Rightarrow> do { try_exec S (revoke_family (rt_family t)); respond (Status 200) }
        | Inl _ \<Rightarrow> do {
            parsed \<leftarrow> parseAccessToken S raw;
            case parsed of
              Inl _ \<Rightarrow> respond (Status 200)
            | Inr claims \<Rightarrow>
                if audienceContains (jc_aud claims) (ClientID c) then do {
                  _ \<leftarrow> with_uuid S (jc_jti claims) (\<lambda>jti. exec S (revoke_access jti (ApplicationID c)));
                  respond (Status 200)
                } else respond (Status 200)
          }
      }))"

definition inactive_token :: response where
  "inactive_token = NoStoreJSON 200 (JObj [(''active'', JBool False)])"

definition introspectToken :: "server \<Rightarrow> request \<Rightarrow> handler" where
  "introspectToken S r =
     (if \<not> rq_form_ok r then respond (oauthJSONError 400 ''invalid_request'' ''invalid form body'')
      else do {
        auth \<leftarrow> authenticateOAuthClient S r;
        case auth of
          Inl _ \<Rightarrow> respond (oauthJSONError 401 ''invalid_client'' ''confidential client authentication required'')
        | Inr c \<Rightarrow>
          if Public c
          then respond (oauthJSONError 401 ''invalid_client'' ''confidential client authentication required'')
          else if form r ''token'' = []
          then respond (oauthJSONError 400 ''invalid_request'' ''token is required'')
          else do {
            row \<leftarrow> query S (refresh_row (SHA256String (form r ''token'')) (ApplicationID c));
            now \<leftarrow> time_now;
            case row of
              Inr t \<Rightarrow> respond (NoStoreJSON 200 (JObj
                [(''active'', JBool (rt_consumed t = None \<and> rt_revoked t = None \<and> now < rt_expires t)),
                 (''client_id'', JStr (ClientID c)), (''sub'', JStr (rt_user t)), (''scope'', JStr (rt_scope t)),
                 (''exp'', JInt (unix (rt_expires t))), (''token_type'', JStr ''refresh_token'')]))
            | Inl _ \<Rightarrow> do {
              parsed \<leftarrow> parseAccessToken S (form r ''token'');
              case parsed of Inl _ \<Rightarrow> respond inactive_token | Inr claims \<Rightarrow>
              if \<not> audienceContains (jc_aud claims) (ClientID c) then respond inactive_token
              else check (with_uuid S (jc_jti claims) (\<lambda>jti. query S (\<lambda>_ d.
                  find (\<lambda>a. at_jti a = jti \<and> at_app a = ApplicationID c) (access_tokens d))))
                (respond inactive_token) (\<lambda>a. do {
                now \<leftarrow> time_now;
                respond (case jc_iat claims of
                  None \<Rightarrow> Panicked
                | Some iat \<Rightarrow> NoStoreJSON 200 (JObj
                    [(''active'', JBool (at_revoked a = None \<and> now < at_expires a)),
                     (''client_id'', JStr (ClientID c)), (''sub'', JStr (jc_sub claims)),
                     (''scope'', JStr (at_scope a)), (''exp'', JInt (unix (at_expires a))),
                     (''iat'', JInt iat), (''token_type'', JStr ''access_token'')]))
              })
            }
          }
      })"

section \<open>Logout, discovery, signing keys\<close>

definition post_logout_registered :: "string \<Rightarrow> string \<Rightarrow> db \<Rightarrow> bool" where
  "post_logout_registered clientID uri d = exists_where (\<lambda>(p, c). oc_client_id c = clientID \<and> snd p = uri)
     (join (\<lambda>p c. oc_app c = fst p) (post_logout_uris d) (oauth_clients d))"

definition end_session :: "server \<Rightarrow> request \<Rightarrow> handler" where
  "end_session S r = do {
     (case cookie r ''opensso_session'' of
        None \<Rightarrow> State_Monad.return ()
      | Some c \<Rightarrow> try_exec S (revoke_by_hash (SHA256String c)));
     let postLogout = form r ''post_logout_redirect_uri'';
     respond (WithCookies (clearSessionCookies S)
       (if postLogout = [] then Redirect ''/'' []
        else if form r ''state'' = [] then
          (case url_Parse (udata S) postLogout of None \<Rightarrow> Panicked | Some _ \<Rightarrow> Redirect postLogout [])
        else (case url_Parse (udata S) postLogout of
                None \<Rightarrow> Panicked | Some _ \<Rightarrow> Redirect postLogout [(''state'', form r ''state'')])))
   }"

definition oauthLogout :: "server \<Rightarrow> request \<Rightarrow> handler" where
  "oauthLogout S r =
     (let postLogout = form r ''post_logout_redirect_uri''; hint = form r ''id_token_hint'' in
      if postLogout = [] then end_session S r
      else if hint = [] then respond (problem 400 ''id_token_hint is required with post_logout_redirect_uri'')
      else check (parseIDToken S hint) (respond (problem 400 ''invalid id_token_hint'')) (\<lambda>claims.
      case jc_aud claims of
        [] \<Rightarrow> respond (problem 400 ''invalid id_token_hint'')
      | clientID # _ \<Rightarrow> do {
          ok \<leftarrow> query S (\<lambda>_ d. Some (post_logout_registered clientID postLogout d));
          if ok \<noteq> Inr True then respond (problem 400 ''post_logout_redirect_uri is not registered'')
          else end_session S r
        }))"

definition strs :: "string list \<Rightarrow> jval" where
  "strs xs = JArr (map JStr xs)"

definition oidcDiscovery :: "server \<Rightarrow> handler" where
  "oidcDiscovery S = (let issuer = PublicURL S in respond (JSON 200 (JObj
     [(''issuer'', JStr issuer),
      (''authorization_endpoint'', JStr (issuer @ ''/oauth2/authorize'')),
      (''token_endpoint'', JStr (issuer @ ''/oauth2/token'')),
      (''userinfo_endpoint'', JStr (issuer @ ''/userinfo'')),
      (''jwks_uri'', JStr (issuer @ ''/.well-known/jwks.json'')),
      (''revocation_endpoint'', JStr (issuer @ ''/oauth2/revoke'')),
      (''introspection_endpoint'', JStr (issuer @ ''/oauth2/introspect'')),
      (''end_session_endpoint'', JStr (issuer @ ''/oauth2/logout'')),
      (''response_types_supported'', strs [''code'']),
      (''grant_types_supported'', strs [''authorization_code'', ''refresh_token'', ''client_credentials'']),
      (''subject_types_supported'', strs [''public'']),
      (''id_token_signing_alg_values_supported'', strs [''RS256'']),
      (''token_endpoint_auth_methods_supported'', strs [''client_secret_basic'', ''client_secret_post'', ''none'']),
      (''code_challenge_methods_supported'', strs [''S256'']),
      (''scopes_supported'', strs [''openid'', ''profile'', ''email'', ''groups'']),
      (''claims_supported'', strs [''sub'', ''name'', ''preferred_username'', ''email'', ''email_verified'', ''groups''])])))"

definition oauthAuthorizationServerMetadata :: "server \<Rightarrow> handler" where
  "oauthAuthorizationServerMetadata S = (let issuer = PublicURL S in respond (JSON 200 (JObj
     [(''issuer'', JStr issuer),
      (''authorization_endpoint'', JStr (issuer @ ''/oauth2/authorize'')),
      (''token_endpoint'', JStr (issuer @ ''/oauth2/token'')),
      (''jwks_uri'', JStr (issuer @ ''/.well-known/jwks.json'')),
      (''revocation_endpoint'', JStr (issuer @ ''/oauth2/revoke'')),
      (''introspection_endpoint'', JStr (issuer @ ''/oauth2/introspect'')),
      (''response_types_supported'', strs [''code'']),
      (''grant_types_supported'', strs [''authorization_code'', ''refresh_token'', ''client_credentials'']),
      (''token_endpoint_auth_methods_supported'', strs [''client_secret_basic'', ''client_secret_post'', ''none'']),
      (''code_challenge_methods_supported'', strs [''S256'']),
      (''scopes_supported'', strs [''openid'', ''profile'', ''email'', ''groups''])])))"

definition jwks :: "server \<Rightarrow> handler" where
  "jwks S = check (JWKS S) (respond (problem 500 ''signing key lookup failed'')) (\<lambda>ks.
     respond (JSON 200 (JObj [(''keys'', JArr (map (\<lambda>k. JObj (map (\<lambda>(n, v). (n, JStr v)) k)) ks))])))"

definition listSigningKeys :: "server \<Rightarrow> handler" where
  "listSigningKeys S =
     check (key_rows S (\<lambda>_ d. Some (order_by (\<lambda>a b. sk_created_at a \<ge> sk_created_at b) (signing_keys d))))
       (respond (problem 500 ''database error'')) (\<lambda>(rows, _).
     respond (items (map (\<lambda>k. JObj
       [(''kid'', JStr (sk_kid k)), (''algorithm'', JStr ''RS256''), (''active'', JBool (sk_active k)),
        (''created_at'', JTime (sk_created_at k)), (''retired_at'', opt_time (sk_retired k))]) rows)))"

definition rotateSigningKey :: "server \<Rightarrow> request \<Rightarrow> principal \<Rightarrow> handler" where
  "rotateSigningKey S r p = check (Rotate S) (respond (problem 500 ''signing key rotation failed'')) (\<lambda>key. do {
     audit S (Some (UserID p)) ''SIGNING_KEY_ROTATED'' ''signing_key'' (Kid key) ''success'' r;
     respond (JSON 201 (JObj [(''kid'', JStr (Kid key)), (''algorithm'', JStr ''RS256'')]))
   })"

end
