(* ===== verification/Directory.thy ===== *)
theory Directory imports Auth begin

text \<open>
  Groups and roles (\<open>groups.go\<close>, \<open>rbac.go\<close> and the group handlers of \<open>server.go\<close>).

  Deleting a group removes its memberships, its application assignments and its MFA policy with
  it (\<open>ON DELETE CASCADE\<close>), so what a user could do only through the group ends.
\<close>

section \<open>Groups\<close>

definition group_json :: "group \<Rightarrow> jval" where
  "group_json g = JObj [(''id'', JStr (g_id g)), (''name'', JStr (g_name g)),
     (''description'', JStr (g_description g)), (''created_at'', JTime (g_created_at g))]"

definition listGroups :: "server \<Rightarrow> handler" where
  "listGroups S =
     check (query_rows S (\<lambda>_ d. Some (take 500 (order_by (\<lambda>a b. collate S (g_name a) (g_name b)) (groups d)))))
       (respond (problem 500 ''database error'')) (\<lambda>(rows, _). respond (items (map group_json rows)))"

definition insert_group :: "uuid \<Rightarrow> string \<Rightarrow> string \<Rightarrow> statement" where
  "insert_group gid name desc now d =
     (if exists_where (\<lambda>g. g_id g = gid \<or> g_name g = name) (groups d) then None
      else Some (1, d\<lparr>groups := groups d @ [\<lparr>g_id = gid, g_name = name, g_description = desc, g_created_at = now\<rparr>]\<rparr>))"

definition createGroup :: "server \<Rightarrow> request \<Rightarrow> (string \<times> string) option \<Rightarrow> principal \<Rightarrow> handler" where
  "createGroup S r body p = (case body of None \<Rightarrow> invalid_body | Some (name, desc) \<Rightarrow> do {
     gid \<leftarrow> new_uuid S;
     check (exec S (insert_group gid (trimSpace name) (trimSpace desc)))
       (respond (problem 409 ''group already exists'')) (\<lambda>_. do {
       audit S (Some (UserID p)) ''GROUP_CREATED'' ''group'' gid ''success'' r;
       respond (JSON 201 (JObj [(''id'', JStr gid)]))
     })
   })"

definition getGroup :: "server \<Rightarrow> request \<Rightarrow> handler" where
  "getGroup S r =
     check (with_uuid S (path_value r ''id'') (\<lambda>gid. query S (\<lambda>_ d. find (\<lambda>g. g_id g = gid) (groups d))))
       (respond (problem 404 ''group not found'')) (\<lambda>g. respond (JSON 200 (JObj
         [(''id'', JStr (path_value r ''id'')), (''name'', JStr (g_name g)), (''description'', JStr (g_description g))])))"

definition set_group :: "uuid \<Rightarrow> string \<Rightarrow> string \<Rightarrow> statement" where
  "set_group gid name desc now d =
     (if exists_where (\<lambda>g. g_id g = gid) (groups d) \<and> exists_where (\<lambda>g. g_id g \<noteq> gid \<and> g_name g = name) (groups d)
      then None
      else Some (count_where (\<lambda>g. g_id g = gid) (groups d), d\<lparr>groups := update_where (\<lambda>g. g_id g = gid)
        (\<lambda>g. g\<lparr>g_name := name, g_description := desc\<rparr>) (groups d)\<rparr>))"

definition updateGroup :: "server \<Rightarrow> request \<Rightarrow> (string \<times> string) option \<Rightarrow> principal \<Rightarrow> handler" where
  "updateGroup S r body p = (case body of None \<Rightarrow> invalid_body | Some (name0, desc) \<Rightarrow>
     let name = trimSpace name0 in
     if name = [] then respond (problem 400 ''group name is required'')
     else check (with_uuid S (path_value r ''id'') (\<lambda>gid. exec S (set_group gid name (trimSpace desc))))
       (respond (problem 409 ''group name already exists or update failed'')) (\<lambda>n.
     if n = 0 then respond (problem 404 ''group not found'')
     else do {
       audit S (Some (UserID p)) ''GROUP_UPDATED'' ''group'' (path_value r ''id'') ''success'' r;
       respond (JSON 200 (JObj [(''id'', JStr (path_value r ''id'')), (''name'', JStr name),
         (''description'', JStr (trimSpace desc))]))
     }))"

text \<open>The rows that reference the group go with it.\<close>

definition delete_group :: "uuid \<Rightarrow> statement" where
  "delete_group gid now d = Some (count_where (\<lambda>g. g_id g = gid) (groups d),
     if exists_where (\<lambda>g. g_id g = gid) (groups d) then
       d\<lparr>groups := delete_where (\<lambda>g. g_id g = gid) (groups d),
         memberships := delete_where (\<lambda>m. gm_group m = gid) (memberships d),
         group_assignments := delete_where (\<lambda>a. snd a = gid) (group_assignments d),
         group_mfa_policies := delete_where (\<lambda>p. fst p = gid) (group_mfa_policies d)\<rparr>
     else d)"

definition deleteGroup :: "server \<Rightarrow> request \<Rightarrow> principal \<Rightarrow> handler" where
  "deleteGroup S r p =
     check (with_uuid S (path_value r ''id'') (\<lambda>gid. exec S (delete_group gid)))
       (respond (problem 500 ''database error'')) (\<lambda>n.
     if n = 0 then respond (problem 404 ''group not found'')
     else do {
       audit S (Some (UserID p)) ''GROUP_DELETED'' ''group'' (path_value r ''id'') ''success'' r;
       respond (Status 204)
     })"

section \<open>Memberships\<close>

definition both_exist :: "uuid \<Rightarrow> uuid \<Rightarrow> db \<Rightarrow> bool" where
  "both_exist gid uid d \<longleftrightarrow> exists_where (\<lambda>g. g_id g = gid) (groups d) \<and> exists_where (\<lambda>u. u_id u = uid) (users d)"

definition insert_membership :: "uuid \<Rightarrow> uuid \<Rightarrow> statement" where
  "insert_membership gid uid now d =
     (if exists_where (\<lambda>m. gm_group m = gid \<and> gm_user m = uid) (memberships d) then Some (0, d)
      else if \<not> both_exist gid uid d then None
      else Some (1, d\<lparr>memberships := memberships d @ [\<lparr>gm_group = gid, gm_user = uid, gm_created_at = now\<rparr>]\<rparr>))"

definition addGroupMember :: "server \<Rightarrow> request \<Rightarrow> string option \<Rightarrow> principal \<Rightarrow> handler" where
  "addGroupMember S r body p = (case body of None \<Rightarrow> invalid_body | Some user \<Rightarrow>
     let bad = respond (problem 400 ''invalid group or user identifier'') in
     cast_uuid S (path_value r ''id'') bad (\<lambda>gid.
     cast_uuid S user bad (\<lambda>uid.
     check (query S (\<lambda>_ d. Some (both_exist gid uid d))) bad (\<lambda>valid.
     if \<not> valid then respond (problem 404 ''group or user not found'')
     else check (exec S (insert_membership gid uid)) (respond (problem 500 ''failed to add group membership'')) (\<lambda>_. do {
       audit S (Some (UserID p)) ''GROUP_MEMBERSHIP_ADDED'' ''group'' (path_value r ''id'') ''success'' r;
       respond (Status 204)
     })))))"

definition listGroupMembers :: "server \<Rightarrow> request \<Rightarrow> handler" where
  "listGroupMembers S r =
     check (with_uuid S (path_value r ''id'') (\<lambda>gid. query_rows S (\<lambda>_ d. Some (order_by
         (\<lambda>a b. collate S (u_username (snd a)) (u_username (snd b)))
         (join (\<lambda>m u. u_id u = gm_user m) (filter (\<lambda>m. gm_group m = gid) (memberships d)) (users d))))))
       (respond (problem 500 ''database error'')) (\<lambda>(rows, _).
     respond (items (map (\<lambda>(m, u). JObj
       [(''id'', JStr (u_id u)), (''username'', JStr (u_username u)), (''email'', JStr (u_email u)),
        (''display_name'', JStr (u_display_name u)), (''active'', JBool (u_active u)),
        (''member_since'', JTime (gm_created_at m))]) rows)))"

definition delete_membership :: "uuid \<Rightarrow> uuid \<Rightarrow> statement" where
  "delete_membership gid uid now d = Some (count_where (\<lambda>m. gm_group m = gid \<and> gm_user m = uid) (memberships d),
     d\<lparr>memberships := delete_where (\<lambda>m. gm_group m = gid \<and> gm_user m = uid) (memberships d)\<rparr>)"

definition removeGroupMember :: "server \<Rightarrow> request \<Rightarrow> principal \<Rightarrow> handler" where
  "removeGroupMember S r p =
     check (with_uuid S (path_value r ''id'') (\<lambda>gid. with_uuid S (path_value r ''userId'') (\<lambda>uid.
         exec S (delete_membership gid uid)))) (respond (problem 500 ''database error'')) (\<lambda>n.
     if n = 0 then respond (problem 404 ''group membership not found'')
     else do {
       audit S (Some (UserID p)) ''GROUP_MEMBERSHIP_REMOVED'' ''group'' (path_value r ''id'') ''success'' r;
       respond (Status 204)
     })"

section \<open>Roles\<close>

definition role_json :: "role \<Rightarrow> jval" where
  "role_json ro = JObj [(''id'', JStr (ro_id ro)), (''name'', JStr (ro_name ro)), (''description'', JStr (ro_description ro))]"

definition listRoles :: "server \<Rightarrow> handler" where
  "listRoles S = check (query_rows S (\<lambda>_ d. Some (order_by (\<lambda>a b. collate S (ro_name a) (ro_name b)) (roles d))))
     (respond (problem 500 ''database error'')) (\<lambda>(rows, _). respond (items (map role_json rows)))"

definition listUserRoles :: "server \<Rightarrow> request \<Rightarrow> handler" where
  "listUserRoles S r =
     check (with_uuid S (path_value r ''id'') (\<lambda>uid. query_rows S (\<lambda>_ d. Some (order_by
         (\<lambda>a b. collate S (ro_name a) (ro_name b)) (map snd (join (\<lambda>ra ro. ro_id ro = snd ra)
           (filter (\<lambda>ra. fst ra = uid) (role_assignments d)) (roles d)))))))
       (respond (problem 500 ''database error'')) (\<lambda>(rows, _). respond (items (map role_json rows)))"

definition insert_assignment :: "uuid \<Rightarrow> uuid \<Rightarrow> statement" where
  "insert_assignment uid rid now d =
     (if (uid, rid) \<in> set (role_assignments d) then Some (0, d)
      else if \<not> exists_where (\<lambda>u. u_id u = uid) (users d) \<or> \<not> exists_where (\<lambda>ro. ro_id ro = rid) (roles d) then None
      else Some (1, d\<lparr>role_assignments := role_assignments d @ [(uid, rid)]\<rparr>))"

definition assignRole :: "server \<Rightarrow> request \<Rightarrow> string option \<Rightarrow> principal \<Rightarrow> handler" where
  "assignRole S r body p = (case body of None \<Rightarrow> invalid_body | Some role \<Rightarrow>
     check (with_uuid S (path_value r ''id'') (\<lambda>uid. with_uuid S role (\<lambda>rid. exec S (insert_assignment uid rid))))
       (respond (problem 400 ''invalid user or role'')) (\<lambda>_. do {
       audit S (Some (UserID p)) ''ROLE_CHANGED'' ''user'' (path_value r ''id'') ''success'' r;
       now \<leftarrow> time_now;
       respond (JSON 200 (JObj [(''user_id'', JStr (path_value r ''id'')), (''role_id'', JStr role),
         (''assigned_at'', JTime now)]))
     }))"

definition delete_assignment :: "uuid \<Rightarrow> uuid \<Rightarrow> statement" where
  "delete_assignment uid rid now d = Some (count_where (\<lambda>ra. ra = (uid, rid)) (role_assignments d),
     d\<lparr>role_assignments := delete_where (\<lambda>ra. ra = (uid, rid)) (role_assignments d)\<rparr>)"

definition removeRole :: "server \<Rightarrow> request \<Rightarrow> principal \<Rightarrow> handler" where
  "removeRole S r p =
     check (with_uuid S (path_value r ''id'') (\<lambda>uid. with_uuid S (path_value r ''roleId'') (\<lambda>rid.
         exec S (delete_assignment uid rid)))) (respond (problem 500 ''database error'')) (\<lambda>n.
     if n = 0 then respond (problem 404 ''role assignment not found'')
     else do {
       audit S (Some (UserID p)) ''ROLE_CHANGED'' ''user'' (path_value r ''id'') ''success'' r;
       respond (Status 204)
     })"

end
