(* ===== verification/Branding.thy ===== *)
theory Branding imports Auth begin

text \<open>
  The login page's branding (\<open>backend/internal/httpapi/branding.go\<close>): structured settings that are
  validated before they are stored, because the page puts colours and image URLs into CSS.
\<close>

definition defaultLoginUISettings :: loginUISettings where
  "defaultLoginUISettings = \<lparr>Enabled = False, BrandName = ''OpenSSO'', Heading = ''Sign in'',
     Subheading = ''Use your OpenSSO account.'', LogoURL = [], BackgroundImageURL = [], BackgroundColor = ''#0b1020'',
     CardColor = ''#11192d'', TextColor = ''#e8edf5'', MutedTextColor = ''#9db0ca'', PrimaryColor = ''#5b7cfa'',
     InputBackgroundColor = ''#0d1526'', BorderColor = ''#223150'', CardRadius = 16, CardWidth = 460,
     NoticeText = [], FooterText = [], ShowBrandName = True, ShowFooter = False\<rparr>"

section \<open>Validation\<close>

text \<open>\<open>^#[0-9a-fA-F]{6}$\<close>.\<close>

definition color_ok :: "string \<Rightarrow> bool" where
  "color_ok c \<longleftrightarrow> length c = 7 \<and> hasPrefix c ''#'' \<and> list_all is_hex (tl c)"

text \<open>\<open>strings.ContainsAny(raw, "\\"'\\\\\\r\\n\\t")\<close>.\<close>

definition unsafe_bytes :: "char set" where
  "unsafe_bytes = {CHR 0x22, CHR 0x27, CHR 0x5C, CHR 0x0D, CHR 0x0A, CHR 0x09}"

definition url_refused :: string where
  "url_refused = ''must be an absolute http(s) URL or a root-relative path''"

definition validateLoginUIMediaURL :: "ucd \<Rightarrow> string \<Rightarrow> string option" where
  "validateLoginUIMediaURL U raw =
     (if raw = [] then None
      else if list_ex (\<lambda>c. c \<in> unsafe_bytes) raw then Some ''contains characters unsafe for a CSS/image URL''
      else case url_ParseRequestURI U raw of
        None \<Rightarrow> Some url_refused
      | Some u \<Rightarrow>
          if Fragment u \<noteq> [] \<or> HasUser u then Some url_refused
          else if hasPrefix raw ''/'' then
            (if hasPrefix raw ''//'' \<or> Scheme u \<noteq> [] \<or> Host u \<noteq> [] \<or> \<not> hasPrefix (Path u) ''/''
             then Some url_refused else None)
          else if Host u = [] \<or> Scheme u \<noteq> ''https'' \<and> Scheme u \<noteq> ''http'' then Some url_refused
          else None)"

definition trim_settings :: "loginUISettings \<Rightarrow> loginUISettings" where
  "trim_settings s = s\<lparr>BrandName := trimSpace (BrandName s), Heading := trimSpace (Heading s),
     Subheading := trimSpace (Subheading s), LogoURL := trimSpace (LogoURL s),
     BackgroundImageURL := trimSpace (BackgroundImageURL s), NoticeText := trimSpace (NoticeText s),
     FooterText := trimSpace (FooterText s)\<rparr>"

definition colors_of :: "loginUISettings \<Rightarrow> (string \<times> string) list" where
  "colors_of s = [(''background_color'', BackgroundColor s), (''card_color'', CardColor s), (''text_color'', TextColor s),
     (''muted_text_color'', MutedTextColor s), (''primary_color'', PrimaryColor s),
     (''input_background_color'', InputBackgroundColor s), (''border_color'', BorderColor s)]"

text \<open>
  Go ranges over the map of colours in an order of its own: \<open>reorder\<close> is that order, and decides which
  of several bad colours the error names.
\<close>

definition normalizeLoginUISettings ::
  "ucd \<Rightarrow> ((string \<times> string) list \<Rightarrow> (string \<times> string) list) \<Rightarrow> loginUISettings \<Rightarrow> string + loginUISettings" where
  "normalizeLoginUISettings U reorder s0 = (let s = trim_settings s0 in
     if BrandName s = [] \<or> length (runes (BrandName s)) > 100 then Inl ''brand_name must contain 1-100 characters''
     else if Heading s = [] \<or> length (runes (Heading s)) > 120 then Inl ''heading must contain 1-120 characters''
     else if length (runes (Subheading s)) > 240 \<or> length (runes (NoticeText s)) > 500 \<or> length (runes (FooterText s)) > 240
       then Inl ''login UI text exceeds allowed length''
     else if CardRadius s < 0 \<or> CardRadius s > 48 then Inl ''card_radius must be between 0 and 48''
     else if CardWidth s < 320 \<or> CardWidth s > 720 then Inl ''card_width must be between 320 and 720''
     else if length (LogoURL s) > 2048 \<or> length (BackgroundImageURL s) > 2048
       then Inl ''login UI media URL exceeds 2048 bytes''
     else case find (\<lambda>nv. \<not> color_ok (snd nv)) (reorder (colors_of s)) of
         Some nv \<Rightarrow> Inl (fst nv @ '' must be a six-digit hexadecimal color'')
       | None \<Rightarrow>
     (case validateLoginUIMediaURL U (LogoURL s) of Some e \<Rightarrow> Inl (''logo_url: '' @ e) | None \<Rightarrow>
     (case validateLoginUIMediaURL U (BackgroundImageURL s) of Some e \<Rightarrow> Inl (''background_image_url: '' @ e)
      | None \<Rightarrow> Inr s)))"

section \<open>Handlers\<close>

definition login_ui_json :: "loginUISettings \<Rightarrow> jval" where
  "login_ui_json s = JObj
     [(''enabled'', JBool (Enabled s)), (''brand_name'', JStr (BrandName s)), (''heading'', JStr (Heading s)),
      (''subheading'', JStr (Subheading s)), (''logo_url'', JStr (LogoURL s)),
      (''background_image_url'', JStr (BackgroundImageURL s)), (''background_color'', JStr (BackgroundColor s)),
      (''card_color'', JStr (CardColor s)), (''text_color'', JStr (TextColor s)),
      (''muted_text_color'', JStr (MutedTextColor s)), (''primary_color'', JStr (PrimaryColor s)),
      (''input_background_color'', JStr (InputBackgroundColor s)), (''border_color'', JStr (BorderColor s)),
      (''card_radius'', JInt (CardRadius s)), (''card_width'', JInt (CardWidth s)),
      (''notice_text'', JStr (NoticeText s)), (''footer_text'', JStr (FooterText s)),
      (''show_brand_name'', JBool (ShowBrandName s)), (''show_footer'', JBool (ShowFooter s))]"

definition loadLoginUISettings :: "server \<Rightarrow> (st, dberr + loginUISettings) state" where
  "loadLoginUISettings S = query S (\<lambda>_ d. login_ui d)"

text \<open>Served with \<open>Cache-Control: no-store\<close>.\<close>

definition publicLoginUI :: "server \<Rightarrow> handler" where
  "publicLoginUI S = check (loadLoginUISettings S) (respond (problem 500 ''database error'')) (\<lambda>out.
     respond (NoStoreJSON 200 (login_ui_json (if \<not> Enabled out then defaultLoginUISettings else out))))"

definition adminLoginUI :: "server \<Rightarrow> handler" where
  "adminLoginUI S = check (loadLoginUISettings S) (respond (problem 500 ''database error''))
     (\<lambda>out. respond (JSON 200 (login_ui_json out)))"

text \<open>The \<open>UPDATE\<close> of row 1; \<open>updated_by\<close> references \<open>users\<close>.\<close>

definition set_login_ui :: "loginUISettings \<Rightarrow> uuid \<Rightarrow> statement" where
  "set_login_ui s uid now d = (case login_ui d of
     None \<Rightarrow> Some (0, d)
   | Some _ \<Rightarrow> if \<not> exists_where (\<lambda>u. u_id u = uid) (users d) then None
       else Some (1, d\<lparr>login_ui := Some s\<rparr>))"

definition updateLoginUI ::
  "server \<Rightarrow> ((string \<times> string) list \<Rightarrow> (string \<times> string) list) \<Rightarrow> request \<Rightarrow> loginUISettings option \<Rightarrow> principal \<Rightarrow> handler" where
  "updateLoginUI S reorder r body p = (case body of None \<Rightarrow> invalid_body | Some inp \<Rightarrow>
     case normalizeLoginUISettings (udata S) reorder inp of Inl e \<Rightarrow> respond (problem 400 e) | Inr s \<Rightarrow>
     check (exec S (set_login_ui s (UserID p))) (respond (problem 500 ''database error'')) (\<lambda>_. do {
       audit S (Some (UserID p)) ''LOGIN_UI_UPDATED'' ''login_ui'' ''1'' ''success'' r;
       respond (JSON 200 (login_ui_json s))
     }))"

definition resetLoginUI :: "server \<Rightarrow> request \<Rightarrow> principal \<Rightarrow> handler" where
  "resetLoginUI S r p =
     check (exec S (set_login_ui defaultLoginUISettings (UserID p))) (respond (problem 500 ''database error'')) (\<lambda>_. do {
       audit S (Some (UserID p)) ''LOGIN_UI_RESET'' ''login_ui'' ''1'' ''success'' r;
       respond (JSON 200 (login_ui_json defaultLoginUISettings))
     })"

end
