(* ===== verification/Users.thy ===== *)
theory Users imports Auth begin

text \<open>
  User administration (\<open>backend/internal/httpapi/stage1.go\<close> and \<open>server.go\<close>): listing, creating
  and changing users, unlocking, password reset and change, sessions, the dashboard, the audit
  trail's listing. What they guarantee: who can sign in afterwards, and which sessions survive.
\<close>

section \<open>Users\<close>

definition user_json :: "user \<Rightarrow> jval" where
  "user_json u = JObj
     [(''id'', JStr (u_id u)), (''username'', JStr (u_username u)), (''email'', JStr (u_email u)),
      (''display_name'', JStr (u_display_name u)), (''active'', JBool (u_active u)),
      (''must_change_password'', JBool (u_must_change u)), (''locked_until'', opt_time (u_locked_until u)),
      (''created_at'', JTime (u_created_at u))]"

definition listUsers :: "server \<Rightarrow> handler" where
  "listUsers S =
     check (query_rows S (\<lambda>_ d. Some (take 500 (order_by (\<lambda>a b. collate S (u_username a) (u_username b)) (users d)))))
       (respond (problem 500 ''database error'')) (\<lambda>(rows, _). respond (items (map user_json rows)))"

definition getUser :: "server \<Rightarrow> request \<Rightarrow> handler" where
  "getUser S r =
     check (with_uuid S (path_value r ''id'') (\<lambda>uid. query S (\<lambda>_ d. find (\<lambda>u. u_id u = uid) (users d))))
       (respond (problem 404 ''user not found'')) (\<lambda>u. respond (JSON 200 (user_json u)))"

definition assign_role_if_new :: "uuid \<Rightarrow> string \<Rightarrow> statement" where
  "assign_role_if_new uid role now d =
     (let new = filter (\<lambda>a. a \<notin> set (role_assignments d)) (new_assignments uid role d) in
      if \<not> exists_where (\<lambda>u. u_id u = uid) (users d) \<and> new \<noteq> [] then None
      else Some (length new, d\<lparr>role_assignments := role_assignments d @ new\<rparr>))"

definition createUser :: "server \<Rightarrow> request \<Rightarrow> (string \<times> string \<times> string \<times> string) option \<Rightarrow> principal \<Rightarrow> handler" where
  "createUser S r body p = (case body of None \<Rightarrow> invalid_body | Some (username, email, display_name, password) \<Rightarrow>
     check (getSecurityPolicy S) (respond (problem 500 ''database error'')) (\<lambda>policy.
     let violation = passwordPolicyViolation (udata S) policy password in
     if violation \<noteq> [] then respond (problem 400 violation)
     else with_hash S password (\<lambda>hash.
     check (tx_begin S) (respond (problem 500 ''database error'')) (\<lambda>v0. do {
       uid \<leftarrow> new_uuid S;
       check (tx_exec S v0 (insert_user uid (pg_lower S (trimSpace username)) (pg_lower S (trimSpace email))
           (trimSpace display_name) True)) (respond (problem 409 ''username or email already exists'')) (\<lambda>(_, v1).
       check (tx_exec S v1 (insert_credential uid hash)) (respond (problem 500 ''database error'')) (\<lambda>(_, v2).
       check (tx_exec S v2 (assign_role_if_new uid ''User'')) (respond (problem 500 ''database error'')) (\<lambda>(_, v3).
       check (auditTx S v3 (Some (UserID p)) ''USER_CREATED'' ''user'' uid ''success'' r)
         (respond (problem 500 ''audit error'')) (\<lambda>(_, v4).
       check (tx_commit S v4) (respond (problem 500 ''database error'')) (\<lambda>_.
       respond (JSON 201 (JObj [(''id'', JStr uid)])))))))
     }))))"

text \<open>\<open>email\<close> is unique.\<close>

definition set_user :: "uuid \<Rightarrow> string \<Rightarrow> string \<Rightarrow> bool \<Rightarrow> statement" where
  "set_user uid email display active now d =
     (if exists_where (\<lambda>u. u_id u = uid) (users d) \<and> exists_where (\<lambda>u. u_id u \<noteq> uid \<and> u_email u = email) (users d)
      then None
      else Some (count_where (\<lambda>u. u_id u = uid) (users d), d\<lparr>users := update_where (\<lambda>u. u_id u = uid)
        (\<lambda>u. u\<lparr>u_email := email, u_display_name := display, u_active := active, u_updated_at := now\<rparr>) (users d)\<rparr>))"

definition updateUser :: "server \<Rightarrow> request \<Rightarrow> (string \<times> string \<times> bool option) option \<Rightarrow> principal \<Rightarrow> handler" where
  "updateUser S r body p = (case body of None \<Rightarrow> invalid_body | Some (email, display_name, active_opt) \<Rightarrow>
     if \<not> strings_Contains (trimSpace email) ''@'' then respond (problem 400 ''invalid email'')
     else case active_opt of None \<Rightarrow> respond (problem 400 ''active is required'') | Some active \<Rightarrow>
     cast_uuid S (path_value r ''id'') (respond (problem 409 ''email already exists or user update failed'')) (\<lambda>uid.
     check (exec S (set_user uid (pg_lower S (trimSpace email)) (trimSpace display_name) active))
       (respond (problem 409 ''email already exists or user update failed'')) (\<lambda>n.
     if n = 0 then respond (problem 404 ''user not found'')
     else do {
       (if \<not> active then try_exec S (revoke_user_sessions uid) else State_Monad.return ());
       audit S (Some (UserID p)) ''USER_UPDATED'' ''user'' (path_value r ''id'') ''success'' r;
       respond (JSON 200 (JObj [(''id'', JStr (path_value r ''id'')), (''active'', JBool active)]))
     })))"

definition unlock_user :: "uuid \<Rightarrow> statement" where
  "unlock_user uid now d = Some (count_where (\<lambda>u. u_id u = uid) (users d),
     d\<lparr>users := update_where (\<lambda>u. u_id u = uid)
       (\<lambda>u. u\<lparr>u_failed_logins := 0, u_locked_until := None, u_updated_at := now\<rparr>) (users d)\<rparr>)"

definition unlockUser :: "server \<Rightarrow> request \<Rightarrow> principal \<Rightarrow> handler" where
  "unlockUser S r p =
     check (with_uuid S (path_value r ''id'') (\<lambda>uid. exec S (unlock_user uid)))
       (respond (problem 500 ''database error'')) (\<lambda>n.
     if n = 0 then respond (problem 404 ''user not found'')
     else do {
       audit S (Some (UserID p)) ''USER_UNLOCKED'' ''user'' (path_value r ''id'') ''success'' r;
       respond (Status 204)
     })"

section \<open>Passwords\<close>

definition set_password :: "uuid \<Rightarrow> string \<Rightarrow> statement" where
  "set_password uid hash now d = Some (count_where (\<lambda>c. pc_user c = uid) (credentials d),
     d\<lparr>credentials := update_where (\<lambda>c. pc_user c = uid) (\<lambda>c. c\<lparr>pc_hash := hash, pc_changed_at := now\<rparr>) (credentials d)\<rparr>)"

definition force_change :: "uuid \<Rightarrow> statement" where
  "force_change uid now d = Some (count_where (\<lambda>u. u_id u = uid) (users d),
     d\<lparr>users := update_where (\<lambda>u. u_id u = uid)
       (\<lambda>u. u\<lparr>u_must_change := True, u_failed_logins := 0, u_locked_until := None, u_updated_at := now\<rparr>) (users d)\<rparr>)"

definition resetUserPassword :: "server \<Rightarrow> request \<Rightarrow> string option \<Rightarrow> principal \<Rightarrow> handler" where
  "resetUserPassword S r body p = (case body of None \<Rightarrow> invalid_body | Some password \<Rightarrow>
     check (getSecurityPolicy S) (respond (problem 500 ''database error'')) (\<lambda>policy.
     let violation = passwordPolicyViolation (udata S) policy password in
     if violation \<noteq> [] then respond (problem 400 violation)
     else with_hash S password (\<lambda>hash.
     check (tx_begin S) (respond (problem 500 ''database error'')) (\<lambda>v0.
     cast_uuid S (path_value r ''id'') (respond (problem 404 ''user not found'')) (\<lambda>uid.
     check (tx_exec S v0 (set_password uid hash)) (respond (problem 404 ''user not found'')) (\<lambda>(n, v1).
     if n = 0 then respond (problem 404 ''user not found'')
     else check (tx_exec S v1 (force_change uid)) (respond (problem 500 ''database error'')) (\<lambda>(_, v2).
     check (tx_exec S v2 (revoke_user_sessions uid)) (respond (problem 500 ''database error'')) (\<lambda>(_, v3).
     check (auditTx S v3 (Some (UserID p)) ''PASSWORD_RESET'' ''user'' (path_value r ''id'') ''success'' r)
       (respond (problem 500 ''audit error'')) (\<lambda>(_, v4).
     check (tx_commit S v4) (respond (problem 500 ''database error'')) (\<lambda>_.
     respond (Status 204)))))))))))"

definition password_changed :: "uuid \<Rightarrow> statement" where
  "password_changed uid now d = Some (count_where (\<lambda>u. u_id u = uid) (users d),
     d\<lparr>users := update_where (\<lambda>u. u_id u = uid) (\<lambda>u. u\<lparr>u_must_change := False, u_updated_at := now\<rparr>) (users d)\<rparr>)"

definition store_own_password :: "server \<Rightarrow> request \<Rightarrow> principal \<Rightarrow> string \<Rightarrow> handler" where
  "store_own_password S r p hash =
     check (tx_begin S) (respond (problem 500 ''database error'')) (\<lambda>v0.
     check (tx_exec S v0 (set_password (UserID p) hash)) (respond (problem 500 ''database error'')) (\<lambda>(_, v1).
     check (tx_exec S v1 (password_changed (UserID p))) (respond (problem 500 ''database error'')) (\<lambda>(_, v2).
     check (auditTx S v2 (Some (UserID p)) ''PASSWORD_CHANGED'' ''user'' (UserID p) ''success'' r)
       (respond (problem 500 ''audit error'')) (\<lambda>(_, v3).
     check (tx_commit S v3) (respond (problem 500 ''database error'')) (\<lambda>_.
     respond (Status 204))))))"

definition change_password :: "server \<Rightarrow> request \<Rightarrow> (string \<times> string) option \<Rightarrow> principal \<Rightarrow> handler" where
  "change_password S r body p = (case body of None \<Rightarrow> invalid_body | Some (current, new) \<Rightarrow>
     check (query S (\<lambda>_ d. map_option pc_hash (find (\<lambda>c. pc_user c = UserID p) (credentials d))))
       (respond (problem 500 ''database error'')) (\<lambda>currentHash.
     case VerifyPassword S currentHash current of
       None \<Rightarrow> respond Panicked
     | Some False \<Rightarrow> respond (problem 401 ''current password is invalid'')
     | Some True \<Rightarrow>
       check (getSecurityPolicy S) (respond (problem 500 ''database error'')) (\<lambda>policy.
       let violation = passwordPolicyViolation (udata S) policy new in
       if violation \<noteq> [] then respond (problem 400 violation)
       else case VerifyPassword S currentHash new of
         None \<Rightarrow> respond Panicked
       | Some True \<Rightarrow> respond (problem 400 ''new password must differ from current password'')
       | Some False \<Rightarrow> with_hash S new (store_own_password S r p))))"

definition changeOwnPassword :: "server \<Rightarrow> request \<Rightarrow> (string \<times> string) option \<Rightarrow> principal \<Rightarrow> handler" where
  "changeOwnPassword S r body p =
     (if MustChangePassword p then change_password S r body p
      else check (Required S (UserID p) None) (respond (problem 500 ''MFA policy lookup failed'')) (\<lambda>required.
        if required \<and> \<not> MFAVerified p
        then respond (problem 403 ''MFA verification required before changing password'')
        else change_password S r body p))"

section \<open>Sessions\<close>

definition coalesce_ip :: "server \<Rightarrow> string option \<Rightarrow> string" where
  "coalesce_ip S ip = (case ip of None \<Rightarrow> [] | Some a \<Rightarrow> inet_text S a)"

definition session_json :: "server \<Rightarrow> session \<times> user \<Rightarrow> jval" where
  "session_json S su = (case su of (s, u) \<Rightarrow> JObj
     [(''id'', JStr (se_id s)), (''user_id'', JStr (se_user s)), (''username'', JStr (u_username u)),
      (''ip'', JStr (coalesce_ip S (se_ip s))), (''user_agent'', JStr (se_agent s)),
      (''created_at'', JTime (se_created_at s)), (''last_seen_at'', JTime (se_last_seen s)),
      (''expires_at'', JTime (se_expires s))])"

definition live_sessions :: "instant \<Rightarrow> db \<Rightarrow> (session \<times> user) list" where
  "live_sessions now d = take 1000 (order_by (\<lambda>a b. se_last_seen (fst a) \<ge> se_last_seen (fst b))
     (filter (\<lambda>(s, _). session_live now s) (join (\<lambda>s u. u_id u = se_user s) (sessions d) (users d))))"

definition listSessions :: "server \<Rightarrow> handler" where
  "listSessions S = check (query_rows S (\<lambda>now d. Some (live_sessions now d))) (respond (problem 500 ''database error''))
     (\<lambda>(rows, _). respond (items (map (session_json S) rows)))"

definition revoke_session :: "uuid \<Rightarrow> statement" where
  "revoke_session sid now d = Some (count_where (\<lambda>s. se_id s = sid \<and> se_revoked s = None) (sessions d),
     d\<lparr>sessions := update_where (\<lambda>s. se_id s = sid \<and> se_revoked s = None) (\<lambda>s. s\<lparr>se_revoked := Some now\<rparr>) (sessions d)\<rparr>)"

definition revokeSession :: "server \<Rightarrow> request \<Rightarrow> principal \<Rightarrow> handler" where
  "revokeSession S r p =
     check (with_uuid S (path_value r ''id'') (\<lambda>sid. exec S (revoke_session sid)))
       (respond (problem 500 ''database error'')) (\<lambda>n.
     if n = 0 then respond (problem 404 ''active session not found'')
     else do {
       audit S (Some (UserID p)) ''SESSION_REVOKED'' ''session'' (path_value r ''id'') ''success'' r;
       respond (Status 204)
     })"

definition revokeUserSessions :: "server \<Rightarrow> request \<Rightarrow> principal \<Rightarrow> handler" where
  "revokeUserSessions S r p =
     check (with_uuid S (path_value r ''id'') (\<lambda>uid. exec S (revoke_user_sessions uid)))
       (respond (problem 500 ''database error'')) (\<lambda>_. do {
       audit S (Some (UserID p)) ''SESSION_REVOKED'' ''user'' (path_value r ''id'') ''success'' r;
       respond (Status 204)
     })"

definition revoke_live :: statement where
  "revoke_live now d = Some (count_where (session_live now) (sessions d),
     d\<lparr>sessions := update_where (session_live now) (\<lambda>s. s\<lparr>se_revoked := Some now\<rparr>) (sessions d)\<rparr>)"

definition revokeAllSessions :: "server \<Rightarrow> request \<Rightarrow> principal \<Rightarrow> handler" where
  "revokeAllSessions S r p = check (exec S revoke_live) (respond (problem 500 ''database error'')) (\<lambda>n. do {
     audit S (Some (UserID p)) ''SESSION_REVOKED'' ''global'' [] ''success'' r;
     respond (JSON 200 (JObj [(''revoked_sessions'', JInt (int n))]))
   })"

section \<open>Dashboard and audit trail\<close>

definition recent_events :: "string \<Rightarrow> instant \<Rightarrow> db \<Rightarrow> nat" where
  "recent_events event now d = count_where (\<lambda>e. ae_event e = event \<and> ae_at e > now - minutes 1440) (audit_events d)"

definition dashboard :: "server \<Rightarrow> handler" where
  "dashboard S = check (query S (\<lambda>now d. Some (map int
       [length (users d), count_where u_active (users d),
        count_where (\<lambda>u. case u_locked_until u of None \<Rightarrow> False | Some t \<Rightarrow> t > now) (users d),
        count_where a_enabled (applications d), count_where (session_live now) (sessions d),
        recent_events ''LOGIN_SUCCESS'' now d, recent_events ''LOGIN_FAILED'' now d])))
     (respond (problem 500 ''database error'')) (\<lambda>counts.
     respond (JSON 200 (JObj (zip [''users'', ''active_users'', ''locked_users'', ''applications'', ''active_sessions'',
       ''logins_24h'', ''failed_logins_24h''] (map JInt counts)))))"

text \<open>\<open>add\<close>: an empty parameter adds no condition.\<close>

definition audit_matches :: "server \<Rightarrow> request \<Rightarrow> audit_event \<Rightarrow> bool" where
  "audit_matches S r e \<longleftrightarrow>
     (let uid = url_query r ''user_id''; app = url_query r ''application_id''; ev = url_query r ''event'';
          ip = url_query r ''ip''; res = url_query r ''result'' in
      (uid \<noteq> [] \<longrightarrow> (case ae_actor e of None \<Rightarrow> [] | Some a \<Rightarrow> a) = uid
         \<or> ae_target_type e = ''user'' \<and> ae_target_id e = uid)
      \<and> (app \<noteq> [] \<longrightarrow> ae_target_type e = ''application'' \<and> ae_target_id e = app)
      \<and> (ev \<noteq> [] \<longrightarrow> ae_event e = ev) \<and> (ip \<noteq> [] \<longrightarrow> coalesce_ip S (ae_ip e) = ip)
      \<and> (res \<noteq> [] \<longrightarrow> ae_result e = res))"

definition audit_json :: "server \<Rightarrow> nat \<times> audit_event \<Rightarrow> jval" where
  "audit_json S ie = (case ie of (i, e) \<Rightarrow> JObj
     [(''id'', JInt (audit_serial S i)), (''occurred_at'', JTime (ae_at e)),
      (''actor_user_id'', JStr (case ae_actor e of None \<Rightarrow> [] | Some a \<Rightarrow> a)),
      (''target_type'', JStr (ae_target_type e)), (''target_id'', JStr (ae_target_id e)),
      (''event'', JStr (ae_event e)), (''result'', JStr (ae_result e)), (''ip'', JStr (coalesce_ip S (ae_ip e))),
      (''request_id'', JStr (ae_request_id e))])"

definition listAudit :: "server \<Rightarrow> request \<Rightarrow> handler" where
  "listAudit S r = check (query_rows S (\<lambda>_ d. Some (take 500 (order_by (\<lambda>a b. ae_at (snd a) \<ge> ae_at (snd b))
       (filter (\<lambda>ie. audit_matches S r (snd ie)) (enumerate 0 (audit_events d)))))))
     (respond (problem 500 ''database error'')) (\<lambda>(rows, _). respond (items (map (audit_json S) rows)))"

end
