(* ===== verification/Certificates.thy ===== *)
theory Certificates imports Keys Http begin

text \<open>
  \<open>backend/internal/samlidp/certificates.go\<close>: the key and self-signed certificate that sign SAML
  responses. A second ring of keys next to the OIDC signing keys: the active certificate is replaced
  on request and when it has less than thirty days to live.

  RSA, X.509 and the serial number's entropy are parameters (\<open>rsa_generate\<close>, \<open>x509_create\<close>,
  \<open>rand_int\<close>); the two-year lifetime is Go's calendar arithmetic.
\<close>

section \<open>\<open>time.AddDate\<close>\<close>

text \<open>
  Years that begin on the first of March end with the leap day, so a date keeps its day number when
  the year changes. \<open>march_first y\<close> counts the days from 0000-03-01 to \<open>y\<close>-03-01.
\<close>

definition march_first :: "int \<Rightarrow> int" where
  "march_first y = 365 * y + y div 4 - y div 100 + y div 400"

definition march_year :: "int \<Rightarrow> int" where
  "march_year n = (let e = n div 146097; r = n mod 146097;
     c = min 3 (r div 36524); r1 = r - 36524 * c;
     q = r1 div 1461; r2 = r1 - 1461 * q in 400 * e + 100 * c + 4 * q + min 3 (r2 div 365))"

text \<open>\<open>t.AddDate(years, 0, 0)\<close> in UTC; 719468 days lie between 0000-03-01 and 1970-01-01.\<close>

definition addYears :: "int \<Rightarrow> instant \<Rightarrow> instant" where
  "addYears years t = (let y = march_year (t div 86400000000 + 719468) in
     t + (march_first (y + years) - march_first y) * 86400000000)"

section \<open>The certificate manager\<close>

record CertificateAndKey =
  Certificate :: string
  CertKey :: string

definition active_cert :: "keydb \<Rightarrow> saml_cert option" where
  "active_cert d = find sc_active (saml_certs d)"

definition retire_cert :: "instant \<Rightarrow> saml_cert \<Rightarrow> saml_cert" where
  "retire_cert now c = c\<lparr>sc_active := False, sc_retired := Some now\<rparr>"

definition retire_certs :: "instant \<Rightarrow> keydb \<Rightarrow> keydb option" where
  "retire_certs now d = Some (d\<lparr>saml_certs := update_where sc_active (retire_cert now) (saml_certs d)\<rparr>)"

text \<open>\<open>kid\<close> is unique, and so is the active row (\<open>saml_signing_certificates_single_active_idx\<close>).\<close>

definition insert_cert ::
  "string \<Rightarrow> string \<Rightarrow> string \<Rightarrow> instant \<Rightarrow> instant \<Rightarrow> instant \<Rightarrow> keydb \<Rightarrow> keydb option" where
  "insert_cert kid encrypted der notBefore notAfter now d =
     (if exists_where (\<lambda>c. sc_kid c = kid \<or> sc_active c) (saml_certs d) then None
      else Some (d\<lparr>saml_certs := saml_certs d @
        [\<lparr>sc_kid = kid, sc_encrypted = encrypted, sc_der = der, sc_not_before = notBefore, sc_not_after = notAfter,
          sc_active = True, sc_created_at = now, sc_retired = None\<rparr>]\<rparr>))"

text \<open>The key, the serial number and the certificate; then its identifier and the row.\<close>

definition store_cert :: "server \<Rightarrow> keydb \<Rightarrow> string \<Rightarrow> string \<Rightarrow> instant \<Rightarrow> instant \<Rightarrow> (st, unit + CertificateAndKey) state" where
  "store_cert S v private der notBefore notAfter =
     check_some (RandomToken S 12) (State_Monad.return (Inl ())) (\<lambda>kid.
     check_some (saml_encryptPrivateKey S kid private) (State_Monad.return (Inl ())) (\<lambda>encrypted.
     orfail (key_tx_exec S v (insert_cert kid encrypted der notBefore notAfter)) (\<lambda>_. ()) (\<lambda>v1.
     orfail (key_commit S v1) (\<lambda>_. ()) (\<lambda>_.
     State_Monad.return (Inr \<lparr>Certificate = der, CertKey = private\<rparr>)))))"

definition saml_Rotate :: "server \<Rightarrow> (st, unit + CertificateAndKey) state" where
  "saml_Rotate S =
     orfail (key_begin S) (\<lambda>_. ()) (\<lambda>v0.
     orfail (key_tx_exec S v0 (\<lambda>_ d. Some d)) (\<lambda>_. ()) (\<lambda>v1.
     orfail (key_tx_exec S v1 retire_certs) (\<lambda>_. ()) (\<lambda>v2. do {
       n \<leftarrow> next_draw;
       case rsa_generate S n of
         None \<Rightarrow> State_Monad.return (Inl ())
       | Some private \<Rightarrow> do {
           m \<leftarrow> next_draw;
           case rand_int S m of
             None \<Rightarrow> State_Monad.return (Inl ())
           | Some serial \<Rightarrow> do {
               now \<leftarrow> time_now;
               let notBefore = now - minutes 5;
               let notAfter = addYears 2 now;
               case x509_create S private serial notBefore notAfter of
                 None \<Rightarrow> State_Monad.return (Inl ())
               | Some der \<Rightarrow> store_cert S v2 private der notBefore notAfter
             }
         }
     })))"

definition saml_Active :: "server \<Rightarrow> (st, unit + CertificateAndKey) state" where
  "saml_Active S = do {
     found \<leftarrow> key_query S (\<lambda>_ d. active_cert d);
     now \<leftarrow> time_now;
     case found of
       Inr c \<Rightarrow>
         if sc_not_after c - now < minutes 43200 then saml_Rotate S
         else State_Monad.return (case saml_decryptPrivateKey S (sc_kid c) (sc_encrypted c) of
             None \<Rightarrow> Inl ()
           | Some private \<Rightarrow> Inr \<lparr>Certificate = sc_der c, CertKey = private\<rparr>)
     | Inl DbError \<Rightarrow> State_Monad.return (Inl ())
     | Inl NoRows \<Rightarrow> saml_Rotate S
   }"

definition cert_first :: "saml_cert \<Rightarrow> saml_cert \<Rightarrow> bool" where
  "cert_first a b \<longleftrightarrow> sc_active a \<and> \<not> sc_active b \<or> sc_active a = sc_active b \<and> sc_created_at a \<ge> sc_created_at b"

definition cert_json :: "saml_cert \<Rightarrow> jval" where
  "cert_json c = JObj
     [(''kid'', JStr (sc_kid c)), (''active'', JBool (sc_active c)), (''not_before'', JTime (sc_not_before c)),
      (''not_after'', JTime (sc_not_after c)), (''created_at'', JTime (sc_created_at c)),
      (''retired_at'', opt_time (sc_retired c))]"

definition CertificateMetadata :: "server \<Rightarrow> (st, unit + jval list) state" where
  "CertificateMetadata S = orfail (key_rows S (\<lambda>_ d. Some (order_by cert_first (saml_certs d)))) (\<lambda>_. ())
     (\<lambda>(rows, failed). State_Monad.return (if failed then Inl () else Inr (map cert_json rows)))"

section \<open>The certificates are a key ring\<close>

text \<open>What a rotation does: the old certificate is retired, the new one is valid from five minutes ago for two years.\<close>

definition cert_step :: "keydb \<Rightarrow> instant \<Rightarrow> instant \<Rightarrow> unit + CertificateAndKey \<Rightarrow> keydb \<Rightarrow> bool" where
  "cert_step d now go x d' \<longleftrightarrow> (case x of
     Inl _ \<Rightarrow> d' = d
   | Inr c \<Rightarrow> (\<exists>new. d' = d\<lparr>saml_certs := update_where sc_active (retire_cert now) (saml_certs d) @ [new]\<rparr>
       \<and> sc_active new \<and> sc_kid new \<notin> sc_kid ` set (saml_certs d) \<and> sc_der new = Certificate c
       \<and> sc_not_before new = go - minutes 5 \<and> sc_not_after new = addYears 2 go))"

lemma retire_cert_simps [simp]: "\<not> sc_active (retire_cert now c)" "sc_kid (retire_cert now c) = sc_kid c"
  by (simp_all add: retire_cert_def)

lemma insert_cert_step:
  assumes i: "insert_cert kid encrypted der nb na now v = Some v'" and r: "retire_certs now d = Some v"
    and "nb = go - minutes 5" "na = addYears 2 go"
  shows "cert_step d now go (Inr \<lparr>Certificate = der, CertKey = key\<rparr>) v'"
proof -
  have kids: "sc_kid ` set (update_where sc_active (retire_cert now) (saml_certs d)) = sc_kid ` set (saml_certs d)"
    unfolding list.set_map [symmetric] by (subst map_update_where) simp_all
  have v: "v = d\<lparr>saml_certs := update_where sc_active (retire_cert now) (saml_certs d)\<rparr>"
    using r by (simp add: retire_certs_def)
  with i have "kid \<notin> sc_kid ` set (update_where sc_active (retire_cert now) (saml_certs d))"
    by (auto simp: insert_cert_def exists_where_iff split: if_splits)
  with i assms(3,4) show ?thesis unfolding kids
    by (auto simp: cert_step_def insert_cert_def v split: if_splits)
qed

lemma keeps_data_saml_encrypt: "keeps_data (saml_encryptPrivateKey S kid key)"
  by (rule keeps_dataI) (auto simp: encryptPrivateKey_encrypt wp split: option.splits)

lemma keys_saml_encrypt [simp]:
  "keys (final (saml_encryptPrivateKey S kid key) s) = keys s" "uuids (final (saml_encryptPrivateKey S kid key) s) = uuids s"
proof -
  have "wp (saml_encryptPrivateKey S kid key) (\<lambda>_ t. keys t = keys s \<and> uuids t = uuids s) s"
    by (auto simp: encryptPrivateKey_encrypt wp split: option.splits)
  then show "keys (final (saml_encryptPrivateKey S kid key) s) = keys s" "uuids (final (saml_encryptPrivateKey S kid key) s) = uuids s"
    by (simp_all add: wp_result)
qed

lemmas final_saml_encrypt [simp] = keeps_data_simps [OF keeps_data_saml_encrypt]
lemmas wp_saml_encrypt [wp] = wp_result [of "saml_encryptPrivateKey S kid key" for S kid key]

lemma store_cert_step:
  assumes "retire_certs (pg_now s) (keys s) = Some v" "nb = go - minutes 5" "na = addYears 2 go"
  shows "wp (store_cert S v private der nb na) (\<lambda>x t. cert_step (keys s) (pg_now s) go x (keys t) \<and> main t = main s \<and> redis t = redis s
     \<and> go_now t = go_now s \<and> pg_now t = pg_now s \<and> redis_now t = redis_now s \<and> uuids t = uuids s) s"
proof -
  have err: "cert_step d now go (Inl ()) d" for d now by (simp add: cert_step_def)
  show ?thesis unfolding store_cert_def
    using insert_cert_step [OF _ assms]
    by (auto simp: wp err exec_result_def split: option.splits)
qed

lemma saml_Rotate_step:
  "wp (saml_Rotate S) (\<lambda>x t. cert_step (keys s) (pg_now s) (go_now s) x (keys t) \<and> main t = main s \<and> redis t = redis s
     \<and> go_now t = go_now s \<and> pg_now t = pg_now s \<and> redis_now t = redis_now s \<and> uuids t = uuids s) s"
proof -
  have err: "cert_step d now go (Inl ()) d" for d now go by (simp add: cert_step_def)
  have stored: "wp (store_cert S v pk der nb (addYears 2 (go_now s)))
      (\<lambda>x t. cert_step (keys s) (pg_now s) (go_now s) x (keys t) \<and> main t = main s \<and> redis t = redis s
        \<and> go_now t = go_now s \<and> pg_now t = pg_now s \<and> redis_now t = redis_now s \<and> uuids t = uuids s)
      (s\<lparr>ios := i, draws := j\<rparr>)"
    if "retire_certs (pg_now s) (keys s) = Some v" "nb = go_now s - minutes 5" for v pk der nb i j
    using store_cert_step [of "s\<lparr>ios := i, draws := j\<rparr>" v nb "go_now s" "addYears 2 (go_now s)" S pk der] that by simp
  show ?thesis unfolding saml_Rotate_def Let_def
    by (auto simp: wp err exec_result_def intro!: stored split: option.splits)
qed

lemma saml_Rotate_ring:
  assumes "run_state (saml_Rotate S) s = (x, t)"
  shows "cert_step (keys s) (pg_now s) (go_now s) x (keys t)"
  using wp_run [OF saml_Rotate_step assms] by blast

interpretation saml_keys: key_ring saml_certs sc_active sc_kid retire_cert "saml_Rotate S"
proof unfold_locales
  fix s k t assume "run_state (saml_Rotate S) s = (Inr k, t)"
  from saml_Rotate_ring [OF this] show "\<exists>now new. saml_certs (keys t) =
      update_where sc_active (retire_cert now) (saml_certs (keys s)) @ [new] \<and> sc_active new
      \<and> sc_kid new \<notin> sc_kid ` set (saml_certs (keys s))"
    by (auto simp: cert_step_def intro!: exI [of _ "pg_now s"])
next
  fix s e t assume "run_state (saml_Rotate S) s = (Inl e, t)"
  from saml_Rotate_ring [OF this] show "saml_certs (keys t) = saml_certs (keys s)"
    by (simp add: cert_step_def)
qed simp_all

end
