(* ===== verification/Saml.thy ===== *)
theory Saml imports Auth Certificates begin

text \<open>
  The SAML identity provider: \<open>backend/internal/samlidp/storage.go\<close>, what \<open>runtime.go\<close> adds to the
  library, and \<open>backend/internal/httpapi/saml_admin.go\<close>.

  The protocol itself (parsing AuthnRequests, signatures, responses) is the zitadel/saml library: it
  calls the storage operations of this theory. An authentication request is created by the
  library, completed once by a signed-in user who is assigned to the application
  (\<open>FinalizeAuthRequest\<close>) and consumed once to build the response (\<open>AuthRequestByID\<close>).
\<close>

datatype saml_error = ErrAuthRequestNotFound | ErrAccessDenied | SamlOther string

definition saml_db_err :: "server \<Rightarrow> dberr \<Rightarrow> saml_error" where
  "saml_db_err S e = SamlOther (case e of NoRows \<Rightarrow> ''no rows in result set'' | DbError \<Rightarrow> error_text S ''database'')"

text \<open>The fields of the library's \<open>samlp.AuthnRequestType\<close> that the storage reads.\<close>

record authn_request =
  an_id :: string
  an_issuer :: "string option"
  an_binding :: string
  an_acs :: string
  an_destination :: string

record AuthRequest =
  ar_id :: string
  ar_app :: uuid
  ar_relay :: string
  ar_acs :: string
  ar_binding :: string
  ar_saml_id :: string
  ar_issuer :: string
  ar_destination :: string
  ar_user :: uuid
  ar_completed :: bool

text \<open>\<open>Done\<close>, which the library asks before it builds a response.\<close>

definition Done :: "AuthRequest \<Rightarrow> bool" where
  "Done r \<longleftrightarrow> ar_completed r \<and> ar_user r \<noteq> []"

section \<open>Service providers\<close>

text \<open>A registered service provider as the library gets it; \<open>spr_signed\<close>: signed requests are enforced.\<close>

record service_provider =
  spr_app :: uuid
  spr_metadata :: string
  spr_signed :: bool

definition sp_row :: "string \<Rightarrow> (application \<times> saml_sp) query" where
  "sp_row entity now d = map_option (\<lambda>(sp, a). (a, sp))
     (find (\<lambda>(sp, a). sp_entity sp = entity \<and> a_enabled a \<and> a_protocol a = ''saml'')
       (join (\<lambda>sp a. a_id a = sp_app sp) (saml_sps d) (applications d)))"

definition has_sp_descriptor :: "server \<Rightarrow> string \<Rightarrow> bool" where
  "has_sp_descriptor S xml \<longleftrightarrow> (case saml_parse S xml of None \<Rightarrow> False | Some md \<Rightarrow> md_sp md \<noteq> None)"

definition GetEntityByID :: "server \<Rightarrow> string \<Rightarrow> (st, saml_error + service_provider) state" where
  "GetEntityByID S entity =
     orfail (query S (sp_row entity)) (saml_db_err S) (\<lambda>(a, sp).
     State_Monad.return (if \<not> saml_provider_ok S (sp_metadata sp) then Inl (SamlOther (error_text S ''serviceprovider''))
       else Inr \<lparr>spr_app = a_id a, spr_metadata = sp_metadata sp,
         spr_signed = (sp_require_signed sp \<and> has_sp_descriptor S (sp_metadata sp))\<rparr>))"

definition GetEntityIDByAppID :: "server \<Rightarrow> string \<Rightarrow> (st, saml_error + string) state" where
  "GetEntityIDByAppID S app =
     orfail (with_uuid S app (\<lambda>aid. query S (\<lambda>_ d. map_option sp_entity (find (\<lambda>sp. sp_app sp = aid) (saml_sps d)))))
       (saml_db_err S) (\<lambda>e. State_Monad.return (Inr e))"

section \<open>Authentication requests\<close>

definition insert_saml_request ::
  "string \<Rightarrow> string \<Rightarrow> uuid \<Rightarrow> string \<Rightarrow> string \<Rightarrow> string \<Rightarrow> string \<Rightarrow> string \<Rightarrow> statement" where
  "insert_saml_request reqkey samlid app issuer destination acs binding relay now d =
     (if exists_where (\<lambda>q. sr_key q = reqkey \<or> sr_saml_id q = samlid) (saml_requests d)
         \<or> \<not> exists_where (\<lambda>a. a_id a = app) (applications d) then None
      else Some (1, d\<lparr>saml_requests := saml_requests d @
        [\<lparr>sr_key = reqkey, sr_saml_id = samlid, sr_app = app, sr_issuer = issuer, sr_destination = destination,
          sr_acs = acs, sr_binding = binding, sr_relay = relay, sr_user = None, sr_expires = now + minutes 5,
          sr_completed = None, sr_consumed = None\<rparr>]\<rparr>))"

text \<open>The checks on an AuthnRequest, as the error \<open>CreateAuthRequest\<close> returns, if any.\<close>

definition authn_request_error :: "server \<Rightarrow> authn_request \<Rightarrow> string \<Rightarrow> string \<Rightarrow> string \<Rightarrow> string option" where
  "authn_request_error S q acsURL binding relayState =
     (if an_id q = [] \<or> (case an_issuer q of None \<Rightarrow> True | Some i \<Rightarrow> trimSpace i = []) then Some ''invalid SAML AuthnRequest''
      else if length relayState > 1024 then Some ''SAML RelayState exceeds 1024 bytes''
      else if acsURL = [] \<or> binding = [] then Some ''SAML ACS URL and binding are required''
      else if binding \<noteq> post_binding S then Some ''OpenSSO supports HTTP-POST SAML responses only''
      else if an_binding q \<noteq> [] \<and> an_binding q \<noteq> post_binding S
        then Some ''AuthnRequest requested unsupported response binding''
      else if an_acs q \<noteq> [] \<and> an_acs q \<noteq> acsURL
        then Some ''AuthnRequest ACS URL does not exactly match registered metadata''
      else None)"

definition issuer_text :: "authn_request \<Rightarrow> string" where
  "issuer_text q = (case an_issuer q of None \<Rightarrow> [] | Some i \<Rightarrow> i)"

definition CreateAuthRequest ::
  "server \<Rightarrow> authn_request option \<Rightarrow> string \<Rightarrow> string \<Rightarrow> string \<Rightarrow> string \<Rightarrow> (st, saml_error + AuthRequest) state" where
  "CreateAuthRequest S areq acsURL binding relayState app =
     (case areq of None \<Rightarrow> State_Monad.return (Inl (SamlOther ''invalid SAML AuthnRequest''))
      | Some q \<Rightarrow> (case authn_request_error S q acsURL binding relayState of
          Some e \<Rightarrow> State_Monad.return (Inl (SamlOther e))
        | None \<Rightarrow>
          check_some (RandomToken S 32) (State_Monad.return (Inl (SamlOther (error_text S ''entropy'')))) (\<lambda>reqkey.
          orfail (with_uuid S app (\<lambda>aid. exec S (insert_saml_request reqkey (an_id q) aid (issuer_text q)
              (an_destination q) acsURL binding relayState)))
            (\<lambda>e. SamlOther (''persist SAML AuthnRequest: '' @ error_text S ''database'')) (\<lambda>_.
          State_Monad.return (Inr \<lparr>ar_id = reqkey, ar_app = app, ar_relay = relayState, ar_acs = acsURL, ar_binding = binding,
            ar_saml_id = an_id q, ar_issuer = issuer_text q, ar_destination = an_destination q, ar_user = [],
            ar_completed = False\<rparr>)))))"

definition open_request :: "string \<Rightarrow> saml_request query" where
  "open_request reqkey now d =
     find (\<lambda>q. sr_key q = reqkey \<and> sr_expires q > now \<and> sr_consumed q = None) (saml_requests d)"

definition consume_saml_request :: "string \<Rightarrow> statement" where
  "consume_saml_request reqkey now d = (let p = (\<lambda>q. sr_key q = reqkey \<and> sr_consumed q = None) in
     Some (count_where p (saml_requests d),
       d\<lparr>saml_requests := update_where p (\<lambda>q. q\<lparr>sr_consumed := Some now\<rparr>) (saml_requests d)\<rparr>))"

definition AuthRequestByID :: "server \<Rightarrow> string \<Rightarrow> (st, saml_error + AuthRequest) state" where
  "AuthRequestByID S reqkey =
     orfail (tx_begin S) (saml_db_err S) (\<lambda>v0.
     orfail (tx_query S v0 (open_request reqkey))
       (\<lambda>e. if e = NoRows then ErrAuthRequestNotFound else saml_db_err S e) (\<lambda>q.
     case sr_user q of None \<Rightarrow> State_Monad.return (Inl (SamlOther ''SAML authentication request is not completed''))
     | Some uid \<Rightarrow>
       if sr_completed q = None then State_Monad.return (Inl (SamlOther ''SAML authentication request is not completed''))
       else orfail (tx_exec S v0 (consume_saml_request reqkey)) (saml_db_err S) (\<lambda>(n, v1).
         if n \<noteq> 1 then State_Monad.return (Inl ErrAuthRequestNotFound)
         else orfail (tx_commit S v1) (saml_db_err S) (\<lambda>_.
         State_Monad.return (Inr \<lparr>ar_id = sr_key q, ar_app = sr_app q, ar_relay = sr_relay q, ar_acs = sr_acs q,
           ar_binding = sr_binding q, ar_saml_id = sr_saml_id q, ar_issuer = sr_issuer q,
           ar_destination = sr_destination q, ar_user = uid, ar_completed = True\<rparr>)))))"

text \<open>The user is assigned to the enabled SAML application, directly or through a group.\<close>

definition assigned :: "uuid \<Rightarrow> uuid \<Rightarrow> db \<Rightarrow> bool" where
  "assigned app uid d \<longleftrightarrow> exists_where (\<lambda>ua. ua = (app, uid)) (user_assignments d)
     \<or> exists_where (\<lambda>(ga, gm). fst ga = app \<and> gm_user gm = uid)
         (join (\<lambda>ga gm. gm_group gm = snd ga) (group_assignments d) (memberships d))"

definition saml_allowed :: "uuid \<Rightarrow> uuid \<Rightarrow> db \<Rightarrow> bool" where
  "saml_allowed app uid d \<longleftrightarrow>
     exists_where (\<lambda>a. a_id a = app \<and> a_enabled a \<and> a_protocol a = ''saml'' \<and> assigned (a_id a) uid d) (applications d)"

definition complete_saml_request :: "string \<Rightarrow> uuid \<Rightarrow> statement" where
  "complete_saml_request reqkey uid now d =
     (let p = (\<lambda>q. sr_key q = reqkey \<and> sr_completed q = None \<and> sr_consumed q = None) in
      if exists_where p (saml_requests d) \<and> \<not> exists_where (\<lambda>u. u_id u = uid) (users d) then None
      else Some (count_where p (saml_requests d),
        d\<lparr>saml_requests := update_where p (\<lambda>q. q\<lparr>sr_user := Some uid, sr_completed := Some now\<rparr>) (saml_requests d)\<rparr>))"

text \<open>The application and the error; Go returns both.\<close>

definition FinalizeAuthRequest :: "server \<Rightarrow> string \<Rightarrow> uuid \<Rightarrow> (st, (string \<times> saml_error) + string) state" where
  "FinalizeAuthRequest S reqkey uid =
     orfail (tx_begin S) (\<lambda>e. ([], saml_db_err S e)) (\<lambda>v0.
     orfail (tx_query S v0 (\<lambda>now d. Option.bind (open_request reqkey now d)
         (\<lambda>q. if sr_completed q = None then Some (sr_app q) else None)))
       (\<lambda>e. ([], if e = NoRows then ErrAuthRequestNotFound else saml_db_err S e)) (\<lambda>app.
     orfail (tx_query S v0 (\<lambda>_ d. Some (saml_allowed app uid d))) (\<lambda>e. ([], saml_db_err S e)) (\<lambda>allowed.
     if \<not> allowed then State_Monad.return (Inl (app, ErrAccessDenied))
     else orfail (tx_exec S v0 (complete_saml_request reqkey uid)) (\<lambda>e. ([], saml_db_err S e)) (\<lambda>(n, v1).
       if n \<noteq> 1 then State_Monad.return (Inl ([], ErrAuthRequestNotFound))
       else orfail (tx_commit S v1) (\<lambda>e. ([], saml_db_err S e)) (\<lambda>_. State_Monad.return (Inr app))))))"

section \<open>Attributes\<close>

text \<open>The calls on the library's \<open>AttributeSetter\<close>, in order.\<close>

datatype attribute_call =
    SetUsername string
  | SetEmail string
  | SetFullName string
  | SetUserID string
  | SetCustomAttribute string string string "string list"

definition saml_group_names :: "server \<Rightarrow> uuid \<Rightarrow> db \<Rightarrow> string list" where
  "saml_group_names S uid d = order_by (collate S) (map (\<lambda>(gm, g). g_name g)
     (join (\<lambda>gm g. g_id g = gm_group gm) (filter (\<lambda>gm. gm_user gm = uid) (memberships d)) (groups d)))"

definition saml_userGroups :: "server \<Rightarrow> uuid \<Rightarrow> (st, saml_error + string list) state" where
  "saml_userGroups S uid = orfail (query_rows S (\<lambda>_ d. Some (saml_group_names S uid d))) (saml_db_err S)
     (\<lambda>(names, failed). State_Monad.return (if failed then Inl (saml_db_err S DbError) else Inr names))"

definition basic_format :: string where
  "basic_format = ''urn:oasis:names:tc:SAML:2.0:attrname-format:basic''"

definition SetUserinfoWithUserID :: "server \<Rightarrow> string \<Rightarrow> (st, saml_error + attribute_call list) state" where
  "SetUserinfoWithUserID S userID =
     orfail (with_uuid S userID (\<lambda>uid. query S (\<lambda>_ d. find (\<lambda>u. u_id u = uid) (users d)))) (saml_db_err S) (\<lambda>u.
     if \<not> u_active u then State_Monad.return (Inl (SamlOther ''SAML subject user is disabled''))
     else orfail (saml_userGroups S (u_id u)) id (\<lambda>gs. State_Monad.return (Inr (
       [SetUsername (u_email u), SetEmail (u_email u), SetFullName (u_display_name u), SetUserID userID,
        SetCustomAttribute ''username'' ''Username'' basic_format [u_username u]]
       @ (if gs = [] then [] else [SetCustomAttribute ''groups'' ''Groups'' basic_format gs])))))"

definition SetUserinfoWithLoginName :: "server \<Rightarrow> string \<Rightarrow> (st, saml_error + attribute_call list) state" where
  "SetUserinfoWithLoginName S loginName = (let login = trimSpace loginName in
     orfail (query S (\<lambda>_ d. find (\<lambda>u. pg_lower S (u_username u) = pg_lower S login
         \<or> pg_lower S (u_email u) = pg_lower S login) (users d))) (saml_db_err S) (\<lambda>u.
     SetUserinfoWithUserID S (u_id u)))"

section \<open>Metadata and the runtime\<close>

definition saml_issuer :: "server \<Rightarrow> string" where
  "saml_issuer S = trimRight_byte CHR ''/'' (PublicURL S) @ ''/saml''"

definition EntityID :: "server \<Rightarrow> string" where
  "EntityID S = saml_issuer S @ ''/metadata''"

definition CallbackURL :: "server \<Rightarrow> string \<Rightarrow> string" where
  "CallbackURL S requestID = saml_issuer S @ ''/callback?id='' @ requestID"

definition ValidateServiceProviderMetadata :: "server \<Rightarrow> string \<Rightarrow> string + string" where
  "ValidateServiceProviderMetadata S xml =
     (if length xml = 0 \<or> length xml > 1024 * 1024 then Inl ''SAML SP metadata must be between 1 byte and 1 MiB''
      else case saml_parse S xml of
        None \<Rightarrow> Inl (''invalid SAML SP metadata: '' @ error_text S ''metadata'')
      | Some md \<Rightarrow>
          (case md_sp md of
             None \<Rightarrow> Inl ''metadata does not contain SPSSODescriptor''
           | Some acss \<Rightarrow>
               let entityID = trimSpace (md_entity md) in
               if entityID = [] \<or> length entityID > 2048 then Inl ''invalid SAML SP entityID''
               else if \<not> list_ex (\<lambda>(binding, location). binding = post_binding S \<and> trimSpace location \<noteq> []) acss
               then Inl ''SAML SP metadata must contain an HTTP-POST AssertionConsumerService''
               else Inr entityID))"

text \<open>
  What \<open>buildHandler\<close> lets through to the library: \<open>routed\<close> are the endpoints among
  \<open>/certificate\<close>, \<open>/callback\<close> and \<open>/sso\<close> the library offers.
\<close>

datatype saml_route = SamlRefused response | SamlMetadata | SamlRouted string

definition saml_dispatch :: "(string \<Rightarrow> bool) \<Rightarrow> request \<Rightarrow> saml_route" where
  "saml_dispatch routed r =
     (case cut_byte CHR ''?'' (rq_uri r) of (_, rawQuery, _) \<Rightarrow>
      if length rawQuery > 128 * 1024 then SamlRefused (Plain 413 ''SAML request query is too large'')
      else if length (url_query r ''RelayState'') > 1024 then SamlRefused (Plain 400 ''SAML RelayState is too large'')
      else
        let path = (if hasPrefix (rq_path r) ''/saml'' then drop 5 (rq_path r) else rq_path r) in
        if path = ''/metadata'' then (if rq_method r \<noteq> ''GET'' then SamlRefused (Status 405) else SamlMetadata)
        else if \<not> (path \<in> {''/certificate'', ''/callback'', ''/sso''} \<and> routed path) then SamlRefused (Plain 404 ''404 page not found'')
        else if path = ''/sso'' \<and> rq_method r \<noteq> ''GET'' then SamlRefused (Status 405)
        else if path = ''/callback'' \<and> rq_method r \<noteq> ''GET'' then SamlRefused (Status 405)
        else SamlRouted path)"

text \<open>
  The documents of the published metadata: what the library's \<open>GetMetadata\<close> returns, of which the
  runtime overwrites three fields, and the descriptor around it.
\<close>

record idp_descriptor =
  id_rest :: string
  id_logout :: "(string \<times> string) list"
  id_sso :: "(string \<times> string) list"
  id_formats :: "string list"

record entity_descriptor =
  ed_entity :: string
  ed_id :: string
  ed_valid_until :: instant
  ed_cache :: string
  ed_idp :: idp_descriptor

text \<open>
  The library: its routes and their handlers, the metadata it builds, the signer made of a
  certificate and key, the signature of a document, and the XML writer.
\<close>

record saml_library =
  lib_routed :: "string \<Rightarrow> bool"
  lib_serve :: "string \<Rightarrow> request \<Rightarrow> handler"
  lib_metadata :: "(st, unit + idp_descriptor) state"
  lib_new_id :: string
  lib_redirect :: string
  lib_signer :: "string \<Rightarrow> string \<Rightarrow> string option"
  lib_signature :: "string \<Rightarrow> entity_descriptor \<Rightarrow> string option"
  lib_write :: "entity_descriptor \<Rightarrow> string \<Rightarrow> string option"

definition published_idp :: "server \<Rightarrow> saml_library \<Rightarrow> idp_descriptor \<Rightarrow> idp_descriptor" where
  "published_idp S lib m = m\<lparr>id_logout := [],
     id_sso := [(lib_redirect lib, trimRight_byte CHR ''/'' (saml_issuer S) @ ''/sso'')],
     id_formats := [''urn:oasis:names:tc:SAML:1.1:nameid-format:emailAddress'']\<rparr>"

definition metadata_entity :: "server \<Rightarrow> saml_library \<Rightarrow> instant \<Rightarrow> idp_descriptor \<Rightarrow> entity_descriptor" where
  "metadata_entity S lib now m = \<lparr>ed_entity = EntityID S, ed_id = lib_new_id lib, ed_valid_until = now + minutes (24 * 60),
     ed_cache = ''PT1H'', ed_idp = published_idp S lib m\<rparr>"

definition saml_metadata :: "server \<Rightarrow> saml_library \<Rightarrow> handler" where
  "saml_metadata S lib =
     check (lib_metadata lib) (respond (Plain 500 ''failed to build SAML metadata'')) (\<lambda>m. do {
       now \<leftarrow> time_now;
       let entity = metadata_entity S lib now m;
       check (saml_Active S) (respond (Plain 500 ''failed to load SAML signing certificate'')) (\<lambda>certAndKey.
         case lib_signer lib (Certificate certAndKey) (CertKey certAndKey) of
           None \<Rightarrow> respond (Plain 500 ''failed to initialize SAML metadata signer'')
         | Some signer \<Rightarrow> (case lib_signature lib signer entity of
             None \<Rightarrow> respond (Plain 500 ''failed to sign SAML metadata'')
           | Some sig \<Rightarrow> (case lib_write lib entity sig of
               None \<Rightarrow> respond (Plain 500 (''failed to write SAML metadata: '' @ error_text S ''metadata''))
             | Some doc \<Rightarrow> respond (Plain 200 doc))))
     })"

definition saml_handler :: "server \<Rightarrow> saml_library \<Rightarrow> request \<Rightarrow> handler" where
  "saml_handler S lib r = (case saml_dispatch (lib_routed lib) r of
     SamlRefused resp \<Rightarrow> respond resp
   | SamlMetadata \<Rightarrow> saml_metadata S lib
   | SamlRouted path \<Rightarrow> lib_serve lib path r)"

end
