(* ===== verification/Saml_Admin.thy ===== *)
theory Saml_Admin imports Saml begin

text \<open>
  Registering SAML service providers, the signing certificate's administration and the step by which
  a signed-in user continues a SAML login (\<open>backend/internal/httpapi/saml_admin.go\<close>).
\<close>

section \<open>The catalogue of applications\<close>

text \<open>\<open>name\<close> is unique.\<close>

definition insert_application :: "uuid \<Rightarrow> string \<Rightarrow> string \<Rightarrow> statement" where
  "insert_application aid aname protocol now d =
     (if exists_where (\<lambda>a. a_id a = aid \<or> a_name a = aname) (applications d) then None
      else Some (1, d\<lparr>applications := applications d @
        [\<lparr>a_id = aid, a_name = aname, a_protocol = protocol, a_enabled = True, a_created_at = now\<rparr>]\<rparr>))"

definition set_application :: "(application \<Rightarrow> bool) \<Rightarrow> string \<Rightarrow> bool \<Rightarrow> statement" where
  "set_application p aname enabled now d =
     (if exists_where p (applications d) \<and> exists_where (\<lambda>a. \<not> p a \<and> a_name a = aname) (applications d) then None
      else Some (count_where p (applications d), d\<lparr>applications := update_where p
        (\<lambda>a. a\<lparr>a_name := aname, a_enabled := enabled\<rparr>) (applications d)\<rparr>))"

definition nullif_empty :: "string \<Rightarrow> string option" where
  "nullif_empty v = (if v = [] then None else Some v)"

fun opt_str :: "string option \<Rightarrow> jval" where
  "opt_str None = JNull"
| "opt_str (Some v) = JStr v"

section \<open>Service providers\<close>

definition insert_sp :: "uuid \<Rightarrow> string \<Rightarrow> string \<Rightarrow> bool \<Rightarrow> string option \<Rightarrow> statement" where
  "insert_sp aid entity xml want_signed initiate now d =
     (if exists_where (\<lambda>sp. sp_app sp = aid \<or> sp_entity sp = entity) (saml_sps d)
         \<or> \<not> exists_where (\<lambda>a. a_id a = aid) (applications d) then None
      else Some (1, d\<lparr>saml_sps := saml_sps d @
        [\<lparr>sp_app = aid, sp_entity = entity, sp_metadata = xml, sp_require_signed = want_signed, sp_initiate = initiate\<rparr>]\<rparr>))"

definition set_sp :: "uuid \<Rightarrow> string \<Rightarrow> string \<Rightarrow> bool \<Rightarrow> string option \<Rightarrow> statement" where
  "set_sp aid entity xml want_signed initiate now d =
     (if exists_where (\<lambda>sp. sp_app sp = aid) (saml_sps d)
         \<and> exists_where (\<lambda>sp. sp_app sp \<noteq> aid \<and> sp_entity sp = entity) (saml_sps d) then None
      else Some (count_where (\<lambda>sp. sp_app sp = aid) (saml_sps d), d\<lparr>saml_sps := update_where (\<lambda>sp. sp_app sp = aid)
        (\<lambda>sp. sp\<lparr>sp_entity := entity, sp_metadata := xml, sp_require_signed := want_signed, sp_initiate := initiate\<rparr>)
        (saml_sps d)\<rparr>))"

text \<open>The error, if any; unlike the OIDC handlers' check it allows a wildcard.\<close>

definition validateSAMLInitiateLoginURI :: "ucd \<Rightarrow> string \<Rightarrow> string option" where
  "validateSAMLInitiateLoginURI U raw0 = (let raw = trimSpace raw0 in
     if raw = [] then None
     else case url_Parse U raw of
         None \<Rightarrow> Some ''invalid initiate_login_uri''
       | Some u \<Rightarrow> if Scheme u = [] \<or> Host u = [] \<or> Fragment u \<noteq> [] then Some ''invalid initiate_login_uri'' else None)"

text \<open>The checks both handlers make on their input, before the metadata's.\<close>

definition saml_input_error :: "server \<Rightarrow> string \<Rightarrow> string \<Rightarrow> string option" where
  "saml_input_error S aname initiate =
     (if aname = [] then Some ''application name is required''
      else validateSAMLInitiateLoginURI (udata S) initiate)"

definition createSAMLApplication ::
  "server \<Rightarrow> request \<Rightarrow> (string \<times> string \<times> string \<times> bool) option \<Rightarrow> principal \<Rightarrow> handler" where
  "createSAMLApplication S r body p = (case body of None \<Rightarrow> invalid_body | Some (name0, initiate0, xml, want_signed) \<Rightarrow>
     let aname = trimSpace name0; initiate = trimSpace initiate0 in
     case saml_input_error S aname initiate of Some e \<Rightarrow> respond (problem 400 e) | None \<Rightarrow>
     case ValidateServiceProviderMetadata S xml of Inl e \<Rightarrow> respond (problem 400 e) | Inr entityID \<Rightarrow>
     check (tx_begin S) (respond (problem 500 ''database error'')) (\<lambda>v0. do {
       aid \<leftarrow> new_uuid S;
       check (tx_exec S v0 (insert_application aid aname ''saml'')) (respond (problem 409 ''application name already exists'')) (\<lambda>(_, v1).
       check (tx_exec S v1 (insert_sp aid entityID xml want_signed (nullif_empty initiate)))
         (respond (problem 409 ''SAML entityID already exists or metadata cannot be stored'')) (\<lambda>(_, v2).
       check (auditTx S v2 (Some (UserID p)) ''SAML_APPLICATION_CREATED'' ''application'' aid ''success'' r)
         (respond (problem 500 ''audit error'')) (\<lambda>(_, v3).
       check (tx_commit S v3) (respond (problem 500 ''database error'')) (\<lambda>_.
       respond (JSON 201 (JObj [(''id'', JStr aid), (''protocol'', JStr ''saml''), (''entity_id'', JStr entityID),
         (''require_signed_authn_request'', JBool want_signed), (''initiate_login_uri'', JStr initiate)]))))))
     }))"

definition updateSAMLApplication ::
  "server \<Rightarrow> request \<Rightarrow> (string \<times> bool \<times> string \<times> string \<times> bool) option \<Rightarrow> principal \<Rightarrow> handler" where
  "updateSAMLApplication S r body p = (case body of None \<Rightarrow> invalid_body | Some (name0, enabled, initiate0, xml, want_signed) \<Rightarrow>
     let aname = trimSpace name0; initiate = trimSpace initiate0;
         bad = respond (problem 409 ''application name already exists or update failed'') in
     case saml_input_error S aname initiate of Some e \<Rightarrow> respond (problem 400 e) | None \<Rightarrow>
     case ValidateServiceProviderMetadata S xml of Inl e \<Rightarrow> respond (problem 400 e) | Inr entityID \<Rightarrow>
     check (tx_begin S) (respond (problem 500 ''database error'')) (\<lambda>v0.
     cast_uuid S (path_value r ''id'') bad (\<lambda>aid.
     check (tx_exec S v0 (set_application (\<lambda>a. a_id a = aid \<and> a_protocol a = ''saml'') aname enabled)) bad (\<lambda>(n, v1).
     if n \<noteq> 1 then respond (problem 404 ''SAML application not found'')
     else check (tx_exec S v1 (set_sp aid entityID xml want_signed (nullif_empty initiate)))
         (respond (problem 409 ''SAML entityID already exists or update failed'')) (\<lambda>(_, v2).
       check (auditTx S v2 (Some (UserID p)) ''SAML_APPLICATION_UPDATED'' ''application'' (path_value r ''id'') ''success'' r)
         (respond (problem 500 ''audit error'')) (\<lambda>(_, v3).
       check (tx_commit S v3) (respond (problem 500 ''database error'')) (\<lambda>_.
       respond (JSON 200 (JObj [(''id'', JStr (path_value r ''id'')), (''protocol'', JStr ''saml''),
         (''entity_id'', JStr entityID), (''enabled'', JBool enabled),
         (''require_signed_authn_request'', JBool want_signed), (''initiate_login_uri'', JStr initiate)])))))))))"

definition samlApplicationIntegration :: "server \<Rightarrow> request \<Rightarrow> handler" where
  "samlApplicationIntegration S r =
     check (with_uuid S (path_value r ''id'') (\<lambda>aid. query S (\<lambda>_ d. find (\<lambda>(a, sp). a_id a = aid \<and> a_protocol a = ''saml'')
         (join (\<lambda>a sp. sp_app sp = a_id a) (applications d) (saml_sps d)))))
       (respond (problem 404 ''SAML application not found'')) (\<lambda>(a, sp).
     let base = trimRight_byte CHR ''/'' (PublicURL S) in
     respond (JSON 200 (JObj
       [(''id'', JStr (path_value r ''id'')), (''name'', JStr (a_name a)), (''protocol'', JStr ''saml''),
        (''enabled'', JBool (a_enabled a)), (''sp_entity_id'', JStr (sp_entity sp)),
        (''sp_metadata_xml'', JStr (sp_metadata sp)),
        (''require_signed_authn_request'', JBool (sp_require_signed sp)),
        (''initiate_login_uri'', opt_str (sp_initiate sp)), (''idp_entity_id'', JStr (EntityID S)),
        (''idp_metadata_url'', JStr (base @ ''/saml/metadata'')), (''sso_url'', JStr (base @ ''/saml/sso'')),
        (''certificate_url'', JStr (base @ ''/saml/certificate'')),
        (''name_id_format'', JStr ''urn:oasis:names:tc:SAML:1.1:nameid-format:emailAddress''),
        (''request_binding'', JStr ''urn:oasis:names:tc:SAML:2.0:bindings:HTTP-Redirect''),
        (''response_binding'', JStr ''urn:oasis:names:tc:SAML:2.0:bindings:HTTP-POST'')])))"

section \<open>Certificates\<close>

definition samlCertificates :: "server \<Rightarrow> handler" where
  "samlCertificates S = check (CertificateMetadata S) (respond (problem 500 ''failed to read SAML certificate metadata''))
     (\<lambda>rows. respond (items rows))"

definition rotateSAMLCertificate :: "server \<Rightarrow> request \<Rightarrow> principal \<Rightarrow> handler" where
  "rotateSAMLCertificate S r p =
     check (saml_Rotate S) (respond (problem 500 ''SAML signing certificate rotation failed'')) (\<lambda>_. do {
       audit S (Some (UserID p)) ''SAML_CERTIFICATE_ROTATED'' ''saml_certificate'' [] ''success'' r;
       check (CertificateMetadata S) (respond (problem 500 ''SAML certificate rotated but metadata lookup failed''))
         (\<lambda>rows. respond (JSON 201 (JObj [(''items'', JArr rows)])))
     })"

section \<open>Continuing a login\<close>

definition continueSAML :: "server \<Rightarrow> request \<Rightarrow> string option \<Rightarrow> principal \<Rightarrow> handler" where
  "continueSAML S r body p =
     (if MustChangePassword p then respond (problem 403 ''password change required'')
      else case body of None \<Rightarrow> invalid_body | Some requestID0 \<Rightarrow>
      let requestID = trimSpace requestID0 in
      if requestID = [] \<or> length requestID > 256 then respond (problem 400 ''invalid SAML request ID'')
      else do {
        x \<leftarrow> FinalizeAuthRequest S requestID (UserID p);
        case x of
          Inl (app, ErrAuthRequestNotFound) \<Rightarrow> respond (problem 404 ''SAML authentication request not found or expired'')
        | Inl (app, ErrAccessDenied) \<Rightarrow> do {
            audit S (Some (UserID p)) ''SAML_LOGIN_DENIED'' ''application'' app ''failure'' r;
            respond (problem 403 ''user is not assigned to this SAML application'')
          }
        | Inl (app, SamlOther e) \<Rightarrow> respond (problem 500 ''failed to finalize SAML authentication request'')
        | Inr app \<Rightarrow> do {
            audit S (Some (UserID p)) ''SAML_LOGIN_CONTINUED'' ''application'' app ''success'' r;
            respond (JSON 200 (JObj [(''callback_url'', JStr (CallbackURL S requestID))]))
          }
      })"

end
