(* ===== verification/Applications.thy ===== *)
theory Applications imports Saml_Admin Scope begin

text \<open>
  OIDC application administration (\<open>application_admin.go\<close>, \<open>applications.go\<close> and the two handlers of
  \<open>server.go\<close>): registering a client, changing it, rotating its secret, its users and groups.
\<close>

section \<open>Reading\<close>

definition first_of :: "string option \<Rightarrow> string option \<Rightarrow> string" where
  "first_of a b = (case a of Some x \<Rightarrow> x | None \<Rightarrow> (case b of Some y \<Rightarrow> y | None \<Rightarrow> []))"

text \<open>\<open>application_id\<close> is the primary key of both detail tables: the left joins add at most one row.\<close>

definition client_detail :: "db \<Rightarrow> application \<Rightarrow> oauth_client_row option" where
  "client_detail d a = find (\<lambda>c. oc_app c = a_id a) (oauth_clients d)"

definition sp_detail :: "db \<Rightarrow> application \<Rightarrow> saml_sp option" where
  "sp_detail d a = find (\<lambda>sp. sp_app sp = a_id a) (saml_sps d)"

definition application_json :: "application \<times> oauth_client_row option \<times> saml_sp option \<Rightarrow> jval" where
  "application_json acs = (case acs of (a, c, sp) \<Rightarrow> JObj
     [(''id'', JStr (a_id a)), (''name'', JStr (a_name a)), (''protocol'', JStr (a_protocol a)),
      (''enabled'', JBool (a_enabled a)), (''client_id'', JStr (first_of (map_option oc_client_id c) None)),
      (''entity_id'', JStr (first_of (map_option sp_entity sp) None)),
      (''public_client'', JBool (case c of None \<Rightarrow> False | Some x \<Rightarrow> oc_public x)),
      (''require_pkce'', JBool (case c of None \<Rightarrow> False | Some x \<Rightarrow> oc_require_pkce x)),
      (''allowed_scopes'', JArr (map JStr (case c of None \<Rightarrow> [] | Some x \<Rightarrow> oc_scopes x))),
      (''initiate_login_uri'', JStr (first_of (Option.bind c oc_initiate) (Option.bind sp sp_initiate))),
      (''created_at'', JTime (a_created_at a))])"

definition listApplications :: "server \<Rightarrow> handler" where
  "listApplications S =
     check (query_rows S (\<lambda>_ d. Some (map (\<lambda>a. (a, client_detail d a, sp_detail d a))
         (take 500 (order_by (\<lambda>a b. collate S (a_name a) (a_name b)) (applications d))))))
       (respond (problem 500 ''database error'')) (\<lambda>(rows, _). respond (items (map application_json rows)))"

definition stringColumn :: "server \<Rightarrow> (db \<Rightarrow> string list) \<Rightarrow> (st, dberr + string list) state" where
  "stringColumn S q = orfail (query_rows S (\<lambda>_ d. Some (order_by (collate S) (q d)))) id (\<lambda>(rows, failed).
     State_Monad.return (if failed then Inl DbError else Inr rows))"

definition uris_of :: "uuid \<Rightarrow> (uuid \<times> string) list \<Rightarrow> string list" where
  "uris_of aid rows = map snd (filter (\<lambda>u. fst u = aid) rows)"

definition oidc_integration :: "server \<Rightarrow> uuid \<Rightarrow> handler" where
  "oidc_integration S aid =
     check (query S (\<lambda>_ d. find (\<lambda>(a, c). a_id a = aid) (join (\<lambda>a c. oc_app c = a_id a) (applications d) (oauth_clients d))))
       (respond (problem 404 ''application not found'')) (\<lambda>(a, c).
     check (stringColumn S (\<lambda>d. uris_of aid (redirect_uris d))) (respond (problem 500 ''database error'')) (\<lambda>redirects.
     check (stringColumn S (\<lambda>d. uris_of aid (post_logout_uris d))) (respond (problem 500 ''database error'')) (\<lambda>logoutRedirects.
     respond (JSON 200 (JObj
       [(''name'', JStr (a_name a)), (''issuer'', JStr (PublicURL S)),
        (''authorization_url'', JStr (PublicURL S @ ''/oauth2/authorize'')),
        (''token_url'', JStr (PublicURL S @ ''/oauth2/token'')), (''userinfo_url'', JStr (PublicURL S @ ''/userinfo'')),
        (''jwks_url'', JStr (PublicURL S @ ''/.well-known/jwks.json'')),
        (''logout_url'', JStr (PublicURL S @ ''/oauth2/logout'')), (''client_id'', JStr (oc_client_id c)),
        (''public_client'', JBool (oc_public c)), (''client_secret_retrievable'', JBool False),
        (''initiate_login_uri'', opt_str (oc_initiate c)), (''scopes'', JArr (map JStr (oc_scopes c))),
        (''redirect_uris'', JArr (map JStr redirects)),
        (''post_logout_redirect_uris'', JArr (map JStr logoutRedirects))])))))"

definition applicationIntegration :: "server \<Rightarrow> request \<Rightarrow> handler" where
  "applicationIntegration S r =
     cast_uuid S (path_value r ''id'') (respond (problem 404 ''application not found'')) (\<lambda>aid.
     check (query S (\<lambda>_ d. map_option a_protocol (find (\<lambda>a. a_id a = aid) (applications d))))
       (respond (problem 404 ''application not found'')) (\<lambda>protocol.
     if protocol = ''saml'' then samlApplicationIntegration S r
     else if protocol \<noteq> ''oidc'' then respond (problem 404 ''unsupported application protocol'')
     else oidc_integration S aid))"

section \<open>Registering and changing\<close>

definition insert_client :: "uuid \<Rightarrow> string \<Rightarrow> string option \<Rightarrow> bool \<Rightarrow> string list \<Rightarrow> string option \<Rightarrow> statement" where
  "insert_client aid cid hash public scopes initiate now d =
     (if exists_where (\<lambda>c. oc_app c = aid \<or> oc_client_id c = cid) (oauth_clients d)
         \<or> \<not> exists_where (\<lambda>a. a_id a = aid) (applications d) then None
      else Some (1, d\<lparr>oauth_clients := oauth_clients d @
        [\<lparr>oc_app = aid, oc_client_id = cid, oc_secret_hash = hash, oc_public = public, oc_require_pkce = True,
          oc_scopes = scopes, oc_access_ttl = 900, oc_id_ttl = 900, oc_refresh_ttl = 2592000, oc_initiate = initiate\<rparr>]\<rparr>))"

definition insert_redirect :: "uuid \<Rightarrow> string \<Rightarrow> statement" where
  "insert_redirect aid uri now d =
     (if (aid, uri) \<in> set (redirect_uris d) \<or> \<not> exists_where (\<lambda>a. a_id a = aid) (applications d) then None
      else Some (1, d\<lparr>redirect_uris := redirect_uris d @ [(aid, uri)]\<rparr>))"

definition insert_post_logout :: "uuid \<Rightarrow> string \<Rightarrow> statement" where
  "insert_post_logout aid uri now d =
     (if (aid, uri) \<in> set (post_logout_uris d) \<or> \<not> exists_where (\<lambda>a. a_id a = aid) (applications d) then None
      else Some (1, d\<lparr>post_logout_uris := post_logout_uris d @ [(aid, uri)]\<rparr>))"

record application_input =
  in_name :: string
  in_enabled :: bool
  in_public :: bool
  in_initiate :: string
  in_redirects :: "string list"
  in_logouts :: "string list"
  in_scopes :: "string list"

text \<open>The scopes of a new client; \<^const>\<open>None\<close> if they are refused.\<close>

definition client_scopes :: "string list \<Rightarrow> string list option" where
  "client_scopes requested = (case normalizeRequestedScope (strings_Join requested '' '') of
     None \<Rightarrow> None | Some (_, scopes) \<Rightarrow> if contains scopes ''openid'' then Some scopes else None)"

text \<open>The rows of a new client, in the transaction that began with \<open>v0\<close>.\<close>

definition register_client ::
  "server \<Rightarrow> request \<Rightarrow> principal \<Rightarrow> application_input \<Rightarrow> string list \<Rightarrow> string \<Rightarrow> string \<Rightarrow> db \<Rightarrow> handler" where
  "register_client S r p inp scopes clientID secret v0 = (let initiate = trimSpace (in_initiate inp) in do {
     aid \<leftarrow> new_uuid S;
     check (tx_exec S v0 (insert_application aid (trimSpace (in_name inp)) ''oidc''))
       (respond (problem 409 ''application already exists'')) (\<lambda>(_, v1).
     check (tx_exec S v1 (insert_client aid clientID (if in_public inp then None else Some (SHA256String secret))
         (in_public inp) scopes (nullif_empty initiate))) (respond (problem 500 ''database error'')) (\<lambda>(_, v2).
     check (run_statements S v2 (map (insert_redirect aid) (in_redirects inp)))
       (respond (problem 500 ''database error'')) (\<lambda>v3.
     check (run_statements S v3 (map (insert_post_logout aid) (in_logouts inp)))
       (respond (problem 500 ''database error'')) (\<lambda>v4.
     check (auditTx S v4 (Some (UserID p)) ''APPLICATION_CREATED'' ''application'' aid ''success'' r)
       (respond (problem 500 ''audit error'')) (\<lambda>(_, v5).
     check (tx_commit S v5) (respond (problem 500 ''database error'')) (\<lambda>_.
     respond (JSON 201 (JObj [(''id'', JStr aid), (''client_id'', JStr clientID), (''client_secret'', JStr secret),
       (''allowed_scopes'', JArr (map JStr scopes)), (''initiate_login_uri'', JStr initiate)]))))))))
   })"

definition createApplication :: "server \<Rightarrow> request \<Rightarrow> application_input option \<Rightarrow> principal \<Rightarrow> handler" where
  "createApplication S r body p = (case body of None \<Rightarrow> invalid_body | Some inp \<Rightarrow>
     if in_redirects inp = [] then respond (problem 400 ''at least one redirect URI is required'')
     else if \<not> list_all (redirect_uri_ok (udata S)) (in_redirects inp @ in_logouts inp)
       then respond (problem 400 ''invalid redirect URI'')
     else if in_initiate inp \<noteq> [] \<and> \<not> redirect_uri_ok (udata S) (in_initiate inp)
       then respond (problem 400 ''invalid initiate_login_uri'')
     else case client_scopes (if in_scopes inp = [] then [''openid'', ''profile'', ''email'', ''groups''] else in_scopes inp) of
       None \<Rightarrow> respond (problem 400 ''OIDC applications must allow the openid scope'')
     | Some scopes \<Rightarrow>
       check_some (RandomToken S 18) (respond (problem 500 ''entropy failure'')) (\<lambda>clientID.
       check_some (if in_public inp then State_Monad.return (Some []) else RandomToken S 32)
         (respond (problem 500 ''entropy failure'')) (\<lambda>secret.
       check (tx_begin S) (respond (problem 500 ''database error'')) (register_client S r p inp scopes clientID secret))))"

definition validateApplicationURI :: "ucd \<Rightarrow> string \<Rightarrow> bool" where
  "validateApplicationURI U raw \<longleftrightarrow> (if raw = [] then False
     else case url_Parse U raw of None \<Rightarrow> False
     | Some u \<Rightarrow> Scheme u \<noteq> [] \<and> Host u \<noteq> [] \<and> Fragment u = [] \<and> \<not> strings_Contains raw ''*'')"

definition set_client :: "uuid \<Rightarrow> string option \<Rightarrow> string list \<Rightarrow> statement" where
  "set_client aid initiate scopes now d = Some (count_where (\<lambda>c. oc_app c = aid) (oauth_clients d),
     d\<lparr>oauth_clients := update_where (\<lambda>c. oc_app c = aid) (\<lambda>c. c\<lparr>oc_initiate := initiate, oc_scopes := scopes\<rparr>) (oauth_clients d)\<rparr>)"

definition clear_redirects :: "uuid \<Rightarrow> statement" where
  "clear_redirects aid now d = Some (count_where (\<lambda>u. fst u = aid) (redirect_uris d),
     d\<lparr>redirect_uris := delete_where (\<lambda>u. fst u = aid) (redirect_uris d)\<rparr>)"

definition clear_post_logouts :: "uuid \<Rightarrow> statement" where
  "clear_post_logouts aid now d = Some (count_where (\<lambda>u. fst u = aid) (post_logout_uris d),
     d\<lparr>post_logout_uris := delete_where (\<lambda>u. fst u = aid) (post_logout_uris d)\<rparr>)"

text \<open>Replacing the client's settings and URIs: every statement after the first fails with 500.\<close>

definition client_statements :: "uuid \<Rightarrow> application_input \<Rightarrow> string list \<Rightarrow> statement list" where
  "client_statements aid inp scopes =
     [set_client aid (nullif_empty (in_initiate inp)) scopes, clear_redirects aid]
     @ map (insert_redirect aid) (in_redirects inp)
     @ [clear_post_logouts aid] @ map (insert_post_logout aid) (in_logouts inp)"

definition replace_client ::
  "server \<Rightarrow> request \<Rightarrow> principal \<Rightarrow> application_input \<Rightarrow> string list \<Rightarrow> db \<Rightarrow> handler" where
  "replace_client S r p inp scopes v0 =
     (let aid0 = path_value r ''id''; aname = trimSpace (in_name inp);
          bad = respond (problem 409 ''application name already exists or update failed'') in
      cast_uuid S aid0 bad (\<lambda>aid.
      check (tx_exec S v0 (set_application (\<lambda>a. a_id a = aid) aname (in_enabled inp))) bad (\<lambda>(n, v1).
      if n = 0 then respond (problem 404 ''application not found'')
      else check (run_statements S v1 (client_statements aid inp scopes)) (respond (problem 500 ''database error'')) (\<lambda>v2.
        check (auditTx S v2 (Some (UserID p)) ''APPLICATION_UPDATED'' ''application'' aid0 ''success'' r)
          (respond (problem 500 ''audit error'')) (\<lambda>(_, v3).
        check (tx_commit S v3) (respond (problem 500 ''database error'')) (\<lambda>_.
        respond (JSON 200 (JObj [(''id'', JStr aid0), (''name'', JStr aname), (''enabled'', JBool (in_enabled inp)),
          (''initiate_login_uri'', JStr (in_initiate inp)), (''allowed_scopes'', JArr (map JStr scopes))]))))))))"

definition updateApplication :: "server \<Rightarrow> request \<Rightarrow> application_input option \<Rightarrow> principal \<Rightarrow> handler" where
  "updateApplication S r body p = (case body of None \<Rightarrow> invalid_body | Some inp \<Rightarrow>
     if trimSpace (in_name inp) = [] \<or> in_redirects inp = []
       then respond (problem 400 ''application name and at least one redirect URI are required'')
     else if \<not> list_all (validateApplicationURI (udata S)) (in_redirects inp @ in_logouts inp)
       then respond (problem 400 ''invalid redirect URI'')
     else if in_initiate inp \<noteq> [] \<and> \<not> validateApplicationURI (udata S) (in_initiate inp)
       then respond (problem 400 ''invalid initiate_login_uri'')
     else if in_scopes inp = [] then respond (problem 400 ''at least one allowed scope is required'')
     else case client_scopes (in_scopes inp) of
       None \<Rightarrow> respond (problem 400 ''OIDC applications must allow the openid scope'')
     | Some scopes \<Rightarrow> check (tx_begin S) (respond (problem 500 ''database error'')) (replace_client S r p inp scopes))"

definition set_secret :: "uuid \<Rightarrow> string \<Rightarrow> statement" where
  "set_secret aid hash now d = Some (count_where (\<lambda>c. oc_app c = aid) (oauth_clients d),
     d\<lparr>oauth_clients := update_where (\<lambda>c. oc_app c = aid) (\<lambda>c. c\<lparr>oc_secret_hash := Some hash\<rparr>) (oauth_clients d)\<rparr>)"

definition rotateClientSecret :: "server \<Rightarrow> request \<Rightarrow> principal \<Rightarrow> handler" where
  "rotateClientSecret S r p =
     cast_uuid S (path_value r ''id'') (respond (problem 404 ''application not found'')) (\<lambda>aid.
     check (query S (\<lambda>_ d. map_option oc_public (find (\<lambda>c. oc_app c = aid) (oauth_clients d))))
       (respond (problem 404 ''application not found'')) (\<lambda>public.
     if public then respond (problem 400 ''public clients do not have client secrets'')
     else check_some (RandomToken S 32) (respond (problem 500 ''entropy failure'')) (\<lambda>secret.
       check (exec S (set_secret aid (SHA256String secret))) (respond (problem 500 ''database error'')) (\<lambda>_. do {
         audit S (Some (UserID p)) ''CLIENT_SECRET_ROTATED'' ''application'' (path_value r ''id'') ''success'' r;
         respond (JSON 200 (JObj [(''client_secret'', JStr secret)]))
       }))))"

section \<open>Assignments\<close>

definition user_brief :: "user \<Rightarrow> jval" where
  "user_brief u = JObj [(''id'', JStr (u_id u)), (''username'', JStr (u_username u)), (''email'', JStr (u_email u)),
     (''display_name'', JStr (u_display_name u))]"

definition group_brief :: "group \<Rightarrow> jval" where
  "group_brief g = JObj [(''id'', JStr (g_id g)), (''name'', JStr (g_name g)), (''description'', JStr (g_description g))]"

definition assigned_users :: "server \<Rightarrow> uuid \<Rightarrow> db \<Rightarrow> user list" where
  "assigned_users S aid d = order_by (\<lambda>a b. collate S (u_username a) (u_username b)) (map snd
     (join (\<lambda>ua u. u_id u = snd ua) (filter (\<lambda>ua. fst ua = aid) (user_assignments d)) (users d)))"

definition assigned_groups :: "server \<Rightarrow> uuid \<Rightarrow> db \<Rightarrow> group list" where
  "assigned_groups S aid d = order_by (\<lambda>a b. collate S (g_name a) (g_name b)) (map snd
     (join (\<lambda>ga g. g_id g = snd ga) (filter (\<lambda>ga. fst ga = aid) (group_assignments d)) (groups d)))"

definition applicationAssignments :: "server \<Rightarrow> request \<Rightarrow> handler" where
  "applicationAssignments S r =
     cast_uuid S (path_value r ''id'') (respond (problem 404 ''application not found'')) (\<lambda>aid. do {
     exists \<leftarrow> query S (\<lambda>_ d. Some (exists_where (\<lambda>a. a_id a = aid) (applications d)));
     if exists \<noteq> Inr True then respond (problem 404 ''application not found'')
     else check (query_rows S (\<lambda>_ d. Some (assigned_users S aid d))) (respond (problem 500 ''database error'')) (\<lambda>(us, _).
       check (query_rows S (\<lambda>_ d. Some (assigned_groups S aid d))) (respond (problem 500 ''database error'')) (\<lambda>(gs, _).
       respond (JSON 200 (JObj [(''users'', JArr (map user_brief us)), (''groups'', JArr (map group_brief gs))]))))
     })"

definition insert_user_assignment :: "uuid \<Rightarrow> uuid \<Rightarrow> statement" where
  "insert_user_assignment aid uid now d =
     (if (aid, uid) \<in> set (user_assignments d) then Some (0, d)
      else if \<not> exists_where (\<lambda>a. a_id a = aid) (applications d) \<or> \<not> exists_where (\<lambda>u. u_id u = uid) (users d) then None
      else Some (1, d\<lparr>user_assignments := user_assignments d @ [(aid, uid)]\<rparr>))"

definition insert_group_assignment :: "uuid \<Rightarrow> uuid \<Rightarrow> statement" where
  "insert_group_assignment aid gid now d =
     (if (aid, gid) \<in> set (group_assignments d) then Some (0, d)
      else if \<not> exists_where (\<lambda>a. a_id a = aid) (applications d) \<or> \<not> exists_where (\<lambda>g. g_id g = gid) (groups d) then None
      else Some (1, d\<lparr>group_assignments := group_assignments d @ [(aid, gid)]\<rparr>))"

definition delete_user_assignment :: "uuid \<Rightarrow> uuid \<Rightarrow> statement" where
  "delete_user_assignment aid uid now d = Some (count_where (\<lambda>a. a = (aid, uid)) (user_assignments d),
     d\<lparr>user_assignments := delete_where (\<lambda>a. a = (aid, uid)) (user_assignments d)\<rparr>)"

definition delete_group_assignment :: "uuid \<Rightarrow> uuid \<Rightarrow> statement" where
  "delete_group_assignment aid gid now d = Some (count_where (\<lambda>a. a = (aid, gid)) (group_assignments d),
     d\<lparr>group_assignments := delete_where (\<lambda>a. a = (aid, gid)) (group_assignments d)\<rparr>)"

text \<open>The audit record and the answer the four handlers share.\<close>

definition assignment_changed :: "server \<Rightarrow> request \<Rightarrow> principal \<Rightarrow> handler" where
  "assignment_changed S r p = do {
     audit S (Some (UserID p)) ''APPLICATION_ASSIGNMENT_CHANGED'' ''application'' (path_value r ''id'') ''success'' r;
     respond (Status 204)
   }"

definition assignApplicationUser :: "server \<Rightarrow> request \<Rightarrow> string option \<Rightarrow> principal \<Rightarrow> handler" where
  "assignApplicationUser S r body p = (case body of None \<Rightarrow> invalid_body | Some user \<Rightarrow>
     check (with_uuid S (path_value r ''id'') (\<lambda>aid. with_uuid S user (\<lambda>uid. exec S (insert_user_assignment aid uid))))
       (respond (problem 400 ''invalid application or user'')) (\<lambda>_. assignment_changed S r p))"

definition removeApplicationUser :: "server \<Rightarrow> request \<Rightarrow> principal \<Rightarrow> handler" where
  "removeApplicationUser S r p =
     check (with_uuid S (path_value r ''id'') (\<lambda>aid. with_uuid S (path_value r ''userId'') (\<lambda>uid.
         exec S (delete_user_assignment aid uid)))) (respond (problem 500 ''database error'')) (\<lambda>n.
     if n = 0 then respond (problem 404 ''application assignment not found'') else assignment_changed S r p)"

definition assignApplicationGroup :: "server \<Rightarrow> request \<Rightarrow> string option \<Rightarrow> principal \<Rightarrow> handler" where
  "assignApplicationGroup S r body p = (case body of None \<Rightarrow> invalid_body | Some grp \<Rightarrow>
     check (with_uuid S (path_value r ''id'') (\<lambda>aid. with_uuid S grp (\<lambda>gid. exec S (insert_group_assignment aid gid))))
       (respond (problem 400 ''invalid application or group'')) (\<lambda>_. assignment_changed S r p))"

definition removeApplicationGroup :: "server \<Rightarrow> request \<Rightarrow> principal \<Rightarrow> handler" where
  "removeApplicationGroup S r p =
     check (with_uuid S (path_value r ''id'') (\<lambda>aid. with_uuid S (path_value r ''groupId'') (\<lambda>gid.
         exec S (delete_group_assignment aid gid)))) (respond (problem 500 ''database error'')) (\<lambda>n.
     if n = 0 then respond (problem 404 ''application assignment not found'') else assignment_changed S r p)"

end
