(* ===== verification/Portal.thy ===== *)
theory Portal imports Users Applications begin

text \<open>
  The user portal (\<open>backend/internal/httpapi/portal.go\<close>): what a signed-in user may see and do, his
  profile, his sessions, the applications assigned to him.
\<close>

definition role_names :: "server \<Rightarrow> uuid \<Rightarrow> db \<Rightarrow> string list" where
  "role_names S uid d = order_by (collate S) (map (\<lambda>(ra, ro). ro_name ro)
     (join (\<lambda>ra ro. ro_id ro = snd ra) (filter (\<lambda>ra. fst ra = uid) (role_assignments d)) (roles d)))"

text \<open>\<open>SELECT DISTINCT p.name\<close> over assignments, role permissions and permissions.\<close>

definition permission_names :: "server \<Rightarrow> uuid \<Rightarrow> db \<Rightarrow> string list" where
  "permission_names S uid d = order_by (collate S) (remdups (map (\<lambda>(rp, pe). pe_name pe)
     (join (\<lambda>rp pe. pe_id pe = snd rp)
       (map snd (join (\<lambda>ra rp. fst rp = snd ra) (filter (\<lambda>ra. fst ra = uid) (role_assignments d)) (role_permissions d)))
       (permissions d))))"

definition myAccess :: "server \<Rightarrow> principal \<Rightarrow> handler" where
  "myAccess S p =
     check (query_rows S (\<lambda>_ d. Some (role_names S (UserID p) d))) (respond (problem 500 ''database error'')) (\<lambda>(rs, _).
     check (query_rows S (\<lambda>_ d. Some (permission_names S (UserID p) d))) (respond (problem 500 ''database error'')) (\<lambda>(ps, _).
     respond (JSON 200 (JObj [(''roles'', JArr (map JStr rs)), (''permissions'', JArr (map JStr ps))]))))"

definition myProfile :: "server \<Rightarrow> principal \<Rightarrow> handler" where
  "myProfile S p = check (query S (\<lambda>_ d. find (\<lambda>u. u_id u = UserID p) (users d))) (respond (problem 404 ''user not found''))
     (\<lambda>u. respond (JSON 200 (JObj [(''id'', JStr (UserID p)), (''username'', JStr (u_username u)),
       (''email'', JStr (u_email u)), (''display_name'', JStr (u_display_name u)), (''created_at'', JTime (u_created_at u))])))"

definition set_profile :: "uuid \<Rightarrow> string \<Rightarrow> string \<Rightarrow> statement" where
  "set_profile uid email display now d =
     (if exists_where (\<lambda>u. u_id u = uid) (users d) \<and> exists_where (\<lambda>u. u_id u \<noteq> uid \<and> u_email u = email) (users d)
      then None
      else Some (count_where (\<lambda>u. u_id u = uid) (users d), d\<lparr>users := update_where (\<lambda>u. u_id u = uid)
        (\<lambda>u. u\<lparr>u_email := email, u_display_name := display, u_updated_at := now\<rparr>) (users d)\<rparr>))"

definition updateMyProfile :: "server \<Rightarrow> request \<Rightarrow> (string \<times> string) option \<Rightarrow> principal \<Rightarrow> handler" where
  "updateMyProfile S r body p = (case body of None \<Rightarrow> invalid_body | Some (email0, display) \<Rightarrow>
     let email = toLower (udata S) (trimSpace email0) in
     if \<not> strings_Contains email ''@'' then respond (problem 400 ''invalid email'')
     else check (exec S (set_profile (UserID p) email (trimSpace display)))
         (respond (problem 409 ''email already exists or profile update failed'')) (\<lambda>n.
       if n = 0 then respond (problem 404 ''user not found'')
       else do {
         audit S (Some (UserID p)) ''USER_UPDATED'' ''user'' (UserID p) ''success'' r;
         respond (JSON 200 (JObj [(''id'', JStr (UserID p)), (''email'', JStr email), (''display_name'', JStr (trimSpace display))]))
       }))"

definition my_session_json :: "server \<Rightarrow> session \<Rightarrow> jval" where
  "my_session_json S s = JObj [(''id'', JStr (se_id s)), (''ip'', JStr (coalesce_ip S (se_ip s))),
     (''user_agent'', JStr (se_agent s)), (''created_at'', JTime (se_created_at s)),
     (''last_seen_at'', JTime (se_last_seen s)), (''expires_at'', JTime (se_expires s))]"

definition mySessions :: "server \<Rightarrow> principal \<Rightarrow> handler" where
  "mySessions S p =
     check (query_rows S (\<lambda>now d. Some (order_by (\<lambda>a b. se_last_seen a \<ge> se_last_seen b)
         (filter (\<lambda>s. se_user s = UserID p \<and> session_live now s) (sessions d)))))
       (respond (problem 500 ''database error'')) (\<lambda>(rows, _). respond (items (map (my_session_json S) rows)))"

definition revoke_own_session :: "uuid \<Rightarrow> uuid \<Rightarrow> statement" where
  "revoke_own_session sid uid now d = (let q = (\<lambda>s. se_id s = sid \<and> se_user s = uid \<and> se_revoked s = None) in
     Some (count_where q (sessions d),
       d\<lparr>sessions := update_where q (\<lambda>s. s\<lparr>se_revoked := Some now\<rparr>) (sessions d)\<rparr>))"

definition revokeMySession :: "server \<Rightarrow> request \<Rightarrow> principal \<Rightarrow> handler" where
  "revokeMySession S r p =
     check (with_uuid S (path_value r ''id'') (\<lambda>sid. exec S (revoke_own_session sid (UserID p))))
       (respond (problem 500 ''database error'')) (\<lambda>n.
     if n = 0 then respond (problem 404 ''active session not found'')
     else do {
       audit S (Some (UserID p)) ''SESSION_REVOKED'' ''session'' (path_value r ''id'') ''success'' r;
       respond (Status 204)
     })"

section \<open>Assigned applications\<close>

definition nullableString :: "string \<Rightarrow> jval" where
  "nullableString v = (if v = [] then JNull else JStr v)"

definition my_applications :: "server \<Rightarrow> uuid \<Rightarrow> db \<Rightarrow> application list" where
  "my_applications S uid d = order_by (\<lambda>a b. collate S (a_name a) (a_name b))
     (filter (\<lambda>a. a_enabled a \<and> assigned (a_id a) uid d) (applications d))"

definition portal_json :: "application \<times> oauth_client_row option \<times> saml_sp option \<Rightarrow> jval" where
  "portal_json acs = (case acs of (a, c, sp) \<Rightarrow>
     let ident = first_of (map_option oc_client_id c) (map_option sp_entity sp);
         launch = first_of (Option.bind c oc_initiate) (Option.bind sp sp_initiate)
     in JObj [(''id'', JStr (a_id a)), (''name'', JStr (a_name a)), (''protocol'', JStr (a_protocol a)),
       (''identifier'', JStr ident), (''client_id'', JStr ident), (''launch_url'', nullableString launch)])"

definition myApplications :: "server \<Rightarrow> principal \<Rightarrow> handler" where
  "myApplications S p =
     check (query_rows S (\<lambda>_ d. Some (map (\<lambda>a. (a, client_detail d a, sp_detail d a)) (my_applications S (UserID p) d))))
       (respond (problem 500 ''database error'')) (\<lambda>(rows, _). respond (items (map portal_json rows)))"

end
