(* ===== verification/WebAuthn.thy ===== *)
theory WebAuthn imports Mfa begin

text \<open>
  Security keys and passkeys (\<open>backend/internal/mfa/webauthn.go\<close>). The WebAuthn library is a
  parameter (\<open>wa_begin_registration\<close> and so on); \<open>wa_json\<close> of a credential is the library's JSON.

  A ceremony is started with a random token under whose hash the library's session data wait in
  Redis for five minutes, and is finished by taking them out again (\<open>GETDEL\<close>): a token works once.
  A credential is stored encrypted under a name that binds it to its user and identifier.
\<close>

record WebAuthnCredentialInfo =
  wi_id :: uuid
  wi_display :: string
  wi_discoverable :: bool
  wi_created :: instant
  wi_last_used :: "instant option"

record WebAuthnBegin =
  wb_ceremony :: string
  wb_options :: string

definition webAuthnAAD :: "uuid \<Rightarrow> string \<Rightarrow> string" where
  "webAuthnAAD uid cid = ''webauthn:'' @ uid @ '':'' @ base64_encode True cid"

section \<open>Accounts\<close>

text \<open>The rows decrypted and parsed one after the other; the first failure is the error.\<close>

fun load_credentials :: "server \<Rightarrow> uuid \<Rightarrow> wa_credential list \<Rightarrow> wa_cred list \<Rightarrow> mfa_error + wa_cred list" where
  "load_credentials S uid [] acc = Inr acc"
| "load_credentials S uid (c # cs) acc = (case decrypt S (wc_encrypted c) (webAuthnAAD uid (wc_credential_id c)) of
     None \<Rightarrow> Inl (lib_err S ''decrypt'')
   | Some raw \<Rightarrow> (case wa_unmarshal S raw of
       None \<Rightarrow> Inl (lib_err S ''json'') | Some k \<Rightarrow> load_credentials S uid cs (acc @ [k])))"

definition user_credentials :: "uuid \<Rightarrow> db \<Rightarrow> wa_credential list" where
  "user_credentials uid d = order_by (\<lambda>a b. wc_created_at a \<le> wc_created_at b)
     (filter (\<lambda>c. wc_user c = uid) (wa_credentials d))"

definition handle_of :: "uuid \<Rightarrow> string query" where
  "handle_of uid now d = map_option snd (find (\<lambda>h. fst h = uid) (wa_users d))"

text \<open>\<open>user_handle\<close> is unique; a second row of the user is ignored.\<close>

definition insert_handle :: "uuid \<Rightarrow> string \<Rightarrow> statement" where
  "insert_handle uid handle now d =
     (if exists_where (\<lambda>h. fst h = uid) (wa_users d) then Some (0, d)
      else if exists_where (\<lambda>h. snd h = handle) (wa_users d) \<or> \<not> exists_where (\<lambda>u. u_id u = uid) (users d) then None
      else Some (1, d\<lparr>wa_users := wa_users d @ [(uid, handle)]\<rparr>))"

definition ensure_handle :: "server \<Rightarrow> uuid \<Rightarrow> bool \<Rightarrow> (st, mfa_error + string) state" where
  "ensure_handle S uid ensureHandle = do {
     found \<leftarrow> query S (handle_of uid);
     case found of
       Inr handle \<Rightarrow> State_Monad.return (Inr handle)
     | Inl DbError \<Rightarrow> State_Monad.return (Inl (db_err S DbError))
     | Inl NoRows \<Rightarrow>
         if \<not> ensureHandle then State_Monad.return (Inl ErrNotEnrolled)
         else check_some (rand_bytes S 32) (State_Monad.return (Inl (lib_err S ''entropy''))) (\<lambda>handle.
           orfail (exec S (insert_handle uid handle)) (db_err S) (\<lambda>_.
           orfail (query S (handle_of uid)) (db_err S) (\<lambda>h. State_Monad.return (Inr h))))
   }"

definition loadUser :: "server \<Rightarrow> uuid \<Rightarrow> bool \<Rightarrow> (st, mfa_error + wa_account) state" where
  "loadUser S uid ensureHandle =
     orfail (query S (\<lambda>_ d. find (\<lambda>u. u_id u = uid \<and> u_active u) (users d))) (db_err S) (\<lambda>u.
     orfail (ensure_handle S uid ensureHandle) id (\<lambda>handle.
     orfail (query_rows S (\<lambda>_ d. Some (user_credentials uid d))) (db_err S) (\<lambda>(rows, failed).
     State_Monad.return (case load_credentials S uid rows [] of
         Inl e \<Rightarrow> Inl e
       | Inr creds \<Rightarrow> if failed then Inl (db_err S DbError)
           else Inr \<lparr>wa_handle = handle, wa_name = u_username u,
             wa_display = (if u_display_name u = [] then u_username u else u_display_name u), wa_creds = creds\<rparr>))))"

section \<open>Ceremonies\<close>

definition ceremony_key :: "string \<Rightarrow> string" where
  "ceremony_key token = ''opensso:webauthn:ceremony:'' @ SHA256String token"

definition storeCeremony :: "server \<Rightarrow> ceremony \<Rightarrow> (st, mfa_error + string) state" where
  "storeCeremony S c =
     check_some (RandomToken S 24) (State_Monad.return (Inl (lib_err S ''entropy''))) (\<lambda>token.
     orfail (redis_set S (ceremony_key token) c (minutes 5)) (db_err S) (\<lambda>_. State_Monad.return (Inr token)))"

definition consumeCeremony :: "server \<Rightarrow> string \<Rightarrow> (st, mfa_error + ceremony) state" where
  "consumeCeremony S token =
     (if token = [] then State_Monad.return (Inl (MfaOther ''missing WebAuthn ceremony token''))
      else orfail (redis_getdel S (ceremony_key token))
        (\<lambda>e. if e = NoRows then MfaOther ''WebAuthn ceremony expired or already used'' else db_err S e)
        (\<lambda>c. State_Monad.return (Inr c)))"

section \<open>Registration\<close>

definition BeginWebAuthnRegistration :: "server \<Rightarrow> uuid \<Rightarrow> string \<Rightarrow> (st, mfa_error + WebAuthnBegin) state" where
  "BeginWebAuthnRegistration S uid kind =
     (if kind \<noteq> ''security_key'' \<and> kind \<noteq> ''passkey''
      then State_Monad.return (Inl (MfaOther ''kind must be security_key or passkey''))
      else orfail (loadUser S uid True) id (\<lambda>account. do {
        n \<leftarrow> next_draw;
        case wa_begin_registration S n account (kind = ''passkey'') of
          None \<Rightarrow> State_Monad.return (Inl (lib_err S ''webauthn''))
        | Some (options, session) \<Rightarrow>
            orfail (storeCeremony S \<lparr>ce_user = uid, ce_kind = ''register:'' @ kind, ce_session = session\<rparr>) id (\<lambda>token.
            State_Monad.return (Inr \<lparr>wb_ceremony = token, wb_options = options\<rparr>))
      }))"

text \<open>\<open>credential_id\<close> is unique.\<close>

definition insert_wa_credential ::
  "uuid \<Rightarrow> uuid \<Rightarrow> string \<Rightarrow> string \<Rightarrow> string \<Rightarrow> bool \<Rightarrow> instant \<Rightarrow> db \<Rightarrow> dberr + (instant \<times> db)" where
  "insert_wa_credential wid uid cid encrypted display discoverable now d =
     (if exists_where (\<lambda>c. wc_id c = wid \<or> wc_credential_id c = cid) (wa_credentials d)
         \<or> \<not> exists_where (\<lambda>u. u_id u = uid) (users d) then Inl DbError
      else Inr (now, d\<lparr>wa_credentials := wa_credentials d @
        [\<lparr>wc_id = wid, wc_user = uid, wc_credential_id = cid, wc_encrypted = encrypted, wc_display_name = display,
          wc_discoverable = discoverable, wc_created_at = now, wc_last_used = None\<rparr>]\<rparr>))"

definition store_credential ::
  "server \<Rightarrow> uuid \<Rightarrow> string \<Rightarrow> string \<Rightarrow> wa_cred \<Rightarrow> (st, mfa_error + WebAuthnCredentialInfo) state" where
  "store_credential S uid kind display0 credential =
     check_some (encrypt S (wk_json credential) (webAuthnAAD uid (wk_id credential)))
       (State_Monad.return (Inl (lib_err S ''encrypt''))) (\<lambda>encrypted. do {
     let display = (if trimSpace display0 \<noteq> [] then display0
       else if kind = ''register:passkey'' then ''Passkey'' else ''Security key'');
     let discoverable = (case wk_rk credential of None \<Rightarrow> kind = ''register:passkey'' | Some rk \<Rightarrow> rk);
     wid \<leftarrow> new_uuid S;
     orfail (exec_row S (insert_wa_credential wid uid (wk_id credential) encrypted (trimSpace display) discoverable))
       (db_err S) (\<lambda>created.
     State_Monad.return (Inr \<lparr>wi_id = wid, wi_display = trimSpace display, wi_discoverable = discoverable,
       wi_created = created, wi_last_used = None\<rparr>))
     })"

text \<open>\<open>resp\<close> is the authenticator's response in the request body, which the library reads.\<close>

definition FinishWebAuthnRegistration ::
  "server \<Rightarrow> uuid \<Rightarrow> string \<Rightarrow> string \<Rightarrow> string \<Rightarrow> (st, mfa_error + WebAuthnCredentialInfo) state" where
  "FinishWebAuthnRegistration S uid token display resp =
     orfail (consumeCeremony S token) id (\<lambda>c.
     if ce_user c \<noteq> uid \<or> \<not> hasPrefix (ce_kind c) ''register:''
     then State_Monad.return (Inl (MfaOther ''WebAuthn registration ceremony does not match user''))
     else orfail (loadUser S uid False) id (\<lambda>account.
       case wa_finish_registration S account (ce_session c) resp of
         None \<Rightarrow> State_Monad.return (Inl (lib_err S ''webauthn''))
       | Some credential \<Rightarrow> store_credential S uid (ce_kind c) display credential))"

section \<open>Login\<close>

definition BeginWebAuthnLogin :: "server \<Rightarrow> uuid \<Rightarrow> (st, mfa_error + WebAuthnBegin) state" where
  "BeginWebAuthnLogin S uid =
     orfail (loadUser S uid False) id (\<lambda>account.
     if wa_creds account = [] then State_Monad.return (Inl ErrNotEnrolled)
     else do {
       n \<leftarrow> next_draw;
       case wa_begin_login S n account of
         None \<Rightarrow> State_Monad.return (Inl (lib_err S ''webauthn''))
       | Some (options, session) \<Rightarrow>
           orfail (storeCeremony S \<lparr>ce_user = uid, ce_kind = ''login'', ce_session = session\<rparr>) id (\<lambda>token.
           State_Monad.return (Inr \<lparr>wb_ceremony = token, wb_options = options\<rparr>))
     })"

definition info_of :: "wa_credential \<Rightarrow> WebAuthnCredentialInfo" where
  "info_of c = \<lparr>wi_id = wc_id c, wi_display = wc_display_name c, wi_discoverable = wc_discoverable c,
     wi_created = wc_created_at c, wi_last_used = wc_last_used c\<rparr>"

definition credential_used ::
  "uuid \<Rightarrow> string \<Rightarrow> string \<Rightarrow> instant \<Rightarrow> db \<Rightarrow> dberr + (WebAuthnCredentialInfo \<times> db)" where
  "credential_used uid cid encrypted now d =
     (let p = (\<lambda>c. wc_user c = uid \<and> wc_credential_id c = cid);
          d' = d\<lparr>wa_credentials := update_where p
            (\<lambda>c. c\<lparr>wc_encrypted := encrypted, wc_last_used := Some now\<rparr>) (wa_credentials d)\<rparr>
      in case find p (wa_credentials d') of None \<Rightarrow> Inl NoRows | Some c \<Rightarrow> Inr (info_of c, d'))"

definition FinishWebAuthnLogin ::
  "server \<Rightarrow> uuid \<Rightarrow> string \<Rightarrow> string \<Rightarrow> (st, mfa_error + WebAuthnCredentialInfo) state" where
  "FinishWebAuthnLogin S uid token resp =
     orfail (consumeCeremony S token) id (\<lambda>c.
     if ce_user c \<noteq> uid \<or> ce_kind c \<noteq> ''login''
     then State_Monad.return (Inl (MfaOther ''WebAuthn login ceremony does not match user''))
     else orfail (loadUser S uid False) id (\<lambda>account.
       case wa_finish_login S account (ce_session c) resp of
         None \<Rightarrow> State_Monad.return (Inl (lib_err S ''webauthn''))
       | Some credential \<Rightarrow>
           check_some (encrypt S (wk_json credential) (webAuthnAAD uid (wk_id credential)))
             (State_Monad.return (Inl (lib_err S ''encrypt''))) (\<lambda>encrypted.
           orfail (exec_row S (credential_used uid (wk_id credential) encrypted)) (db_err S)
             (\<lambda>info. State_Monad.return (Inr info)))))"

section \<open>Listing and deleting\<close>

definition ListWebAuthn :: "server \<Rightarrow> uuid \<Rightarrow> (st, mfa_error + WebAuthnCredentialInfo list) state" where
  "ListWebAuthn S uid = orfail (query_rows S (\<lambda>_ d. Some (user_credentials uid d))) (db_err S) (\<lambda>(rows, failed).
     State_Monad.return (if failed then Inl (db_err S DbError) else Inr (map info_of rows)))"

definition delete_credential :: "uuid \<Rightarrow> uuid \<Rightarrow> statement" where
  "delete_credential uid wid now d = Some (count_where (\<lambda>c. wc_id c = wid \<and> wc_user c = uid) (wa_credentials d),
     d\<lparr>wa_credentials := delete_where (\<lambda>c. wc_id c = wid \<and> wc_user c = uid) (wa_credentials d)\<rparr>)"

definition wa_delete :: "server \<Rightarrow> uuid \<Rightarrow> string \<Rightarrow> bool \<Rightarrow> (st, mfa_error + unit) state" where
  "wa_delete S uid raw policyRequired =
     orfail (if policyRequired then query S (\<lambda>_ d. Some (totp_enabled uid d, webauthn_count uid d))
             else State_Monad.return (Inr (True, 0))) (db_err S) (\<lambda>(totpActive, creds).
     if policyRequired \<and> \<not> totpActive \<and> creds \<le> 1 then State_Monad.return (Inl ErrLastRequiredFactor)
     else orfail (with_uuid S raw (\<lambda>wid. exec S (delete_credential uid wid))) (db_err S) (\<lambda>n.
       State_Monad.return (if n = 0 then Inl ErrNotEnrolled else Inr ())))"

definition DeleteWebAuthn :: "server \<Rightarrow> uuid \<Rightarrow> string \<Rightarrow> (st, mfa_error + unit) state" where
  "DeleteWebAuthn S uid raw =
     orfail (Required S uid None) (db_err S) (\<lambda>required. wa_delete S uid raw required)"

end
