(* ===== verification/Mfa_Http.thy ===== *)
theory Mfa_Http imports WebAuthn Auth begin

text \<open>
  The MFA endpoints (\<open>backend/internal/httpapi/mfa.go\<close>): enrolment and removal of factors, recovery
  codes, the verification that raises a session's assurance, the administrators' view and policies.
\<close>

definition status_json :: "mfa_status \<Rightarrow> jval" where
  "status_json st = JObj
     [(''required'', JBool (IsRequired st)), (''totp_enabled'', JBool (TOTPEnabled st)),
      (''webauthn_credentials'', JInt (WebAuthnCredentials st)), (''passkeys'', JInt (Passkeys st)),
      (''recovery_codes_remaining'', JInt (RecoveryCodesRemaining st)),
      (''has_primary_factor'', JBool (HasPrimaryFactor st))]"

definition info_json :: "WebAuthnCredentialInfo \<Rightarrow> jval" where
  "info_json c = JObj [(''id'', JStr (wi_id c)), (''display_name'', JStr (wi_display c)),
     (''discoverable'', JBool (wi_discoverable c)), (''created_at'', JTime (wi_created c)),
     (''last_used_at'', opt_time (wi_last_used c))]"

definition begin_json :: "WebAuthnBegin \<Rightarrow> jval" where
  "begin_json b = JObj [(''ceremony'', JStr (wb_ceremony b)), (''options'', JStr (wb_options b))]"

text \<open>Recovery codes are a nil slice when none were generated.\<close>

definition strings_json :: "string list \<Rightarrow> jval" where
  "strings_json xs = (if xs = [] then JNull else JArr (map JStr xs))"

definition handleMFAError :: "mfa_error \<Rightarrow> response" where
  "handleMFAError e = (case e of
     ErrInvalidCode \<Rightarrow> problem 401 ''invalid MFA verification''
   | ErrNotEnrolled \<Rightarrow> problem 404 (mfa_error_text e)
   | ErrAlreadyEnrolled \<Rightarrow> problem 409 (mfa_error_text e)
   | ErrLastRequiredFactor \<Rightarrow> problem 409 (mfa_error_text e)
   | MfaOther text \<Rightarrow> problem 400 text)"

text \<open>Factors of a user who has one are changed only in a session that has verified it.\<close>

definition allowMFAMutation :: "server \<Rightarrow> principal \<Rightarrow> handler \<Rightarrow> handler" where
  "allowMFAMutation S p k =
     check (StatusOf S (UserID p) None) (respond (problem 500 ''MFA status lookup failed'')) (\<lambda>status.
     if HasPrimaryFactor status \<and> \<not> MFAVerified p
     then respond (problem 403 ''MFA verification required before changing MFA factors'') else k)"

definition limited :: "server \<Rightarrow> request \<Rightarrow> principal \<Rightarrow> string \<Rightarrow> int \<Rightarrow> int \<Rightarrow> string \<Rightarrow> handler \<Rightarrow> handler" where
  "limited S r p bucket limit ttl msg k = do {
     ok \<leftarrow> Allow S bucket (UserID p @ '':'' @ clientIP r) limit ttl;
     if \<not> ok then respond (problem 429 msg) else k
   }"

definition mark_verified :: "uuid \<Rightarrow> uuid \<Rightarrow> statement" where
  "mark_verified sid uid now d =
     (let q = (\<lambda>s. se_id s = sid \<and> se_user s = uid \<and> se_revoked s = None \<and> se_expires s > now) in
      Some (count_where q (sessions d), d\<lparr>sessions := update_where q
        (\<lambda>s. s\<lparr>se_mfa_verified := Some now, se_last_seen := now\<rparr>) (sessions d)\<rparr>))"

definition markSessionMFAVerified :: "server \<Rightarrow> principal \<Rightarrow> (st, unit + unit) state" where
  "markSessionMFAVerified S p = orfail (exec S (mark_verified (SessionID p) (UserID p))) (\<lambda>_. ())
     (\<lambda>n. State_Monad.return (if n = 0 then Inl () else Inr ()))"

section \<open>A user's own factors\<close>

definition myMFAStatus :: "server \<Rightarrow> principal \<Rightarrow> handler" where
  "myMFAStatus S p =
     check (StatusOf S (UserID p) None) (respond (problem 500 ''MFA status lookup failed'')) (\<lambda>status.
     check (ListWebAuthn S (UserID p)) (respond (problem 500 ''WebAuthn credential lookup failed'')) (\<lambda>creds.
     respond (JSON 200 (JObj
       [(''required'', JBool (IsRequired status)), (''session_verified'', JBool (MFAVerified p)),
        (''totp_enabled'', JBool (TOTPEnabled status)), (''webauthn_credentials'', JArr (map info_json creds)),
        (''passkeys'', JInt (Passkeys status)),
        (''recovery_codes_remaining'', JInt (RecoveryCodesRemaining status)),
        (''has_primary_factor'', JBool (HasPrimaryFactor status))]))))"

definition beginTOTPEnrollment :: "server \<Rightarrow> request \<Rightarrow> principal \<Rightarrow> handler" where
  "beginTOTPEnrollment S r p = allowMFAMutation S p
     (limited S r p ''totp-enroll'' 10 (minutes 5) ''too many MFA enrollment attempts'' (do {
       x \<leftarrow> BeginTOTP S (UserID p) (Username p);
       case x of
         Inl e \<Rightarrow> respond (handleMFAError e)
       | Inr (secret, url, png) \<Rightarrow> do {
           audit S (Some (UserID p)) ''MFA_ENROLLMENT_STARTED'' ''user'' (UserID p) ''success'' r;
           respond (JSON 200 (JObj [(''secret'', JStr secret), (''otpauth_url'', JStr url),
             (''qr_code_data_url'', JStr png)]))
         }
     }))"

definition confirmTOTPEnrollment :: "server \<Rightarrow> request \<Rightarrow> string option \<Rightarrow> principal \<Rightarrow> handler" where
  "confirmTOTPEnrollment S r body p = allowMFAMutation S p
     (limited S r p ''totp-confirm'' 10 (minutes 5) ''too many MFA enrollment attempts''
       (case body of None \<Rightarrow> invalid_body | Some code \<Rightarrow> do {
         x \<leftarrow> ConfirmTOTP S (UserID p) code;
         case x of
           Inl e \<Rightarrow> do {
             audit S (Some (UserID p)) ''MFA_CHALLENGE_FAILED'' ''user'' (UserID p) ''failure'' r;
             respond (handleMFAError e)
           }
         | Inr codes \<Rightarrow>
             check (markSessionMFAVerified S p) (respond (problem 500 ''failed to update MFA session assurance'')) (\<lambda>_. do {
               audit S (Some (UserID p)) ''MFA_ADDED'' ''user'' (UserID p) ''success'' r;
               respond (JSON 200 (JObj [(''verified'', JBool True), (''recovery_codes'', strings_json codes)]))
             })
       }))"

definition disableTOTP :: "server \<Rightarrow> request \<Rightarrow> principal \<Rightarrow> handler" where
  "disableTOTP S r p = allowMFAMutation S p (do {
     x \<leftarrow> DisableTOTP S (UserID p);
     case x of
       Inl e \<Rightarrow> respond (handleMFAError e)
     | Inr _ \<Rightarrow> do {
         audit S (Some (UserID p)) ''MFA_REMOVED'' ''user'' (UserID p) ''success'' r;
         respond (Status 204)
       }
   })"

definition regenerateRecoveryCodes :: "server \<Rightarrow> request \<Rightarrow> principal \<Rightarrow> handler" where
  "regenerateRecoveryCodes S r p =
     check (StatusOf S (UserID p) None) (respond (problem 500 ''MFA status lookup failed'')) (\<lambda>status.
     if \<not> HasPrimaryFactor status
     then respond (problem 409 ''enroll TOTP, a security key, or a passkey before generating recovery codes'')
     else if \<not> MFAVerified p then respond (problem 403 ''MFA verification required before regenerating recovery codes'')
     else limited S r p ''recovery-regenerate'' 5 (minutes 10) ''too many recovery-code operations''
       (check (RegenerateRecoveryCodes S (UserID p)) (respond (problem 500 ''failed to regenerate recovery codes'')) (\<lambda>codes. do {
         audit S (Some (UserID p)) ''MFA_RECOVERY_REGENERATED'' ''user'' (UserID p) ''success'' r;
         respond (JSON 200 (JObj [(''recovery_codes'', strings_json codes)]))
       })))"

definition beginWebAuthnRegistration :: "server \<Rightarrow> request \<Rightarrow> string option \<Rightarrow> principal \<Rightarrow> handler" where
  "beginWebAuthnRegistration S r body p = allowMFAMutation S p
     (limited S r p ''webauthn-register'' 10 (minutes 5) ''too many WebAuthn enrollment attempts''
       (case body of None \<Rightarrow> invalid_body | Some kind \<Rightarrow> do {
         x \<leftarrow> BeginWebAuthnRegistration S (UserID p) (trimSpace kind);
         case x of
           Inl e \<Rightarrow> respond (handleMFAError e)
         | Inr b \<Rightarrow> do {
             audit S (Some (UserID p)) ''MFA_ENROLLMENT_STARTED'' ''user'' (UserID p) ''success'' r;
             respond (JSON 200 (begin_json b))
           }
       }))"

definition finishWebAuthnRegistration :: "server \<Rightarrow> request \<Rightarrow> string \<Rightarrow> principal \<Rightarrow> handler" where
  "finishWebAuthnRegistration S r resp p = allowMFAMutation S p
     (limited S r p ''webauthn-register-finish'' 10 (minutes 5) ''too many WebAuthn enrollment attempts'' (do {
       x \<leftarrow> FinishWebAuthnRegistration S (UserID p) (url_query r ''ceremony'') (url_query r ''display_name'') resp;
       case x of
         Inl e \<Rightarrow> do {
           audit S (Some (UserID p)) ''MFA_CHALLENGE_FAILED'' ''user'' (UserID p) ''failure'' r;
           respond (handleMFAError e)
         }
       | Inr credential \<Rightarrow>
           check (EnsureRecoveryCodes S (UserID p)) (respond (problem 500 ''failed to ensure recovery codes'')) (\<lambda>codes.
           check (markSessionMFAVerified S p) (respond (problem 500 ''failed to update MFA session assurance'')) (\<lambda>_. do {
             audit S (Some (UserID p)) ''MFA_ADDED'' ''user'' (UserID p) ''success'' r;
             respond (JSON 201 (JObj [(''credential'', info_json credential), (''recovery_codes'', strings_json codes)]))
           }))
     }))"

definition deleteWebAuthnCredential :: "server \<Rightarrow> request \<Rightarrow> principal \<Rightarrow> handler" where
  "deleteWebAuthnCredential S r p = allowMFAMutation S p (do {
     x \<leftarrow> DeleteWebAuthn S (UserID p) (path_value r ''id'');
     case x of
       Inl e \<Rightarrow> respond (handleMFAError e)
     | Inr _ \<Rightarrow> do {
         audit S (Some (UserID p)) ''MFA_REMOVED'' ''user'' (UserID p) ''success'' r;
         respond (Status 204)
       }
   })"

section \<open>Verification\<close>

definition verifyMFAFactor :: "server \<Rightarrow> request \<Rightarrow> (string \<times> string) option \<Rightarrow> principal \<Rightarrow> handler" where
  "verifyMFAFactor S r body p =
     limited S r p ''verify'' 10 (minutes 5) ''too many MFA verification attempts''
       (case body of None \<Rightarrow> invalid_body | Some (method0, code) \<Rightarrow> do {
         let method = trimSpace method0;
         x \<leftarrow> VerifyFactor S (UserID p) method code;
         case x of
           Inl e \<Rightarrow> do {
             audit S (Some (UserID p)) ''MFA_CHALLENGE_FAILED'' ''user'' (UserID p) ''failure'' r;
             respond (handleMFAError e)
           }
         | Inr _ \<Rightarrow>
             check (markSessionMFAVerified S p) (respond (problem 500 ''failed to update MFA session assurance'')) (\<lambda>_. do {
               audit S (Some (UserID p)) (if method = ''recovery'' then ''MFA_RECOVERY_USED'' else ''MFA_CHALLENGE_SUCCESS'')
                 ''user'' (UserID p) ''success'' r;
               audit S (Some (UserID p)) ''LOGIN_SUCCESS'' ''user'' (UserID p) ''success'' r;
               respond (JSON 200 (JObj [(''verified'', JBool True)]))
             })
       })"

definition beginWebAuthnAuthentication :: "server \<Rightarrow> request \<Rightarrow> principal \<Rightarrow> handler" where
  "beginWebAuthnAuthentication S r p =
     limited S r p ''webauthn-verify'' 10 (minutes 5) ''too many MFA verification attempts'' (do {
       x \<leftarrow> BeginWebAuthnLogin S (UserID p);
       case x of Inl e \<Rightarrow> respond (handleMFAError e) | Inr b \<Rightarrow> respond (JSON 200 (begin_json b))
     })"

definition finishWebAuthnAuthentication :: "server \<Rightarrow> request \<Rightarrow> string \<Rightarrow> principal \<Rightarrow> handler" where
  "finishWebAuthnAuthentication S r resp p =
     limited S r p ''webauthn-verify-finish'' 10 (minutes 5) ''too many MFA verification attempts'' (do {
       x \<leftarrow> FinishWebAuthnLogin S (UserID p) (url_query r ''ceremony'') resp;
       case x of
         Inl e \<Rightarrow> do {
           audit S (Some (UserID p)) ''MFA_CHALLENGE_FAILED'' ''user'' (UserID p) ''failure'' r;
           respond (handleMFAError e)
         }
       | Inr credential \<Rightarrow>
           check (markSessionMFAVerified S p) (respond (problem 500 ''failed to update MFA session assurance'')) (\<lambda>_. do {
             audit S (Some (UserID p)) ''MFA_CHALLENGE_SUCCESS'' ''webauthn_credential'' (wi_id credential) ''success'' r;
             audit S (Some (UserID p)) ''LOGIN_SUCCESS'' ''user'' (UserID p) ''success'' r;
             respond (JSON 200 (JObj [(''verified'', JBool True), (''credential'', info_json credential)]))
           })
     })"

section \<open>Administration\<close>

definition adminUserMFAStatus :: "server \<Rightarrow> request \<Rightarrow> handler" where
  "adminUserMFAStatus S r =
     cast_uuid S (path_value r ''id'') (respond (problem 500 ''MFA status lookup failed'')) (\<lambda>uid.
     check (StatusOf S uid None) (respond (problem 500 ''MFA status lookup failed'')) (\<lambda>status.
     check (ListWebAuthn S uid) (respond (problem 500 ''WebAuthn credential lookup failed'')) (\<lambda>creds.
     respond (JSON 200 (JObj [(''status'', status_json status), (''webauthn_credentials'', JArr (map info_json creds))])))))"

definition resetUserMFA :: "server \<Rightarrow> request \<Rightarrow> principal \<Rightarrow> handler" where
  "resetUserMFA S r p =
     cast_uuid S (path_value r ''id'') (respond (problem 500 ''failed to reset MFA'')) (\<lambda>uid.
     check (ResetUser S uid) (respond (problem 500 ''failed to reset MFA'')) (\<lambda>_. do {
       audit S (Some (UserID p)) ''MFA_RESET'' ''user'' (path_value r ''id'') ''success'' r;
       respond (Status 204)
     }))"

definition groupMFAPolicy :: "server \<Rightarrow> request \<Rightarrow> handler" where
  "groupMFAPolicy S r = check (with_uuid S (path_value r ''id'') (GroupPolicy S))
     (respond (problem 500 ''MFA policy lookup failed'')) (\<lambda>required.
     respond (JSON 200 (JObj [(''required'', JBool required)])))"

definition updateGroupMFAPolicy :: "server \<Rightarrow> request \<Rightarrow> bool option \<Rightarrow> principal \<Rightarrow> handler" where
  "updateGroupMFAPolicy S r body p = (case body of None \<Rightarrow> invalid_body | Some required \<Rightarrow>
     check (with_uuid S (path_value r ''id'') (\<lambda>gid. SetGroupPolicy S gid required))
       (respond (problem 400 ''failed to update group MFA policy'')) (\<lambda>_. do {
       audit S (Some (UserID p)) ''MFA_POLICY_CHANGED'' ''group'' (path_value r ''id'') ''success'' r;
       respond (JSON 200 (JObj [(''required'', JBool required)]))
     }))"

definition applicationMFAPolicy :: "server \<Rightarrow> request \<Rightarrow> handler" where
  "applicationMFAPolicy S r = check (with_uuid S (path_value r ''id'') (ApplicationPolicy S))
     (respond (problem 500 ''MFA policy lookup failed'')) (\<lambda>required.
     respond (JSON 200 (JObj [(''required'', JBool required)])))"

definition updateApplicationMFAPolicy :: "server \<Rightarrow> request \<Rightarrow> bool option \<Rightarrow> principal \<Rightarrow> handler" where
  "updateApplicationMFAPolicy S r body p = (case body of None \<Rightarrow> invalid_body | Some required \<Rightarrow>
     check (with_uuid S (path_value r ''id'') (\<lambda>aid. SetApplicationPolicy S aid required))
       (respond (problem 400 ''failed to update application MFA policy'')) (\<lambda>_. do {
       audit S (Some (UserID p)) ''MFA_POLICY_CHANGED'' ''application'' (path_value r ''id'') ''success'' r;
       respond (JSON 200 (JObj [(''required'', JBool required)]))
     }))"

end
