(* ===== verification/Routing.thy ===== *)
theory Routing imports OAuth Directory Branding Portal Mfa_Http begin

text \<open>
  The routing table of \<open>Handler()\<close> in \<open>backend/internal/httpapi/server.go\<close> and the dispatch of
  \<open>net/http\<close>'s \<open>ServeMux\<close> over it. A route is a pattern and an endpoint with its gate: none, any
  session (\<open>withPrincipalRaw\<close>), a session that satisfies the MFA policy (\<open>withPrincipal\<close>), or a
  permission (\<open>require\<close>). Everything under \<open>/saml/\<close> goes to the SAML runtime.
\<close>

section \<open>Patterns\<close>

definition wildcard :: "string \<Rightarrow> bool" where
  "wildcard seg \<longleftrightarrow> hasPrefix seg ''{''"

text \<open>The values of the wildcards; a wildcard matches one non-empty segment.\<close>

fun match_segments :: "string list \<Rightarrow> string list \<Rightarrow> (string \<times> string) list option" where
  "match_segments [] [] = Some []"
| "match_segments (p # ps) (x # xs) =
     (if wildcard p then if x = [] then None else map_option (Cons (butlast (tl p), x)) (match_segments ps xs)
      else if p = x then match_segments ps xs else None)"
| "match_segments ps xs = None"

definition pattern_method :: "string \<Rightarrow> string" where
  "pattern_method pat = (case cut_byte CHR '' '' pat of (m, _, _) \<Rightarrow> m)"

definition pattern_segments :: "string \<Rightarrow> string list" where
  "pattern_segments pat = (case cut_byte CHR '' '' pat of (_, path, _) \<Rightarrow> split_byte CHR ''/'' path)"

text \<open>A \<open>GET\<close> pattern also matches \<open>HEAD\<close>.\<close>

definition method_matches :: "string \<Rightarrow> string \<Rightarrow> bool" where
  "method_matches m method \<longleftrightarrow> method = m \<or> m = ''GET'' \<and> method = ''HEAD''"

definition match_path :: "string \<Rightarrow> request \<Rightarrow> (string \<times> string) list option" where
  "match_path pat r = match_segments (pattern_segments pat) (split_byte CHR ''/'' (rq_path r))"

definition match_route :: "string \<Rightarrow> request \<Rightarrow> (string \<times> string) list option" where
  "match_route pat r = (if method_matches (pattern_method pat) (rq_method r) then match_path pat r else None)"

section \<open>Endpoints\<close>

datatype endpoint =
    Open handler
  | Raw "principal \<Rightarrow> handler"
  | SignedIn "principal \<Rightarrow> handler"
  | Needs string "principal \<Rightarrow> handler"

fun guarded :: "server \<Rightarrow> request \<Rightarrow> endpoint \<Rightarrow> handler" where
  "guarded S r (Open h) = h"
| "guarded S r (Raw k) = withPrincipalRaw S r k"
| "guarded S r (SignedIn k) = withPrincipal S r k"
| "guarded S r (Needs perm k) = require S perm r k"

text \<open>
  What \<open>decodeJSON\<close> makes of the request's body for each of the structs the handlers decode into
  (\<^const>\<open>None\<close>: it fails), the body itself, the order in which a map is visited, and the SAML
  library, where the server has it.
\<close>

record inputs =
  in_bootstrap :: "(string \<times> string \<times> string \<times> string) option"
  in_login :: "(string \<times> string) option"
  in_factor :: "(string \<times> string) option"
  in_code :: "string option"
  in_kind :: "string option"
  in_profile :: "(string \<times> string) option"
  in_passwords :: "(string \<times> string) option"
  in_user :: "(string \<times> string \<times> string \<times> string) option"
  in_user_change :: "(string \<times> string \<times> bool option) option"
  in_password :: "string option"
  in_group :: "(string \<times> string) option"
  in_user_id :: "string option"
  in_group_id :: "string option"
  in_role_id :: "string option"
  in_required :: "bool option"
  in_application :: "application_input option"
  in_policy :: "securityPolicy option"
  in_login_ui :: "loginUISettings option"
  in_saml_new :: "(string \<times> string \<times> string \<times> bool) option"
  in_saml_change :: "(string \<times> bool \<times> string \<times> string \<times> bool) option"
  in_saml_request :: "string option"
  raw_body :: string
  in_saml :: "saml_library option"
  map_order :: "(string \<times> string) list \<Rightarrow> (string \<times> string) list"

section \<open>The table\<close>

definition routes :: "server \<Rightarrow> inputs \<Rightarrow> (string \<times> (request \<Rightarrow> endpoint)) list" where
  "routes S i =
     [(''GET /health/live'', \<lambda>r. Open live),
      (''GET /health/ready'', \<lambda>r. Open (ready S)),
      (''GET /.well-known/openid-configuration'', \<lambda>r. Open (oidcDiscovery S)),
      (''GET /.well-known/oauth-authorization-server'', \<lambda>r. Open (oauthAuthorizationServerMetadata S)),
      (''GET /.well-known/jwks.json'', \<lambda>r. Open (jwks S)),
      (''GET /oauth2/authorize'', \<lambda>r. Open (authorize S r)),
      (''POST /oauth2/authorize/consent'', \<lambda>r. Open (authorizeConsent S r)),
      (''POST /oauth2/token'', \<lambda>r. Open (tokenEndpoint S r)),
      (''POST /oauth2/revoke'', \<lambda>r. Open (revokeToken S r)),
      (''POST /oauth2/introspect'', \<lambda>r. Open (introspectToken S r)),
      (''GET /userinfo'', \<lambda>r. Open (userinfo S r)),
      (''GET /oauth2/logout'', \<lambda>r. Open (oauthLogout S r)),
      (''POST /oauth2/logout'', \<lambda>r. Open (oauthLogout S r)),
      (''GET /api/v1/setup/status'', \<lambda>r. Open (setupStatus S)),
      (''GET /api/v1/public/login-ui'', \<lambda>r. Open (publicLoginUI S)),
      (''POST /api/v1/setup/bootstrap'', \<lambda>r. Open (bootstrap S r (in_bootstrap i))),
      (''POST /api/v1/auth/login'', \<lambda>r. Open (login S r (in_login i))),
      (''POST /api/v1/auth/logout'', \<lambda>r. Raw (logout S r)),
      (''POST /api/v1/auth/mfa/verify'', \<lambda>r. Raw (verifyMFAFactor S r (in_factor i))),
      (''POST /api/v1/auth/mfa/webauthn/begin'', \<lambda>r. Raw (beginWebAuthnAuthentication S r)),
      (''POST /api/v1/auth/mfa/webauthn/finish'', \<lambda>r. Raw (finishWebAuthnAuthentication S r (raw_body i))),
      (''GET /api/v1/me'', \<lambda>r. Raw (me S)),
      (''GET /api/v1/me/mfa/status'', \<lambda>r. Raw (myMFAStatus S)),
      (''POST /api/v1/me/mfa/totp/begin'', \<lambda>r. Raw (beginTOTPEnrollment S r)),
      (''POST /api/v1/me/mfa/totp/confirm'', \<lambda>r. Raw (confirmTOTPEnrollment S r (in_code i))),
      (''DELETE /api/v1/me/mfa/totp'', \<lambda>r. Raw (disableTOTP S r)),
      (''POST /api/v1/me/mfa/recovery/regenerate'', \<lambda>r. Raw (regenerateRecoveryCodes S r)),
      (''POST /api/v1/me/mfa/webauthn/register/begin'', \<lambda>r. Raw (beginWebAuthnRegistration S r (in_kind i))),
      (''POST /api/v1/me/mfa/webauthn/register/finish'', \<lambda>r. Raw (finishWebAuthnRegistration S r (raw_body i))),
      (''DELETE /api/v1/me/mfa/webauthn/{id}'', \<lambda>r. Raw (deleteWebAuthnCredential S r)),
      (''GET /api/v1/me/access'', \<lambda>r. SignedIn (myAccess S)),
      (''GET /api/v1/me/profile'', \<lambda>r. SignedIn (myProfile S)),
      (''PATCH /api/v1/me/profile'', \<lambda>r. SignedIn (updateMyProfile S r (in_profile i))),
      (''POST /api/v1/me/password'', \<lambda>r. Raw (changeOwnPassword S r (in_passwords i))),
      (''GET /api/v1/me/applications'', \<lambda>r. SignedIn (myApplications S)),
      (''GET /api/v1/me/sessions'', \<lambda>r. SignedIn (mySessions S)),
      (''DELETE /api/v1/me/sessions/{id}'', \<lambda>r. SignedIn (revokeMySession S r)),
      (''GET /api/v1/dashboard'', \<lambda>r. Needs ''users.read'' (\<lambda>_. dashboard S)),
      (''GET /api/v1/users'', \<lambda>r. Needs ''users.read'' (\<lambda>_. listUsers S)),
      (''POST /api/v1/users'', \<lambda>r. Needs ''users.write'' (createUser S r (in_user i))),
      (''GET /api/v1/users/{id}'', \<lambda>r. Needs ''users.read'' (\<lambda>_. getUser S r)),
      (''PATCH /api/v1/users/{id}'', \<lambda>r. Needs ''users.write'' (updateUser S r (in_user_change i))),
      (''POST /api/v1/users/{id}/unlock'', \<lambda>r. Needs ''users.write'' (unlockUser S r)),
      (''POST /api/v1/users/{id}/reset-password'', \<lambda>r. Needs ''users.write'' (resetUserPassword S r (in_password i))),
      (''POST /api/v1/users/{id}/sessions/revoke-all'', \<lambda>r. Needs ''sessions.write'' (revokeUserSessions S r)),
      (''GET /api/v1/users/{id}/mfa'', \<lambda>r. Needs ''mfa.read'' (\<lambda>_. adminUserMFAStatus S r)),
      (''POST /api/v1/users/{id}/mfa/reset'', \<lambda>r. Needs ''mfa.write'' (resetUserMFA S r)),
      (''GET /api/v1/groups'', \<lambda>r. Needs ''groups.read'' (\<lambda>_. listGroups S)),
      (''POST /api/v1/groups'', \<lambda>r. Needs ''groups.write'' (createGroup S r (in_group i))),
      (''GET /api/v1/groups/{id}'', \<lambda>r. Needs ''groups.read'' (\<lambda>_. getGroup S r)),
      (''PATCH /api/v1/groups/{id}'', \<lambda>r. Needs ''groups.write'' (updateGroup S r (in_group i))),
      (''DELETE /api/v1/groups/{id}'', \<lambda>r. Needs ''groups.write'' (deleteGroup S r)),
      (''GET /api/v1/groups/{id}/members'', \<lambda>r. Needs ''groups.read'' (\<lambda>_. listGroupMembers S r)),
      (''POST /api/v1/groups/{id}/members'', \<lambda>r. Needs ''groups.write'' (addGroupMember S r (in_user_id i))),
      (''DELETE /api/v1/groups/{id}/members/{userId}'', \<lambda>r. Needs ''groups.write'' (removeGroupMember S r)),
      (''GET /api/v1/groups/{id}/mfa-policy'', \<lambda>r. Needs ''mfa.read'' (\<lambda>_. groupMFAPolicy S r)),
      (''PUT /api/v1/groups/{id}/mfa-policy'', \<lambda>r. Needs ''mfa.write'' (updateGroupMFAPolicy S r (in_required i))),
      (''GET /api/v1/applications'', \<lambda>r. Needs ''applications.read'' (\<lambda>_. listApplications S)),
      (''POST /api/v1/applications'', \<lambda>r. Needs ''applications.write'' (createApplication S r (in_application i))),
      (''GET /api/v1/applications/{id}/integration'', \<lambda>r. Needs ''applications.read'' (\<lambda>_. applicationIntegration S r)),
      (''PUT /api/v1/applications/{id}'', \<lambda>r. Needs ''applications.write'' (updateApplication S r (in_application i))),
      (''POST /api/v1/applications/{id}/rotate-secret'', \<lambda>r. Needs ''applications.write'' (rotateClientSecret S r)),
      (''GET /api/v1/applications/{id}/assignments'', \<lambda>r. Needs ''applications.read'' (\<lambda>_. applicationAssignments S r)),
      (''POST /api/v1/applications/{id}/assign/users'', \<lambda>r. Needs ''applications.write'' (assignApplicationUser S r (in_user_id i))),
      (''DELETE /api/v1/applications/{id}/assign/users/{userId}'', \<lambda>r. Needs ''applications.write'' (removeApplicationUser S r)),
      (''POST /api/v1/applications/{id}/assign/groups'', \<lambda>r. Needs ''applications.write'' (assignApplicationGroup S r (in_group_id i))),
      (''DELETE /api/v1/applications/{id}/assign/groups/{groupId}'', \<lambda>r. Needs ''applications.write'' (removeApplicationGroup S r)),
      (''GET /api/v1/applications/{id}/mfa-policy'', \<lambda>r. Needs ''mfa.read'' (\<lambda>_. applicationMFAPolicy S r)),
      (''PUT /api/v1/applications/{id}/mfa-policy'', \<lambda>r. Needs ''mfa.write'' (updateApplicationMFAPolicy S r (in_required i))),
      (''GET /api/v1/audit'', \<lambda>r. Needs ''audit.read'' (\<lambda>_. listAudit S r)),
      (''GET /api/v1/roles'', \<lambda>r. Needs ''users.read'' (\<lambda>_. listRoles S)),
      (''GET /api/v1/users/{id}/roles'', \<lambda>r. Needs ''users.read'' (\<lambda>_. listUserRoles S r)),
      (''POST /api/v1/users/{id}/roles'', \<lambda>r. Needs ''rbac.write'' (assignRole S r (in_role_id i))),
      (''DELETE /api/v1/users/{id}/roles/{roleId}'', \<lambda>r. Needs ''rbac.write'' (removeRole S r)),
      (''GET /api/v1/sessions'', \<lambda>r. Needs ''sessions.read'' (\<lambda>_. listSessions S)),
      (''DELETE /api/v1/sessions/{id}'', \<lambda>r. Needs ''sessions.write'' (revokeSession S r)),
      (''POST /api/v1/sessions/revoke-all'', \<lambda>r. Needs ''sessions.write'' (revokeAllSessions S r)),
      (''GET /api/v1/security/policy'', \<lambda>r. Needs ''policies.read'' (\<lambda>_. securityPolicyHandler S)),
      (''PUT /api/v1/security/policy'', \<lambda>r. Needs ''policies.write'' (updateSecurityPolicy S r (in_policy i))),
      (''GET /api/v1/branding/login-ui'', \<lambda>r. Needs ''branding.read'' (\<lambda>_. adminLoginUI S)),
      (''PUT /api/v1/branding/login-ui'', \<lambda>r. Needs ''branding.write'' (updateLoginUI S (map_order i) r (in_login_ui i))),
      (''POST /api/v1/branding/login-ui/reset'', \<lambda>r. Needs ''branding.write'' (resetLoginUI S r)),
      (''GET /api/v1/signing-keys'', \<lambda>r. Needs ''signing_keys.read'' (\<lambda>_. listSigningKeys S)),
      (''POST /api/v1/signing-keys/rotate'', \<lambda>r. Needs ''signing_keys.rotate'' (rotateSigningKey S r)),
      (''POST /api/v1/saml/applications'', \<lambda>r. Needs ''saml.write'' (createSAMLApplication S r (in_saml_new i))),
      (''PUT /api/v1/saml/applications/{id}'', \<lambda>r. Needs ''saml.write'' (updateSAMLApplication S r (in_saml_change i))),
      (''GET /api/v1/saml/applications/{id}/integration'', \<lambda>r. Needs ''saml.read'' (\<lambda>_. samlApplicationIntegration S r)),
      (''GET /api/v1/saml/certificates'', \<lambda>r. Needs ''saml.read'' (\<lambda>_. samlCertificates S)),
      (''POST /api/v1/saml/certificates/rotate'', \<lambda>r. Needs ''saml.rotate'' (rotateSAMLCertificate S r)),
      (''POST /api/v1/saml/continue'', \<lambda>r. SignedIn (continueSAML S r (in_saml_request i)))]"

fun find_route :: "(string \<times> (request \<Rightarrow> endpoint)) list \<Rightarrow> request \<Rightarrow> ((string \<times> string) list \<times> (request \<Rightarrow> endpoint)) option" where
  "find_route [] r = None"
| "find_route ((pat, e) # table) r = (case match_route pat r of
     None \<Rightarrow> find_route table r | Some vals \<Rightarrow> Some (vals, e))"

text \<open>404 for an unknown path, 405 for a known one with another method.\<close>

definition mux :: "server \<Rightarrow> inputs \<Rightarrow> request \<Rightarrow> handler" where
  "mux S i r =
     (if hasPrefix (rq_path r) ''/saml/'' \<and> in_saml i \<noteq> None then saml_handler S (the (in_saml i)) r
      else case find_route (routes S i) r of
     None \<Rightarrow> (if list_ex (\<lambda>(pat, _). match_path pat r \<noteq> None) (routes S i)
       then respond (Plain 405 ''Method Not Allowed'') else respond (Plain 404 ''404 page not found''))
   | Some (vals, e) \<Rightarrow> let r' = r\<lparr>rq_pathvals := vals\<rparr> in guarded S r' (e r'))"

definition Handler :: "server \<Rightarrow> inputs \<Rightarrow> request \<Rightarrow> handler" where
  "Handler S i = middleware S (mux S i)"

section \<open>The table is unambiguous\<close>

text \<open>Two patterns that a request could match both; \<open>ServeMux\<close> would have to prefer one.\<close>

fun compatible :: "string list \<Rightarrow> string list \<Rightarrow> bool" where
  "compatible [] [] = True"
| "compatible (p # ps) (q # qs) = ((wildcard p \<or> wildcard q \<or> p = q) \<and> compatible ps qs)"
| "compatible ps qs = False"

definition parsed :: "string \<Rightarrow> string \<times> string list" where
  "parsed pat = (pattern_method pat, pattern_segments pat)"

definition overlap :: "string \<times> string list \<Rightarrow> string \<times> string list \<Rightarrow> bool" where
  "overlap p q \<longleftrightarrow> fst p = fst q \<and> compatible (snd p) (snd q)"

fun unambiguous :: "(string \<times> string list) list \<Rightarrow> bool" where
  "unambiguous [] = True"
| "unambiguous (p # ps) = (list_all (\<lambda>q. \<not> overlap p q) ps \<and> unambiguous ps)"

lemma match_compatible: "match_segments ps xs \<noteq> None \<Longrightarrow> match_segments qs xs \<noteq> None \<Longrightarrow> compatible ps qs"
  by (induction ps xs arbitrary: qs rule: match_segments.induct) (case_tac qs; auto split: if_splits)+

definition patterns :: "string list" where
  "patterns = map fst (routes undefined undefined)"

lemma routes_patterns: "map fst (routes S i) = patterns"
  by (simp add: patterns_def routes_def)

lemma table_unambiguous: "unambiguous (map parsed patterns)"
  unfolding patterns_def routes_def list.map fst_conv by code_simp

lemma no_head_patterns: "list_all (\<lambda>pat. pattern_method pat \<noteq> ''HEAD'') patterns"
  unfolding patterns_def routes_def list.map fst_conv by code_simp

lemma unambiguous_nth:
  "unambiguous ps \<Longrightarrow> j < k \<Longrightarrow> k < length ps \<Longrightarrow> \<not> overlap (ps ! j) (ps ! k)"
  by (induction ps arbitrary: j k) (auto simp: nth_Cons list_all_iff split: nat.split)

lemma match_route_overlap:
  assumes "match_route p r \<noteq> None" "match_route q r \<noteq> None" "pattern_method p \<noteq> ''HEAD''" "pattern_method q \<noteq> ''HEAD''"
  shows "overlap (parsed p) (parsed q)"
  using assms match_compatible by (auto simp: match_route_def match_path_def method_matches_def overlap_def parsed_def split: if_splits)

lemma match_unique_index:
  assumes "j < length patterns" "k < length patterns"
    and "match_route (patterns ! j) r \<noteq> None" "match_route (patterns ! k) r \<noteq> None"
  shows "j = k"
proof (rule ccontr)
  have clash: "\<not> overlap (parsed (patterns ! a)) (parsed (patterns ! b))" if "a < b" "b < length patterns" for a b
    using unambiguous_nth [OF table_unambiguous, of a b] that by simp
  have head: "pattern_method (patterns ! a) \<noteq> ''HEAD''" if "a < length patterns" for a
    using no_head_patterns that by (simp add: list_all_length)
  assume "j \<noteq> k"
  then show False
    using clash [of j k] clash [of k j] assms match_route_overlap [OF assms(3,4) head head]
      match_route_overlap [OF assms(4,3) head head] by (metis linorder_neqE_nat)
qed

lemma find_route_Some: "find_route table r = Some (vals, e) \<Longrightarrow> \<exists>pat. (pat, e) \<in> set table \<and> match_route pat r = Some vals"
  by (induction table r rule: find_route.induct) (auto split: option.splits)

lemma find_route_None: "find_route table r = None \<longleftrightarrow> (\<forall>(pat, e) \<in> set table. match_route pat r = None)"
  by (induction table r rule: find_route.induct) (auto split: option.splits)

end
