(* ===== verification/Statements.thy ===== *)
theory Statements imports OAuth Directory Branding Portal Mfa_Http begin

text \<open>
  Every SQL statement with which the program changes a table (the two key tables apart), and with
  which arguments. \<open>sql S c\<close> has one rule for each; its premises are what the handlers have checked
  before they run it: a password record is one that \<open>HashPassword\<close> made, a policy has passed
  \<open>updateSecurityPolicy\<close>, a URI its validation. What holds of all of them holds of the database,
  whoever sends what: theory Handlers shows that a handler does nothing but run these
  statements, theory System draws the consequences.
\<close>

section \<open>The statements\<close>

text \<open>A statement with \<open>RETURNING\<close>, without the row it returns.\<close>

definition returning :: "(instant \<Rightarrow> db \<Rightarrow> dberr + ('a \<times> db)) \<Rightarrow> statement" where
  "returning c now d = (case c now d of Inl _ \<Rightarrow> None | Inr (_, d') \<Rightarrow> Some (1, d'))"

text \<open>What \<open>normalizeLoginUISettings\<close> guarantees of the settings it returns.\<close>

definition login_ui_ok :: "ucd \<Rightarrow> loginUISettings \<Rightarrow> bool" where
  "login_ui_ok U s \<longleftrightarrow> 1 \<le> length (runes (BrandName s)) \<and> length (runes (BrandName s)) \<le> 100
     \<and> 1 \<le> length (runes (Heading s)) \<and> length (runes (Heading s)) \<le> 120
     \<and> length (runes (Subheading s)) \<le> 240 \<and> length (runes (NoticeText s)) \<le> 500
     \<and> length (runes (FooterText s)) \<le> 240
     \<and> 0 \<le> CardRadius s \<and> CardRadius s \<le> 48 \<and> 320 \<le> CardWidth s \<and> CardWidth s \<le> 720
     \<and> length (LogoURL s) \<le> 2048 \<and> length (BackgroundImageURL s) \<le> 2048
     \<and> list_all (\<lambda>c. color_ok (snd c)) (colors_of s)
     \<and> validateLoginUIMediaURL U (LogoURL s) = None \<and> validateLoginUIMediaURL U (BackgroundImageURL s) = None"

definition is_password_record :: "server \<Rightarrow> string \<Rightarrow> bool" where
  "is_password_record S hash \<longleftrightarrow> (\<exists>pw. password_record_of S pw hash)"

inductive sql :: "server \<Rightarrow> statement \<Rightarrow> bool" for S where
  "sql S (insert_audit actor event tt ti res r)"
| "sql S (insert_user uid name email display must_change)"
| "is_password_record S hash \<Longrightarrow> sql S (insert_credential uid hash)"
| "sql S (assign_role_by_name uid ro)"
| "sql S mark_initialized"
| "sql S (count_failure uid p)"
| "sql S (clear_failures uid)"
| "sql S (insert_session sid uid hash ip agent expires)"
| "sql S (touch_session sid)"
| "sql S (revoke_by_hash hash)"
| "policy_ok p \<Longrightarrow> sql S (set_policy p)"
| "sql S (assign_role_if_new uid ro)"
| "sql S (set_user uid email display active)"
| "sql S (unlock_user uid)"
| "is_password_record S hash \<Longrightarrow> sql S (set_password uid hash)"
| "sql S (force_change uid)"
| "sql S (password_changed uid)"
| "sql S (revoke_session sid)"
| "sql S revoke_live"
| "sql S (insert_group gid name desc)"
| "sql S (set_group gid name desc)"
| "sql S (delete_group gid)"
| "sql S (insert_membership gid uid)"
| "sql S (delete_membership gid uid)"
| "sql S (insert_assignment uid rid)"
| "sql S (delete_assignment uid rid)"
| "sql S (insert_recovery rid uid hash)"
| "sql S (delete_recovery uid)"
| "sql S (use_recovery rid)"
| "sql S (upsert_totp uid secret)"
| "sql S (activate_totp uid)"
| "sql S (touch_totp uid)"
| "sql S (delete_totp uid)"
| "sql S (delete_webauthn uid)"
| "sql S (delete_handle uid)"
| "sql S (revoke_user_sessions uid)"
| "sql S (set_group_mfa gid required)"
| "sql S (set_application_mfa aid required)"
| "sql S (insert_handle uid handle)"
| "sql S (returning (insert_wa_credential wid uid cid secret display discoverable))"
| "sql S (returning (credential_used uid cid secret))"
| "sql S (delete_credential uid wid)"
| "sql S (mark_verified sid uid)"
| "login_ui_ok (udata S) ui \<Longrightarrow> sql S (set_login_ui ui uid)"
| "sql S (set_profile uid email display)"
| "sql S (revoke_own_session sid uid)"
| "sql S (insert_application aid aname protocol)"
| "\<forall>a. q a \<longrightarrow> a_id a = aid \<Longrightarrow> sql S (set_application q aname enabled)"
| "sql S (insert_sp aid entity xml want_signed initiate)"
| "sql S (set_sp aid entity xml want_signed initiate)"
| "contains scopes ''openid'' \<Longrightarrow> public \<longleftrightarrow> secret = None \<Longrightarrow>
     sql S (insert_client aid cid secret public scopes initiate)"
| "contains scopes ''openid'' \<Longrightarrow> sql S (set_client aid initiate scopes)"
| "sql S (set_secret aid hash)"
| "redirect_uri_ok (udata S) uri \<Longrightarrow> sql S (insert_redirect aid uri)"
| "redirect_uri_ok (udata S) uri \<Longrightarrow> sql S (insert_post_logout aid uri)"
| "sql S (clear_redirects aid)"
| "sql S (clear_post_logouts aid)"
| "sql S (insert_user_assignment aid uid)"
| "sql S (insert_group_assignment aid gid)"
| "sql S (delete_user_assignment aid uid)"
| "sql S (delete_group_assignment aid gid)"
| "sql S (insert_saml_request reqkey samlid app issuer destination acs resp_binding relay)"
| "sql S (complete_saml_request reqkey uid)"
| "sql S (consume_saml_request reqkey)"
| "sql S (insert_auth_request qid hash app uid redirect ostate nonce scope challenge)"
| "sql S (consume_auth_request qid)"
| "sql S (upsert_consent uid app scopes)"
| "sql S (insert_code cid hash app uid redirect scope nonce challenge)"
| "sql S (consume_code cid)"
| "sql S (insert_access_token jti app user subject scope expires)"
| "sql S (insert_refresh rid hash family parent app uid scope expires)"
| "sql S (consume_refresh rid)"
| "sql S (revoke_family family)"
| "sql S (revoke_access jti app)"

section \<open>Histories of a database\<close>

definition db_step :: "server \<Rightarrow> db \<Rightarrow> db \<Rightarrow> bool" where
  "db_step S d d' \<longleftrightarrow> (\<exists>c now n. sql S c \<and> c now d = Some (n, d'))"

inductive db_later :: "server \<Rightarrow> db \<Rightarrow> db \<Rightarrow> bool" for S where
  db_refl: "db_later S d d"
| db_then: "db_later S d d1 \<Longrightarrow> db_step S d1 d2 \<Longrightarrow> db_later S d d2"

lemma db_later_trans: "db_later S d1 d2 \<Longrightarrow> db_later S d0 d1 \<Longrightarrow> db_later S d0 d2"
  by (induction rule: db_later.induct) (auto intro: db_then)

lemma db_later_sql: "db_later S d v \<Longrightarrow> sql S c \<Longrightarrow> c now v = Some (n, v') \<Longrightarrow> db_later S d v'"
  by (rule db_then) (auto simp: db_step_def)

text \<open>What every statement keeps, a history keeps.\<close>

lemma db_later_keeps:
  assumes "db_later S d d'" and "I d"
    and "\<And>c now n v v'. sql S c \<Longrightarrow> c now v = Some (n, v') \<Longrightarrow> I v \<Longrightarrow> I v'"
  shows "I d'"
  using assms(1,2) by (induction rule: db_later.induct) (auto simp: db_step_def dest: assms(3))

lemma db_later_relates:
  assumes "db_later S d d'" and refl: "\<And>v. R v v" and trans: "\<And>v1 v2 v3. R v1 v2 \<Longrightarrow> R v2 v3 \<Longrightarrow> R v1 v3"
    and "\<And>c now n v v'. sql S c \<Longrightarrow> c now v = Some (n, v') \<Longrightarrow> R v v'"
  shows "R d d'"
  using assms(1) by (induction rule: db_later.induct) (auto simp: db_step_def refl dest: assms(4) intro: trans)

end
