(* ===== verification/Single_Use.thy ===== *)
theory Single_Use imports Prelude begin

text \<open>
  Credentials that work once: authorization codes, refresh tokens, consent requests, recovery
  codes, WebAuthn ceremonies. The locale \<open>single_use\<close> is what their tables promise; its
  theorem is that of any history of the server at most one redemption succeeds.

  \<open>stage\<close> is how far such a credential is in its life. Stages are linearly ordered and only
  ever increase.
\<close>

section \<open>Stages\<close>

datatype stage = Unused | Used | Revoked

fun stage_rank :: "stage \<Rightarrow> nat" where
  "stage_rank Unused = 0"
| "stage_rank Used = 1"
| "stage_rank Revoked = 2"

instantiation stage :: linorder
begin

definition less_eq_stage :: "stage \<Rightarrow> stage \<Rightarrow> bool" where
  "a \<le> b \<longleftrightarrow> stage_rank a \<le> stage_rank b"

definition less_stage :: "stage \<Rightarrow> stage \<Rightarrow> bool" where
  "a < b \<longleftrightarrow> stage_rank a < stage_rank b"

instance
proof
  fix a b :: stage
  show "a \<le> b \<Longrightarrow> b \<le> a \<Longrightarrow> a = b"
    by (cases a; cases b) (simp_all add: less_eq_stage_def)
qed (auto simp: less_eq_stage_def less_stage_def)

end

lemma stage_simps [simp]:
  "Unused \<le> a" "a \<le> Revoked" "Used \<le> a \<longleftrightarrow> a \<noteq> Unused" "Revoked \<le> a \<longleftrightarrow> a = Revoked" "a \<le> Unused \<longleftrightarrow> a = Unused"
  "Unused < a \<longleftrightarrow> a \<noteq> Unused"
  by (cases a; simp add: less_eq_stage_def less_stage_def)+

definition stage_of :: "'a option \<Rightarrow> 'b option \<Rightarrow> stage" where
  "stage_of consumed revoked = (if revoked \<noteq> None then Revoked else if consumed \<noteq> None then Used else Unused)"

lemma stage_of_simps [simp]:
  "stage_of c r = Unused \<longleftrightarrow> c = None \<and> r = None"
  "stage_of (Some x) None = Used" "stage_of c (Some y) = Revoked"
  "stage_of c r \<le> stage_of (Some x) r" "stage_of c r \<le> stage_of c (Some y)"
  by (auto simp: stage_of_def)

section \<open>The contract\<close>

locale single_use =
  fixes redeem :: "'r \<Rightarrow> 's \<Rightarrow> 'x \<times> 's"
    and accepted :: "'x \<Rightarrow> bool"
    and token_of :: "'r \<Rightarrow> 'k"
    and stage_in :: "'s \<Rightarrow> 'k \<Rightarrow> stage option"
    and later :: "'s \<Rightarrow> 's \<Rightarrow> bool"
  assumes redeemed: "redeem r s = (x, t) \<Longrightarrow> accepted x \<Longrightarrow>
      stage_in s (token_of r) = Some Unused \<and> stage_in t (token_of r) = Some Used"
    and redeem_later: "redeem r s = (x, t) \<Longrightarrow> later s t"
    and later_stage: "later s t \<Longrightarrow> stage_in s k = Some g \<Longrightarrow> \<exists>g'. stage_in t k = Some g' \<and> g \<le> g'"
begin

lemma at_most_once:
  assumes "redeem r s = (x, t)" "accepted x" "later t s'" "redeem r' s' = (y, t')" "token_of r' = token_of r"
  shows "\<not> accepted y"
proof
  assume "accepted y"
  with redeemed [OF assms(4)] assms(5) have "stage_in s' (token_of r) = Some Unused" by simp
  moreover have "stage_in t (token_of r) = Some Used" using redeemed [OF assms(1,2)] by simp
  ultimately show False using later_stage [OF assms(3)] by fastforce
qed

text \<open>A history of redemptions with other events in between, and how often one token was accepted.\<close>

inductive history :: "'s \<Rightarrow> ('r \<times> 'x) list \<Rightarrow> 's \<Rightarrow> bool" where
  start: "history s [] s"
| redemption: "history t evs s' \<Longrightarrow> later s s1 \<Longrightarrow> redeem r s1 = (x, t) \<Longrightarrow> history s ((r, x) # evs) s'"

definition acceptances :: "'k \<Rightarrow> ('r \<times> 'x) list \<Rightarrow> nat" where
  "acceptances k evs = count_where (\<lambda>(r, x). token_of r = k \<and> accepted x) evs"

lemma none_after:
  "history s evs s' \<Longrightarrow> stage_in s k = Some g \<Longrightarrow> Unused < g \<Longrightarrow> acceptances k evs = 0"
proof (induction arbitrary: g rule: history.induct)
  case (redemption t evs s' s s1 r x)
  obtain g1 where g1: "stage_in s1 k = Some g1" "Unused < g1"
    using later_stage [OF redemption.hyps(2) redemption.prems(1)] redemption.prems(2) by (metis less_le_trans)
  obtain g2 where "stage_in t k = Some g2" "Unused < g2"
    using later_stage [OF redeem_later [OF redemption.hyps(3)] g1(1)] g1(2) by (metis less_le_trans)
  with redemption.IH have "acceptances k evs = 0" by simp
  moreover have "\<not> (token_of r = k \<and> accepted x)"
    using redeemed [OF redemption.hyps(3)] g1 by auto
  ultimately show ?case by (simp add: acceptances_def count_where_def)
qed (simp add: acceptances_def count_where_def)

lemma accepted_at_most_once: "history s evs s' \<Longrightarrow> acceptances k evs \<le> 1"
proof (induction rule: history.induct)
  case (redemption t evs s' s s1 r x)
  show ?case
  proof (cases "token_of r = k \<and> accepted x")
    case True
    then have "stage_in t k = Some Used" using redeemed [OF redemption.hyps(3)] by blast
    then have "acceptances k evs = 0" by (rule none_after [OF redemption.hyps(1)]) simp
    with True show ?thesis by (simp add: acceptances_def count_where_def)
  qed (use redemption.IH in \<open>auto simp: acceptances_def count_where_def\<close>)
qed (simp add: acceptances_def count_where_def)

end

end
