(* ===== verification/Lifecycle.thy ===== *)
theory Lifecycle imports Single_Use Store begin

text \<open>
  The lives of the OAuth credentials, as their tables record them: \<open>consumed_at\<close> and
  \<open>revoked_at\<close>. \<open>tokens_later s t\<close>: between \<open>s\<close> and \<open>t\<close> no row of the four token tables was
  deleted or rewritten, rows were only added, and each one's stage only advanced.
\<close>

named_theorems evolve \<open>introduction rules for tables that only grow\<close>

section \<open>Stages of rows\<close>

definition code_stage :: "auth_code \<Rightarrow> stage" where
  "code_stage k = stage_of (cd_consumed k) (None :: instant option)"

definition request_stage :: "auth_request \<Rightarrow> stage" where
  "request_stage q = stage_of (aq_consumed q) (None :: instant option)"

definition refresh_stage :: "refresh_token \<Rightarrow> stage" where
  "refresh_stage t = stage_of (rt_consumed t) (rt_revoked t)"

definition access_stage :: "access_token \<Rightarrow> stage" where
  "access_stage a = stage_of (None :: instant option) (at_revoked a)"

definition code_le :: "auth_code \<Rightarrow> auth_code \<Rightarrow> bool" where
  "code_le k k' \<longleftrightarrow> k'\<lparr>cd_consumed := None\<rparr> = k\<lparr>cd_consumed := None\<rparr> \<and> code_stage k \<le> code_stage k'"

definition request_le :: "auth_request \<Rightarrow> auth_request \<Rightarrow> bool" where
  "request_le q q' \<longleftrightarrow> q'\<lparr>aq_consumed := None\<rparr> = q\<lparr>aq_consumed := None\<rparr> \<and> request_stage q \<le> request_stage q'"

definition refresh_le :: "refresh_token \<Rightarrow> refresh_token \<Rightarrow> bool" where
  "refresh_le t t' \<longleftrightarrow> t'\<lparr>rt_consumed := None, rt_revoked := None\<rparr> = t\<lparr>rt_consumed := None, rt_revoked := None\<rparr>
     \<and> refresh_stage t \<le> refresh_stage t'"

definition access_le :: "access_token \<Rightarrow> access_token \<Rightarrow> bool" where
  "access_le a a' \<longleftrightarrow> a'\<lparr>at_revoked := None\<rparr> = a\<lparr>at_revoked := None\<rparr> \<and> access_stage a \<le> access_stage a'"

lemmas row_le_defs = code_le_def request_le_def refresh_le_def access_le_def
lemmas stage_defs = code_stage_def request_stage_def refresh_stage_def access_stage_def

lemma row_le_refl [simp]: "code_le k k" "request_le q q" "refresh_le t t" "access_le a a"
  by (simp_all add: row_le_defs)

lemma row_le_trans:
  "code_le k1 k2 \<Longrightarrow> code_le k2 k3 \<Longrightarrow> code_le k1 k3"
  "request_le q1 q2 \<Longrightarrow> request_le q2 q3 \<Longrightarrow> request_le q1 q3"
  "refresh_le t1 t2 \<Longrightarrow> refresh_le t2 t3 \<Longrightarrow> refresh_le t1 t3"
  "access_le a1 a2 \<Longrightarrow> access_le a2 a3 \<Longrightarrow> access_le a1 a3"
  by (auto simp: row_le_defs intro: order_trans)

lemma row_le_same:
  "code_le k k' \<Longrightarrow> cd_hash k' = cd_hash k \<and> cd_app k' = cd_app k \<and> cd_user k' = cd_user k \<and> cd_id k' = cd_id k"
  "request_le q q' \<Longrightarrow> aq_hash q' = aq_hash q \<and> aq_user q' = aq_user q \<and> aq_id q' = aq_id q"
  "refresh_le t t' \<Longrightarrow> rt_hash t' = rt_hash t \<and> rt_app t' = rt_app t \<and> rt_family t' = rt_family t \<and> rt_id t' = rt_id t"
  "access_le a a' \<Longrightarrow> at_jti a' = at_jti a \<and> at_app a' = at_app a"
  unfolding row_le_defs
  by (drule conjunct1, drule arg_cong [where f = "\<lambda>r. (cd_hash r, cd_app r, cd_user r, cd_id r)"], simp)
    (drule conjunct1, drule arg_cong [where f = "\<lambda>r. (aq_hash r, aq_user r, aq_id r)"], simp,
     drule conjunct1, drule arg_cong [where f = "\<lambda>r. (rt_hash r, rt_app r, rt_family r, rt_id r)"], simp,
     drule conjunct1, drule arg_cong [where f = "\<lambda>r. (at_jti r, at_app r)"], simp)

section \<open>Tables\<close>

definition tables_later :: "db \<Rightarrow> db \<Rightarrow> bool" where
  "tables_later d d' \<longleftrightarrow> evolves code_le (auth_codes d) (auth_codes d')
     \<and> evolves request_le (auth_requests d) (auth_requests d')
     \<and> evolves refresh_le (refresh_tokens d) (refresh_tokens d')
     \<and> evolves access_le (access_tokens d) (access_tokens d')"

definition tokens_later :: "st \<Rightarrow> st \<Rightarrow> bool" where
  "tokens_later s t \<longleftrightarrow> tables_later (main s) (main t)"

lemma evolves_row_refl [simp]: "evolves code_le ks ks" "evolves request_le qs qs" "evolves refresh_le ts ts" "evolves access_le as as"
  by (simp_all add: evolves_refl)

lemma tables_later_refl [simp]: "tables_later d d"
  by (simp add: tables_later_def)

lemma row_evolves_trans:
  "evolves code_le ks1 ks2 \<Longrightarrow> evolves code_le ks2 ks3 \<Longrightarrow> evolves code_le ks1 ks3"
  "evolves request_le qs1 qs2 \<Longrightarrow> evolves request_le qs2 qs3 \<Longrightarrow> evolves request_le qs1 qs3"
  "evolves refresh_le ts1 ts2 \<Longrightarrow> evolves refresh_le ts2 ts3 \<Longrightarrow> evolves refresh_le ts1 ts3"
  "evolves access_le as1 as2 \<Longrightarrow> evolves access_le as2 as3 \<Longrightarrow> evolves access_le as1 as3"
  by (erule evolves_trans; blast intro: row_le_trans)+

lemma tables_later_trans: "tables_later d1 d2 \<Longrightarrow> tables_later d2 d3 \<Longrightarrow> tables_later d1 d3"
  unfolding tables_later_def by (blast intro: row_evolves_trans)

lemma tokens_later_refl [simp]: "tokens_later s s"
  by (simp add: tokens_later_def)

lemma tokens_later_trans: "tokens_later s1 s2 \<Longrightarrow> tokens_later s2 s3 \<Longrightarrow> tokens_later s1 s3"
  unfolding tokens_later_def by (rule tables_later_trans)

text \<open>The updates the statements make.\<close>

lemma evolves_consume [simp]:
  "evolves code_le ks (update_where q (\<lambda>k. k\<lparr>cd_consumed := Some now\<rparr>) ks)"
  "evolves request_le qs (update_where q' (\<lambda>k. k\<lparr>aq_consumed := Some now\<rparr>) qs)"
  "evolves refresh_le ts (update_where q'' (\<lambda>k. k\<lparr>rt_consumed := Some now\<rparr>) ts)"
  by (rule evolves_update, simp, auto simp: row_le_defs stage_defs stage_of_def less_eq_stage_def split: if_splits)+

lemma evolves_revoke [simp]:
  "evolves refresh_le ts (update_where q (\<lambda>t. t\<lparr>rt_revoked :=
     (case rt_revoked t of None \<Rightarrow> Some now | Some x \<Rightarrow> Some x)\<rparr>) ts)"
  "evolves access_le as (update_where q' (\<lambda>a. a\<lparr>at_revoked :=
     (case at_revoked a of None \<Rightarrow> Some now | Some x \<Rightarrow> Some x)\<rparr>) as)"
  by (rule evolves_update, simp, auto simp: row_le_defs stage_defs stage_of_def less_eq_stage_def split: option.splits if_splits)+

end
