(* ===== verification/Grants.thy ===== *)
theory Grants imports OAuth Lifecycle begin

text \<open>
  What the three grants of the token endpoint do: which codes and refresh tokens they accept,
  what they write, and that every refusal leaves the database as it was.
\<close>

section \<open>Authorization codes\<close>

definition code_row :: "string \<Rightarrow> oauthClient \<Rightarrow> db \<Rightarrow> auth_code option" where
  "code_row code c d = find (\<lambda>k. cd_hash k = SHA256String code \<and> cd_app k = ApplicationID c) (auth_codes d)"

definition code_spent :: "uuid \<Rightarrow> instant \<Rightarrow> db \<Rightarrow> db" where
  "code_spent cid now d =
     d\<lparr>auth_codes := update_where (\<lambda>k. cd_id k = cid) (\<lambda>k. k\<lparr>cd_consumed := Some now\<rparr>) (auth_codes d)\<rparr>"

lemma consume_code_eq: "consume_code cid now d = Some (count_where (\<lambda>k. cd_id k = cid) (auth_codes d), code_spent cid now d)"
  by (simp add: consume_code_def code_spent_def)

text \<open>The code was issued to this client for this redirect URI and the verifier's challenge, is
  unused and unexpired; the view written spends it and holds the two new tokens.\<close>

definition code_exchanged :: "request \<Rightarrow> oauthClient \<Rightarrow> st \<Rightarrow> db \<Rightarrow> bool" where
  "code_exchanged r c s d \<longleftrightarrow> (case code_row (form r ''code'') c (main s) of
     None \<Rightarrow> False
   | Some k \<Rightarrow> cd_consumed k = None \<and> go_now s \<le> cd_expires k \<and> cd_redirect k = form r ''redirect_uri''
       \<and> validPKCEVerifier (form r ''code_verifier'') \<and> verifyPKCE (form r ''code_verifier'') (cd_challenge k)
       \<and> tokens_appended (code_spent (cd_id k) (pg_now s) (main s)) d
           (access_token_for c (cd_user k) (Some (cd_user k)) (cd_scope k) (go_now s))
           (refresh_token_for c (cd_user k) (cd_scope k) [] None (go_now s))
       \<and> (contains (scopes_or_nil (cd_scope k)) ''openid'' \<longrightarrow> active_user (main s) (cd_user k)))"

lemma authorizationCodeGrant_wp:
  "wp (authorizationCodeGrant S r c) (\<lambda>resp t.
     if status_of resp = 200 then code_exchanged r c s (main t)
     else main t = main s \<and> status_of resp \<in> {400, 500}) s"
proof -
  have issue: "tokens_appended v v' (access_token_for c uid (Some uid) scope (go_now s1))
      (refresh_token_for c uid scope [] None (go_now s1))
    \<and> (contains (scopes_or_nil scope) ''openid'' \<longrightarrow> active_user (main s1) uid)"
    if "result (issueUserTokens S v c uid scope nonce [] None) s1 = Inr (resp, v')" for v v' uid scope nonce s1 resp
    using if_okD [OF issueUserTokens_result that] by simp
  show ?thesis
    unfolding authorizationCodeGrant_def Let_def
    by (auto simp: wp consume_code_eq code_exchanged_def code_row_def code_usable_def dest!: issue
        split: sum.splits option.splits)
qed

section \<open>Refresh tokens\<close>

definition refresh_found :: "string \<Rightarrow> oauthClient \<Rightarrow> db \<Rightarrow> refresh_token option" where
  "refresh_found raw c d = find (\<lambda>t. rt_hash t = SHA256String raw \<and> rt_app t = ApplicationID c) (refresh_tokens d)"

definition refresh_spent :: "uuid \<Rightarrow> instant \<Rightarrow> db \<Rightarrow> db" where
  "refresh_spent rid now d =
     d\<lparr>refresh_tokens := update_where (\<lambda>t. rt_id t = rid) (\<lambda>t. t\<lparr>rt_consumed := Some now\<rparr>) (refresh_tokens d)\<rparr>"

definition family_revoked :: "uuid \<Rightarrow> instant \<Rightarrow> db \<Rightarrow> db" where
  "family_revoked family now d = d\<lparr>refresh_tokens := update_where (\<lambda>t. rt_family t = family)
       (\<lambda>t. t\<lparr>rt_revoked := (case rt_revoked t of None \<Rightarrow> Some now | Some x \<Rightarrow> Some x)\<rparr>) (refresh_tokens d)\<rparr>"

lemma consume_refresh_eq:
  "consume_refresh rid now d = Some (count_where (\<lambda>t. rt_id t = rid) (refresh_tokens d), refresh_spent rid now d)"
  by (simp add: consume_refresh_def refresh_spent_def)

lemma revoke_family_eq:
  "revoke_family f now d = Some (count_where (\<lambda>t. rt_family t = f) (refresh_tokens d), family_revoked f now d)"
  by (simp add: revoke_family_def family_revoked_def)

text \<open>The token presented is unused, unrevoked and unexpired; it is spent, and its successor
  belongs to its user, scope and family and names it as its parent.\<close>

definition refresh_rotated :: "request \<Rightarrow> oauthClient \<Rightarrow> st \<Rightarrow> db \<Rightarrow> bool" where
  "refresh_rotated r c s d \<longleftrightarrow> (case refresh_found (form r ''refresh_token'') c (main s) of
     None \<Rightarrow> False
   | Some k \<Rightarrow> rt_consumed k = None \<and> rt_revoked k = None \<and> go_now s \<le> rt_expires k
       \<and> tokens_appended (refresh_spent (rt_id k) (pg_now s) (main s)) d
           (access_token_for c (rt_user k) (Some (rt_user k)) (rt_scope k) (go_now s))
           (refresh_token_for c (rt_user k) (rt_scope k) (rt_family k) (Some (rt_id k)) (go_now s))
       \<and> (contains (scopes_or_nil (rt_scope k)) ''openid'' \<longrightarrow> active_user (main s) (rt_user k)))"

definition refresh_replayed :: "request \<Rightarrow> oauthClient \<Rightarrow> db \<Rightarrow> bool" where
  "refresh_replayed r c d \<longleftrightarrow> (case refresh_found (form r ''refresh_token'') c d of
     None \<Rightarrow> False | Some k \<Rightarrow> rt_consumed k \<noteq> None \<or> rt_revoked k \<noteq> None)"

lemma refreshTokenGrant_wp:
  "wp (refreshTokenGrant S r c) (\<lambda>resp t.
     if status_of resp = 200 then refresh_rotated r c s (main t)
     else status_of resp \<in> {400, 500} \<and> (refresh_replayed r c (main s) \<or> main t = main s)) s"
proof -
  have issue: "tokens_appended v v' (access_token_for c uid (Some uid) scope (go_now s1))
      (refresh_token_for c uid scope f p (go_now s1))
    \<and> (contains (scopes_or_nil scope) ''openid'' \<longrightarrow> active_user (main s1) uid)"
    if "result (issueUserTokens S v c uid scope nonce f p) s1 = Inr (resp, v')" for v v' uid scope nonce s1 resp f p
    using if_okD [OF issueUserTokens_result that] by simp
  show ?thesis
    unfolding refreshTokenGrant_def Let_def
    by (auto simp: wp consume_refresh_eq refresh_rotated_def refresh_found_def refresh_reuse_def
        refresh_replayed_def dest!: issue split: sum.splits option.splits)
qed

lemma reuse_wp:
  assumes "refresh_found (form r ''refresh_token'') c (main s) = Some k"
    and "rt_consumed k \<noteq> None \<or> rt_revoked k \<noteq> None" and "\<And>n. \<not> fault S n" and "form r ''refresh_token'' \<noteq> []"
  shows "wp (refreshTokenGrant S r c) (\<lambda>resp t. status_of resp = 400
     \<and> refresh_tokens (main t) = refresh_tokens (family_revoked (rt_family k) (pg_now s) (main s))) s"
  unfolding refreshTokenGrant_def Let_def
  using assms by (simp add: wp refresh_reuse_def refresh_found_def revoke_family_eq)

lemma revoked_in_family:
  assumes "t \<in> set (refresh_tokens (family_revoked f now d))" "rt_family t = f"
  shows "rt_revoked t \<noteq> None"
proof -
  from assms(1) obtain q where "t = (if rt_family q = f then q\<lparr>rt_revoked :=
      (case rt_revoked q of None \<Rightarrow> Some now | Some x \<Rightarrow> Some x)\<rparr> else q)"
    by (auto simp: family_revoked_def in_update_where)
  with assms(2) show ?thesis by (cases "rt_family q = f") (simp_all split: option.split)
qed

section \<open>Client credentials\<close>

definition machine_token :: "request \<Rightarrow> oauthClient \<Rightarrow> st \<Rightarrow> db \<Rightarrow> bool" where
  "machine_token r c s d \<longleftrightarrow> \<not> Public c \<and> (case normalizeRequestedScope (form r ''scope'') of
     None \<Rightarrow> False
   | Some (scope, scopes) \<Rightarrow> containsAll (AllowedScopes c) scopes \<and> \<not> contains scopes ''openid''
       \<and> access_appended (main s) d (access_token_for c (ClientID c) None scope (go_now s)))"

lemma clientCredentialsGrant_wp:
  "wp (clientCredentialsGrant S r c) (\<lambda>resp t.
     if status_of resp = 200 then machine_token r c s (main t)
     else main t = main s \<and> status_of resp \<in> {400, 500}) s"
proof -
  have issue: "access_appended v v' (access_token_for c sub uid scope (go_now s1))"
    if "result (issueAccessToken S v c sub uid scope) s1 = Inr (resp, v')" for v v' uid scope s1 resp sub
    using if_okD [OF issueAccessToken_result that] by simp
  show ?thesis
    unfolding clientCredentialsGrant_def Let_def machine_token_def
    by (auto simp: wp dest!: issue split: sum.splits option.splits)
qed

section \<open>The tables they write only grow\<close>

lemma appendedD:
  "tokens_appended v d P R \<Longrightarrow> \<exists>a t. d = v\<lparr>access_tokens := access_tokens v @ [a],
     refresh_tokens := refresh_tokens v @ [t]\<rparr> \<and> P a \<and> R t"
  "access_appended v d P \<Longrightarrow> \<exists>a. d = v\<lparr>access_tokens := access_tokens v @ [a]\<rparr> \<and> P a"
  unfolding tokens_appended_def access_appended_def Let_def by blast+

lemma granted_later:
  "code_exchanged r c s d \<Longrightarrow> tables_later (main s) d"
  "refresh_rotated r c s d \<Longrightarrow> tables_later (main s) d"
  "machine_token r c s d \<Longrightarrow> tables_later (main s) d"
  by (auto simp: code_exchanged_def code_spent_def refresh_rotated_def refresh_spent_def machine_token_def
      tables_later_def evolves_append dest!: appendedD split: option.splits)

lemma refresh_reuse_later:
  "wp (refresh_reuse S r c (main s) row) (\<lambda>resp t. tables_later (main s) (main t)) s"
  by (simp add: refresh_reuse_def wp revoke_family_eq tables_later_def family_revoked_def split: sum.split)

lemma authorizationCodeGrant_later:
  "wp (authorizationCodeGrant S r c) (\<lambda>resp t. tokens_later s t) s"
  by (rule wp_mono [OF authorizationCodeGrant_wp]) (auto simp: tokens_later_def intro: granted_later split: if_splits)

lemma clientCredentialsGrant_later:
  "wp (clientCredentialsGrant S r c) (\<lambda>resp t. tokens_later s t) s"
  by (rule wp_mono [OF clientCredentialsGrant_wp]) (auto simp: tokens_later_def intro: granted_later split: if_splits)

lemma refreshTokenGrant_later:
  "wp (refreshTokenGrant S r c) (\<lambda>resp t. tokens_later s t) s"
proof -
  have issue: "tokens_appended v v' (access_token_for c uid (Some uid) scope (go_now s1))
      (refresh_token_for c uid scope f p (go_now s1))"
    if "result (issueUserTokens S v c uid scope nonce f p) s1 = Inr (resp, v')" for v v' uid scope nonce s1 resp f p
    using if_okD [OF issueUserTokens_result that] by simp
  show ?thesis
    unfolding refreshTokenGrant_def Let_def tokens_later_def
    by (auto simp: wp consume_refresh_eq refresh_spent_def refresh_reuse_def revoke_family_eq family_revoked_def
        tables_later_def evolves_append dest!: issue appendedD split: sum.splits)
qed

section \<open>Codes and refresh tokens are single-use credentials\<close>

text \<open>A credential is known by the hash stored for it and the client it was issued to.\<close>

definition code_stage_in :: "st \<Rightarrow> string \<times> uuid \<Rightarrow> stage option" where
  "code_stage_in s k = map_option code_stage
     (find (\<lambda>c. cd_hash c = fst k \<and> cd_app c = snd k) (auth_codes (main s)))"

definition refresh_stage_in :: "st \<Rightarrow> string \<times> uuid \<Rightarrow> stage option" where
  "refresh_stage_in s k = map_option refresh_stage
     (find (\<lambda>t. rt_hash t = fst k \<and> rt_app t = snd k) (refresh_tokens (main s)))"

lemma code_stage_later:
  assumes "tokens_later s t" "code_stage_in s k = Some g"
  shows "\<exists>g'. code_stage_in t k = Some g' \<and> g \<le> g'"
proof -
  from assms(2) obtain c where c: "find (\<lambda>c. cd_hash c = fst k \<and> cd_app c = snd k) (auth_codes (main s)) = Some c"
    "g = code_stage c" by (auto simp: code_stage_in_def)
  have "evolves code_le (auth_codes (main s)) (auth_codes (main t))"
    using assms(1) by (simp add: tokens_later_def tables_later_def)
  from evolves_find [OF this c(1)] obtain c' where
    "find (\<lambda>c. cd_hash c = fst k \<and> cd_app c = snd k) (auth_codes (main t)) = Some c'" "code_le c c'"
    using row_le_same(1) by (metis (mono_tags, lifting))
  then show ?thesis using c(2) by (simp add: code_stage_in_def code_le_def)
qed

lemma refresh_stage_later:
  assumes "tokens_later s t" "refresh_stage_in s k = Some g"
  shows "\<exists>g'. refresh_stage_in t k = Some g' \<and> g \<le> g'"
proof -
  from assms(2) obtain c where c: "find (\<lambda>t. rt_hash t = fst k \<and> rt_app t = snd k) (refresh_tokens (main s)) = Some c"
    "g = refresh_stage c" by (auto simp: refresh_stage_in_def)
  have "evolves refresh_le (refresh_tokens (main s)) (refresh_tokens (main t))"
    using assms(1) by (simp add: tokens_later_def tables_later_def)
  from evolves_find [OF this c(1)] obtain c' where
    "find (\<lambda>t. rt_hash t = fst k \<and> rt_app t = snd k) (refresh_tokens (main t)) = Some c'" "refresh_le c c'"
    using row_le_same(3) by (metis (mono_tags, lifting))
  then show ?thesis using c(2) by (simp add: refresh_stage_in_def refresh_le_def)
qed

lemma code_redeemed:
  assumes "code_exchanged r c s (main t)" and "k = (SHA256String (form r ''code''), ApplicationID c)"
  shows "code_stage_in s k = Some Unused \<and> code_stage_in t k = Some Used"
  using assms by (auto simp: code_exchanged_def code_stage_in_def code_row_def code_spent_def find_update_where
      code_stage_def dest!: appendedD split: option.splits)

lemma refresh_redeemed:
  assumes "refresh_rotated r c s (main t)" and "k = (SHA256String (form r ''refresh_token''), ApplicationID c)"
  shows "refresh_stage_in s k = Some Unused \<and> refresh_stage_in t k = Some Used"
  using assms by (auto simp: refresh_rotated_def refresh_stage_in_def refresh_found_def refresh_spent_def
      find_update_where find_append refresh_stage_def
      dest!: appendedD split: option.splits)

interpretation auth_codes: single_use
  "\<lambda>(r, c). run_state (authorizationCodeGrant S r c)" "\<lambda>resp. status_of resp = 200"
  "\<lambda>(r, c). (SHA256String (form r ''code''), ApplicationID c)" code_stage_in tokens_later
proof (unfold_locales, goal_cases)
  case (1 rc s resp t)
  obtain r c where rc: "rc = (r, c)" by (cases rc)
  with 1 have "code_exchanged r c s (main t)" using wp_run [OF authorizationCodeGrant_wp] by fastforce
  from code_redeemed [OF this refl] show ?case by (simp add: rc)
next
  case (2 rc s resp t)
  then show ?case using wp_run [OF authorizationCodeGrant_later] by (cases rc) fastforce
next
  case (3 s t k g)
  then show ?case by (rule code_stage_later)
qed

interpretation refreshes: single_use
  "\<lambda>(r, c). run_state (refreshTokenGrant S r c)" "\<lambda>resp. status_of resp = 200"
  "\<lambda>(r, c). (SHA256String (form r ''refresh_token''), ApplicationID c)" refresh_stage_in tokens_later
proof (unfold_locales, goal_cases)
  case (1 rc s resp t)
  obtain r c where rc: "rc = (r, c)" by (cases rc)
  with 1 have "refresh_rotated r c s (main t)" using wp_run [OF refreshTokenGrant_wp] by fastforce
  from refresh_redeemed [OF this refl] show ?case by (simp add: rc)
next
  case (2 rc s resp t)
  then show ?case using wp_run [OF refreshTokenGrant_later] by (cases rc) fastforce
next
  case (3 s t k g)
  then show ?case by (rule refresh_stage_later)
qed

section \<open>The token endpoint\<close>

text \<open>The client that a request names and whose secret it carries.\<close>

definition authenticated :: "request \<Rightarrow> db \<Rightarrow> oauthClient \<Rightarrow> bool" where
  "authenticated r d c \<longleftrightarrow> (case client_credentials r of (cid, secret, hasBasic) \<Rightarrow>
     cid \<noteq> [] \<and> client_row cid 0 d = Some c \<and> client_admitted c secret hasBasic)"

lemma reads_only_authenticate: "reads_only (authenticateOAuthClient S r)"
  by (rule reads_onlyI) (auto simp: authenticateOAuthClient_def loadOAuthClient_def wp split: prod.split sum.split)

lemma authenticate_result:
  "if_ok (authenticated r (main s)) (result (authenticateOAuthClient S r) s)"
  by (rule wp_resultD) (auto simp: authenticateOAuthClient_def loadOAuthClient_def wp authenticated_def client_row_def
      split: prod.split sum.split)

lemmas final_authenticate [simp] = reads_only_simps [OF reads_only_authenticate]
lemmas wp_authenticate [wp] = wp_result [of "authenticateOAuthClient S r" for S r]

text \<open>What a grant does depends on the database and the clocks only.\<close>

definition same_world :: "st \<Rightarrow> st \<Rightarrow> bool" where
  "same_world s s1 \<longleftrightarrow> main s1 = main s \<and> go_now s1 = go_now s \<and> pg_now s1 = pg_now s"

lemma granted_same_world:
  assumes "same_world s s1"
  shows "code_exchanged r c s1 d = code_exchanged r c s d" "refresh_rotated r c s1 d = refresh_rotated r c s d"
    "machine_token r c s1 d = machine_token r c s d"
  using assms by (simp_all add: same_world_def code_exchanged_def refresh_rotated_def machine_token_def split: option.split)

definition token_granted :: "request \<Rightarrow> st \<Rightarrow> db \<Rightarrow> bool" where
  "token_granted r s d \<longleftrightarrow> (\<exists>c. authenticated r (main s) c
     \<and> (if form r ''grant_type'' = ''authorization_code'' then code_exchanged r c s d
        else if form r ''grant_type'' = ''refresh_token'' then refresh_rotated r c s d
        else form r ''grant_type'' = ''client_credentials'' \<and> machine_token r c s d))"

definition replay_possible :: "request \<Rightarrow> db \<Rightarrow> bool" where
  "replay_possible r d \<longleftrightarrow> form r ''grant_type'' = ''refresh_token'' \<and> (\<exists>c. authenticated r d c \<and> refresh_replayed r c d)"

definition token_answer :: "request \<Rightarrow> st \<Rightarrow> response \<Rightarrow> st \<Rightarrow> bool" where
  "token_answer r s resp t \<longleftrightarrow>
     (if status_of resp = 200 then token_granted r s (main t)
      else status_of resp \<in> {400, 401, 429, 500} \<and> (replay_possible r (main s) \<or> main t = main s))"

lemma dispatch_wp:
  assumes auth: "authenticated r (main s) c" and same: "same_world s s2"
  shows "wp (dispatch_grant S r c) (token_answer r s) s2"
proof -
  note defs = token_answer_def token_granted_def replay_possible_def granted_same_world [OF same]
  have main: "main s2 = main s" using same by (simp add: same_world_def)
  have "wp (authorizationCodeGrant S r c) (token_answer r s) s2" if "form r ''grant_type'' = ''authorization_code''"
    by (rule wp_mono [OF authorizationCodeGrant_wp]) (use auth that main in \<open>auto simp: defs split: if_splits\<close>)
  moreover have "wp (refreshTokenGrant S r c) (token_answer r s) s2" if "form r ''grant_type'' = ''refresh_token''"
    by (rule wp_mono [OF refreshTokenGrant_wp]) (use auth that main in \<open>auto simp: defs split: if_splits\<close>)
  moreover have "wp (clientCredentialsGrant S r c) (token_answer r s) s2" if "form r ''grant_type'' = ''client_credentials''"
    by (rule wp_mono [OF clientCredentialsGrant_wp]) (use auth that main in \<open>auto simp: defs split: if_splits\<close>)
  ultimately show ?thesis
    by (auto simp: dispatch_grant_def wp token_answer_def main)
qed

lemma tokenEndpoint_wp: "wp (tokenEndpoint S r) (token_answer r s) s"
proof -
  let ?s1 = "final (allowOAuthRequest S ''token'' (clientIP r) 120 (minutes 1)) s"
  let ?s2 = "final (authenticateOAuthClient S r) ?s1"
  have "wp (dispatch_grant S r c) (token_answer r s) ?s2"
    if "result (authenticateOAuthClient S r) ?s1 = Inr c" for c
    using if_okD [OF authenticate_result that] by (intro dispatch_wp) (simp_all add: same_world_def)
  then show ?thesis unfolding tokenEndpoint_def
    by (auto simp: wp token_answer_def split: sum.split)
qed

lemma tokenEndpoint_later: "wp (tokenEndpoint S r) (\<lambda>_ t. tokens_later s t) s"
proof -
  have "wp (dispatch_grant S r c) (\<lambda>_ t. tokens_later s t) s2" if "main s2 = main s" for c s2
    using authorizationCodeGrant_later [of S r c s2] refreshTokenGrant_later [of S r c s2]
      clientCredentialsGrant_later [of S r c s2] that
    by (simp add: dispatch_grant_def wp tokens_later_def)
  then show ?thesis unfolding tokenEndpoint_def
    by (auto simp: wp tokens_later_def split: sum.split)
qed

end
