(* ===== verification/Authorization.thy ===== *)
theory Authorization imports OAuth Lifecycle begin

text \<open>
  What the authorization endpoint and the consent form do: under which conditions a code is
  issued, what is stored with it, and that a consent request is used once.
\<close>

section \<open>Requests\<close>

text \<open>\<open>valid_request\<close>: the parameters name an enabled client, one of its registered redirect
  URIs, an S256 challenge and scopes the client may have, \<open>openid\<close> among them.\<close>

definition valid_request :: "request \<Rightarrow> db \<Rightarrow> auth_params \<Rightarrow> bool" where
  "valid_request r d a \<longleftrightarrow> client_row (url_query r ''client_id'') 0 d = Some (ap_client a)
     \<and> ap_redirect a = url_query r ''redirect_uri'' \<and> (ApplicationID (ap_client a), ap_redirect a) \<in> set (redirect_uris d)
     \<and> url_query r ''response_type'' = ''code'' \<and> url_query r ''code_challenge_method'' = ''S256''
     \<and> ap_challenge a = url_query r ''code_challenge'' \<and> ap_challenge a \<noteq> []
     \<and> normalizeRequestedScope (url_query r ''scope'') = Some (ap_scope a, ap_scopes a)
     \<and> ''openid'' \<in> set (ap_scopes a) \<and> containsAll (AllowedScopes (ap_client a)) (ap_scopes a)
     \<and> ap_state a = url_query r ''state'' \<and> ap_state a \<noteq> [] \<and> ap_nonce a = url_query r ''nonce''"

lemma reads_only_validate: "reads_only (validateAuthorizationRequest S r)"
  unfolding validateAuthorizationRequest_def Let_def
  by (rule reads_onlyI) (auto simp: wp loadOAuthClient_def split: sum.split)

lemma validate_result:
  "if_ok (valid_request r (main s)) (result (validateAuthorizationRequest S r) s)"
  unfolding validateAuthorizationRequest_def Let_def
  by (rule wp_resultD) (auto simp: wp loadOAuthClient_def valid_request_def client_row_def exists_where_iff
      split: sum.split option.split)

lemmas final_validate [simp] = reads_only_simps [OF reads_only_validate]
lemmas wp_validate [wp] = wp_result [of "validateAuthorizationRequest S r" for S r]

section \<open>The signed-in user\<close>

lemma sessionPrincipal_wp:
  "wp (sessionPrincipal S r) (\<lambda>x t. only_sessions_touched s t
     \<and> (case x of None \<Rightarrow> True | Some p \<Rightarrow> acts_as r (pg_now s) (main s) p)) s"
proof (cases "cookie r ''opensso_session''")
  case None
  then show ?thesis by (simp add: sessionPrincipal_def wp only_sessions_touched_refl)
next
  case c: (Some c)
  show ?thesis
  proof (cases "session_row (SHA256String c) (pg_now s) (main s)")
    case None
    then show ?thesis using c by (simp add: sessionPrincipal_def wp only_sessions_touched_refl only_sessions_touched_io)
  next
    case (Some su)
    obtain se u where su: "su = (se, u)" by (cases su)
    have "acts_as r (pg_now s) (main s) (principal_of su)"
      using session_row_props [of "SHA256String c" "pg_now s" "main s" se u] Some su c
      unfolding acts_as_def by metis
    moreover have "only_sessions_touched s (s\<lparr>ios := i, main := effect S (touch_session sid) (s\<lparr>ios := j\<rparr>)\<rparr>)" for i j sid
      using touch_effect [of S sid "s\<lparr>ios := j\<rparr>"]
      by (auto simp: only_sessions_touched_def intro: exI [of _ "sessions (main s)"])
    ultimately show ?thesis using c Some
      by (simp add: sessionPrincipal_def wp only_sessions_touched_refl only_sessions_touched_io)
  qed
qed

section \<open>Codes\<close>

definition code_appended :: "db \<Rightarrow> db \<Rightarrow> (auth_code \<Rightarrow> bool) \<Rightarrow> bool" where
  "code_appended d d' P \<longleftrightarrow> (let k = last (auth_codes d') in
     d' = d\<lparr>auth_codes := auth_codes d @ [k]\<rparr> \<and> P k)"

lemma code_appendedI [simp]: "code_appended d (d\<lparr>auth_codes := auth_codes d @ [k]\<rparr>) P = P k"
  by (simp add: code_appended_def)

definition fresh_code :: "uuid \<Rightarrow> uuid \<Rightarrow> string \<Rightarrow> string \<Rightarrow> string \<Rightarrow> string \<Rightarrow> instant \<Rightarrow> string \<Rightarrow> auth_code \<Rightarrow> bool" where
  "fresh_code app uid redirect scope nonce challenge now code k \<longleftrightarrow> cd_hash k = SHA256String code \<and> cd_app k = app
     \<and> cd_user k = uid \<and> cd_redirect k = redirect \<and> cd_scope k = scope \<and> cd_nonce k = nonce
     \<and> cd_challenge k = challenge \<and> cd_expires k = now + minutes 2 \<and> cd_consumed k = None"

lemma insert_code_result:
  "insert_code cid (SHA256String code) app uid redirect scope nonce challenge now d = Some (n, d') \<Longrightarrow>
     code_appended d d' (fresh_code app uid redirect scope nonce challenge now code)"
  by (auto simp: insert_code_def fresh_code_def split: if_splits)

lemma storeAuthorizationCode_wp:
  "wp (storeAuthorizationCode S app uid redirect scope nonce challenge) (\<lambda>x t. case x of
     Inl _ \<Rightarrow> main t = main s
   | Inr code \<Rightarrow> code_appended (main s) (main t) (fresh_code app uid redirect scope nonce challenge (pg_now s) code)) s"
  by (auto simp: storeAuthorizationCode_def wp dest!: insert_code_result split: option.splits)

definition request_appended :: "db \<Rightarrow> db \<Rightarrow> (auth_request \<Rightarrow> bool) \<Rightarrow> bool" where
  "request_appended d d' P \<longleftrightarrow> (let q = last (auth_requests d') in
     d' = d\<lparr>auth_requests := auth_requests d @ [q]\<rparr> \<and> P q)"

lemma request_appendedI [simp]:
  "request_appended d (d\<lparr>auth_requests := auth_requests d @ [q]\<rparr>) P = P q"
  by (simp add: request_appended_def)

text \<open>Everything the consent form is to approve is stored on the server, for this user.\<close>

definition fresh_request :: "auth_params \<Rightarrow> principal \<Rightarrow> instant \<Rightarrow> auth_request \<Rightarrow> bool" where
  "fresh_request a p now q \<longleftrightarrow> aq_app q = ApplicationID (ap_client a) \<and> aq_user q = UserID p
     \<and> aq_redirect q = ap_redirect a \<and> aq_state q = ap_state a \<and> aq_nonce q = ap_nonce a \<and> aq_scope q = ap_scope a
     \<and> aq_challenge q = ap_challenge a \<and> aq_expires q = now + minutes 5 \<and> aq_consumed q = None"

lemma ask_consent_wp:
  "wp (ask_consent S r p a) (\<lambda>resp t. main t = main s
     \<or> request_appended (main s) (main t) (fresh_request a p (pg_now s))) s"
  by (auto simp: ask_consent_def wp insert_auth_request_def fresh_request_def split: option.splits)

definition mfa_satisfied :: "uuid option \<Rightarrow> db \<Rightarrow> principal \<Rightarrow> bool" where
  "mfa_satisfied app d p \<longleftrightarrow> (case mfa_required (UserID p) app d of
     None \<Rightarrow> False | Some required \<Rightarrow> required \<longrightarrow> MFAVerified p)"

definition consented :: "uuid \<Rightarrow> uuid \<Rightarrow> string list \<Rightarrow> db \<Rightarrow> bool" where
  "consented uid app scopes d \<longleftrightarrow> (case granted_scopes uid app 0 d of
     None \<Rightarrow> False | Some g \<Rightarrow> containsAll g scopes)"

lemma authorize_as_wp:
  "wp (authorize_as S r a p) (\<lambda>resp t. main t = main s
     \<or> request_appended (main s) (main t) (fresh_request a p (pg_now s))
     \<or> (\<exists>code. resp = redirectAuthorizationCode S (ap_redirect a) (ap_state a) code
          \<and> code_appended (main s) (main t) (fresh_code (ApplicationID (ap_client a)) (UserID p) (ap_redirect a)
              (ap_scope a) (ap_nonce a) (ap_challenge a) (pg_now s) code)
          \<and> mfa_satisfied (Some (ApplicationID (ap_client a))) (main s) p
          \<and> consented (UserID p) (ApplicationID (ap_client a)) (ap_scopes a) (main s))) s"
proof -
  let ?store = "storeAuthorizationCode S (ApplicationID (ap_client a)) (UserID p) (ap_redirect a) (ap_scope a)
             (ap_nonce a) (ap_challenge a)"
  have ask: "wp (ask_consent S r p a) (\<lambda>resp t. main t = main s
     \<or> request_appended (main s) (main t) (fresh_request a p (pg_now s)) \<or> R resp t) s1"
    if "main s1 = main s" "pg_now s1 = pg_now s" for R s1
    by (rule wp_mono [OF ask_consent_wp]) (use that in auto)
  note stored = storeAuthorizationCode_wp [of S "ApplicationID (ap_client a)" "UserID p" "ap_redirect a"
      "ap_scope a" "ap_nonce a" "ap_challenge a", unfolded wp_result]
  have store: "result ?store s1 = Inl e \<Longrightarrow> main (final ?store s1) = main s"
    "result ?store s1 = Inr code \<Longrightarrow> code_appended (main s) (main (final ?store s1))
      (fresh_code (ApplicationID (ap_client a)) (UserID p) (ap_redirect a) (ap_scope a) (ap_nonce a)
         (ap_challenge a) (pg_now s) code)"
    if "main s1 = main s" "pg_now s1 = pg_now s" for s1 code e
    using stored [of s1] that by simp_all
  show ?thesis unfolding authorize_as_def
    by (auto simp: wp wp_result [of ?store] mfa_satisfied_def consented_def granted_scopes_def ask store
        split: sum.split)
qed

text \<open>Who may be signed in: as \<open>acts_as\<close>, with no password change pending.\<close>

definition signed_in :: "request \<Rightarrow> st \<Rightarrow> principal \<Rightarrow> bool" where
  "signed_in r s p \<longleftrightarrow> acts_as r (pg_now s) (main s) p \<and> \<not> MustChangePassword p"

definition code_granted :: "server \<Rightarrow> request \<Rightarrow> st \<Rightarrow> response \<Rightarrow> auth_code \<Rightarrow> bool" where
  "code_granted S r s resp k \<longleftrightarrow> (\<exists>a p code. valid_request r (main s) a \<and> signed_in r s p
     \<and> mfa_satisfied (Some (ApplicationID (ap_client a))) (main s) p
     \<and> consented (UserID p) (ApplicationID (ap_client a)) (ap_scopes a) (main s)
     \<and> fresh_code (ApplicationID (ap_client a)) (UserID p) (ap_redirect a) (ap_scope a) (ap_nonce a)
         (ap_challenge a) (pg_now s) code k
     \<and> resp = redirectAuthorizationCode S (ap_redirect a) (ap_state a) code)"

definition request_opened :: "request \<Rightarrow> st \<Rightarrow> auth_request \<Rightarrow> bool" where
  "request_opened r s q \<longleftrightarrow> (\<exists>a p. valid_request r (main s) a \<and> signed_in r s p \<and> fresh_request a p (pg_now s) q)"

definition only_sessions :: "db \<Rightarrow> db \<Rightarrow> bool" where
  "only_sessions d d' \<longleftrightarrow> d' = d\<lparr>sessions := sessions d'\<rparr>"

lemma policies_ignore_sessions [simp]:
  "mfa_satisfied app (d\<lparr>sessions := ss\<rparr>) p = mfa_satisfied app d p"
  "consented uid aid scopes (d\<lparr>sessions := ss\<rparr>) = consented uid aid scopes d"
  by (cases app) (simp_all add: mfa_satisfied_def mfa_required_def consented_def granted_scopes_def)

text \<open>
  The endpoint's three effects on the database (besides \<open>last_seen_at\<close>): none, one opened
  consent request, or one code.
\<close>

definition authorize_effect :: "server \<Rightarrow> request \<Rightarrow> st \<Rightarrow> response \<Rightarrow> st \<Rightarrow> bool" where
  "authorize_effect S r s resp t \<longleftrightarrow> (\<exists>ss. main t = (main s)\<lparr>sessions := ss\<rparr>
     \<or> request_appended ((main s)\<lparr>sessions := ss\<rparr>) (main t) (request_opened r s)
     \<or> code_appended ((main s)\<lparr>sessions := ss\<rparr>) (main t) (code_granted S r s resp))"

lemma appended_mono:
  "request_appended d d' P \<Longrightarrow> (\<And>q. P q \<Longrightarrow> P' q) \<Longrightarrow> request_appended d d' P'"
  "code_appended d d' R \<Longrightarrow> (\<And>k. R k \<Longrightarrow> R' k) \<Longrightarrow> code_appended d d' R'"
  by (auto simp: request_appended_def code_appended_def Let_def)

lemma authorize_wp: "wp (authorize S r) (authorize_effect S r s) s"
proof -
  let ?s1 = "final (validateAuthorizationRequest S r) s"
  have none: "authorize_effect S r s resp t" if "only_sessions_touched ?s1 t" for resp and t :: st
    using that by (auto simp: authorize_effect_def only_sessions_touched_def)
  have as: "wp (authorize_as S r a p) (authorize_effect S r s) s2"
    if a: "valid_request r (main s) a" and p: "signed_in r s p" and t: "only_sessions_touched ?s1 s2" for a p and s2 :: st
  proof -
    from t obtain ss where ss: "main s2 = (main s)\<lparr>sessions := ss\<rparr>" "pg_now s2 = pg_now s"
      by (auto simp: only_sessions_touched_def)
    show ?thesis
    proof (rule wp_mono [OF authorize_as_wp], elim disjE exE conjE)
      fix resp and t :: st assume "main t = main s2"
      then show "authorize_effect S r s resp t" using ss by (auto simp: authorize_effect_def)
    next
      fix resp and t :: st assume "request_appended (main s2) (main t) (fresh_request a p (pg_now s2))"
      then have "request_appended ((main s)\<lparr>sessions := ss\<rparr>) (main t) (request_opened r s)"
        unfolding ss by (rule appended_mono) (use a p in \<open>auto simp: request_opened_def\<close>)
      then show "authorize_effect S r s resp t" by (auto simp: authorize_effect_def)
    next
      fix resp code and t :: st
      assume resp: "resp = redirectAuthorizationCode S (ap_redirect a) (ap_state a) code"
        and ok: "mfa_satisfied (Some (ApplicationID (ap_client a))) (main s2) p"
          "consented (UserID p) (ApplicationID (ap_client a)) (ap_scopes a) (main s2)"
        and app: "code_appended (main s2) (main t) (fresh_code (ApplicationID (ap_client a)) (UserID p)
          (ap_redirect a) (ap_scope a) (ap_nonce a) (ap_challenge a) (pg_now s2) code)"
      from app have "code_appended ((main s)\<lparr>sessions := ss\<rparr>) (main t) (code_granted S r s resp)"
        unfolding ss by (rule appended_mono) (use a p ok resp ss in \<open>auto simp: code_granted_def\<close>)
      then show "authorize_effect S r s resp t" by (auto simp: authorize_effect_def)
    qed
  qed
  have session: "only_sessions_touched ?s1 (final (sessionPrincipal S r) ?s1)"
    "result (sessionPrincipal S r) ?s1 = Some p \<Longrightarrow> acts_as r (pg_now s) (main s) p" for p
    using sessionPrincipal_wp [of S r ?s1] by (auto simp: wp_result)
  have valid: "result (validateAuthorizationRequest S r) s = Inr a \<Longrightarrow> valid_request r (main s) a" for a
    using if_okD [OF validate_result] .
  have start: "only_sessions_touched ?s1 ?s1" by (rule only_sessions_touched_refl)
  show ?thesis unfolding authorize_def
    by (auto simp: wp wp_result [of "sessionPrincipal S r"] signed_in_def
        intro!: none as session start valid split: sum.split option.split)
qed

section \<open>Consent\<close>

definition request_row :: "string \<Rightarrow> db \<Rightarrow> auth_request option" where
  "request_row token d = find (\<lambda>q. aq_hash q = SHA256String token) (auth_requests d)"

definition request_spent :: "uuid \<Rightarrow> instant \<Rightarrow> db \<Rightarrow> db" where
  "request_spent qid now d = d\<lparr>auth_requests :=
     update_where (\<lambda>q. aq_id q = qid) (\<lambda>q. q\<lparr>aq_consumed := Some now\<rparr>) (auth_requests d)\<rparr>"

text \<open>The consent row after an approval: the scopes of before and the ones of the request.\<close>

definition scopes_granted :: "auth_request \<Rightarrow> db \<Rightarrow> string list" where
  "scopes_granted q d = mergeScopes (case granted_scopes (aq_user q) (aq_app q) 0 d of None \<Rightarrow> [] | Some g \<Rightarrow> g)
     (scopes_or_nil (aq_scope q))"

definition approved :: "server \<Rightarrow> auth_request \<Rightarrow> instant \<Rightarrow> db \<Rightarrow> response \<Rightarrow> db \<Rightarrow> bool" where
  "approved S q now d resp d' \<longleftrightarrow> (\<exists>code n d1. upsert_consent (aq_user q) (aq_app q) (scopes_granted q d) now d = Some (n, d1)
     \<and> code_appended d1 d' (fresh_code (aq_app q) (aq_user q) (aq_redirect q) (aq_scope q) (aq_nonce q)
         (aq_challenge q) now code)
     \<and> resp = redirectAuthorizationCode S (aq_redirect q) (aq_state q) code)"

lemma approve_wp:
  "wp (approve S v q) (\<lambda>resp t. main t = main s \<and> status_of resp = 500 \<or> approved S q (pg_now s) v resp (main t)) s"
proof -
  have granted: "granted_scopes uid app now d = granted_scopes uid app 0 d" for uid app now d
    by (simp add: granted_scopes_def)
  have ok: "insert_code cid (SHA256String code) (aq_app q) (aq_user q) (aq_redirect q) (aq_scope q) (aq_nonce q)
      (aq_challenge q) now d1 = Some (n, d2) \<Longrightarrow>
    upsert_consent (aq_user q) (aq_app q) (mergeScopes g (scopes_or_nil (aq_scope q))) now v = Some (m, d1) \<Longrightarrow>
    g = (case granted_scopes (aq_user q) (aq_app q) 0 v of None \<Rightarrow> [] | Some g \<Rightarrow> g) \<Longrightarrow>
    approved S q now v (redirectAuthorizationCode S (aq_redirect q) (aq_state q) code) d2"
    for cid code now n d1 d2 g m
    unfolding approved_def scopes_granted_def by (auto dest: insert_code_result)
  show ?thesis unfolding approve_def Let_def
    by (cases "granted_scopes (aq_user q) (aq_app q) 0 v")
      (auto simp: wp granted [of _ _ "pg_now s"] intro: ok split: sum.split option.split)
qed

definition consent_given :: "server \<Rightarrow> request \<Rightarrow> st \<Rightarrow> db \<Rightarrow> response \<Rightarrow> db \<Rightarrow> bool" where
  "consent_given S r s d resp d' \<longleftrightarrow> (\<exists>p q. cookie r ''opensso_csrf'' = Some (form r ''csrf'') \<and> signed_in r s p
     \<and> request_row (form r ''request_token'') (main s) = Some q \<and> aq_user q = UserID p
     \<and> aq_consumed q = None \<and> go_now s \<le> aq_expires q
     \<and> (if form r ''action'' \<noteq> ''approve'' then d' = request_spent (aq_id q) (pg_now s) d
        else approved S q (pg_now s) (request_spent (aq_id q) (pg_now s) d) resp d'))"

definition consent_effect :: "server \<Rightarrow> request \<Rightarrow> st \<Rightarrow> response \<Rightarrow> st \<Rightarrow> bool" where
  "consent_effect S r s resp t \<longleftrightarrow> (\<exists>ss. main t = (main s)\<lparr>sessions := ss\<rparr> \<and> status_of resp \<in> {400, 401, 403, 500}
     \<or> consent_given S r s ((main s)\<lparr>sessions := ss\<rparr>) resp (main t))"

lemma consume_auth_request_eq: "consume_auth_request qid now d =
    Some (count_where (\<lambda>q. aq_id q = qid) (auth_requests d), request_spent qid now d)"
  by (simp add: consume_auth_request_def request_spent_def)

lemma authorizeConsent_wp: "wp (authorizeConsent S r) (consent_effect S r s) s"
proof -
  let ?m = "sessionPrincipal S r"
  from sessionPrincipal_wp [of S r s] obtain ss where
    ss: "main (final ?m s) = (main s)\<lparr>sessions := ss\<rparr>" "pg_now (final ?m s) = pg_now s" "go_now (final ?m s) = go_now s"
    by (auto simp: wp_result only_sessions_touched_def)
  have p: "result ?m s = Some p \<Longrightarrow> acts_as r (pg_now s) (main s) p" for p
    using sessionPrincipal_wp [of S r s] by (auto simp: wp_result)
  have user: "result ?m s = Some p \<Longrightarrow> \<not> MustChangePassword p \<Longrightarrow> signed_in r s p" for p
    by (simp add: signed_in_def p)
  have none: "consent_effect S r s resp t" if "main t = main s \<or> main t = (main s)\<lparr>sessions := ss\<rparr>" "status_of resp \<in> {400, 401, 403, 500}" for resp t
  proof -
    have "main s = (main s)\<lparr>sessions := sessions (main s)\<rparr>" by simp
    then show ?thesis using that unfolding consent_effect_def by metis
  qed
  have given: "consent_effect S r s resp t" if "consent_given S r s ((main s)\<lparr>sessions := ss\<rparr>) resp (main t)" for resp t
    using that unfolding consent_effect_def by blast
  have approve: "wp (approve S (request_spent (aq_id q) (pg_now s) ((main s)\<lparr>sessions := ss\<rparr>)) q) (consent_effect S r s) s2"
    if s2: "main s2 = (main s)\<lparr>sessions := ss\<rparr>" "pg_now s2 = pg_now s"
      and q: "cookie r ''opensso_csrf'' = Some (form r ''csrf'')" "signed_in r s p"
        "request_row (form r ''request_token'') (main s) = Some q" "aq_user q = UserID p"
        "aq_consumed q = None" "go_now s \<le> aq_expires q" "form r ''action'' = ''approve''" for q p s2
  proof (rule wp_mono [OF approve_wp], elim disjE)
    fix resp and t :: st
    show "main t = main s2 \<and> status_of resp = 500 \<Longrightarrow> consent_effect S r s resp t" using s2 by (intro none) simp_all
    show "approved S q (pg_now s2) (request_spent (aq_id q) (pg_now s) ((main s)\<lparr>sessions := ss\<rparr>)) resp (main t) \<Longrightarrow>
        consent_effect S r s resp t"
      using s2 q by (intro given) (auto simp: consent_given_def)
  qed
  have denied: "consent_effect S r s resp t"
    if "main t = request_spent (aq_id q) (pg_now s) ((main s)\<lparr>sessions := ss\<rparr>)"
      "cookie r ''opensso_csrf'' = Some (form r ''csrf'')" "signed_in r s p"
        "request_row (form r ''request_token'') (main s) = Some q" "aq_user q = UserID p"
        "aq_consumed q = None" "go_now s \<le> aq_expires q" "form r ''action'' \<noteq> ''approve''" for q p resp and t :: st
    by (rule given) (use that in \<open>auto simp: consent_given_def\<close>)
  have row: "find (\<lambda>q. aq_hash q = SHA256String token) (auth_requests (main s)) = request_row token (main s)" for token
    by (simp add: request_row_def)
  show ?thesis unfolding authorizeConsent_def
    by (simp add: wp wp_result [of ?m] ss consume_auth_request_eq auth_request_usable_def row none
        split: sum.split option.split)
      (auto simp: linorder_not_less ss intro: denied user intro!: approve [OF _ _ _ user])
qed

section \<open>The tables they write only grow\<close>

lemma appended_later:
  "code_appended d d' P \<Longrightarrow> tables_later d0 d \<Longrightarrow> tables_later d0 d'"
  "request_appended d d' R \<Longrightarrow> tables_later d0 d \<Longrightarrow> tables_later d0 d'"
proof -
  show "code_appended d d' P \<Longrightarrow> tables_later d0 d \<Longrightarrow> tables_later d0 d'"
    by (drule code_appended_def [THEN iffD1, unfolded Let_def, THEN conjunct1], erule ssubst)
      (simp add: tables_later_def evolves_append)
  show "request_appended d d' R \<Longrightarrow> tables_later d0 d \<Longrightarrow> tables_later d0 d'"
    by (drule request_appended_def [THEN iffD1, unfolded Let_def, THEN conjunct1], erule ssubst)
      (simp add: tables_later_def evolves_append)
qed

lemma authorize_later: "authorize_effect S r s resp t \<Longrightarrow> tokens_later s t"
  unfolding authorize_effect_def tokens_later_def
  by (auto intro: appended_later simp: tables_later_def [of "main s" "(main s)\<lparr>sessions := ss\<rparr>" for ss])

lemma upsert_consent_later: "upsert_consent uid app scopes now d = Some (n, d1) \<Longrightarrow> tables_later d0 d \<Longrightarrow> tables_later d0 d1"
  by (auto simp: upsert_consent_def tables_later_def split: if_splits)

lemma consent_later: "consent_effect S r s resp t \<Longrightarrow> tokens_later s t"
proof -
  have spent: "tables_later (main s) (request_spent qid now ((main s)\<lparr>sessions := ss\<rparr>))" for qid now ss
    by (simp add: tables_later_def request_spent_def)
  have same: "tables_later (main s) ((main s)\<lparr>sessions := ss\<rparr>)" for ss
    by (simp add: tables_later_def)
  show "consent_effect S r s resp t \<Longrightarrow> tokens_later s t"
    unfolding consent_effect_def consent_given_def approved_def tokens_later_def
    by (auto simp: spent same dest!: upsert_consent_later [OF _ spent] elim!: appended_later split: if_splits)
qed

section \<open>A consent request is a single-use credential\<close>

definition request_stage_in :: "st \<Rightarrow> string \<Rightarrow> stage option" where
  "request_stage_in s k = map_option request_stage (find (\<lambda>q. aq_hash q = k) (auth_requests (main s)))"

lemma request_stage_later:
  assumes "tokens_later s t" "request_stage_in s k = Some g"
  shows "\<exists>g'. request_stage_in t k = Some g' \<and> g \<le> g'"
proof -
  from assms(2) obtain q where q: "find (\<lambda>q. aq_hash q = k) (auth_requests (main s)) = Some q" "g = request_stage q"
    by (auto simp: request_stage_in_def)
  have "evolves request_le (auth_requests (main s)) (auth_requests (main t))"
    using assms(1) by (simp add: tokens_later_def tables_later_def)
  from evolves_find [OF this q(1)] obtain q' where
    "find (\<lambda>q. aq_hash q = k) (auth_requests (main t)) = Some q'" "request_le q q'"
    using row_le_same(2) by (metis (mono_tags, lifting))
  then show ?thesis using q(2) by (simp add: request_stage_in_def request_le_def)
qed

lemma consent_requests:
  assumes "consent_given S r s ((main s)\<lparr>sessions := ss\<rparr>) resp d"
  shows "\<exists>q. request_row (form r ''request_token'') (main s) = Some q \<and> aq_consumed q = None
    \<and> auth_requests d = auth_requests (request_spent (aq_id q) (pg_now s) (main s))"
  using assms by (auto simp: consent_given_def approved_def upsert_consent_def code_appended_def request_spent_def Let_def
      dest!: arg_cong [where f = auth_requests] split: if_splits)

lemma consent_redeemed:
  assumes "consent_given S r s ((main s)\<lparr>sessions := ss\<rparr>) resp (main t)" and "k = SHA256String (form r ''request_token'')"
  shows "request_stage_in s k = Some Unused \<and> request_stage_in t k = Some Used"
  using consent_requests [OF assms(1)] assms(2)
  by (auto simp: request_stage_in_def request_row_def request_spent_def find_update_where request_stage_def)

interpretation consent_requests: single_use "\<lambda>r. run_state (authorizeConsent S r)"
  "\<lambda>resp. status_of resp = 302" "\<lambda>r. SHA256String (form r ''request_token'')" request_stage_in tokens_later
proof (unfold_locales, goal_cases)
  case (1 r s resp t)
  with wp_run [OF authorizeConsent_wp 1(1)] consent_redeemed [OF _ refl] show ?case
    by (auto simp: consent_effect_def)
next
  case (2 r s resp t)
  then show ?case using consent_later wp_run [OF authorizeConsent_wp] by blast
next
  case (3 s t k g)
  then show ?case by (rule request_stage_later)
qed

end
