(* ===== verification/Effects.thy ===== *)
theory Effects imports Statements Grants Authorization begin

text \<open>
  Every handler only runs statements of \<open>sql\<close>, in transactions that begin with the database as it
  is. \<open>reaching S d0 k0\<close> holds of a state whose database is a history of \<open>d0\<close> and whose
  key rings are \<open>k0\<close> after some rotations; \<open>within J m\<close>: the
  operation \<open>m\<close> keeps \<open>J\<close>. The rules follow the shape of the handlers, and the lemma about each
  handler is their application.
\<close>

section \<open>The rules\<close>

text \<open>A rotation of one of the two key rings.\<close>

definition keys_step :: "keydb \<Rightarrow> keydb \<Rightarrow> bool" where
  "keys_step d d' \<longleftrightarrow> (\<exists>now k. ring_step d now (Inr k) d') \<or> (\<exists>now go c. cert_step d now go (Inr c) d')"

inductive keys_later :: "keydb \<Rightarrow> keydb \<Rightarrow> bool" where
  keys_refl: "keys_later d d"
| keys_then: "keys_later d d1 \<Longrightarrow> keys_step d1 d2 \<Longrightarrow> keys_later d d2"

definition reaching :: "server \<Rightarrow> db \<Rightarrow> keydb \<Rightarrow> st \<Rightarrow> bool" where
  "reaching S d0 k0 s \<longleftrightarrow> db_later S d0 (main s) \<and> keys_later k0 (keys s)"

definition within :: "(st \<Rightarrow> bool) \<Rightarrow> (st, 'a) state \<Rightarrow> bool" where
  "within J m \<longleftrightarrow> (\<forall>s. J s \<longrightarrow> wp m (\<lambda>_ t. J t) s)"

text \<open>The same with what is known of a success: a view that an operation returns is a history too.\<close>

definition yields :: "(st \<Rightarrow> bool) \<Rightarrow> ('a \<Rightarrow> bool) \<Rightarrow> (st, 'e + 'a) state \<Rightarrow> bool" where
  "yields J P m \<longleftrightarrow> (\<forall>s. J s \<longrightarrow> wp m (\<lambda>x t. J t \<and> if_ok P x) s)"

lemma withinD: "within J m \<Longrightarrow> J s \<Longrightarrow> wp m (\<lambda>_ t. J t) s"
  by (simp add: within_def)

lemma yieldsD: "yields J P m \<Longrightarrow> J s \<Longrightarrow> wp m (\<lambda>x t. J t \<and> if_ok P x) s"
  by (simp add: yields_def)

lemma within_quiet: "(\<And>s. wp m (\<lambda>_ t. main t = main s \<and> keys t = keys s) s) \<Longrightarrow> within (reaching S d0 k0) m"
  by (auto simp: within_def reaching_def wp_result)

lemma within_reads_only: "reads_only m \<Longrightarrow> within (reaching S d0 k0) m"
  by (rule within_quiet) (simp add: wp_result reads_only_simps)

text \<open>The control structures.\<close>

lemma within_return: "within J (State_Monad.return x)"
  by (simp add: within_def wp)

lemma within_bind: "within J m \<Longrightarrow> (\<And>a. within J (f a)) \<Longrightarrow> within J (m \<bind> f)"
  unfolding within_def wp_bind by (blast intro: wp_mono)

lemma within_check: "within J m \<Longrightarrow> within J bad \<Longrightarrow> (\<And>a. within J (k a)) \<Longrightarrow> within J (check m bad k)"
  unfolding check_def by (intro within_bind) (simp_all split: sum.split)

lemma within_check_some: "within J m \<Longrightarrow> within J bad \<Longrightarrow> (\<And>a. within J (k a)) \<Longrightarrow> within J (check_some m bad k)"
  unfolding check_some_def by (intro within_bind) (simp_all split: option.split)

lemma within_orfail: "within J m \<Longrightarrow> (\<And>a. within J (k a)) \<Longrightarrow> within J (orfail m f k)"
  unfolding orfail_def by (intro within_bind) (simp_all add: within_return split: sum.split)

lemma within_if: "(b \<Longrightarrow> within J m) \<Longrightarrow> (\<not> b \<Longrightarrow> within J n) \<Longrightarrow> within J (if b then m else n)"
  by simp

lemma within_Let: "within J (f x) \<Longrightarrow> within J (Let x f)"
  by simp

lemma within_sum: "(\<And>e. x = Inl e \<Longrightarrow> within J (f e)) \<Longrightarrow> (\<And>a. x = Inr a \<Longrightarrow> within J (g a)) \<Longrightarrow> within J (case x of Inl e \<Rightarrow> f e | Inr a \<Rightarrow> g a)"
  by (simp split: sum.split)

lemma within_option: "(x = None \<Longrightarrow> within J m) \<Longrightarrow> (\<And>a. x = Some a \<Longrightarrow> within J (g a)) \<Longrightarrow> within J (case x of None \<Rightarrow> m | Some a \<Rightarrow> g a)"
  by (simp split: option.split)

lemma within_prod: "(\<And>a b. x = (a, b) \<Longrightarrow> within J (f a b)) \<Longrightarrow> within J (case x of (a, b) \<Rightarrow> f a b)"
  by (simp split: prod.split)

lemma within_bool: "within J m \<Longrightarrow> within J n \<Longrightarrow> within J (case x of True \<Rightarrow> m | False \<Rightarrow> n)"
  by (simp split: bool.split)

lemma within_list: "within J m \<Longrightarrow> (\<And>y ys. within J (g y ys)) \<Longrightarrow> within J (case xs of [] \<Rightarrow> m | y # ys \<Rightarrow> g y ys)"
  by (simp split: list.split)

lemma within_dberr: "within J m \<Longrightarrow> within J n \<Longrightarrow> within J (case x of NoRows \<Rightarrow> m | DbError \<Rightarrow> n)"
  by (simp split: dberr.split)

lemma within_saml_error:
  "within J m \<Longrightarrow> within J n \<Longrightarrow> (\<And>e. within J (g e)) \<Longrightarrow>
     within J (case x of ErrAuthRequestNotFound \<Rightarrow> m | ErrAccessDenied \<Rightarrow> n | SamlOther e \<Rightarrow> g e)"
  by (simp split: saml_error.split)

lemmas within_flow = within_return within_if within_Let within_sum within_option within_prod within_bool within_list
  within_dberr within_saml_error within_check within_check_some within_orfail within_bind

text \<open>The operations outside a transaction.\<close>

lemma within_exec: "sql S c \<Longrightarrow> within (reaching S d0 k0) (exec S c)"
  by (auto simp: within_def wp reaching_def dest: db_later_sql split: option.splits)

lemma within_try_exec: "sql S c \<Longrightarrow> within (reaching S d0 k0) (try_exec S c)"
  unfolding try_exec_def by (intro within_bind within_exec within_return)

lemma within_audit: "within (reaching S d0 k0) (audit S a e tt ti res r)"
  unfolding audit_def by (intro within_try_exec sql.intros)

lemma within_exec_row:
  assumes "sql S (returning c)"
  shows "within (reaching S d0 k0) (exec_row S c)"
  unfolding within_def wp_exec_row reaching_def
proof (intro allI impI)
  fix s :: st
  assume l: "db_later S d0 (main s) \<and> keys_later k0 (keys s)"
  have "db_later S d0 d'" if "c (pg_now s) (main s) = Inr (a, d')" for a d'
    by (rule db_later_sql [OF conjunct1 [OF l] assms, of "pg_now s" 1]) (simp add: returning_def that)
  with l show "if fault S (ios s) then db_later S d0 (main (tick s)) \<and> keys_later k0 (keys (tick s))
     else case c (pg_now s) (main s) of Inl e \<Rightarrow> db_later S d0 (main (tick s)) \<and> keys_later k0 (keys (tick s))
       | Inr (a, d) \<Rightarrow> db_later S d0 (main ((tick s)\<lparr>main := d\<rparr>)) \<and> keys_later k0 (keys ((tick s)\<lparr>main := d\<rparr>))"
    by (simp split: sum.split)
qed

lemma within_query: "within (reaching S d0 k0) (query S q)"
  by (rule within_quiet) (simp add: wp)

lemma within_query_rows: "within (reaching S d0 k0) (query_rows S q)"
  by (rule within_quiet) (simp add: wp)

lemma within_with_uuid: "(\<And>uid. within (reaching S d0 k0) (m uid)) \<Longrightarrow> within (reaching S d0 k0) (with_uuid S raw m)"
  by (auto simp: within_def wp reaching_def split: option.splits)

lemma within_cast_uuid:
  "within (reaching S d0 k0) bad \<Longrightarrow> (\<And>uid. within (reaching S d0 k0) (k uid)) \<Longrightarrow> within (reaching S d0 k0) (cast_uuid S raw bad k)"
  by (auto simp: within_def wp reaching_def split: option.splits)

lemma within_leaves:
  "within (reaching S d0 k0) (io S' (\<lambda>s. (x, s)))" "within (reaching S d0 k0) (tx_query S' v q)" "within (reaching S d0 k0) (rand_bytes S' n)"
  "within (reaching S d0 k0) (new_uuid S')" "within (reaching S d0 k0) next_draw" "within (reaching S d0 k0) time_now"
  "within (reaching S d0 k0) (redis_set S' k c ttl)" "within (reaching S d0 k0) (redis_getdel S' k)"
  "within (reaching S d0 k0) (key_query S' kq)" "within (reaching S d0 k0) (key_rows S' kr)" "within (reaching S d0 k0) (key_begin S')"
  "within (reaching S d0 k0) (key_tx_exec S' kv kc)" "within (reaching S d0 k0) (key_tx_query S' kv kqq)"
  by (rule within_quiet, simp add: wp wp_io)+

lemma within_limiters:
  "within (reaching S d0 k0) (allowLogin S' ip)" "within (reaching S d0 k0) (allowOAuthRequest S' b k l ttl)"
  "within (reaching S d0 k0) (Allow S' b k l ttl)"
  by (rule within_quiet, simp add: wp)+

lemma is_password_recordI:
  "is_password_record S (password_record salt (argon2_key S pw salt argonIterations argonMemory argonParallelism argonKeyLen))"
  by (auto simp: is_password_record_def password_record_of_def)

lemma within_with_hash:
  assumes "\<And>h. is_password_record S h \<Longrightarrow> within (reaching S d0 k0) (k h)"
  shows "within (reaching S d0 k0) (with_hash S pw k)"
  using withinD [OF assms [OF is_password_recordI]]
  by (auto simp: with_hash_def within_def wp reaching_def split: option.split)

text \<open>Transactions.\<close>

lemma within_check_begin:
  "within (reaching S d0 k0) bad \<Longrightarrow> (\<And>v. db_later S d0 v \<Longrightarrow> within (reaching S d0 k0) (k v)) \<Longrightarrow>
     within (reaching S d0 k0) (check (tx_begin S) bad k)"
  by (auto simp: within_def wp reaching_def)

lemma within_orfail_begin:
  "(\<And>v. db_later S d0 v \<Longrightarrow> within (reaching S d0 k0) (k v)) \<Longrightarrow> within (reaching S d0 k0) (orfail (tx_begin S) f k)"
  by (auto simp: within_def wp reaching_def)

lemma within_check_tx:
  "db_later S d0 v \<Longrightarrow> sql S c \<Longrightarrow> within (reaching S d0 k0) bad \<Longrightarrow> (\<And>n v'. db_later S d0 v' \<Longrightarrow> within (reaching S d0 k0) (k n v')) \<Longrightarrow>
     within (reaching S d0 k0) (check (tx_exec S v c) bad (\<lambda>(n, v'). k n v'))"
  by (auto simp: within_def wp reaching_def exec_result_def split: option.splits dest: db_later_sql)

lemma within_orfail_tx:
  "db_later S d0 v \<Longrightarrow> sql S c \<Longrightarrow> (\<And>n v'. db_later S d0 v' \<Longrightarrow> within (reaching S d0 k0) (k n v')) \<Longrightarrow>
     within (reaching S d0 k0) (orfail (tx_exec S v c) f (\<lambda>(n, v'). k n v'))"
  by (auto simp: within_def wp reaching_def exec_result_def split: option.splits dest: db_later_sql)

lemma within_check_auditTx:
  "db_later S d0 v \<Longrightarrow> within (reaching S d0 k0) bad \<Longrightarrow> (\<And>n v'. db_later S d0 v' \<Longrightarrow> within (reaching S d0 k0) (k n v')) \<Longrightarrow>
     within (reaching S d0 k0) (check (auditTx S v a e tt ti res r) bad (\<lambda>(n, v'). k n v'))"
  unfolding auditTx_def by (rule within_check_tx) (auto intro: sql.intros)

lemma within_tx_commit: "db_later S d0 v \<Longrightarrow> within (reaching S d0 k0) (tx_commit S v)"
  by (auto simp: within_def wp reaching_def)

lemma within_check_yields:
  "yields J P m \<Longrightarrow> within J bad \<Longrightarrow> (\<And>a. P a \<Longrightarrow> within J (k a)) \<Longrightarrow> within J (check m bad k)"
  unfolding within_def wp_check by (auto intro!: wp_mono [OF yieldsD [of J P m]] split: sum.split)

lemma within_orfail_yields:
  "yields J P m \<Longrightarrow> (\<And>a. P a \<Longrightarrow> within J (k a)) \<Longrightarrow> within J (orfail m f k)"
  unfolding within_def wp_orfail by (auto intro!: wp_mono [OF yieldsD [of J P m]] split: sum.split)

lemmas within_tx = within_check_begin within_orfail_begin within_check_tx within_orfail_tx within_check_auditTx within_tx_commit
lemmas within_ops = within_exec within_try_exec within_audit within_exec_row within_query within_query_rows within_with_uuid
  within_cast_uuid within_leaves within_limiters within_with_hash
lemmas within_rules = within_tx within_ops within_flow sql.intros

text \<open>The rules for \<open>yields\<close>.\<close>

lemma yields_return: "P a \<Longrightarrow> yields J P (State_Monad.return (Inr a))" "yields J P (State_Monad.return (Inl e))"
  by (simp_all add: yields_def wp)

lemma yields_bind: "within J m \<Longrightarrow> (\<And>a. yields J P (f a)) \<Longrightarrow> yields J P (m \<bind> f)"
  unfolding yields_def within_def wp_bind by (blast intro: wp_mono)

lemma yields_check_some: "within J m \<Longrightarrow> yields J P bad \<Longrightarrow> (\<And>a. yields J P (k a)) \<Longrightarrow> yields J P (check_some m bad k)"
  unfolding check_some_def by (intro yields_bind) (simp_all split: option.split)

lemma yields_orfail: "within J m \<Longrightarrow> (\<And>a. yields J P (k a)) \<Longrightarrow> yields J P (orfail m f k)"
  unfolding orfail_def by (intro yields_bind) (simp_all add: yields_return split: sum.split)

lemma yields_orfail_yields:
  assumes m: "yields J Q m" and k: "\<And>a. Q a \<Longrightarrow> yields J P (k a)"
  shows "yields J P (orfail m f k)"
  unfolding yields_def wp_orfail
proof (intro allI impI)
  fix s assume "J s"
  from yieldsD [OF m this]
  show "wp m (\<lambda>x t. case x of Inl e \<Rightarrow> J t \<and> if_ok P (Inl (f e)) | Inr a \<Rightarrow> wp (k a) (\<lambda>x t. J t \<and> if_ok P x) t) s"
    by (rule wp_mono) (auto split: sum.split intro: yieldsD [OF k])
qed

lemma yields_orfail_tx:
  "db_later S d0 v \<Longrightarrow> sql S c \<Longrightarrow> (\<And>n v'. db_later S d0 v' \<Longrightarrow> yields (reaching S d0 k0) P (k n v')) \<Longrightarrow>
     yields (reaching S d0 k0) P (orfail (tx_exec S v c) f (\<lambda>(n, v'). k n v'))"
  by (auto simp: yields_def wp reaching_def exec_result_def split: option.splits dest: db_later_sql)

lemma yields_option: "(x = None \<Longrightarrow> yields J P m) \<Longrightarrow> (\<And>a. x = Some a \<Longrightarrow> yields J P (g a)) \<Longrightarrow> yields J P (case x of None \<Rightarrow> m | Some a \<Rightarrow> g a)"
  by (simp split: option.split)

lemma yields_prod: "(\<And>a b. x = (a, b) \<Longrightarrow> yields J P (f a b)) \<Longrightarrow> yields J P (case x of (a, b) \<Rightarrow> f a b)"
  by (simp split: prod.split)

lemma yields_if: "yields J P m \<Longrightarrow> yields J P n \<Longrightarrow> yields J P (if b then m else n)"
  by simp

lemma yields_Let: "yields J P (f x) \<Longrightarrow> yields J P (Let x f)"
  by simp

lemma yields_within: "yields J P m \<Longrightarrow> within J m"
  by (auto simp: yields_def within_def intro: wp_mono)

lemmas yields_rules = yields_orfail_tx yields_return yields_option yields_prod yields_if yields_Let yields_check_some yields_orfail yields_bind

section \<open>Tokens and keys\<close>

lemma within_encryptions:
  "within (reaching S d0 k0) (encrypt S' x n)" "within (reaching S d0 k0) (encryptPrivateKey S' x n)" "within (reaching S d0 k0) (saml_encryptPrivateKey S' x n)"
  "within (reaching S d0 k0) (RandomToken S' n')" "within (reaching S d0 k0) (RandomUUID S')"
  by (rule within_quiet, simp add: wp encryptPrivateKey_encrypt RandomToken_def RandomUUID_def split: option.split)+

lemma within_rotation:
  assumes "\<And>s. wp m (\<lambda>_ t. main t = main s \<and> (keys t = keys s \<or> keys_step (keys s) (keys t))) s"
  shows "within (reaching S d0 k0) m"
  unfolding within_def reaching_def wp_result
proof (intro allI impI, elim conjE)
  fix s :: st
  assume "db_later S d0 (main s)" "keys_later k0 (keys s)"
  moreover have "main (final m s) = main s" "keys (final m s) = keys s \<or> keys_step (keys s) (keys (final m s))"
    using assms [of s] by (simp_all add: wp_result)
  ultimately show "db_later S d0 (main (final m s)) \<and> keys_later k0 (keys (final m s))"
    by (elim disjE) (simp_all add: keys_then)
qed

lemma step_keys:
  "ring_step d now x d' \<Longrightarrow> d' = d \<or> keys_step d d'"
  "cert_step d now go y d' \<Longrightarrow> d' = d \<or> keys_step d d'"
  by (cases x; simp add: keys_step_def ring_step_def; blast) (cases y; simp add: keys_step_def cert_step_def; blast)

lemma within_Rotate: "within (reaching S d0 k0) (Rotate S')" "within (reaching S d0 k0) (saml_Rotate S')"
  by (rule within_rotation, rule wp_mono [OF Rotate_step], blast dest: step_keys)
    (rule within_rotation, rule wp_mono [OF saml_Rotate_step], blast dest: step_keys)

lemmas within_keys = within_Rotate within_reads_only [OF reads_only_PublicKeyByKID]
  within_reads_only [OF reads_only_StatusOf] within_reads_only [OF reads_only_authenticate] within_reads_only [OF reads_only_validate]
  within_reads_only [OF reads_only_userGroups]

lemma within_Active: "within (reaching S d0 k0) (Active S)" "within (reaching S d0 k0) (saml_Active S)"
  unfolding Active_def saml_Active_def by (intro within_flow within_keys within_leaves)+

lemma within_id_token: "within (reaching S d0 k0) (add_id_token S c uid scope nonce resp)"
  unfolding add_id_token_def signIDToken_def
  by (intro within_flow within_keys within_Active within_leaves within_query within_query_rows)

abbreviation later_view :: "server \<Rightarrow> db \<Rightarrow> 'x \<times> db \<Rightarrow> bool" where
  "later_view S d0 xv \<equiv> db_later S d0 (snd xv)"

lemma yields_issueAccessToken:
  "db_later S d0 v \<Longrightarrow> yields (reaching S d0 k0) (later_view S d0) (issueAccessToken S v c subject uid scope)"
  unfolding issueAccessToken_def
  by (intro yields_rules within_keys within_Active within_encryptions within_leaves sql.intros) simp_all

lemma yields_add_refresh_token:
  "db_later S d0 v \<Longrightarrow> yields (reaching S d0 k0) (later_view S d0) (add_refresh_token S v c uid scope family parent resp)"
  unfolding add_refresh_token_def
  by (intro yields_rules within_flow within_keys within_encryptions within_leaves sql.intros) simp_all

lemma yields_issueUserTokens:
  "db_later S d0 v \<Longrightarrow> yields (reaching S d0 k0) (later_view S d0) (issueUserTokens S v c uid scope nonce family parent)"
  unfolding issueUserTokens_def
  by (rule yields_orfail_yields [OF yields_issueAccessToken], assumption, rule yields_prod, rule yields_orfail,
      rule within_id_token, rule yields_add_refresh_token, simp)

lemma yields_generateRecoveryCodesTx:
  "db_later S d0 v \<Longrightarrow> yields (reaching S d0 k0) (later_view S d0) (generateRecoveryCodesTx S v uid n codes)"
proof (induction n arbitrary: v codes)
  case (Suc n)
  then show ?case
    by (simp only: generateRecoveryCodesTx.simps)
      (intro yields_rules within_leaves sql.intros; simp)
qed (simp add: yields_return)

lemma yields_run_statements:
  "db_later S d0 v \<Longrightarrow> \<forall>c \<in> set cs. sql S c \<Longrightarrow> yields (reaching S d0 k0) (db_later S d0) (run_statements S v cs)"
proof (induction cs arbitrary: v)
  case (Cons c cs)
  then show ?case by (simp only: run_statements.simps) (intro yields_rules; simp)
qed (simp add: yields_return)

text \<open>How a caller uses them.\<close>

lemma within_views:
  "db_later S d0 v \<Longrightarrow> within (reaching S d0 k0) bad \<Longrightarrow> (\<And>a v'. db_later S d0 v' \<Longrightarrow> within (reaching S d0 k0) (k a v')) \<Longrightarrow>
     within (reaching S d0 k0) (check (issueUserTokens S v c uid scope nonce family parent) bad (\<lambda>(a, v'). k a v'))"
  "db_later S d0 v \<Longrightarrow> within (reaching S d0 k0) bad \<Longrightarrow> (\<And>a v'. db_later S d0 v' \<Longrightarrow> within (reaching S d0 k0) (k a v')) \<Longrightarrow>
     within (reaching S d0 k0) (check (issueAccessToken S v c subject owner scope) bad (\<lambda>(a, v'). k a v'))"
  "db_later S d0 v \<Longrightarrow> (\<And>codes v'. db_later S d0 v' \<Longrightarrow> within (reaching S d0 k0) (kc codes v')) \<Longrightarrow>
     within (reaching S d0 k0) (orfail (generateRecoveryCodesTx S v uid n cs) f (\<lambda>(codes, v'). kc codes v'))"
  by (rule within_check_yields [OF yields_issueUserTokens] within_check_yields [OF yields_issueAccessToken]
      within_orfail_yields [OF yields_generateRecoveryCodesTx]; auto)+

lemma within_optional_codes:
  "db_later S d0 v \<Longrightarrow> (\<And>codes v'. db_later S d0 v' \<Longrightarrow> within (reaching S d0 k0) (kc codes v')) \<Longrightarrow>
     within (reaching S d0 k0) (orfail (if b then generateRecoveryCodesTx S v uid n cs else State_Monad.return (Inr (cs', v))) f (\<lambda>(codes, v'). kc codes v'))"
  by (rule within_orfail_yields [where P = "later_view S d0"]) (auto intro: yields_if yields_generateRecoveryCodesTx yields_return)

lemma within_run_statements:
  "db_later S d0 v \<Longrightarrow> \<forall>c \<in> set cs. sql S c \<Longrightarrow> within (reaching S d0 k0) bad \<Longrightarrow>
     (\<And>v'. db_later S d0 v' \<Longrightarrow> within (reaching S d0 k0) (k v')) \<Longrightarrow> within (reaching S d0 k0) (check (run_statements S v cs) bad k)"
  "db_later S d0 v \<Longrightarrow> \<forall>c \<in> set cs. sql S c \<Longrightarrow> (\<And>v'. db_later S d0 v' \<Longrightarrow> within (reaching S d0 k0) (k' v')) \<Longrightarrow>
     within (reaching S d0 k0) (orfail (run_statements S v cs) f k')"
  by (rule within_check_yields [OF yields_run_statements] within_orfail_yields [OF yields_run_statements]; auto)+

lemma within_bind_tx:
  "db_later S d0 v \<Longrightarrow> sql S c \<Longrightarrow> (\<And>e. within (reaching S d0 k0) (k (Inl e))) \<Longrightarrow>
     (\<And>n v'. db_later S d0 v' \<Longrightarrow> within (reaching S d0 k0) (k (Inr (n, v')))) \<Longrightarrow> within (reaching S d0 k0) (tx_exec S v c \<bind> k)"
  by (auto simp: within_def wp reaching_def exec_result_def split: option.splits dest: db_later_sql)

named_theorems runs \<open>the handlers and the operations they share only run statements of \<open>sql\<close>\<close>

declare within_keys [runs] within_Active [runs] within_encryptions [runs] within_views [runs] within_optional_codes [runs] within_run_statements [runs]

end
