(* ===== verification/Handlers.thy ===== *)
theory Handlers imports Effects begin

text \<open>
  One lemma for each handler and for each operation of the services behind them: all it does to
  the database is to run statements of \<open>sql\<close>.
\<close>

section \<open>What the validations establish\<close>

text \<open>Go visits the entries of a map in some order, each once.\<close>

definition go_map_order :: "((string \<times> string) list \<Rightarrow> (string \<times> string) list) \<Rightarrow> bool" where
  "go_map_order reorder \<longleftrightarrow> (\<forall>xs. set (reorder xs) = set xs)"

lemma no_runes [simp]: "runes w = [] \<longleftrightarrow> w = []"
  by (cases w) (auto simp: runes_def split: option.split)

lemma normalized_ok: "normalizeLoginUISettings U reorder s0 = Inr s \<Longrightarrow> go_map_order reorder \<Longrightarrow> login_ui_ok U s"
  by (auto simp: normalizeLoginUISettings_def login_ui_ok_def go_map_order_def Let_def Suc_le_eq list_all_iff find_None_iff not_less
      split: if_splits option.splits)

lemma default_ok: "login_ui_ok U defaultLoginUISettings"
  by (simp add: login_ui_ok_def defaultLoginUISettings_def runes_ascii ascii_def colors_of_def color_ok_def is_hex_def
      validateLoginUIMediaURL_def Let_def hasPrefix_def)

lemma scopes_checked: "client_scopes requested = Some scopes \<Longrightarrow> contains scopes ''openid''"
  by (auto simp: client_scopes_def split: option.splits if_splits)

lemma uri_checked: "validateApplicationURI U raw \<Longrightarrow> redirect_uri_ok U raw"
  by (auto simp: validateApplicationURI_def redirect_uri_ok_def split: if_splits option.splits)

lemma client_statements_sql:
  "contains scopes ''openid'' \<Longrightarrow> \<forall>u \<in> set (in_redirects inp @ in_logouts inp). redirect_uri_ok (udata S) u \<Longrightarrow>
     \<forall>c \<in> set (client_statements aid inp scopes). sql S c"
  by (auto simp: client_statements_def intro: sql.intros)

lemma within_small [runs]: "within (reaching S d0 k0) (getSecurityPolicy S)" "within (reaching S d0 k0) invalid_body" "within (reaching S d0 k0) (Required S uid app)" "within (reaching S d0 k0) (loadOAuthClient S cid)" "within (reaching S d0 k0) (loadLoginUISettings S)"
  unfolding getSecurityPolicy_def invalid_body_def Required_def loadOAuthClient_def loadLoginUISettings_def by (intro within_rules)+

lemma policy_checked: "\<not> policy_values_invalid p \<Longrightarrow> policy_ok p" by (simp add: policy_ok_def)

declare policy_checked [simp] default_ok [simp] client_statements_sql [simp] list_all_iff [simp]
  normalized_ok [intro] sql.intros [intro] scopes_checked [dest] uri_checked [dest]

section \<open>Sessions, set-up and the security policy\<close>

lemma within_live [runs]: "within (reaching S d0 k0) live"
  unfolding live_def by (intro runs within_rules; auto?)

lemma within_ready [runs]: "within (reaching S d0 k0) (ready S)"
  unfolding ready_def by (intro runs within_rules; auto?)

lemma within_setupStatus [runs]: "within (reaching S d0 k0) (setupStatus S)"
  unfolding setupStatus_def by (intro runs within_rules; auto?)

lemma within_bootstrap [runs]: "within (reaching S d0 k0) (bootstrap S r body)"
  unfolding bootstrap_def by (intro runs within_rules; auto?)

lemma within_login_succeed [runs]: "within (reaching S d0 k0) (login_succeed S r p u)"
  unfolding login_succeed_def by (intro runs within_rules; auto?)

lemma within_login_fail [runs]: "within (reaching S d0 k0) (login_fail S r p row)"
  unfolding login_fail_def by (intro runs within_rules; auto?)

lemma within_login [runs]: "within (reaching S d0 k0) (login S r body)"
  unfolding login_def by (intro runs within_rules; auto?)

lemma within_sessionPrincipal [runs]: "within (reaching S d0 k0) (sessionPrincipal S r)"
  unfolding sessionPrincipal_def by (intro runs within_rules; auto?)

lemma within_logout [runs]: "within (reaching S d0 k0) (logout S r p)"
  unfolding logout_def by (intro runs within_rules; auto?)

lemma within_me [runs]: "within (reaching S d0 k0) (me S p)"
  unfolding me_def by (intro runs within_rules; auto?)

lemma within_securityPolicyHandler [runs]: "within (reaching S d0 k0) (securityPolicyHandler S)"
  unfolding securityPolicyHandler_def by (intro runs within_rules; auto?)

lemma within_updateSecurityPolicy [runs]: "within (reaching S d0 k0) (updateSecurityPolicy S r body p)"
  unfolding updateSecurityPolicy_def by (intro runs within_rules; auto?)

section \<open>Users\<close>

lemma within_listUsers [runs]: "within (reaching S d0 k0) (listUsers S)"
  unfolding listUsers_def by (intro runs within_rules; auto?)

lemma within_getUser [runs]: "within (reaching S d0 k0) (getUser S r)"
  unfolding getUser_def by (intro runs within_rules; auto?)

lemma within_createUser [runs]: "within (reaching S d0 k0) (createUser S r body p)"
  unfolding createUser_def by (intro runs within_rules; auto?)

lemma within_updateUser [runs]: "within (reaching S d0 k0) (updateUser S r body p)"
  unfolding updateUser_def by (intro runs within_rules; auto?)

lemma within_unlockUser [runs]: "within (reaching S d0 k0) (unlockUser S r p)"
  unfolding unlockUser_def by (intro runs within_rules; auto?)

lemma within_resetUserPassword [runs]: "within (reaching S d0 k0) (resetUserPassword S r body p)"
  unfolding resetUserPassword_def by (intro runs within_rules; auto?)

lemma within_store_own_password [runs]: "is_password_record S hash \<Longrightarrow> within (reaching S d0 k0) (store_own_password S r p hash)"
  unfolding store_own_password_def by (intro runs within_rules; auto?)

lemma within_change_password [runs]: "within (reaching S d0 k0) (change_password S r body p)"
  unfolding change_password_def by (intro runs within_rules; auto?)

lemma within_changeOwnPassword [runs]: "within (reaching S d0 k0) (changeOwnPassword S r body p)"
  unfolding changeOwnPassword_def by (intro runs within_rules; auto?)

lemma within_listSessions [runs]: "within (reaching S d0 k0) (listSessions S)"
  unfolding listSessions_def by (intro runs within_rules; auto?)

lemma within_revokeSession [runs]: "within (reaching S d0 k0) (revokeSession S r p)"
  unfolding revokeSession_def by (intro runs within_rules; auto?)

lemma within_revokeUserSessions [runs]: "within (reaching S d0 k0) (revokeUserSessions S r p)"
  unfolding revokeUserSessions_def by (intro runs within_rules; auto?)

lemma within_revokeAllSessions [runs]: "within (reaching S d0 k0) (revokeAllSessions S r p)"
  unfolding revokeAllSessions_def by (intro runs within_rules; auto?)

lemma within_dashboard [runs]: "within (reaching S d0 k0) (dashboard S)"
  unfolding dashboard_def by (intro runs within_rules; auto?)

lemma within_listAudit [runs]: "within (reaching S d0 k0) (listAudit S r)"
  unfolding listAudit_def by (intro runs within_rules; auto?)

section \<open>Groups and roles\<close>

lemma within_listGroups [runs]: "within (reaching S d0 k0) (listGroups S)"
  unfolding listGroups_def by (intro runs within_rules; auto?)

lemma within_createGroup [runs]: "within (reaching S d0 k0) (createGroup S r body p)"
  unfolding createGroup_def by (intro runs within_rules; auto?)

lemma within_getGroup [runs]: "within (reaching S d0 k0) (getGroup S r)"
  unfolding getGroup_def by (intro runs within_rules; auto?)

lemma within_updateGroup [runs]: "within (reaching S d0 k0) (updateGroup S r body p)"
  unfolding updateGroup_def by (intro runs within_rules; auto?)

lemma within_deleteGroup [runs]: "within (reaching S d0 k0) (deleteGroup S r p)"
  unfolding deleteGroup_def by (intro runs within_rules; auto?)

lemma within_addGroupMember [runs]: "within (reaching S d0 k0) (addGroupMember S r body p)"
  unfolding addGroupMember_def by (intro runs within_rules; auto?)

lemma within_listGroupMembers [runs]: "within (reaching S d0 k0) (listGroupMembers S r)"
  unfolding listGroupMembers_def by (intro runs within_rules; auto?)

lemma within_removeGroupMember [runs]: "within (reaching S d0 k0) (removeGroupMember S r p)"
  unfolding removeGroupMember_def by (intro runs within_rules; auto?)

lemma within_listRoles [runs]: "within (reaching S d0 k0) (listRoles S)"
  unfolding listRoles_def by (intro runs within_rules; auto?)

lemma within_listUserRoles [runs]: "within (reaching S d0 k0) (listUserRoles S r)"
  unfolding listUserRoles_def by (intro runs within_rules; auto?)

lemma within_assignRole [runs]: "within (reaching S d0 k0) (assignRole S r body p)"
  unfolding assignRole_def by (intro runs within_rules; auto?)

lemma within_removeRole [runs]: "within (reaching S d0 k0) (removeRole S r p)"
  unfolding removeRole_def by (intro runs within_rules; auto?)

section \<open>OAuth and OpenID Connect\<close>

lemma within_JWKS [runs]: "within (reaching S d0 k0) (JWKS S)"
  unfolding JWKS_def by (intro runs within_rules; auto?)

lemma within_storeAuthorizationCode [runs]: "within (reaching S d0 k0) (storeAuthorizationCode S app uid redirect scope nonce challenge)"
  unfolding storeAuthorizationCode_def by (intro runs within_rules; auto?)

lemma within_parseAccessToken [runs]: "within (reaching S d0 k0) (parseAccessToken S raw)"
  unfolding parseAccessToken_def by (intro runs within_rules; auto?)

lemma within_parseIDToken [runs]: "within (reaching S d0 k0) (parseIDToken S raw)"
  unfolding parseIDToken_def by (intro runs within_rules; auto?)

lemma within_ask_consent [runs]: "within (reaching S d0 k0) (ask_consent S r p a)"
  unfolding ask_consent_def by (intro runs within_rules; auto?)

lemma within_authorize_as [runs]: "within (reaching S d0 k0) (authorize_as S r a p)"
  unfolding authorize_as_def by (intro runs within_rules; auto?)

lemma within_authorize [runs]: "within (reaching S d0 k0) (authorize S r)"
  unfolding authorize_def by (intro runs within_rules; auto?)

lemma within_approve [runs]: "db_later S d0 v \<Longrightarrow> within (reaching S d0 k0) (approve S v q)"
  unfolding approve_def by (intro runs within_rules; auto?)

lemma within_authorizeConsent [runs]: "within (reaching S d0 k0) (authorizeConsent S r)"
  unfolding authorizeConsent_def by (intro runs within_rules; auto?)

lemma within_authorizationCodeGrant [runs]: "within (reaching S d0 k0) (authorizationCodeGrant S r c)"
  unfolding authorizationCodeGrant_def by (intro runs within_rules; auto?)

lemma within_refresh_reuse [runs]: "db_later S d0 v \<Longrightarrow> within (reaching S d0 k0) (refresh_reuse S r c v row)"
  unfolding refresh_reuse_def by (rule within_bind_tx) (auto intro!: sql.intros within_bind within_tx_commit within_audit within_return)

lemma within_refreshTokenGrant [runs]: "within (reaching S d0 k0) (refreshTokenGrant S r c)"
  unfolding refreshTokenGrant_def by (intro runs within_rules; auto?)

lemma within_clientCredentialsGrant [runs]: "within (reaching S d0 k0) (clientCredentialsGrant S r c)"
  unfolding clientCredentialsGrant_def by (intro runs within_rules; auto?)

lemma within_dispatch_grant [runs]: "within (reaching S d0 k0) (dispatch_grant S r c)"
  unfolding dispatch_grant_def by (intro runs within_rules; auto?)

lemma within_tokenEndpoint [runs]: "within (reaching S d0 k0) (tokenEndpoint S r)"
  unfolding tokenEndpoint_def by (intro runs within_rules; auto?)

lemma within_userinfo [runs]: "within (reaching S d0 k0) (userinfo S r)"
  unfolding userinfo_def by (intro runs within_rules; auto?)

lemma within_revokeToken [runs]: "within (reaching S d0 k0) (revokeToken S r)"
  unfolding revokeToken_def by (intro runs within_rules; auto?)

lemma within_introspectToken [runs]: "within (reaching S d0 k0) (introspectToken S r)"
  unfolding introspectToken_def by (intro runs within_rules; auto?)

lemma within_end_session [runs]: "within (reaching S d0 k0) (end_session S r)"
  unfolding end_session_def by (intro runs within_rules; auto?)

lemma within_oauthLogout [runs]: "within (reaching S d0 k0) (oauthLogout S r)"
  unfolding oauthLogout_def by (intro runs within_rules; auto?)

lemma within_oidcDiscovery [runs]: "within (reaching S d0 k0) (oidcDiscovery S)"
  unfolding oidcDiscovery_def by (intro runs within_rules; auto?)

lemma within_oauthAuthorizationServerMetadata [runs]: "within (reaching S d0 k0) (oauthAuthorizationServerMetadata S)"
  unfolding oauthAuthorizationServerMetadata_def by (intro runs within_rules; auto?)

lemma within_jwks [runs]: "within (reaching S d0 k0) (jwks S)"
  unfolding jwks_def by (intro runs within_rules; auto?)

lemma within_listSigningKeys [runs]: "within (reaching S d0 k0) (listSigningKeys S)"
  unfolding listSigningKeys_def by (intro runs within_rules; auto?)

lemma within_rotateSigningKey [runs]: "within (reaching S d0 k0) (rotateSigningKey S r p)"
  unfolding rotateSigningKey_def by (intro runs within_rules; auto?)

section \<open>The MFA service\<close>

lemma within_RegenerateRecoveryCodes [runs]: "within (reaching S d0 k0) (RegenerateRecoveryCodes S uid)"
  unfolding RegenerateRecoveryCodes_def by (intro runs within_rules; auto?)

lemma within_EnsureRecoveryCodes [runs]: "within (reaching S d0 k0) (EnsureRecoveryCodes S uid)"
  unfolding EnsureRecoveryCodes_def by (intro runs within_rules; auto?)

lemma within_VerifyRecoveryCode [runs]: "within (reaching S d0 k0) (VerifyRecoveryCode S uid code)"
  unfolding VerifyRecoveryCode_def by (intro runs within_rules; auto?)

lemma within_BeginTOTP [runs]: "within (reaching S d0 k0) (BeginTOTP S uid n)"
  unfolding BeginTOTP_def by (intro runs within_rules; auto?)

lemma within_totpSecret [runs]: "within (reaching S d0 k0) (totpSecret S uid b)"
  unfolding totpSecret_def by (intro runs within_rules; auto?)

lemma within_ConfirmTOTP [runs]: "within (reaching S d0 k0) (ConfirmTOTP S uid code)"
  unfolding ConfirmTOTP_def by (intro runs within_rules; auto?)

lemma within_VerifyTOTP [runs]: "within (reaching S d0 k0) (VerifyTOTP S uid code)"
  unfolding VerifyTOTP_def by (intro runs within_rules; auto?)

lemma within_DisableTOTP [runs]: "within (reaching S d0 k0) (DisableTOTP S uid)"
  unfolding DisableTOTP_def by (intro runs within_rules; auto?)

lemma within_VerifyFactor [runs]: "within (reaching S d0 k0) (VerifyFactor S uid m code)"
  unfolding VerifyFactor_def by (intro runs within_rules; auto?)

lemma within_ResetUser [runs]: "within (reaching S d0 k0) (ResetUser S uid)"
  unfolding ResetUser_def by (intro runs within_rules) (auto simp: reset_statements_def intro: sql.intros)

lemma within_SetGroupPolicy [runs]: "within (reaching S d0 k0) (SetGroupPolicy S gid b)"
  unfolding SetGroupPolicy_def by (intro runs within_rules; auto?)

lemma within_SetApplicationPolicy [runs]: "within (reaching S d0 k0) (SetApplicationPolicy S aid b)"
  unfolding SetApplicationPolicy_def by (intro runs within_rules; auto?)

lemma within_GroupPolicy [runs]: "within (reaching S d0 k0) (GroupPolicy S gid)"
  unfolding GroupPolicy_def by (intro runs within_rules; auto?)

lemma within_ApplicationPolicy [runs]: "within (reaching S d0 k0) (ApplicationPolicy S aid)"
  unfolding ApplicationPolicy_def by (intro runs within_rules; auto?)

lemma within_ensure_handle [runs]: "within (reaching S d0 k0) (ensure_handle S uid b)"
  unfolding ensure_handle_def by (intro runs within_rules; auto?)

lemma within_loadUser [runs]: "within (reaching S d0 k0) (loadUser S uid b)"
  unfolding loadUser_def by (intro runs within_rules; auto?)

lemma within_storeCeremony [runs]: "within (reaching S d0 k0) (storeCeremony S c)"
  unfolding storeCeremony_def by (intro runs within_rules; auto?)

lemma within_consumeCeremony [runs]: "within (reaching S d0 k0) (consumeCeremony S tok)"
  unfolding consumeCeremony_def by (intro runs within_rules; auto?)

lemma within_BeginWebAuthnRegistration [runs]: "within (reaching S d0 k0) (BeginWebAuthnRegistration S uid kind)"
  unfolding BeginWebAuthnRegistration_def by (intro runs within_rules; auto?)

lemma within_store_credential [runs]: "within (reaching S d0 k0) (store_credential S uid kind display cred)"
  unfolding store_credential_def by (intro runs within_rules; auto?)

lemma within_FinishWebAuthnRegistration [runs]: "within (reaching S d0 k0) (FinishWebAuthnRegistration S uid tok display resp)"
  unfolding FinishWebAuthnRegistration_def by (intro runs within_rules; auto?)

lemma within_BeginWebAuthnLogin [runs]: "within (reaching S d0 k0) (BeginWebAuthnLogin S uid)"
  unfolding BeginWebAuthnLogin_def by (intro runs within_rules; auto?)

lemma within_FinishWebAuthnLogin [runs]: "within (reaching S d0 k0) (FinishWebAuthnLogin S uid tok resp)"
  unfolding FinishWebAuthnLogin_def by (intro runs within_rules; auto?)

lemma within_ListWebAuthn [runs]: "within (reaching S d0 k0) (ListWebAuthn S uid)"
  unfolding ListWebAuthn_def by (intro runs within_rules; auto?)

lemma within_wa_delete [runs]: "within (reaching S d0 k0) (wa_delete S uid raw b)"
  unfolding wa_delete_def by (intro runs within_rules; auto?)

lemma within_DeleteWebAuthn [runs]: "within (reaching S d0 k0) (DeleteWebAuthn S uid raw)"
  unfolding DeleteWebAuthn_def by (intro runs within_rules; auto?)

lemma within_markSessionMFAVerified [runs]: "within (reaching S d0 k0) (markSessionMFAVerified S p)"
  unfolding markSessionMFAVerified_def by (intro runs within_rules; auto?)

section \<open>The MFA endpoints\<close>

lemma within_allowMFAMutation [runs]: "within (reaching S d0 k0) k \<Longrightarrow> within (reaching S d0 k0) (allowMFAMutation S p k)"
  unfolding allowMFAMutation_def by (intro runs within_rules; auto?)

lemma within_limited [runs]: "within (reaching S d0 k0) k \<Longrightarrow> within (reaching S d0 k0) (limited S r p b l ttl msg k)"
  unfolding limited_def by (intro runs within_rules; auto?)

lemma within_myMFAStatus [runs]: "within (reaching S d0 k0) (myMFAStatus S p)"
  unfolding myMFAStatus_def by (intro runs within_rules; auto?)

lemma within_beginTOTPEnrollment [runs]: "within (reaching S d0 k0) (beginTOTPEnrollment S r p)"
  unfolding beginTOTPEnrollment_def by (intro runs within_rules; auto?)

lemma within_confirmTOTPEnrollment [runs]: "within (reaching S d0 k0) (confirmTOTPEnrollment S r body p)"
  unfolding confirmTOTPEnrollment_def by (intro runs within_rules; auto?)

lemma within_disableTOTP [runs]: "within (reaching S d0 k0) (disableTOTP S r p)"
  unfolding disableTOTP_def by (intro runs within_rules; auto?)

lemma within_regenerateRecoveryCodes [runs]: "within (reaching S d0 k0) (regenerateRecoveryCodes S r p)"
  unfolding regenerateRecoveryCodes_def by (intro runs within_rules; auto?)

lemma within_beginWebAuthnRegistration [runs]: "within (reaching S d0 k0) (beginWebAuthnRegistration S r body p)"
  unfolding beginWebAuthnRegistration_def by (intro runs within_rules; auto?)

lemma within_finishWebAuthnRegistration [runs]: "within (reaching S d0 k0) (finishWebAuthnRegistration S r resp p)"
  unfolding finishWebAuthnRegistration_def by (intro runs within_rules; auto?)

lemma within_deleteWebAuthnCredential [runs]: "within (reaching S d0 k0) (deleteWebAuthnCredential S r p)"
  unfolding deleteWebAuthnCredential_def by (intro runs within_rules; auto?)

lemma within_verifyMFAFactor [runs]: "within (reaching S d0 k0) (verifyMFAFactor S r body p)"
  unfolding verifyMFAFactor_def by (intro runs within_rules; auto?)

lemma within_beginWebAuthnAuthentication [runs]: "within (reaching S d0 k0) (beginWebAuthnAuthentication S r p)"
  unfolding beginWebAuthnAuthentication_def by (intro runs within_rules; auto?)

lemma within_finishWebAuthnAuthentication [runs]: "within (reaching S d0 k0) (finishWebAuthnAuthentication S r resp p)"
  unfolding finishWebAuthnAuthentication_def by (intro runs within_rules; auto?)

lemma within_adminUserMFAStatus [runs]: "within (reaching S d0 k0) (adminUserMFAStatus S r)"
  unfolding adminUserMFAStatus_def by (intro runs within_rules; auto?)

lemma within_resetUserMFA [runs]: "within (reaching S d0 k0) (resetUserMFA S r p)"
  unfolding resetUserMFA_def by (intro runs within_rules; auto?)

lemma within_groupMFAPolicy [runs]: "within (reaching S d0 k0) (groupMFAPolicy S r)"
  unfolding groupMFAPolicy_def by (intro runs within_rules; auto?)

lemma within_updateGroupMFAPolicy [runs]: "within (reaching S d0 k0) (updateGroupMFAPolicy S r body p)"
  unfolding updateGroupMFAPolicy_def by (intro runs within_rules; auto?)

lemma within_applicationMFAPolicy [runs]: "within (reaching S d0 k0) (applicationMFAPolicy S r)"
  unfolding applicationMFAPolicy_def by (intro runs within_rules; auto?)

lemma within_updateApplicationMFAPolicy [runs]: "within (reaching S d0 k0) (updateApplicationMFAPolicy S r body p)"
  unfolding updateApplicationMFAPolicy_def by (intro runs within_rules; auto?)

section \<open>SAML and applications\<close>

lemma within_CertificateMetadata [runs]: "within (reaching S d0 k0) (CertificateMetadata S)"
  unfolding CertificateMetadata_def by (intro runs within_rules; auto?)

lemma within_createSAMLApplication [runs]: "within (reaching S d0 k0) (createSAMLApplication S r body p)"
  unfolding createSAMLApplication_def by (intro runs within_rules; auto?)

lemma within_updateSAMLApplication [runs]: "within (reaching S d0 k0) (updateSAMLApplication S r body p)"
  unfolding updateSAMLApplication_def by (intro runs within_rules; auto?)

lemma within_samlApplicationIntegration [runs]: "within (reaching S d0 k0) (samlApplicationIntegration S r)"
  unfolding samlApplicationIntegration_def by (intro runs within_rules; auto?)

lemma within_samlCertificates [runs]: "within (reaching S d0 k0) (samlCertificates S)"
  unfolding samlCertificates_def by (intro runs within_rules; auto?)

lemma within_rotateSAMLCertificate [runs]: "within (reaching S d0 k0) (rotateSAMLCertificate S r p)"
  unfolding rotateSAMLCertificate_def by (intro runs within_rules; auto?)

lemma within_FinalizeAuthRequest [runs]: "within (reaching S d0 k0) (FinalizeAuthRequest S q uid)"
  unfolding FinalizeAuthRequest_def by (intro runs within_rules; auto?)

lemma within_continueSAML [runs]: "within (reaching S d0 k0) (continueSAML S r body p)"
  unfolding continueSAML_def by (intro runs within_rules; auto?)

lemma within_GetEntityByID [runs]: "within (reaching S d0 k0) (GetEntityByID S e)"
  unfolding GetEntityByID_def by (intro runs within_rules; auto?)

lemma within_GetEntityIDByAppID [runs]: "within (reaching S d0 k0) (GetEntityIDByAppID S app)"
  unfolding GetEntityIDByAppID_def by (intro runs within_rules; auto?)

lemma within_CreateAuthRequest [runs]: "within (reaching S d0 k0) (CreateAuthRequest S areq acs b relay app)"
  unfolding CreateAuthRequest_def by (intro runs within_rules; auto?)

lemma within_AuthRequestByID [runs]: "within (reaching S d0 k0) (AuthRequestByID S q)"
  unfolding AuthRequestByID_def by (intro runs within_rules; auto?)

lemma within_saml_userGroups [runs]: "within (reaching S d0 k0) (saml_userGroups S uid)"
  unfolding saml_userGroups_def by (intro runs within_rules; auto?)

lemma within_SetUserinfoWithUserID [runs]: "within (reaching S d0 k0) (SetUserinfoWithUserID S uid)"
  unfolding SetUserinfoWithUserID_def by (intro runs within_rules; auto?)

lemma within_SetUserinfoWithLoginName [runs]: "within (reaching S d0 k0) (SetUserinfoWithLoginName S ln)"
  unfolding SetUserinfoWithLoginName_def by (intro runs within_rules; auto?)

lemma within_listApplications [runs]: "within (reaching S d0 k0) (listApplications S)"
  unfolding listApplications_def by (intro runs within_rules; auto?)

lemma within_stringColumn [runs]: "within (reaching S d0 k0) (stringColumn S q)"
  unfolding stringColumn_def by (intro runs within_rules; auto?)

lemma within_oidc_integration [runs]: "within (reaching S d0 k0) (oidc_integration S aid)"
  unfolding oidc_integration_def by (intro runs within_rules; auto?)

lemma within_applicationIntegration [runs]: "within (reaching S d0 k0) (applicationIntegration S r)"
  unfolding applicationIntegration_def by (intro runs within_rules; auto?)

lemma within_register_client [runs]: "db_later S d0 v \<Longrightarrow> contains scopes ''openid'' \<Longrightarrow> \<forall>u \<in> set (in_redirects inp @ in_logouts inp). redirect_uri_ok (udata S) u \<Longrightarrow> within (reaching S d0 k0) (register_client S r p inp scopes cid secret v)"
  unfolding register_client_def by (intro runs within_rules; auto?)

lemma within_createApplication [runs]: "within (reaching S d0 k0) (createApplication S r body p)"
  unfolding createApplication_def by (intro runs within_rules; auto?)

lemma within_replace_client [runs]: "db_later S d0 v \<Longrightarrow> contains scopes ''openid'' \<Longrightarrow> \<forall>u \<in> set (in_redirects inp @ in_logouts inp). redirect_uri_ok (udata S) u \<Longrightarrow> within (reaching S d0 k0) (replace_client S r p inp scopes v)"
  unfolding replace_client_def by (intro runs within_rules; auto?)

lemma within_updateApplication [runs]: "within (reaching S d0 k0) (updateApplication S r body p)"
  unfolding updateApplication_def by (intro runs within_rules; auto?)

lemma within_rotateClientSecret [runs]: "within (reaching S d0 k0) (rotateClientSecret S r p)"
  unfolding rotateClientSecret_def by (intro runs within_rules; auto?)

lemma within_applicationAssignments [runs]: "within (reaching S d0 k0) (applicationAssignments S r)"
  unfolding applicationAssignments_def by (intro runs within_rules; auto?)

lemma within_assignment_changed [runs]: "within (reaching S d0 k0) (assignment_changed S r p)"
  unfolding assignment_changed_def by (intro runs within_rules; auto?)

lemma within_assignApplicationUser [runs]: "within (reaching S d0 k0) (assignApplicationUser S r body p)"
  unfolding assignApplicationUser_def by (intro runs within_rules; auto?)

lemma within_removeApplicationUser [runs]: "within (reaching S d0 k0) (removeApplicationUser S r p)"
  unfolding removeApplicationUser_def by (intro runs within_rules; auto?)

lemma within_assignApplicationGroup [runs]: "within (reaching S d0 k0) (assignApplicationGroup S r body p)"
  unfolding assignApplicationGroup_def by (intro runs within_rules; auto?)

lemma within_removeApplicationGroup [runs]: "within (reaching S d0 k0) (removeApplicationGroup S r p)"
  unfolding removeApplicationGroup_def by (intro runs within_rules; auto?)

section \<open>Branding and the portal\<close>

lemma within_publicLoginUI [runs]: "within (reaching S d0 k0) (publicLoginUI S)"
  unfolding publicLoginUI_def by (intro runs within_rules; auto?)

lemma within_adminLoginUI [runs]: "within (reaching S d0 k0) (adminLoginUI S)"
  unfolding adminLoginUI_def by (intro runs within_rules; auto?)

lemma within_updateLoginUI [runs]: "go_map_order reorder \<Longrightarrow> within (reaching S d0 k0) (updateLoginUI S reorder r body p)"
  unfolding updateLoginUI_def by (intro runs within_rules; auto?)

lemma within_resetLoginUI [runs]: "within (reaching S d0 k0) (resetLoginUI S r p)"
  unfolding resetLoginUI_def by (intro runs within_rules; auto?)

lemma within_myAccess [runs]: "within (reaching S d0 k0) (myAccess S p)"
  unfolding myAccess_def by (intro runs within_rules; auto?)

lemma within_myProfile [runs]: "within (reaching S d0 k0) (myProfile S p)"
  unfolding myProfile_def by (intro runs within_rules; auto?)

lemma within_updateMyProfile [runs]: "within (reaching S d0 k0) (updateMyProfile S r body p)"
  unfolding updateMyProfile_def by (intro runs within_rules; auto?)

lemma within_mySessions [runs]: "within (reaching S d0 k0) (mySessions S p)"
  unfolding mySessions_def by (intro runs within_rules; auto?)

lemma within_revokeMySession [runs]: "within (reaching S d0 k0) (revokeMySession S r p)"
  unfolding revokeMySession_def by (intro runs within_rules; auto?)

lemma within_myApplications [runs]: "within (reaching S d0 k0) (myApplications S p)"
  unfolding myApplications_def by (intro runs within_rules; auto?)

end
