(* ===== verification/Invariants.thy ===== *)
theory Invariants imports Statements Lifecycle begin

text \<open>
  What every history of the database keeps: the constraints of the schema, what the handlers have
  checked before they store it, and the rows that are never taken back. Each is a lemma about one
  statement, proved by cases of \<open>sql\<close>.
\<close>

lemmas user_statements = insert_user_def insert_credential_def assign_role_by_name_def mark_initialized_def
  count_failure_def clear_failures_def set_user_def unlock_user_def set_password_def force_change_def
  password_changed_def assign_role_if_new_def set_profile_def insert_assignment_def delete_assignment_def
lemmas session_statements = insert_session_def touch_session_def revoke_by_hash_def revoke_session_def revoke_live_def
  revoke_user_sessions_def mark_verified_def revoke_own_session_def
lemmas group_statements = insert_group_def set_group_def delete_group_def insert_membership_def delete_membership_def
lemmas mfa_statements = insert_recovery_def delete_recovery_def use_recovery_def upsert_totp_def activate_totp_def
  touch_totp_def delete_totp_def delete_webauthn_def delete_handle_def set_group_mfa_def set_application_mfa_def
  insert_handle_def insert_wa_credential_def credential_used_def delete_credential_def returning_def
lemmas application_statements = insert_application_def set_application_def insert_sp_def set_sp_def insert_client_def
  set_client_def set_secret_def insert_redirect_def insert_post_logout_def clear_redirects_def clear_post_logouts_def
  insert_user_assignment_def insert_group_assignment_def delete_user_assignment_def delete_group_assignment_def
lemmas protocol_statements = insert_saml_request_def complete_saml_request_def consume_saml_request_def
  insert_auth_request_def consume_auth_request_def upsert_consent_def insert_code_def consume_code_def
  insert_access_token_def insert_refresh_def consume_refresh_def revoke_family_def revoke_access_def
lemmas setting_statements = set_policy_def set_login_ui_def insert_audit_def
lemmas statement_defs = user_statements session_statements group_statements mfa_statements
  application_statements protocol_statements setting_statements


section \<open>What is stored has been checked\<close>

definition credentials_ok :: "server \<Rightarrow> db \<Rightarrow> bool" where
  "credentials_ok S d \<longleftrightarrow> (\<forall>c \<in> set (credentials d). is_password_record S (pc_hash c))"

definition branding_ok :: "server \<Rightarrow> db \<Rightarrow> bool" where
  "branding_ok S d \<longleftrightarrow> (\<forall>ui. login_ui d = Some ui \<longrightarrow> login_ui_ok (udata S) ui)"

definition uris_ok :: "server \<Rightarrow> db \<Rightarrow> bool" where
  "uris_ok S d \<longleftrightarrow> (\<forall>u \<in> set (redirect_uris d) \<union> set (post_logout_uris d). redirect_uri_ok (udata S) (snd u))"

definition clients_ok :: "db \<Rightarrow> bool" where
  "clients_ok d \<longleftrightarrow> (\<forall>c \<in> set (oauth_clients d). oc_require_pkce c \<and> contains (oc_scopes c) ''openid'')"

definition keeps :: "(db \<Rightarrow> bool) \<Rightarrow> statement \<Rightarrow> bool" where
  "keeps I c \<longleftrightarrow> (\<forall>now d. I d \<longrightarrow> (case c now d of None \<Rightarrow> True | Some (_, d') \<Rightarrow> I d'))"

lemma keepsI: "(\<And>now d. I d \<Longrightarrow> case c now d of None \<Rightarrow> True | Some (_, d') \<Rightarrow> I d') \<Longrightarrow> keeps I c"
  by (simp add: keeps_def)

lemma keepsD: "keeps I c \<Longrightarrow> c now d = Some (n, d') \<Longrightarrow> I d \<Longrightarrow> I d'"
  unfolding keeps_def by (metis case_prod_conv option.simps(5))

lemma credentials_step: "sql S c \<Longrightarrow> keeps (credentials_ok S) c"
  by (rule keepsI, erule sql.cases)
    (auto simp: credentials_ok_def statement_defs Let_def in_update_where split: option.split sum.split)

lemma policy_step: "sql S c \<Longrightarrow> keeps stored_policy_ok c"
  by (rule keepsI, erule sql.cases)
    (auto simp: stored_policy_ok_def statement_defs Let_def split: option.split sum.split)

lemma branding_step: "sql S c \<Longrightarrow> keeps (branding_ok S) c"
  by (rule keepsI, erule sql.cases)
    (auto simp: branding_ok_def statement_defs Let_def split: option.split sum.split)

lemma uris_step: "sql S c \<Longrightarrow> keeps (uris_ok S) c"
  by (rule keepsI, erule sql.cases)
    (auto simp: uris_ok_def statement_defs Let_def split: option.split sum.split)

lemma clients_step: "sql S c \<Longrightarrow> keeps clients_ok c"
  by (rule keepsI, erule sql.cases)
    (auto simp: clients_ok_def statement_defs Let_def in_update_where split: option.split sum.split)

section \<open>Keys and references of the schema\<close>

text \<open>Updates that leave a key alone, updates of no row, and those that give one row a new key.\<close>

lemma key_update [simp]: "\<forall>r. p r \<longrightarrow> k (f r) = k r \<Longrightarrow> map k (update_where p f rows) = map k rows"
  by (simp add: update_where_def)

lemma key_image_update [simp]: "\<forall>r. p r \<longrightarrow> k (f r) = k r \<Longrightarrow> k ` set (update_where p f rows) = k ` set rows"
  by (metis key_update list.set_map)

lemma bex_update [simp]:
  "\<forall>r. p r \<longrightarrow> k (f r) = k r \<Longrightarrow> (\<exists>r \<in> set (update_where p f rows). v = k r) \<longleftrightarrow> (\<exists>r \<in> set rows. v = k r)"
  unfolding image_iff [symmetric] by simp

lemma bex_delete [simp]:
  "(\<exists>r \<in> set (delete_where (\<lambda>r. k r = v) rows). w = k r) \<longleftrightarrow> w \<noteq> v \<and> (\<exists>r \<in> set rows. w = k r)"
  by auto

lemma update_where_never: "\<forall>r \<in> set rows. \<not> p r \<Longrightarrow> update_where p f rows = rows"
  by (simp add: update_where_def map_idI)

lemma distinct_map_delete [simp]: "distinct (map f xs) \<Longrightarrow> distinct (map f (delete_where p xs))"
  by (simp add: delete_where_def distinct_map_filter)

lemma distinct_delete [simp]: "distinct xs \<Longrightarrow> distinct (delete_where p xs)"
  by (simp add: delete_where_def)

lemma distinct_new_key:
  assumes "distinct (map i xs)" "distinct (map k xs)" "\<And>x. p x \<Longrightarrow> i x = a" "\<And>x. p x \<Longrightarrow> k (f x) = v"
    "\<And>x. x \<in> set xs \<Longrightarrow> \<not> p x \<Longrightarrow> k x \<noteq> v"
  shows "distinct (map k (update_where p f xs))"
  using assms
proof (induction xs)
  case (Cons x xs)
  have only: "\<not> p y" if "p x" "y \<in> set xs" for y
    using Cons.prems(1,3) that by (force simp: image_iff)
  have "update_where p f xs = xs" if "p x"
    using only [OF that] by (simp add: update_where_def map_idI)
  moreover have "k x \<notin> k ` set (update_where p f xs)" if "\<not> p x"
    using that Cons.prems(2,4,5) by (auto simp: in_update_where split: if_splits)
  ultimately show ?case
    using Cons by (cases "p x") (auto simp: update_where_def)
qed (simp add: update_where_def)


lemmas schema_simps = exists_where_iff Let_def image_iff image_subset_iff list_ex_iff filter_empty_conv update_where_never
  new_assignments_def both_exist_def

definition identity_ok :: "db \<Rightarrow> bool" where
  "identity_ok d \<longleftrightarrow> distinct (map u_id (users d))
     \<and> distinct (map u_username (users d))
     \<and> distinct (map u_email (users d))
     \<and> distinct (map pc_user (credentials d))
     \<and> pc_user ` set (credentials d) \<subseteq> u_id ` set (users d)
     \<and> fst ` set (role_assignments d) \<subseteq> u_id ` set (users d)
     \<and> snd ` set (role_assignments d) \<subseteq> ro_id ` set (roles d)"

lemma identity_step: "sql S c \<Longrightarrow> keeps identity_ok c"
proof (rule keepsI, erule sql.cases, simp_all add: identity_ok_def statement_defs schema_simps split: option.split sum.split)
qed (auto simp: schema_simps intro!: distinct_new_key [where i = u_id])

definition session_ok :: "db \<Rightarrow> bool" where
  "session_ok d \<longleftrightarrow> distinct (map se_id (sessions d))
     \<and> distinct (map se_hash (sessions d))
     \<and> se_user ` set (sessions d) \<subseteq> u_id ` set (users d)"

lemma session_step: "sql S c \<Longrightarrow> keeps session_ok c"
proof (rule keepsI, erule sql.cases, simp_all add: session_ok_def statement_defs schema_simps split: option.split sum.split)
qed (auto simp: schema_simps intro!: distinct_new_key [where i = u_id])

definition directory_ok :: "db \<Rightarrow> bool" where
  "directory_ok d \<longleftrightarrow> distinct (map g_id (groups d))
     \<and> distinct (map g_name (groups d))
     \<and> distinct (map (\<lambda>m. (gm_group m, gm_user m)) (memberships d))
     \<and> gm_group ` set (memberships d) \<subseteq> g_id ` set (groups d)
     \<and> gm_user ` set (memberships d) \<subseteq> u_id ` set (users d)"

lemma directory_step: "sql S c \<Longrightarrow> keeps directory_ok c"
proof (rule keepsI, erule sql.cases, simp_all add: directory_ok_def statement_defs schema_simps split: option.split sum.split)
qed (auto simp: schema_simps intro!: distinct_new_key [where i = g_id])

definition application_ok :: "db \<Rightarrow> bool" where
  "application_ok d \<longleftrightarrow> distinct (map a_id (applications d))
     \<and> distinct (map a_name (applications d))
     \<and> distinct (map oc_app (oauth_clients d))
     \<and> distinct (map oc_client_id (oauth_clients d))
     \<and> oc_app ` set (oauth_clients d) \<subseteq> a_id ` set (applications d)
     \<and> distinct (redirect_uris d)
     \<and> fst ` set (redirect_uris d) \<subseteq> a_id ` set (applications d)
     \<and> distinct (post_logout_uris d)
     \<and> fst ` set (post_logout_uris d) \<subseteq> a_id ` set (applications d)
     \<and> distinct (map sp_app (saml_sps d))
     \<and> distinct (map sp_entity (saml_sps d))
     \<and> sp_app ` set (saml_sps d) \<subseteq> a_id ` set (applications d)"

lemma application_step: "sql S c \<Longrightarrow> keeps application_ok c"
proof (rule keepsI, erule sql.cases, simp_all add: application_ok_def statement_defs schema_simps split: option.split sum.split)
qed (auto simp: schema_simps intro!: distinct_new_key [where i = a_id] distinct_new_key [where i = sp_app])

definition assignment_ok :: "db \<Rightarrow> bool" where
  "assignment_ok d \<longleftrightarrow> distinct (user_assignments d)
     \<and> fst ` set (user_assignments d) \<subseteq> a_id ` set (applications d)
     \<and> snd ` set (user_assignments d) \<subseteq> u_id ` set (users d)
     \<and> distinct (group_assignments d)
     \<and> fst ` set (group_assignments d) \<subseteq> a_id ` set (applications d)
     \<and> snd ` set (group_assignments d) \<subseteq> g_id ` set (groups d)"

lemma assignment_step: "sql S c \<Longrightarrow> keeps assignment_ok c"
proof (rule keepsI, erule sql.cases, simp_all add: assignment_ok_def statement_defs schema_simps split: option.split sum.split)
qed (auto simp: schema_simps intro!: distinct_new_key [where i = u_id])

definition token_ok :: "db \<Rightarrow> bool" where
  "token_ok d \<longleftrightarrow> distinct (map cd_id (auth_codes d))
     \<and> distinct (map cd_hash (auth_codes d))
     \<and> cd_app ` set (auth_codes d) \<subseteq> a_id ` set (applications d)
     \<and> cd_user ` set (auth_codes d) \<subseteq> u_id ` set (users d)
     \<and> distinct (map aq_id (auth_requests d))
     \<and> distinct (map aq_hash (auth_requests d))
     \<and> aq_app ` set (auth_requests d) \<subseteq> a_id ` set (applications d)
     \<and> aq_user ` set (auth_requests d) \<subseteq> u_id ` set (users d)
     \<and> distinct (map rt_id (refresh_tokens d))
     \<and> distinct (map rt_hash (refresh_tokens d))
     \<and> rt_app ` set (refresh_tokens d) \<subseteq> a_id ` set (applications d)
     \<and> rt_user ` set (refresh_tokens d) \<subseteq> u_id ` set (users d)
     \<and> distinct (map at_jti (access_tokens d))
     \<and> at_app ` set (access_tokens d) \<subseteq> a_id ` set (applications d)
     \<and> distinct (map (\<lambda>c. (co_user c, co_app c)) (consents d))
     \<and> co_user ` set (consents d) \<subseteq> u_id ` set (users d)
     \<and> co_app ` set (consents d) \<subseteq> a_id ` set (applications d)"

lemma token_step: "sql S c \<Longrightarrow> keeps token_ok c"
proof (rule keepsI, erule sql.cases, simp_all add: token_ok_def statement_defs schema_simps split: option.split sum.split)
qed (auto simp: schema_simps intro!: distinct_new_key [where i = u_id])

lemma upsert_policy_image: "fst ` set (upsert_policy k ps) = insert k (fst ` set ps)"
  by (auto simp: upsert_policy_def exists_where_iff image_iff)

lemma upsert_policy_keys [simp]:
  "distinct (map fst (upsert_policy k ps)) \<longleftrightarrow> distinct (map fst ps)"
  "(\<forall>x \<in> set (upsert_policy k ps). \<exists>y \<in> A. fst x = f y) \<longleftrightarrow> (\<exists>y \<in> A. k = f y) \<and> (\<forall>x \<in> set ps. \<exists>y \<in> A. fst x = f y)"
proof -
  have "(\<forall>x \<in> set xs. \<exists>y \<in> A. fst x = f y) \<longleftrightarrow> fst ` set xs \<subseteq> f ` A" for xs :: "(uuid \<times> bool) list"
    by auto
  then show "(\<forall>x \<in> set (upsert_policy k ps). \<exists>y \<in> A. fst x = f y) \<longleftrightarrow> (\<exists>y \<in> A. k = f y) \<and> (\<forall>x \<in> set ps. \<exists>y \<in> A. fst x = f y)"
    by (simp only: upsert_policy_image) auto
qed (auto simp: upsert_policy_def exists_where_iff)

definition factor_ok :: "db \<Rightarrow> bool" where
  "factor_ok d \<longleftrightarrow> distinct (map tp_user (totp_rows d))
     \<and> tp_user ` set (totp_rows d) \<subseteq> u_id ` set (users d)
     \<and> distinct (map (\<lambda>c. (rc_user c, rc_hash c)) (recovery_codes d))
     \<and> rc_user ` set (recovery_codes d) \<subseteq> u_id ` set (users d)
     \<and> distinct (map fst (wa_users d))
     \<and> distinct (map snd (wa_users d))
     \<and> fst ` set (wa_users d) \<subseteq> u_id ` set (users d)
     \<and> distinct (map wc_id (wa_credentials d))
     \<and> distinct (map wc_credential_id (wa_credentials d))
     \<and> wc_user ` set (wa_credentials d) \<subseteq> u_id ` set (users d)
     \<and> distinct (map fst (group_mfa_policies d))
     \<and> fst ` set (group_mfa_policies d) \<subseteq> g_id ` set (groups d)
     \<and> distinct (map fst (application_mfa_policies d))
     \<and> fst ` set (application_mfa_policies d) \<subseteq> a_id ` set (applications d)"

lemma factor_step: "sql S c \<Longrightarrow> keeps factor_ok c"
proof (rule keepsI, erule sql.cases, simp_all add: factor_ok_def statement_defs schema_simps split: option.split sum.split)
qed (auto simp: schema_simps in_update_where split: if_splits)

definition saml_ok :: "db \<Rightarrow> bool" where
  "saml_ok d \<longleftrightarrow> distinct (map sr_key (saml_requests d))
     \<and> distinct (map sr_saml_id (saml_requests d))
     \<and> sr_app ` set (saml_requests d) \<subseteq> a_id ` set (applications d)"

lemma saml_step: "sql S c \<Longrightarrow> keeps saml_ok c"
proof (rule keepsI, erule sql.cases, simp_all add: saml_ok_def statement_defs schema_simps split: option.split sum.split)
qed (auto simp: schema_simps intro!: distinct_new_key [where i = u_id])


section \<open>What is never taken back\<close>

definition session_le :: "session \<Rightarrow> session \<Rightarrow> bool" where
  "session_le s s' \<longleftrightarrow>
     s'\<lparr>se_last_seen := 0, se_revoked := None, se_mfa_verified := None\<rparr> = s\<lparr>se_last_seen := 0, se_revoked := None, se_mfa_verified := None\<rparr>
     \<and> (se_revoked s \<noteq> None \<longrightarrow> se_revoked s' = se_revoked s) \<and> (se_mfa_verified s \<noteq> None \<longrightarrow> se_mfa_verified s' \<noteq> None)"

definition user_le :: "user \<Rightarrow> user \<Rightarrow> bool" where
  "user_le u u' \<longleftrightarrow> u_id u' = u_id u \<and> u_username u' = u_username u \<and> u_created_at u' = u_created_at u"

definition application_le :: "application \<Rightarrow> application \<Rightarrow> bool" where
  "application_le a a' \<longleftrightarrow> a'\<lparr>a_name := [], a_enabled := True\<rparr> = a\<lparr>a_name := [], a_enabled := True\<rparr>"

definition client_le :: "oauth_client_row \<Rightarrow> oauth_client_row \<Rightarrow> bool" where
  "client_le c c' \<longleftrightarrow> c'\<lparr>oc_secret_hash := None, oc_scopes := [], oc_initiate := None\<rparr> = c\<lparr>oc_secret_hash := None, oc_scopes := [], oc_initiate := None\<rparr>"

text \<open>A SAML request is completed once, by one user, and consumed once.\<close>

definition saml_le :: "saml_request \<Rightarrow> saml_request \<Rightarrow> bool" where
  "saml_le q q' \<longleftrightarrow> q'\<lparr>sr_user := None, sr_completed := None, sr_consumed := None\<rparr> = q\<lparr>sr_user := None, sr_completed := None, sr_consumed := None\<rparr>
     \<and> (sr_completed q \<noteq> None \<longrightarrow> sr_completed q' = sr_completed q \<and> sr_user q' = sr_user q)
     \<and> (sr_consumed q \<noteq> None \<longrightarrow> sr_consumed q' = sr_consumed q)"

lemmas row_le_more_defs = session_le_def user_le_def application_le_def client_le_def saml_le_def

lemma row_le_more_refl [simp]: "session_le s s" "user_le u u" "application_le a a" "client_le c c" "saml_le q q"
  by (simp_all add: row_le_more_defs)

lemma row_le_more_trans:
  "session_le s1 s2 \<Longrightarrow> session_le s2 s3 \<Longrightarrow> session_le s1 s3"
  "user_le u1 u2 \<Longrightarrow> user_le u2 u3 \<Longrightarrow> user_le u1 u3"
  "application_le a1 a2 \<Longrightarrow> application_le a2 a3 \<Longrightarrow> application_le a1 a3"
  "client_le c1 c2 \<Longrightarrow> client_le c2 c3 \<Longrightarrow> client_le c1 c3"
  "saml_le q1 q2 \<Longrightarrow> saml_le q2 q3 \<Longrightarrow> saml_le q1 q3"
  by (auto simp: row_le_more_defs)

lemma evolves_rows [simp]:
  "\<forall>x. R x x \<Longrightarrow> evolves R xs xs"
  "\<forall>x. R x x \<Longrightarrow> evolves R xs (xs @ ys)"
  by (simp_all add: evolves_refl evolves_append)

lemma evolves_updated [simp]: "\<forall>x. R x x \<Longrightarrow> \<forall>x. q x \<longrightarrow> R x (f x) \<Longrightarrow> evolves R xs (update_where q f xs)"
  unfolding evolves_def by (rule exI [of _ "update_where q f xs"]) (simp add: update_where_def list_all2_map2 list.rel_refl)

definition rows_later :: "db \<Rightarrow> db \<Rightarrow> bool" where
  "rows_later d d' \<longleftrightarrow> evolves session_le (sessions d) (sessions d') \<and> evolves user_le (users d) (users d')
     \<and> evolves application_le (applications d) (applications d') \<and> evolves client_le (oauth_clients d) (oauth_clients d')
     \<and> evolves saml_le (saml_requests d) (saml_requests d')"

definition settings_later :: "db \<Rightarrow> db \<Rightarrow> bool" where
  "settings_later d d' \<longleftrightarrow> roles d' = roles d \<and> permissions d' = permissions d \<and> role_permissions d' = role_permissions d
     \<and> (system_state d' = None \<longleftrightarrow> system_state d = None) \<and> (system_state d = Some True \<longrightarrow> system_state d' = Some True)
     \<and> (security_policies d' = None \<longleftrightarrow> security_policies d = None) \<and> (login_ui d' = None \<longleftrightarrow> login_ui d = None)
     \<and> (\<exists>evs. audit_events d' = audit_events d @ evs)"

definition leads :: "(db \<Rightarrow> db \<Rightarrow> bool) \<Rightarrow> statement \<Rightarrow> bool" where
  "leads R c \<longleftrightarrow> (\<forall>now d. case c now d of None \<Rightarrow> True | Some (_, d') \<Rightarrow> R d d')"

lemma leadsI: "(\<And>now d. case c now d of None \<Rightarrow> True | Some (_, d') \<Rightarrow> R d d') \<Longrightarrow> leads R c"
  by (simp add: leads_def)

lemma leadsD: "leads R c \<Longrightarrow> c now d = Some (n, d') \<Longrightarrow> R d d'"
  unfolding leads_def by (metis case_prod_conv option.simps(5))

lemma tables_step: "sql S c \<Longrightarrow> leads tables_later c"
  by (rule leadsI, erule sql.cases)
    (simp_all add: tables_later_def statement_defs exists_where_iff Let_def split: option.split sum.split)

lemma rows_step: "sql S c \<Longrightarrow> leads rows_later c"
  by (rule leadsI, erule sql.cases)
    (simp_all add: rows_later_def row_le_more_defs session_live_def statement_defs exists_where_iff Let_def split: option.split sum.split)

lemma settings_step: "sql S c \<Longrightarrow> leads settings_later c"
  by (rule leadsI, erule sql.cases)
    (simp_all add: settings_later_def statement_defs exists_where_iff Let_def split: option.split sum.split)

section \<open>All of it\<close>

definition schema_ok :: "db \<Rightarrow> bool" where
  "schema_ok d \<longleftrightarrow> identity_ok d \<and> session_ok d \<and> directory_ok d \<and> application_ok d \<and> assignment_ok d \<and> token_ok d
     \<and> factor_ok d \<and> saml_ok d"

definition db_ok :: "server \<Rightarrow> db \<Rightarrow> bool" where
  "db_ok S d \<longleftrightarrow> schema_ok d \<and> credentials_ok S d \<and> stored_policy_ok d \<and> branding_ok S d \<and> uris_ok S d \<and> clients_ok d"

definition db_le :: "db \<Rightarrow> db \<Rightarrow> bool" where
  "db_le d d' \<longleftrightarrow> tables_later d d' \<and> rows_later d d' \<and> settings_later d d'"

lemmas keep_steps = identity_step session_step directory_step application_step assignment_step token_step factor_step
  saml_step credentials_step policy_step branding_step uris_step clients_step

lemma db_ok_step: "sql S c \<Longrightarrow> c now d = Some (n, d') \<Longrightarrow> db_ok S d \<Longrightarrow> db_ok S d'"
  unfolding db_ok_def schema_ok_def by (blast intro: keepsD keep_steps)

lemma db_later_ok: "db_later S d d' \<Longrightarrow> db_ok S d \<Longrightarrow> db_ok S d'"
  by (erule db_later_keeps) (auto intro: db_ok_step)

lemma db_le_refl: "db_le d d"
  by (auto simp: db_le_def rows_later_def settings_later_def)

lemma rows_later_trans: "rows_later d1 d2 \<Longrightarrow> rows_later d2 d3 \<Longrightarrow> rows_later d1 d3"
  unfolding rows_later_def by (intro conjI; elim conjE; erule (1) evolves_trans; blast intro: row_le_more_trans)

lemma db_le_trans: "db_le d1 d2 \<Longrightarrow> db_le d2 d3 \<Longrightarrow> db_le d1 d3"
  unfolding db_le_def by (auto intro: tables_later_trans rows_later_trans simp: settings_later_def)

lemma db_le_step: "sql S c \<Longrightarrow> c now d = Some (n, d') \<Longrightarrow> db_le d d'"
  unfolding db_le_def by (blast intro: leadsD tables_step rows_step settings_step)

lemma db_later_le: "db_later S d d' \<Longrightarrow> db_le d d'"
  by (rule db_later_relates [of S d d' db_le]) (auto intro: db_le_refl db_le_trans db_le_step)

end
