(* ===== verification/System.thy ===== *)
theory System imports Routing Handlers Invariants begin

text \<open>
  The running server: requests through the whole stack, the SAML library's calls of the storage, and
  the passing of time, in any order. What every statement keeps (theory Invariants) holds of every
  reachable state, because every step only runs statements (theory Handlers).
\<close>

section \<open>Steps\<close>

text \<open>
  What the SAML library does to the state: calls of the storage it was given, in any order and number.
\<close>

inductive storage_step :: "server \<Rightarrow> st \<Rightarrow> st \<Rightarrow> bool" for S where
  entity: "run_state (GetEntityByID S entity) s = (x, t) \<Longrightarrow> storage_step S s t"
| entity_id: "run_state (GetEntityIDByAppID S app) s = (y, t) \<Longrightarrow> storage_step S s t"
| request: "run_state (CreateAuthRequest S q acs binding_uri relay app) s = (z, t) \<Longrightarrow> storage_step S s t"
| response: "run_state (AuthRequestByID S reqkey) s = (w, t) \<Longrightarrow> storage_step S s t"
| user_info: "run_state (SetUserinfoWithUserID S uid) s = (v, t) \<Longrightarrow> storage_step S s t"
| login_info: "run_state (SetUserinfoWithLoginName S name) s = (u, t) \<Longrightarrow> storage_step S s t"
| signing_key: "run_state (saml_Active S) s = (k, t) \<Longrightarrow> storage_step S s t"

inductive storage_steps :: "server \<Rightarrow> st \<Rightarrow> st \<Rightarrow> bool" for S where
  no_call: "storage_steps S s s"
| calls: "storage_steps S s t \<Longrightarrow> storage_step S t u \<Longrightarrow> storage_steps S s u"

definition uses_storage :: "server \<Rightarrow> saml_library \<Rightarrow> bool" where
  "uses_storage S lib \<longleftrightarrow> (\<forall>path r s. storage_steps S s (final (lib_serve lib path r) s))
     \<and> (\<forall>s. storage_steps S s (final (lib_metadata lib) s))"

text \<open>A request through the whole stack, or time passing on the three clocks.\<close>

inductive sys_step :: "server \<Rightarrow> st \<Rightarrow> st \<Rightarrow> bool" for S where
  serve: "run_state (Handler S i r) s = (resp, t) \<Longrightarrow> go_map_order (map_order i) \<Longrightarrow>
     (\<forall>lib. in_saml i = Some lib \<longrightarrow> uses_storage S lib) \<Longrightarrow> sys_step S s t"
| time: "go_now s \<le> g \<Longrightarrow> pg_now s \<le> p \<Longrightarrow> redis_now s \<le> q \<Longrightarrow>
     sys_step S s (s\<lparr>go_now := g, pg_now := p, redis_now := q\<rparr>)"

inductive reachable :: "server \<Rightarrow> st \<Rightarrow> st \<Rightarrow> bool" for S where
  start: "reachable S s s"
| step: "reachable S s t \<Longrightarrow> sys_step S t u \<Longrightarrow> reachable S s u"

lemma reachable_trans: "reachable S t u \<Longrightarrow> reachable S s t \<Longrightarrow> reachable S s u"
  by (induction rule: reachable.induct) (auto intro: reachable.step)

section \<open>Every step only runs statements\<close>

fun endpoint_within :: "(st \<Rightarrow> bool) \<Rightarrow> endpoint \<Rightarrow> bool" where
  "endpoint_within J (Open h) = within J h"
| "endpoint_within J (Raw k) = (\<forall>p. within J (k p))"
| "endpoint_within J (SignedIn k) = (\<forall>p. within J (k p))"
| "endpoint_within J (Needs perm k) = (\<forall>p. within J (k p))"

lemma routes_within:
  "go_map_order (map_order i) \<Longrightarrow> list_all (\<lambda>(pat, e). \<forall>r. endpoint_within (reaching S d0 k0) (e r)) (routes S i)"
  by (simp add: routes_def runs)

lemma within_withPrincipalRaw:
  "(\<And>p. within (reaching S d0 k0) (k p)) \<Longrightarrow> within (reaching S d0 k0) (withPrincipalRaw S r k)"
  unfolding withPrincipalRaw_def by (intro within_rules)

lemma within_withPrincipal:
  "(\<And>p. within (reaching S d0 k0) (k p)) \<Longrightarrow> within (reaching S d0 k0) (withPrincipal S r k)"
  unfolding withPrincipal_def by (intro within_withPrincipalRaw runs within_rules)

lemma within_require:
  "(\<And>p. within (reaching S d0 k0) (k p)) \<Longrightarrow> within (reaching S d0 k0) (require S perm r k)"
  unfolding require_def by (intro within_withPrincipal runs within_rules)

lemma within_guarded: "endpoint_within (reaching S d0 k0) e \<Longrightarrow> within (reaching S d0 k0) (guarded S r e)"
  by (cases e) (auto intro: within_withPrincipalRaw within_withPrincipal within_require)

lemma within_run: "within J m \<Longrightarrow> run_state m s = (x, t) \<Longrightarrow> J s \<Longrightarrow> J t"
  by (drule (1) withinD) (simp add: wp_def)

lemma storage_reaching: "storage_steps S s t \<Longrightarrow> reaching S d0 k0 s \<Longrightarrow> reaching S d0 k0 t"
proof (induction rule: storage_steps.induct)
  case (calls s t u)
  from calls.hyps(2) show ?case
    by cases (erule within_run [rotated], use calls.IH calls.prems in \<open>auto intro: runs\<close>)+
qed

lemma within_library:
  assumes "uses_storage S lib"
  shows "within (reaching S d0 k0) (lib_serve lib path r)" "within (reaching S d0 k0) (lib_metadata lib)"
  using assms storage_reaching unfolding uses_storage_def within_def wp_result by blast+

lemma within_saml_handler: "uses_storage S lib \<Longrightarrow> within (reaching S d0 k0) (saml_handler S lib r)"
  unfolding saml_handler_def saml_metadata_def
  by (cases "saml_dispatch (lib_routed lib) r") (auto intro!: runs within_rules within_library)

lemma within_mux:
  assumes "go_map_order (map_order i)" "\<forall>lib. in_saml i = Some lib \<longrightarrow> uses_storage S lib"
  shows "within (reaching S d0 k0) (mux S i r)"
proof -
  have e: "endpoint_within (reaching S d0 k0) (e r')" if "(pat, e) \<in> set (routes S i)" for pat e r'
    using routes_within [OF assms(1), of S d0 k0] that by (fastforce simp: list_all_iff)
  show ?thesis
    unfolding mux_def Let_def
    by (intro within_flow within_guarded within_saml_handler) (use assms(2) in \<open>auto dest!: find_route_Some intro: e\<close>)
qed

lemma within_Handler:
  "go_map_order (map_order i) \<Longrightarrow> \<forall>lib. in_saml i = Some lib \<longrightarrow> uses_storage S lib \<Longrightarrow>
     within (reaching S d0 k0) (Handler S i r)"
  unfolding Handler_def middleware_def by (intro within_mux runs within_rules)

lemma step_reaching:
  assumes "sys_step S s t" and "reaching S d0 k0 s"
  shows "reaching S d0 k0 t"
  using assms(1)
proof cases
  case time
  then show ?thesis using assms(2) by (simp add: reaching_def)
qed (erule within_run [rotated], use assms in \<open>auto intro: within_Handler\<close>)

section \<open>What every reachable state satisfies\<close>

lemma reachable_reaching: "reachable S s t \<Longrightarrow> reaching S d0 k0 s \<Longrightarrow> reaching S d0 k0 t"
  by (induction rule: reachable.induct) (auto intro: step_reaching)

lemma reachable_later: "reachable S s t \<Longrightarrow> db_later S (main s) (main t) \<and> keys_later (keys s) (keys t)"
  using reachable_reaching [of S s t "main s" "keys s"] by (simp add: reaching_def db_later.db_refl keys_later.keys_refl)

lemma reachable_db: "reachable S s t \<Longrightarrow> db_le (main s) (main t)" "reachable S s t \<Longrightarrow> db_ok S (main s) \<Longrightarrow> db_ok S (main t)"
  using reachable_later db_later_le db_later_ok by blast+

lemma reachable_tokens: "reachable S s t \<Longrightarrow> tokens_later s t"
  using reachable_db(1) by (simp add: tokens_later_def db_le_def)

text \<open>
  The two key rings. A key that is retired never changes again, and until then only its retirement
  changes it.
\<close>

definition rings_ok :: "keydb \<Rightarrow> bool" where
  "rings_ok d \<longleftrightarrow> count_where sk_active (signing_keys d) \<le> 1 \<and> distinct (map sk_kid (signing_keys d))
     \<and> count_where sc_active (saml_certs d) \<le> 1 \<and> distinct (map sc_kid (saml_certs d))"

definition key_le :: "signing_key \<Rightarrow> signing_key \<Rightarrow> bool" where
  "key_le k k' \<longleftrightarrow> k'\<lparr>sk_active := False, sk_retired := None\<rparr> = k\<lparr>sk_active := False, sk_retired := None\<rparr>
     \<and> (\<not> sk_active k \<longrightarrow> k' = k)"

definition cert_le :: "saml_cert \<Rightarrow> saml_cert \<Rightarrow> bool" where
  "cert_le c c' \<longleftrightarrow> c'\<lparr>sc_active := False, sc_retired := None\<rparr> = c\<lparr>sc_active := False, sc_retired := None\<rparr>
     \<and> (\<not> sc_active c \<longrightarrow> c' = c)"

definition rings_later :: "keydb \<Rightarrow> keydb \<Rightarrow> bool" where
  "rings_later d d' \<longleftrightarrow> evolves key_le (signing_keys d) (signing_keys d') \<and> evolves cert_le (saml_certs d) (saml_certs d')"

lemma ring_le_refl [simp]: "key_le k k" "cert_le c c"
  by (simp_all add: key_le_def cert_le_def)

lemma ring_le_trans: "key_le k1 k2 \<Longrightarrow> key_le k2 k3 \<Longrightarrow> key_le k1 k3" "cert_le c1 c2 \<Longrightarrow> cert_le c2 c3 \<Longrightarrow> cert_le c1 c3"
  by (auto simp: key_le_def cert_le_def)

lemma retired_le: "sk_active k \<Longrightarrow> key_le k (retire_key now k)" "sc_active c \<Longrightarrow> cert_le c (retire_cert now c)"
  by (simp_all add: key_le_def cert_le_def retire_key_def retire_cert_def)

lemma evolves_rotation: "\<forall>x. R x x \<Longrightarrow> \<forall>x. p x \<longrightarrow> R x (f x) \<Longrightarrow> evolves R xs (update_where p f xs @ [new])"
  unfolding evolves_def by (rule exI [of _ "update_where p f xs"]) (simp add: update_where_def list_all2_map2 list.rel_refl)

lemma rings_later_refl: "rings_later d d"
  by (simp add: rings_later_def)

lemma rings_later_trans: "rings_later d1 d2 \<Longrightarrow> rings_later d2 d3 \<Longrightarrow> rings_later d1 d3"
  unfolding rings_later_def by (intro conjI; elim conjE; erule (1) evolves_trans; blast intro: ring_le_trans)

lemma keys_step_cases:
  assumes "keys_step d d'"
  obtains (key) now new where "d' = d\<lparr>signing_keys := update_where sk_active (retire_key now) (signing_keys d) @ [new]\<rparr>"
      "sk_active new" "sk_kid new \<notin> sk_kid ` set (signing_keys d)"
  | (cert) now new where "d' = d\<lparr>saml_certs := update_where sc_active (retire_cert now) (saml_certs d) @ [new]\<rparr>"
      "sc_active new" "sc_kid new \<notin> sc_kid ` set (saml_certs d)"
  using assms by (auto simp: keys_step_def ring_step_def cert_step_def)

lemma none_active: "filter p (update_where p f xs) = []" if "\<And>x. \<not> p (f x)"
  using that by (auto simp: update_where_def filter_empty_conv)

lemma keys_step_ok: "keys_step d d' \<Longrightarrow> rings_ok d \<Longrightarrow> rings_ok d'"
  by (erule keys_step_cases) (auto simp: rings_ok_def count_where_def none_active)

lemma keys_step_later: "keys_step d d' \<Longrightarrow> rings_later d d'"
  by (erule keys_step_cases) (simp_all add: rings_later_def evolves_rotation retired_le)

lemma keys_later_rings: "keys_later d d' \<Longrightarrow> rings_later d d' \<and> (rings_ok d \<longrightarrow> rings_ok d')"
  by (induction rule: keys_later.induct) (auto intro: rings_later_refl rings_later_trans keys_step_later keys_step_ok)

lemma reachable_rings: "reachable S s t \<Longrightarrow> rings_later (keys s) (keys t)" "reachable S s t \<Longrightarrow> rings_ok (keys s) \<Longrightarrow> rings_ok (keys t)"
  using reachable_later keys_later_rings by blast+

text \<open>A session that is revoked is nobody's any more.\<close>

lemma evolves_member:
  assumes "evolves R xs ys" "x \<in> set xs"
  shows "\<exists>y \<in> set ys. R x y"
proof -
  obtain us vs where ys: "ys = us @ vs" and "list_all2 R xs us" using assms(1) by (auto simp: evolves_def)
  from this(2) assms(2) have "\<exists>y \<in> set us. R x y" by (induction rule: list_all2_induct) auto
  then show ?thesis by (auto simp: ys)
qed

lemma session_le_same: "session_le se se' \<Longrightarrow> se_revoked se \<noteq> None \<Longrightarrow> se_hash se' = se_hash se \<and> se_revoked se' = se_revoked se"
  unfolding session_le_def by (auto dest: arg_cong [where f = se_hash])

lemma revoked_for_good:
  assumes "reachable S s t" "db_ok S (main s)" "se \<in> set (sessions (main s))" "se_revoked se \<noteq> None"
    and "cookie r ''opensso_session'' = Some c" "se_hash se = SHA256String c"
  shows "\<not> acts_as r now (main t) p"
proof
  assume "acts_as r now (main t) p"
  then obtain se' where se': "se' \<in> set (sessions (main t))" "se_hash se' = se_hash se" "se_revoked se' = None"
    using assms(5,6) by (auto simp: acts_as_def)
  have "evolves session_le (sessions (main s)) (sessions (main t))"
    using reachable_db(1) [OF assms(1)] by (simp add: db_le_def rows_later_def)
  from evolves_member [OF this assms(3)] obtain se2 where se2: "se2 \<in> set (sessions (main t))" "session_le se se2" by blast
  have same: "se_hash se2 = se_hash se" "se_revoked se2 = se_revoked se"
    using session_le_same [OF se2(2) assms(4)] by auto
  have "distinct (map se_hash (sessions (main t)))"
    using reachable_db(2) [OF assms(1,2)] by (simp add: db_ok_def schema_ok_def session_ok_def)
  then have "inj_on se_hash (set (sessions (main t)))" by (simp add: distinct_map)
  from inj_onD [OF this _ se2(1) se'(1)] have "se2 = se'" using se'(2) same(1) by simp
  with se'(3) same(2) assms(4) show False by simp
qed

end
