(* ===== verification/Demo.thy ===== *)
theory Demo imports Grants Authorization begin

text \<open>
  A concrete server, database and requests, on which the properties of this development are
  evaluated. The parameters are instantiated by small functions that satisfy the documented
  contracts: the authenticated encryption stores the associated data in front of the plaintext,
  the signed tokens are known strings, the random bytes repeat one character.
\<close>

section \<open>The surroundings\<close>

fun toy_seal :: "string \<Rightarrow> string \<Rightarrow> string" where
  "toy_seal [] p = CHR ''.'' # p"
| "toy_seal (c # a) p = CHR ''+'' # c # toy_seal a p"

fun toy_open :: "string \<Rightarrow> string \<Rightarrow> string option" where
  "toy_open [] (x # p) = (if x = CHR ''.'' then Some p else None)"
| "toy_open (c # a) (x # y # p) = (if x = CHR ''+'' \<and> y = c then toy_open a p else None)"
| "toy_open a p = None"

lemma toy_open_seal: "toy_open a' (toy_seal a p) = (if a' = a then Some p else None)"
proof (induction a arbitrary: a')
  case Nil
  then show ?case by (cases a') (auto split: list.split, cases p, auto)
next
  case (Cons c a)
  then show ?case by (cases a') auto
qed

lemma toy_seal_nonempty: "toy_seal a p \<noteq> []"
  by (cases a) simp_all

definition demo_claims :: jwt_claims where
  "demo_claims = \<lparr>jc_iss = ''https://sso'', jc_sub = ''u1'', jc_aud = [''client''], jc_exp = Some 9999,
     jc_iat = Some 6000, jc_jti = ''jti'', jc_scope = ''openid'', jc_token_use = ''access'', jc_nonce = [],
     jc_name = [], jc_preferred_username = [], jc_email = [], jc_email_verified = None, jc_groups = []\<rparr>"

definition demo_ucd :: ucd where
  "demo_ucd = \<lparr>uc_upper = (\<lambda>_. False), uc_lower = (\<lambda>_. False), uc_digit = (\<lambda>_. False),
     uc_punct_or_symbol = (\<lambda>_. False), uc_to_upper = (\<lambda>r. r), uc_to_lower = (\<lambda>r. r), uc_fold = (\<lambda>r. r)\<rparr>"

definition demo_with :: "(nat \<Rightarrow> nat \<Rightarrow> string option) \<Rightarrow> server" where
  "demo_with rnd = \<lparr>ListenAddr = '':8080'', PublicURL = ''https://sso'', DatabaseURL = ''postgres'', RedisURL = ''redis'',
     CookieSecure = True, TrustProxyHeaders = False, SessionTTL = minutes 480, BootstrapToken = ''bootstrap-token'',
     MasterKey = replicate 32 CHR ''k'',
     fault = (\<lambda>_. False), cut = (\<lambda>_. None), rand_read = rnd,
     gen_random_uuid = (\<lambda>n. CHR ''n'' # replicate n CHR ''u''), to_uuid = Some, pg_lower = (\<lambda>s. s), inet_text = (\<lambda>ip. ip @ ''/32''), audit_serial = int, udata = demo_ucd,
     argon2_key = (\<lambda>pw salt t m p n. take n (pw @ replicate n CHR ''a'')),
     jwt_sign = (\<lambda>key kid claims. Some (''jwt'')), jwt_header = (\<lambda>raw. if raw = ''jwt'' then Some (''RS256'', ''kid'') else None),
     jwt_check = (\<lambda>key raw now iss. if raw = ''jwt'' then Some demo_claims else None),
     rsa_generate = (\<lambda>n. Some ''rsa''), rsa_public = (\<lambda>key. (77, 65537)),
     pkcs8_marshal = Some, pkcs8_parse = Some,
     gcm_seal = (\<lambda>k n p a. toy_seal a p), gcm_open = (\<lambda>k n c a. toy_open a c),
     collate = (\<lambda>a b. True), error_text = (\<lambda>e. e),
     totp_generate = (\<lambda>n name. Some (''secret'', ''otpauth'')), totp_image = Some,
     totp_validate = (\<lambda>code secret now. Some (code = ''123456'')),
     wa_begin_registration = (\<lambda>n a rk. Some (''options'', ''session'')),
     wa_finish_registration = (\<lambda>a session resp. Some \<lparr>wk_id = ''cred'', wk_json = ''json'', wk_rk = Some True\<rparr>),
     wa_begin_login = (\<lambda>n a. Some (''options'', ''session'')),
     wa_finish_login = (\<lambda>a session resp. Some \<lparr>wk_id = ''cred'', wk_json = ''json'', wk_rk = None\<rparr>),
     wa_unmarshal = (\<lambda>j. Some \<lparr>wk_id = ''cred'', wk_json = j, wk_rk = None\<rparr>),
     x509_create = (\<lambda>key serial from to. Some ''der''), rand_int = Some,
     saml_parse = (\<lambda>xml. Some \<lparr>md_entity = ''sp'', md_sp = Some [(''binding'', ''https://sp/acs'')]\<rparr>),
     saml_provider_ok = (\<lambda>u. True), post_binding = ''binding''\<rparr>"

lemma demo_simps [simp]:
  "fault (demo_with rnd) n = False" "cut (demo_with rnd) n = None" "rand_read (demo_with rnd) = rnd"
  "gen_random_uuid (demo_with rnd) n = CHR ''n'' # replicate n CHR ''u''" "to_uuid (demo_with rnd) x = Some x" "pg_lower (demo_with rnd) x = x"
  "jwt_sign (demo_with rnd) key kid claims = Some ''jwt''"
  "jwt_header (demo_with rnd) raw = (if raw = ''jwt'' then Some (''RS256'', ''kid'') else None)"
  "jwt_check (demo_with rnd) pk raw now iss = (if raw = ''jwt'' then Some demo_claims else None)"
  "rsa_generate (demo_with rnd) n = Some ''rsa''" "pkcs8_marshal (demo_with rnd) key = Some key" "pkcs8_parse (demo_with rnd) key = Some key"
  "gcm_seal (demo_with rnd) k nonce p a = toy_seal a p" "gcm_open (demo_with rnd) k nonce p a = toy_open a p"
  "MasterKey (demo_with rnd) = replicate 32 CHR ''k''" "udata (demo_with rnd) = demo_ucd" "PublicURL (demo_with rnd) = ''https://sso''"
  "CookieSecure (demo_with rnd) = True" "totp_validate (demo_with rnd) code secret now = Some (code = ''123456'')"
  "BootstrapToken (demo_with rnd) = ''bootstrap-token''" "collate (demo_with rnd) = (\<lambda>a b. True)" "rsa_public (demo_with rnd) key = (77, 65537)"
  "argon2_key (demo_with rnd) pw salt t m par n = take n (pw @ replicate n CHR ''a'')"
  by (simp_all add: demo_with_def)

abbreviation demo :: server where
  "demo \<equiv> demo_with (\<lambda>i n. Some (replicate n CHR ''r''))"

lemma demo_aead: "aead_sound demo"
  by (simp add: aead_sound_def toy_open_seal toy_seal_nonempty)

lemma demo_pkcs8: "pkcs8_sound demo"
  by (simp add: pkcs8_sound_def)

lemma demo_argon2: "argon2_length demo"
  by (auto simp: argon2_length_def)

section \<open>The database\<close>

definition demo_verifier :: string where
  "demo_verifier = ''vvvvvvvvvvvvvvvvvvvvvvvvvvvvvvvvvvvvvvvvvvv''"

definition demo_challenge :: string where
  "demo_challenge = base64_encode True (sha256_string demo_verifier)"

definition alice :: user where
  "alice = \<lparr>u_id = ''u1'', u_username = ''alice'', u_email = ''alice@example.com'', u_display_name = ''Alice'',
     u_active = True, u_failed_logins = 0, u_locked_until = None, u_must_change = False, u_created_at = 0,
     u_updated_at = 0\<rparr>"

definition alice_session :: session where
  "alice_session = \<lparr>se_id = ''s1'', se_user = ''u1'', se_hash = SHA256String ''cookie'', se_ip = None, se_agent = [],
     se_created_at = 0, se_last_seen = 0, se_expires = minutes 480, se_revoked = None, se_mfa_verified = None\<rparr>"

definition demo_policy :: securityPolicy where
  "demo_policy = \<lparr>PasswordMinLength = 12, PasswordRequireUpper = True, PasswordRequireLower = True,
     PasswordRequireDigit = True, PasswordRequireSymbol = False, LockoutThreshold = 5, LockoutMinutes = 15,
     SessionTTLMinutes = 480, MFARequired = False\<rparr>"

definition demo_client_row :: oauth_client_row where
  "demo_client_row = \<lparr>oc_app = ''a1'', oc_client_id = ''client'', oc_secret_hash = Some (SHA256String ''secret''),
     oc_public = False, oc_require_pkce = True, oc_scopes = [''openid'', ''profile''], oc_access_ttl = 300,
     oc_id_ttl = 300, oc_refresh_ttl = 86400, oc_initiate = None\<rparr>"

definition demo_app :: application where
  "demo_app = \<lparr>a_id = ''a1'', a_name = ''App'', a_protocol = ''oidc'', a_enabled = True, a_created_at = 0\<rparr>"

definition demo_code :: auth_code where
  "demo_code = \<lparr>cd_id = ''k1'', cd_hash = SHA256String ''code'', cd_app = ''a1'', cd_user = ''u1'',
     cd_redirect = ''https://app/cb'', cd_scope = ''openid'', cd_nonce = ''n'', cd_challenge = demo_challenge,
     cd_expires = minutes 102, cd_consumed = None\<rparr>"

definition demo_request :: auth_request where
  "demo_request = \<lparr>aq_id = ''q1'', aq_hash = SHA256String ''token'', aq_app = ''a1'', aq_user = ''u1'',
     aq_redirect = ''https://app/cb'', aq_state = ''st'', aq_nonce = ''n'', aq_scope = ''openid'',
     aq_challenge = demo_challenge, aq_expires = minutes 105, aq_consumed = None\<rparr>"

definition demo_consent :: consent where
  "demo_consent = \<lparr>co_user = ''u1'', co_app = ''a1'', co_scopes = [''openid''], co_granted_at = 0, co_updated_at = 0\<rparr>"

definition demo_access :: access_token where
  "demo_access = \<lparr>at_jti = ''jti'', at_app = ''a1'', at_user = Some ''u1'', at_subject = ''u1'', at_scope = ''openid'',
     at_issued = 0, at_expires = minutes 105, at_revoked = None\<rparr>"

definition demo_refresh :: refresh_token where
  "demo_refresh = \<lparr>rt_id = ''r1'', rt_hash = SHA256String ''refresh'', rt_family = ''f1'', rt_parent = None,
     rt_app = ''a1'', rt_user = ''u1'', rt_scope = ''openid'', rt_issued = 0, rt_expires = minutes 1000,
     rt_consumed = None, rt_revoked = None\<rparr>"

definition demo_password :: string where
  "demo_password = ''Correct-Horse-1''"

definition demo_db :: db where
  "demo_db = \<lparr>system_state = Some True, users = [alice],
     credentials = [\<lparr>pc_user = ''u1'', pc_hash = password_record ''salt''
       (argon2_key demo demo_password ''salt'' 3 65536 2 32), pc_changed_at = 0\<rparr>],
     roles = [\<lparr>ro_id = ''ro1'', ro_name = ''Admin'', ro_description = []\<rparr>],
     permissions = [\<lparr>pe_id = ''p1'', pe_name = ''users.read''\<rparr>], role_permissions = [(''ro1'', ''p1'')],
     role_assignments = [(''u1'', ''ro1'')], groups = [], memberships = [], applications = [demo_app],
     oauth_clients = [demo_client_row], redirect_uris = [(''a1'', ''https://app/cb'')], post_logout_uris = [],
     user_assignments = [], group_assignments = [], sessions = [alice_session], security_policies = Some demo_policy,
     audit_events = [], consents = [demo_consent], auth_requests = [], auth_codes = [], refresh_tokens = [],
     access_tokens = [], totp_rows = [], recovery_codes = [], wa_users = [], wa_credentials = [],
     group_mfa_policies = [], application_mfa_policies = [], saml_sps = [], saml_requests = [], login_ui = None\<rparr>"

definition demo_keys :: keydb where
  "demo_keys = \<lparr>signing_keys = [\<lparr>sk_kid = ''kid'', sk_encrypted = replicate 12 CHR ''n'' @ toy_seal ''kid'' ''rsa'',
     sk_jwk = jwkFromPublicKey ''kid'' (77, 65537), sk_active = True, sk_created_at = 0, sk_retired = None\<rparr>],
     saml_certs = []\<rparr>"

definition demo_st :: st where
  "demo_st = \<lparr>main = demo_db, keys = demo_keys, redis = \<lparr>counters = (\<lambda>_. None), blobs = (\<lambda>_. None)\<rparr>,
     go_now = minutes 100, pg_now = minutes 100, redis_now = minutes 100, ios = 0, draws = 0, uuids = 0\<rparr>"

lemmas demo_rows = alice_def alice_session_def demo_policy_def demo_client_row_def demo_app_def demo_code_def
  demo_request_def demo_consent_def demo_access_def demo_refresh_def

lemma demo_st_simps [simp]:
  "main demo_st = demo_db" "keys demo_st = demo_keys" "go_now demo_st = minutes 100" "pg_now demo_st = minutes 100"
  "redis_now demo_st = minutes 100" "ios demo_st = 0" "draws demo_st = 0" "uuids demo_st = 0"
  "redis demo_st = \<lparr>counters = (\<lambda>_. None), blobs = (\<lambda>_. None)\<rparr>"
  by (simp_all add: demo_st_def)

section \<open>Requests\<close>

definition demo_http :: request where
  "demo_http = \<lparr>rq_method = ''GET'', rq_path = ''/'', rq_host = ''sso'', rq_remote = ''10.0.0.1:1234'', rq_uri = ''/'',
     rq_headers = [], rq_cookies = [(''opensso_session'', ''cookie''), (''opensso_csrf'', ''csrf'')],
     rq_query = [], rq_form = [], rq_form_ok = True, rq_basic = Some (''client'', ''secret''), rq_pathvals = [],
     rq_id = ''req''\<rparr>"

definition with_form :: "(string \<times> string) list \<Rightarrow> request" where
  "with_form kvs = demo_http\<lparr>rq_form := kvs\<rparr>"

definition with_query :: "(string \<times> string) list \<Rightarrow> request" where
  "with_query kvs = demo_http\<lparr>rq_query := kvs\<rparr>"

lemma demo_request_simps [simp]:
  "rq_form (with_form kvs) = kvs" "rq_query (with_query kvs) = kvs" "rq_form_ok (with_form kvs)" "rq_basic (with_form kvs) = Some (''client'', ''secret'')"
  "rq_cookies (with_form kvs) = [(''opensso_session'', ''cookie''), (''opensso_csrf'', ''csrf'')]"
  "rq_cookies (with_query kvs) = [(''opensso_session'', ''cookie''), (''opensso_csrf'', ''csrf'')]"
  "rq_headers (with_form kvs) = []" "rq_headers (with_query kvs) = []"
  by (simp_all add: with_form_def with_query_def demo_http_def)

definition demo_client :: oauthClient where
  "demo_client = client_of (demo_client_row, demo_app)"

text \<open>The same world with more rows in it.\<close>

definition with_db :: "(db \<Rightarrow> db) \<Rightarrow> st" where
  "with_db f = demo_st\<lparr>main := f demo_db\<rparr>"

lemma with_db_simps [simp]:
  "main (with_db f) = f demo_db" "keys (with_db f) = demo_keys" "go_now (with_db f) = minutes 100"
  "pg_now (with_db f) = minutes 100" "redis_now (with_db f) = minutes 100" "ios (with_db f) = 0"
  "redis (with_db f) = \<lparr>counters = (\<lambda>_. None), blobs = (\<lambda>_. None)\<rparr>"
  "draws (with_db f) = 0" "uuids (with_db f) = 0"
  by (simp_all add: with_db_def)

section \<open>What the shared operations return there\<close>

lemma demo_pkce: "validPKCEVerifier demo_verifier" "verifyPKCE demo_verifier demo_challenge"
  by (simp_all add: validPKCEVerifier_def verifyPKCE_def demo_challenge_def demo_verifier_def
      runes_def pkce_rune_ok_def)

lemma demo_allow:
  "counters (redis s) = (\<lambda>_. None) \<Longrightarrow> 1 \<le> limit \<Longrightarrow> result (allowOAuthRequest (demo_with rnd) bucket k limit ttl) s = True"
  unfolding limiters_hit
  by (rule wp_resultD) (simp add: wp_hit incr_counter_def live_counter_def)

lemma demo_authenticate:
  "oauth_clients (main s) = [demo_client_row] \<Longrightarrow> applications (main s) = [demo_app] \<Longrightarrow>
     result (authenticateOAuthClient (demo_with rnd) (with_form kvs)) s = Inr demo_client"
  by (rule wp_resultD) (simp add: wp authenticateOAuthClient_def client_credentials_def loadOAuthClient_def
      client_row_def demo_rows client_admitted_def demo_client_def client_of_def)

lemma demo_decrypt: "decryptPrivateKey (demo_with rnd) ''kid'' (replicate 12 CHR ''n'' @ toy_seal ''kid'' ''rsa'') = Some ''rsa''"
  by (simp add: decryptPrivateKey_def aes_key_ok_def)

lemma demo_active:
  "keys s = demo_keys \<Longrightarrow> wp (Active (demo_with rnd)) Q s = Q (Inr \<lparr>Kid = ''kid'', PrivateKey = ''rsa''\<rparr>) (tick s)"
  by (simp add: wp Active_def active_key_def demo_keys_def demo_decrypt [simplified] del: wp_Active)

lemma demo_form [simp]: "get_first ((k, v) # kvs) k' = (if k' = k then v else get_first kvs k')" "get_first [] k' = []"
  by (simp_all add: get_first_def)

lemma demo_openid: "scopes_or_nil ''openid'' = [''openid'']"
  by (simp add: scopes_or_nil_def splitScope_def strings_Fields_def isSpace_def runes_def scope_rune_ok_def)

lemmas demo_eval = demo_rows demo_db_def Let_def exists_where_def update_where_def count_where_def demo_client_def
  client_of_def demo_openid demo_pkce

lemmas demo_issue = issueUserTokens_def issueAccessToken_def insert_access_token_def add_id_token_def
  signIDToken_def add_refresh_token_def insert_refresh_def

end
