(* ===== verification/Demo_Run.thy ===== *)
theory Demo_Run imports System Demo begin

text \<open>
  The demonstration server of theory Demo in motion: its database satisfies the invariants, and
  requests lead from it to reachable states.
\<close>

lemma demo_db_ok: "db_ok demo demo_db"
  unfolding db_ok_def
proof (intro conjI)
  show "schema_ok demo_db"
    by (simp add: schema_ok_def identity_ok_def session_ok_def directory_ok_def application_ok_def assignment_ok_def
        token_ok_def factor_ok_def saml_ok_def demo_db_def demo_rows)
  show "credentials_ok demo demo_db"
    using is_password_recordI [of demo "''salt''" demo_password]
    by (simp add: credentials_ok_def demo_db_def argonIterations_def argonMemory_def argonParallelism_def argonKeyLen_def)
  show "stored_policy_ok demo_db"
    by (simp add: stored_policy_ok_def policy_ok_def policy_values_invalid_def demo_db_def demo_policy_def)
  show "branding_ok demo demo_db" by (simp add: branding_ok_def demo_db_def)
  show "clients_ok demo_db" by (simp add: clients_ok_def demo_db_def demo_client_row_def)
  have "redirect_uri_ok demo_ucd ''https://app/cb''" by code_simp
  then show "uris_ok demo demo_db" by (simp add: uris_ok_def demo_db_def)
qed

lemma demo_rings_ok: "rings_ok demo_keys"
  by (simp add: rings_ok_def demo_keys_def count_where_def)

definition demo_inputs :: inputs where
  "demo_inputs = \<lparr>in_bootstrap = None, in_login = Some (''alice'', demo_password), in_factor = None, in_code = None,
     in_kind = None, in_profile = None, in_passwords = None, in_user = None, in_user_change = None, in_password = None,
     in_group = None, in_user_id = None, in_group_id = None, in_role_id = None, in_required = None,
     in_application = None, in_policy = None, in_login_ui = None, in_saml_new = None, in_saml_change = None,
     in_saml_request = None, raw_body = [], in_saml = None, map_order = rev\<rparr>"

text \<open>A request to log out, with the cookies and the CSRF token of the browser.\<close>

definition logout_request :: request where
  "logout_request = demo_http\<lparr>rq_method := ''POST'', rq_path := ''/api/v1/auth/logout'',
     rq_headers := [(''X-Csrf-Token'', ''csrf'')]\<rparr>"

definition served :: "request \<Rightarrow> st \<Rightarrow> st" where
  "served r s = final (Handler demo demo_inputs r) s"

lemma served_reachable: "reachable demo s (served r s)"
proof (rule reachable.step [OF reachable.start], rule sys_step.serve)
  show "run_state (Handler demo demo_inputs r) s = (result (Handler demo demo_inputs r) s, served r s)"
    by (simp add: served_def result_def final_def)
qed (simp_all add: demo_inputs_def go_map_order_def)

end
