(* ===== verification/Gates.thy ===== *)
theory Gates imports Routing Invariants begin

text \<open>
  What stands between a request and a handler, for the whole stack: the host check, the CSRF
  check, the routing table and the gate of the route.
\<close>

section \<open>Paths\<close>

lemma strings_Join_Cons [simp]: "strings_Join ((c # w) # ws) sep = c # strings_Join (w # ws) sep"
  by (cases ws) simp_all

lemma join_split: "strings_Join (split_byte d s) [d] = s"
  by (induction s) (auto split: list.splits)

lemma match_literal: "list_all (\<lambda>p. \<not> wildcard p) ps \<Longrightarrow> match_segments ps xs \<noteq> None \<Longrightarrow> xs = ps"
  by (induction ps xs rule: match_segments.induct) (auto split: if_splits)

lemma match_literal_path:
  assumes "match_path pat r \<noteq> None" "list_all (\<lambda>p. \<not> wildcard p) (pattern_segments pat)"
  shows "rq_path r = strings_Join (pattern_segments pat) ''/''"
proof -
  have "split_byte CHR ''/'' (rq_path r) = pattern_segments pat"
    using match_literal [OF assms(2)] assms(1) by (simp add: match_path_def)
  then show ?thesis using join_split [of "CHR ''/''" "rq_path r"] by simp
qed

section \<open>Routes\<close>

fun is_open :: "endpoint \<Rightarrow> bool" where
  "is_open (Open h) = True"
| "is_open e = False"

definition open_patterns :: "string list" where
  "open_patterns = [''GET /health/live'', ''GET /health/ready'', ''GET /.well-known/openid-configuration'',
     ''GET /.well-known/oauth-authorization-server'', ''GET /.well-known/jwks.json'', ''GET /oauth2/authorize'',
     ''POST /oauth2/authorize/consent'', ''POST /oauth2/token'', ''POST /oauth2/revoke'', ''POST /oauth2/introspect'',
     ''GET /userinfo'', ''GET /oauth2/logout'', ''POST /oauth2/logout'', ''GET /api/v1/setup/status'',
     ''GET /api/v1/public/login-ui'', ''POST /api/v1/setup/bootstrap'', ''POST /api/v1/auth/login'']"

definition public_api :: "string list" where
  "public_api = [''/api/v1/setup/status'', ''/api/v1/public/login-ui'', ''/api/v1/setup/bootstrap'', ''/api/v1/auth/login'']"

lemma open_routes: "list_all (\<lambda>(pat, e). (\<forall>r. \<not> is_open (e r)) \<or> pat \<in> set open_patterns) (routes S i)"
  by (simp add: routes_def open_patterns_def)

lemma open_paths:
  "list_all (\<lambda>pat. list_all (\<lambda>p. \<not> wildcard p) (pattern_segments pat)
     \<and> (hasPrefix (strings_Join (pattern_segments pat) ''/'') ''/api/v1/''
          \<longrightarrow> strings_Join (pattern_segments pat) ''/'' \<in> set public_api)) open_patterns"
  by code_simp

lemma open_route_public:
  assumes "find_route (routes S i) r = Some (vals, e)" "is_open (e r')" "hasPrefix (rq_path r) ''/api/v1/''"
  shows "rq_path r \<in> set public_api"
proof -
  obtain pat where pat: "(pat, e) \<in> set (routes S i)" "match_route pat r = Some vals"
    using find_route_Some [OF assms(1)] by blast
  then have "pat \<in> set open_patterns" using open_routes [of S i] assms(2) by (fastforce simp: list_all_iff)
  with open_paths have "list_all (\<lambda>p. \<not> wildcard p) (pattern_segments pat)"
    "hasPrefix (strings_Join (pattern_segments pat) ''/'') ''/api/v1/'' \<longrightarrow> strings_Join (pattern_segments pat) ''/'' \<in> set public_api"
    by (auto simp: list_all_iff)
  moreover have "match_path pat r \<noteq> None" using pat(2) by (auto simp: match_route_def split: if_splits)
  ultimately show ?thesis using match_literal_path assms(3) by metis
qed

lemma find_route_unique:
  assumes "(pat, e) \<in> set (routes S i)" "match_route pat r = Some vals"
  shows "find_route (routes S i) r = Some (vals, e)"
proof (cases "find_route (routes S i) r")
  case None
  with assms show ?thesis by (auto simp: find_route_None)
next
  case (Some ve)
  obtain vals' e' where ve: "ve = (vals', e')" by (cases ve)
  obtain pat' where pat': "(pat', e') \<in> set (routes S i)" "match_route pat' r = Some vals'"
    using find_route_Some Some ve by metis
  obtain j k where j: "j < length (routes S i)" "routes S i ! j = (pat, e)"
    and k: "k < length (routes S i)" "routes S i ! k = (pat', e')"
    using assms(1) pat'(1) by (metis in_set_conv_nth)
  have "length patterns = length (routes S i)" "patterns ! j = pat" "patterns ! k = pat'"
    using j k routes_patterns [of S i] by (metis length_map, metis nth_map fst_conv, metis nth_map fst_conv)
  then have "j = k" using match_unique_index [of j k r] assms(2) pat'(2) j(1) k(1) by simp
  with j(2) k(2) assms(2) pat'(2) show ?thesis using Some ve by simp
qed

section \<open>Without a session\<close>

definition anonymous :: "request \<Rightarrow> st \<Rightarrow> bool" where
  "anonymous r s \<longleftrightarrow> (\<forall>p. \<not> acts_as r (pg_now s) (main s) p)"

lemma withPrincipalRaw_anonymous:
  assumes "anonymous r s"
  shows "wp (withPrincipalRaw S r k) (\<lambda>resp t. refusal resp \<and> main t = main s \<and> keys t = keys s) s"
proof (cases "cookie r ''opensso_session''")
  case None
  then show ?thesis by (simp add: withPrincipalRaw_def wp)
next
  case (Some c)
  have "session_row (SHA256String c) (pg_now s) (main s) = None"
  proof (rule ccontr)
    assume "session_row (SHA256String c) (pg_now s) (main s) \<noteq> None"
    then obtain se u where "session_row (SHA256String c) (pg_now s) (main s) = Some (se, u)" by fastforce
    from session_row_props [OF this] Some have "acts_as r (pg_now s) (main s) (principal_of (se, u))"
      unfolding acts_as_def by metis
    with assms show False by (simp add: anonymous_def)
  qed
  with Some show ?thesis by (simp add: withPrincipalRaw_def wp query_result_def)
qed

lemma guarded_anonymous:
  "\<not> is_open e \<Longrightarrow> anonymous r s \<Longrightarrow> wp (guarded S r e) (\<lambda>resp t. refusal resp \<and> main t = main s \<and> keys t = keys s) s"
  by (cases e) (simp_all add: withPrincipal_def require_def withPrincipalRaw_anonymous)

lemma api_not_saml: "hasPrefix p ''/api/v1/'' \<Longrightarrow> \<not> hasPrefix p ''/saml/''"
  by (cases p; cases "tl p") (auto simp: hasPrefix_def)

lemma mux_anonymous:
  assumes "hasPrefix (rq_path r) ''/api/v1/''" "rq_path r \<notin> set public_api" "anonymous r s"
  shows "wp (mux S i r) (\<lambda>resp t. status_of resp \<in> {401, 403, 404, 405, 500} \<and> main t = main s \<and> keys t = keys s) s"
proof (cases "find_route (routes S i) r")
  case None
  then show ?thesis using api_not_saml [OF assms(1)] by (simp add: mux_def wp)
next
  case (Some ve)
  obtain vals e where ve: "ve = (vals, e)" by (cases ve)
  let ?r = "r\<lparr>rq_pathvals := vals\<rparr>"
  have "\<not> is_open (e ?r)" using open_route_public [of S i r vals e ?r] Some ve assms(1,2) by auto
  moreover have "anonymous ?r s" using assms(3) by (simp add: anonymous_def acts_as_def)
  ultimately have "wp (guarded S ?r (e ?r)) (\<lambda>resp t. refusal resp \<and> main t = main s \<and> keys t = keys s) s"
    by (rule guarded_anonymous)
  then have "wp (guarded S ?r (e ?r)) (\<lambda>resp t. status_of resp \<in> {401, 403, 404, 405, 500} \<and> main t = main s \<and> keys t = keys s) s"
    by (rule wp_mono) (auto simp: refusal_def)
  with Some ve api_not_saml [OF assms(1)] show ?thesis by (simp add: mux_def Let_def)
qed

section \<open>The middleware\<close>

lemma map_of_filter_other: "k' \<noteq> k \<Longrightarrow> map_of (filter (\<lambda>h. fst h \<noteq> k) xs) k' = map_of xs k'"
  by (induction xs) auto

lemma header_kept: "k' \<noteq> k \<Longrightarrow> map_of (rq_headers (delete_header k r)) k' = map_of (rq_headers r) k'"
  "cookie (delete_header k r) n = cookie r n" "rq_path (delete_header k r) = rq_path r" "rq_method (delete_header k r) = rq_method r"
  by (simp_all add: delete_header_def map_of_filter_other)

text \<open>The request as the router sees it.\<close>

definition forwarded :: "server \<Rightarrow> string \<Rightarrow> request \<Rightarrow> request" where
  "forwarded S rid r = (if TrustProxyHeaders S then r
     else delete_header ''X-Real-Ip'' (delete_header ''X-Forwarded-For'' r))\<lparr>rq_id := rid\<rparr>"

lemma forwarded_simps [simp]:
  "rq_path (forwarded S rid r) = rq_path r" "rq_method (forwarded S rid r) = rq_method r"
  "rq_cookies (forwarded S rid r) = rq_cookies r" "rq_host (forwarded S rid r) = rq_host r"
  by (simp_all add: forwarded_def delete_header_def)

lemma anonymous_forwarded: "anonymous r s \<Longrightarrow> main t = main s \<Longrightarrow> pg_now t = pg_now s \<Longrightarrow> anonymous (forwarded S rid r) t"
  by (simp add: anonymous_def acts_as_def)

text \<open>
  Either the middleware answers itself, with 400, 403 or 500 and without touching the data, or the
  next handler runs, and then a request that needs a CSRF token had one.
\<close>

lemma middleware_wp:
  assumes "\<And>rid t. main t = main s \<Longrightarrow> keys t = keys s \<Longrightarrow> pg_now t = pg_now s \<Longrightarrow> csrf_exempt r \<or> csrf_ok r \<Longrightarrow>
      wp (k (forwarded S rid r)) Q t"
    and "\<And>n d t. n \<in> {400, 403, 500} \<Longrightarrow> main t = main s \<Longrightarrow> keys t = keys s \<Longrightarrow> Q (problem n d) t"
  shows "wp (middleware S k r) Q s"
proof -
  let ?r = "if TrustProxyHeaders S then r else delete_header ''X-Real-Ip'' (delete_header ''X-Forwarded-For'' r)"
  have h: "csrf_exempt ?r = csrf_exempt r" "csrf_ok ?r = csrf_ok r"
    by (simp_all add: csrf_exempt_def csrf_ok_def get_first_def header_kept Let_def split: option.split)
  have f: "?r\<lparr>rq_id := x\<rparr> = forwarded S x r" for x by (simp add: forwarded_def)
  show ?thesis
    unfolding middleware_def Let_def h f
    by (cases "url_Parse (udata S) (PublicURL S)") (auto simp: wp assms)
qed


lemma Handler_anonymous:
  fixes s :: st
  assumes "hasPrefix (rq_path r) ''/api/v1/''" "rq_path r \<notin> set public_api" "anonymous r s"
  shows "wp (Handler S i r) (\<lambda>resp t. status_of resp \<in> {400, 401, 403, 404, 405, 500} \<and> main t = main s \<and> keys t = keys s) s"
  unfolding Handler_def
proof (rule middleware_wp)
  fix rid and t :: st assume t: "main t = main s" "keys t = keys s" "pg_now t = pg_now s"
  from mux_anonymous [of "forwarded S rid r" t S i] anonymous_forwarded [OF assms(3) t(1,3)] assms(1,2)
  show "wp (mux S i (forwarded S rid r)) (\<lambda>resp t. status_of resp \<in> {400, 401, 403, 404, 405, 500} \<and> main t = main s \<and> keys t = keys s) t"
    by (auto simp: t elim!: wp_mono)
qed auto

section \<open>Permissions\<close>

lemma second_segments:
  "list_all (\<lambda>pat. case pattern_segments pat of a # b # _ \<Rightarrow> \<not> wildcard b \<and> b \<noteq> ''saml'' | _ \<Rightarrow> False) patterns"
  unfolding patterns_def routes_def list.map fst_conv by code_simp

lemma route_not_saml:
  assumes "(pat, e) \<in> set (routes S i)" "match_route pat r \<noteq> None"
  shows "\<not> hasPrefix (rq_path r) ''/saml/''"
proof
  assume "hasPrefix (rq_path r) ''/saml/''"
  then obtain q where "rq_path r = ''/saml/'' @ q" by (metis append_take_drop_id hasPrefix_def)
  then have "split_byte CHR ''/'' (rq_path r) = [] # ''saml'' # split_byte CHR ''/'' q" by simp
  moreover have "pat \<in> set patterns" using assms(1) routes_patterns [of S i] by (metis fst_conv image_eqI set_map)
  then have "case pattern_segments pat of a # b # _ \<Rightarrow> \<not> wildcard b \<and> b \<noteq> ''saml'' | _ \<Rightarrow> False"
    using second_segments unfolding list_all_iff by (rule bspec [rotated])
  then obtain a b ps where "pattern_segments pat = a # b # ps" "\<not> wildcard b" "b \<noteq> ''saml''"
    by (simp split: list.splits)
  ultimately show False using assms(2) by (auto simp: match_route_def match_path_def split: if_splits)
qed

definition permitted :: "request \<Rightarrow> string \<Rightarrow> st \<Rightarrow> principal \<Rightarrow> bool" where
  "permitted r perm s p \<longleftrightarrow> acts_as r (pg_now s) (main s) p \<and> \<not> MustChangePassword p \<and> has_permission (UserID p) perm (main s)
     \<and> (mfa_required (UserID p) None (main s) = Some False \<or> mfa_required (UserID p) None (main s) = Some True \<and> MFAVerified p)"

lemma require_permitted: "wp (require S perm r k) (\<lambda>resp t. status_of resp < 400 \<longrightarrow> (\<exists>p. permitted r perm s p)) s"
  by (rule wp_mono [OF require_gate]) (auto simp: refusal_def reaches_def permitted_def)

lemma Handler_permission:
  fixes s :: st
  assumes "(pat, e) \<in> set (routes S i)" "match_route pat r \<noteq> None" "\<And>r'. \<exists>k. e r' = Needs perm k"
  shows "wp (Handler S i r) (\<lambda>resp t. status_of resp < 400 \<longrightarrow> (\<exists>p. permitted r perm s p)) s"
  unfolding Handler_def
proof (rule middleware_wp)
  fix rid and t :: st assume t: "main t = main s" "keys t = keys s" "pg_now t = pg_now s"
  let ?r = "forwarded S rid r"
  have m: "match_route pat ?r = match_route pat r" by (simp add: match_route_def match_path_def)
  then obtain vals where vals: "match_route pat ?r = Some vals" using assms(2) by auto
  let ?q = "?r\<lparr>rq_pathvals := vals\<rparr>"
  obtain k where k: "e ?q = Needs perm k" using assms(3) by blast
  have "permitted ?q perm t p = permitted r perm s p" for p by (simp add: permitted_def acts_as_def t)
  then show "wp (mux S i ?r) (\<lambda>resp t. status_of resp < 400 \<longrightarrow> (\<exists>p. permitted r perm s p)) t"
    using require_permitted [of S perm ?q k t] find_route_unique [OF assms(1) vals] route_not_saml [OF assms(1), of ?r] vals k
    by (simp add: mux_def Let_def)
qed auto

section \<open>Login\<close>

lemma login_succeed_no_panic: "wp (login_succeed S r p u) (\<lambda>resp _. resp \<noteq> Panicked) s"
  by (auto simp: login_succeed_def Let_def wp problem_def split: sum.splits option.splits)

lemma login_fail_no_panic: "wp (login_fail S r p row) (\<lambda>resp _. resp \<noteq> Panicked) s"
  by (auto simp: login_fail_def wp problem_def split: sum.splits prod.splits)


text \<open>With stored passwords that are records of the configured costs, \<open>VerifyPassword\<close> returns.\<close>

lemma login_valid_returns:
  assumes "credentials_ok S d" "login_row S name t d = Some uc"
  shows "login_valid S now (Inr uc) pw \<noteq> None"
proof -
  obtain u c where uc: "uc = (u, c)" by (cases uc)
  have "c \<in> set (credentials d)" using assms(2) by (auto simp: login_row_def uc dest!: find_in_set)
  then have "VerifyPassword S (pc_hash c) pw \<noteq> None"
    using assms(1) VerifyPassword_no_panic unfolding credentials_ok_def is_password_record_def by blast
  then show ?thesis by (auto simp: login_valid_def uc)
qed

lemma login_no_panic:
  assumes "credentials_ok S (main s)"
  shows "wp (login S r body) (\<lambda>resp _. resp \<noteq> Panicked) s"
proof -
  have "login_valid S now (Inl e) pw = Some False" for now e pw by (simp add: login_valid_def)
  then show ?thesis unfolding login_def
    by (auto simp: wp login_fail_no_panic login_succeed_no_panic dest: login_valid_returns [OF assms]
        split: option.splits sum.splits)
qed

end
