(* ===== verification/System_Claims.thy ===== *)
theory System_Claims imports Demo_Run Gates begin

text \<open>
  The properties of the running server as a whole: what every sequence of requests keeps, and what a
  request has to bring to reach a handler.
\<close>

section \<open>What every sequence of requests keeps\<close>

text \<open>
  C1. Whatever requests the server answers, in whatever order and whichever operations fail: the keys,
  references and uniqueness constraints of the schema hold, every stored password is an Argon2id
  record of the configured costs, the policy is within its bounds, the login page settings and all
  redirect URIs have been validated, and every OIDC client requires PKCE and allows \<open>openid\<close>.
\<close>

theorem invariant:
  assumes "reachable S s0 s" and "db_ok S (main s0)"
  shows "db_ok S (main s)"
  using reachable_db(2) [OF assms] .

theorem invariant_witness: "db_ok demo (main (served logout_request demo_st))"
  by (rule invariant [OF served_reachable]) (simp add: demo_db_ok)

text \<open>
  C2. What has happened stays so: rows of the token tables only advance, a revoked session keeps its
  revocation, MFA once verified stays verified, user names do not change, a SAML request is completed
  by one user and consumed once, the audit trail is only appended to, the catalogue of roles and
  permissions is constant and a finished setup stays finished.
\<close>

theorem history:
  assumes "reachable S s0 s"
  shows "tables_later (main s0) (main s) \<and> rows_later (main s0) (main s) \<and> settings_later (main s0) (main s)"
  using reachable_db(1) [OF assms] by (simp add: db_le_def)

theorem history_witness:
  "tables_later demo_db (main (served logout_request demo_st)) \<and> rows_later demo_db (main (served logout_request demo_st))
   \<and> settings_later demo_db (main (served logout_request demo_st))"
  using history [OF served_reachable, of demo_st logout_request] by simp

text \<open>
  C20. Each of the two key rings has at most one active key and distinct identifiers, no key ever
  leaves its ring, and a retired key is not changed any more: what it signed can still be verified.
\<close>

theorem key_rings:
  assumes "reachable S s0 s" and "rings_ok (keys s0)"
  shows "rings_ok (keys s) \<and> evolves key_le (signing_keys (keys s0)) (signing_keys (keys s))
    \<and> evolves cert_le (saml_certs (keys s0)) (saml_certs (keys s))"
  using reachable_rings [OF assms(1)] assms(2) by (simp add: rings_later_def)

theorem key_rings_witness:
  "rings_ok (keys (served logout_request demo_st))
   \<and> evolves key_le (signing_keys demo_keys) (signing_keys (keys (served logout_request demo_st)))
   \<and> evolves cert_le (saml_certs demo_keys) (saml_certs (keys (served logout_request demo_st)))"
  using key_rings [OF served_reachable, of demo_st logout_request] by (simp add: demo_rings_ok)

section \<open>Ways in\<close>

text \<open>
  C21. No request matches two routes of the table, so \<open>ServeMux\<close> never has to choose between two
  gates.
\<close>

theorem one_route:
  assumes "j < length (routes S i)" "k < length (routes S i)"
    and "match_route (fst (routes S i ! j)) r \<noteq> None" "match_route (fst (routes S i ! k)) r \<noteq> None"
  shows "j = k"
  using match_unique_index [of j k r] assms by (simp add: routes_patterns [of S i, symmetric])

theorem one_route_witness: "match_route (fst (routes demo demo_inputs ! 0)) logout_request = None"
proof (rule ccontr)
  assume m: "\<not> ?thesis"
  have "0 < length (routes demo demo_inputs)" "17 < length (routes demo demo_inputs)" "fst (routes demo demo_inputs ! 17) = ''POST /api/v1/auth/logout''"
    by (simp_all add: routes_def)
  moreover have "match_route ''POST /api/v1/auth/logout'' logout_request \<noteq> None"
    by (simp add: logout_request_def demo_http_def match_route_def method_matches_def pattern_method_def
        match_path_def pattern_segments_def wildcard_def hasPrefix_def)
  ultimately have "(0::nat) = 17" using m by (intro one_route [of 0 demo demo_inputs 17 logout_request]) simp_all
  then show False by simp
qed

text \<open>
  C3. Without a live session nothing under \<open>/api/v1/\<close> but the four public resources can be reached: any
  other request is answered with an error and changes no data, whatever its method and body.
\<close>

theorem unauthenticated:
  assumes "hasPrefix (rq_path r) ''/api/v1/''" and "rq_path r \<notin> set public_api"
    and "\<And>p. \<not> acts_as r (pg_now s) (main s) p"
  shows "status_of (result (Handler S i r) s) \<in> {400, 401, 403, 404, 405, 500}
    \<and> main (final (Handler S i r) s) = main s \<and> keys (final (Handler S i r) s) = keys s"
  using Handler_anonymous [of r s S i] assms by (simp add: wp_result anonymous_def)

theorem unauthenticated_witness:
  "status_of (result (Handler demo demo_inputs (logout_request\<lparr>rq_cookies := []\<rparr>)) demo_st) \<in> {400, 401, 403, 404, 405, 500}
   \<and> main (final (Handler demo demo_inputs (logout_request\<lparr>rq_cookies := []\<rparr>)) demo_st) = main demo_st
   \<and> keys (final (Handler demo demo_inputs (logout_request\<lparr>rq_cookies := []\<rparr>)) demo_st) = keys demo_st"
  by (rule unauthenticated) (simp_all add: logout_request_def demo_http_def hasPrefix_def public_api_def acts_as_def)






text \<open>
  C4. A route that needs a permission is served only for the active user of a live session who has
  verified MFA where a policy asks for it, has no password change pending, and has the permission
  through one of his roles.
\<close>

theorem permission_required:
  assumes "(pat, e) \<in> set (routes S i)" "match_route pat r \<noteq> None" "\<And>r'. \<exists>k. e r' = Needs perm k"
    and "status_of (result (Handler S i r) s) < 400"
  shows "\<exists>p. acts_as r (pg_now s) (main s) p \<and> \<not> MustChangePassword p \<and> has_permission (UserID p) perm (main s)
    \<and> (mfa_required (UserID p) None (main s) = Some False \<or> mfa_required (UserID p) None (main s) = Some True \<and> MFAVerified p)"
  using Handler_permission [OF assms(1,2), of perm s] assms(3,4) by (fastforce simp: wp_result permitted_def)

definition roles_request :: request where
  "roles_request = demo_http\<lparr>rq_path := ''/api/v1/roles''\<rparr>"

lemma roles_answers: "status_of (result (Handler demo demo_inputs roles_request) demo_st) = 200"
proof -
  have "map_option Host (url_Parse demo_ucd ''https://sso'') = Some ''sso''" by code_simp
  then obtain u where url: "url_Parse demo_ucd ''https://sso'' = Some u" "Host u = ''sso''" by auto
  have fold: "equalFold demo_ucd ''sso'' ''sso''" by code_simp
  have route: "find_route (routes demo demo_inputs) r = Some ([], \<lambda>r. Needs ''users.read'' (\<lambda>_. listRoles demo))"
    if "rq_path r = ''/api/v1/roles''" "rq_method r = ''GET''" for r
    using that by (intro find_route_unique [where pat = "''GET /api/v1/roles''"])
      (simp_all add: routes_def match_route_def method_matches_def pattern_method_def match_path_def pattern_segments_def wildcard_def hasPrefix_def)
  have inside: "wp (require demo ''users.read'' r (\<lambda>_. listRoles demo)) (\<lambda>resp _. status_of resp = 200) s"
    if "cookie r ''opensso_session'' = Some ''cookie''" "main s = demo_db" "pg_now s = minutes 100" for r s
    using that by (simp add: require_def withPrincipal_def withPrincipalRaw_def wp session_row_def session_live_def demo_eval
        principal_of_def touch_session_def Required_def mfa_required_def has_permission_def listRoles_def effect_def)
  show ?thesis
    by (rule wp_resultD [where P = "\<lambda>resp. status_of resp = 200"])
      (simp add: Handler_def middleware_def mux_def roles_request_def hasPrefix_def Let_def
        demo_http_def delete_header_def csrf_exempt_def url fold route inside wp)
qed

theorem permission_required_witness:
  "\<exists>p. acts_as roles_request (pg_now demo_st) (main demo_st) p \<and> \<not> MustChangePassword p \<and> has_permission (UserID p) ''users.read'' (main demo_st)
    \<and> (mfa_required (UserID p) None (main demo_st) = Some False \<or> mfa_required (UserID p) None (main demo_st) = Some True \<and> MFAVerified p)"
proof (rule permission_required [where S = demo and i = demo_inputs and pat = "''GET /api/v1/roles''"])
  show "(''GET /api/v1/roles'', \<lambda>r. Needs ''users.read'' (\<lambda>_. listRoles demo)) \<in> set (routes demo demo_inputs)"
    by (simp add: routes_def)
  show "match_route ''GET /api/v1/roles'' roles_request \<noteq> None"
    by (simp add: roles_request_def demo_http_def match_route_def method_matches_def pattern_method_def
        match_path_def pattern_segments_def wildcard_def hasPrefix_def)
qed (simp_all add: roles_answers)

text \<open>
  C18. A request under \<open>/api/v1/\<close> that may change data (any method but GET, HEAD and OPTIONS; login and
  setup are exempt) and does not repeat its CSRF cookie in the header is refused and changes nothing.
\<close>

theorem csrf_refused:
  assumes "\<not> csrf_exempt r" and "\<not> csrf_ok r"
  shows "status_of (result (Handler S i r) s) \<in> {400, 403, 500} \<and> main (final (Handler S i r) s) = main s
    \<and> keys (final (Handler S i r) s) = keys s"
proof -
  have "wp (Handler S i r) (\<lambda>resp t. status_of resp \<in> {400, 403, 500} \<and> main t = main s \<and> keys t = keys s) s"
    unfolding Handler_def by (rule middleware_wp) (use assms in auto)
  then show ?thesis by (simp add: wp_result)
qed

theorem csrf_refused_witness:
  "status_of (result (Handler demo demo_inputs (logout_request\<lparr>rq_headers := []\<rparr>)) demo_st) \<in> {400, 403, 500}
   \<and> main (final (Handler demo demo_inputs (logout_request\<lparr>rq_headers := []\<rparr>)) demo_st) = main demo_st
   \<and> keys (final (Handler demo demo_inputs (logout_request\<lparr>rq_headers := []\<rparr>)) demo_st) = keys demo_st"
  by (rule csrf_refused)
    (simp_all add: csrf_exempt_def csrf_ok_def logout_request_def demo_http_def hasPrefix_def)

text \<open>
  C19. Login does not panic: \<open>VerifyPassword\<close> calls Argon2 with the costs it reads from the stored
  record, which panics for some, but no reachable database has such a record.
\<close>

theorem login_total:
  assumes "reachable S s0 s" "db_ok S (main s0)"
  shows "result (login S r body) s \<noteq> Panicked"
  using login_no_panic [of S s r body] reachable_db(2) [OF assms] by (simp add: db_ok_def wp_result)

theorem login_total_witness:
  "result (login demo demo_http (Some (''alice'', ''wrong''))) (served logout_request demo_st) \<noteq> Panicked"
  by (rule login_total [OF served_reachable]) (simp add: demo_db_ok)

end
