(* ===== verification/Vectors.thy ===== *)
theory Vectors imports Scope Security begin

text \<open>
  The SHA-256 model on published inputs: the FIPS 180-4 messages \<open>abc\<close> and the empty one, and
  the PKCE example of RFC 7636, appendix B. Words are evaluated as integers: \<open>N32 k\<close> is the word
  whose value is \<open>k\<close>, and the operations of the compression are rewritten on \<open>k\<close>.
\<close>

unbundle bit_operations_syntax

definition N32 :: "int \<Rightarrow> w32" where
  "N32 k = word_of_int k"

lemma N32_rotr: "rotr n (N32 k) = N32 (take_bit 32 (drop_bit n (take_bit 32 k) OR push_bit (32 - n) k))"
  unfolding rotr_def N32_def by (rule bit_word_eqI) (auto simp: bit_simps)

lemma N32_drop: "drop_bit n (N32 k) = N32 (drop_bit n (take_bit 32 k))"
  unfolding N32_def by (rule bit_word_eqI) (auto simp: bit_simps)

lemma N32_bitwise: "N32 a XOR N32 b = N32 (a XOR b)" "N32 a AND N32 b = N32 (a AND b)" "NOT (N32 a) = N32 (NOT a)"
  unfolding N32_def by (rule bit_word_eqI, simp add: bit_simps)+

lemma N32_plus: "N32 a + N32 b = N32 (take_bit 32 (a + b))"
proof -
  have "(word_of_int (take_bit 32 (a + b)) :: w32) = word_of_int (a + b)"
    by (rule bit_word_eqI) (simp only: bit_word_of_int_iff bit_take_bit_iff, auto)
  then show ?thesis unfolding N32_def by (simp only: wi_hom_add)
qed

lemma N32_tables: "H256 = map N32 initial_state" "K256 = map N32 round_constants"
  by (simp_all add: H256_def K256_def N32_def)

lemmas compress_eval = compress256_def N32_tables initial_state_def round_constants_def Ch_def Maj_def Sig0_def Sig1_def sig0_def sig1_def
  N32_rotr N32_drop N32_bitwise N32_plus Let_def

lemma one_block:
  assumes "words_of (pad256 m) = ws" "length ws = 16" "compress256 H256 ws = hs"
  shows "sha256 m = concat (map be_bytes4 hs)"
  using assms by (simp add: sha256_def blocks256.simps [of H256] blocks256.simps [of hs "[]"])

lemma words_empty: "words_of (pad256 []) = map N32 [0x80000000, 0, 0, 0, 0, 0, 0, 0, 0, 0, 0, 0, 0, 0, 0, 0]"
  unfolding N32_def by code_simp

lemma words_abc: "words_of (pad256 [97, 98, 99])
    = map N32 [0x61626380, 0, 0, 0, 0, 0, 0, 0, 0, 0, 0, 0, 0, 0, 0, 24]"
  unfolding N32_def by code_simp

lemma sha256_empty: "sha256 [] = concat (map be_bytes4 (map N32
    [0xe3b0c442, 0x98fc1c14, 0x9afbf4c8, 0x996fb924, 0x27ae41e4, 0x649b934c, 0xa495991b, 0x7852b855]))"
  by (rule one_block [OF words_empty]) (simp, simp add: compress_eval)

lemma sha256_abc: "sha256 [97, 98, 99] = concat (map be_bytes4 (map N32
    [0xba7816bf, 0x8f01cfea, 0x414140de, 0x5dae2223, 0xb00361a3, 0x96177a9c, 0xb410ff61, 0xf20015ad]))"
  by (rule one_block [OF words_abc]) (simp, simp add: compress_eval)

text \<open>So two tokens whose stored forms differ.\<close>

lemma stored_differ: "SHA256String ''abc'' \<noteq> SHA256String []"
proof
  assume "SHA256String ''abc'' = SHA256String []"
  then have "base64_decode True (SHA256String ''abc'') = base64_decode True (SHA256String [])" by simp
  then have "sha256_string ''abc'' = sha256_string []" by (simp add: SHA256String_def base64_roundtrip)
  then have "hd (sha256_string ''abc'') = hd (sha256_string [])" by simp
  then show False
    by (simp add: sha256_string_def sha256_abc sha256_empty be_bytes4_def N32_def)
qed

section \<open>RFC 7636, appendix B\<close>

definition rfc_verifier :: string where
  "rfc_verifier = ''dBjftJeZ4CVP-mB92K27uhbUJU1p1r_wW1gFWFOEjXk''"

definition rfc_challenge :: string where
  "rfc_challenge = ''E9Melhoa2OwvFrEMTJguCHaoeK1t8URWbuGJSstw-cM''"

lemma rfc_bytes: "map (word_of_nat \<circ> of_char) rfc_verifier = ([100, 66, 106, 102, 116, 74, 101, 90, 52, 67, 86, 80, 45, 109, 66, 57, 50, 75, 50, 55, 117, 104, 98, 85, 74, 85, 49, 112, 49, 114, 95, 119, 87, 49, 103, 70, 87, 70, 79, 69, 106, 88, 107] :: u8 list)"
  by (simp add: rfc_verifier_def)

lemma rfc_words: "words_of (pad256 [100, 66, 106, 102, 116, 74, 101, 90, 52, 67, 86, 80, 45, 109, 66, 57, 50, 75, 50, 55, 117, 104, 98, 85, 74, 85, 49, 112, 49, 114, 95, 119, 87, 49, 103, 70, 87, 70, 79, 69, 106, 88, 107]) = map N32 [0x64426a66, 0x744a655a, 0x34435650, 0x2d6d4239, 0x324b3237, 0x75686255, 0x4a553170, 0x31725f77, 0x57316746, 0x57464f45, 0x6a586b80, 0x00000000, 0x00000000, 0x00000000, 0x00000000, 0x00000158]"
  unfolding N32_def by code_simp

lemma rfc_digest: "sha256 [100, 66, 106, 102, 116, 74, 101, 90, 52, 67, 86, 80, 45, 109, 66, 57, 50, 75, 50, 55, 117, 104, 98, 85, 74, 85, 49, 112, 49, 114, 95, 119, 87, 49, 103, 70, 87, 70, 79, 69, 106, 88, 107] = concat (map be_bytes4 (map N32 [0x13d31e96, 0x1a1ad8ec, 0x2f16b10c, 0x4c982e08, 0x76a878ad, 0x6df14456, 0x6ee1894a, 0xcb70f9c3]))"
  by (rule one_block [OF rfc_words]) (simp, simp add: compress_eval)

lemma rfc_encoded: "base64_encode True (sha256_string rfc_verifier) = rfc_challenge"
  unfolding sha256_string_def rfc_bytes rfc_digest rfc_challenge_def N32_def by code_simp

end
