(* ===== verification/OAuth_Claims.thy ===== *)
theory OAuth_Claims imports Demo_Run Vectors begin

text \<open>
  The properties of the OAuth and OpenID Connect endpoints. \<open>result m s\<close> and \<open>final m s\<close> are the
  response and the state after the handler \<open>m\<close> ran from \<open>s\<close>; each property is evaluated on the
  server and database of theory Demo in the witness that follows it.
\<close>

lemma run_result: "run_state m s = (result m s, final m s)"
  by (simp add: result_def final_def)

section \<open>Authorization codes\<close>

definition exchange_form :: "(string \<times> string) list" where
  "exchange_form = [(''grant_type'', ''authorization_code''), (''code'', ''code''),
     (''redirect_uri'', ''https://app/cb''), (''code_verifier'', demo_verifier)]"

definition code_world :: st where
  "code_world = with_db (\<lambda>d. d\<lparr>auth_codes := [demo_code]\<rparr>)"

lemma exchange_grants:
  "status_of (result (authorizationCodeGrant demo (with_form exchange_form) demo_client) code_world) = 200"
  by (rule wp_resultD) (simp add: wp authorizationCodeGrant_def exchange_form_def code_usable_def demo_eval
      consume_code_def demo_issue demo_active code_world_def del: wp_Active)

lemma exchange_answers: "status_of (result (tokenEndpoint demo (with_form exchange_form)) code_world) = 200"
proof -
  have "wp (authorizationCodeGrant demo (with_form exchange_form) demo_client) (\<lambda>resp _. status_of resp = 200) s"
    if "main s = main code_world" "keys s = demo_keys" "go_now s = minutes 100" "pg_now s = minutes 100" for s
    using that by (simp add: wp authorizationCodeGrant_def exchange_form_def code_usable_def demo_eval
      consume_code_def demo_issue demo_active code_world_def del: wp_Active)
  then show ?thesis
    by (intro wp_resultD [where P = "\<lambda>resp. status_of resp = 200"])
      (simp add: wp tokenEndpoint_def demo_allow demo_authenticate dispatch_grant_def exchange_form_def
        code_world_def demo_db_def)
qed

text \<open>
  C5. A code is exchanged only for the client that authenticated and that the code was issued to, with
  exactly the redirect URI of the authorization request and a verifier that hashes to its challenge,
  once, and before it expires. The exchange spends the code and adds one access token and one
  refresh token of the code's user and scope, and changes nothing else.
\<close>

theorem code_exchange:
  assumes "status_of (result (tokenEndpoint S r) s) = 200" and "form r ''grant_type'' = ''authorization_code''"
  shows "\<exists>c. authenticated r (main s) c \<and> code_exchanged r c s (main (final (tokenEndpoint S r) s))"
  using tokenEndpoint_wp [of S r s] assms by (auto simp: wp_result token_answer_def token_granted_def)

theorem code_exchange_witness:
  "\<exists>c. authenticated (with_form exchange_form) (main code_world) c
     \<and> code_exchanged (with_form exchange_form) c code_world (main (final (tokenEndpoint demo (with_form exchange_form)) code_world))"
  by (rule code_exchange [OF exchange_answers]) (simp add: exchange_form_def)

text \<open>
  C6. A code works once. After a successful exchange, in every state that the server can reach by
  whatever requests, no request of this client with the same code is answered with tokens again.
\<close>

theorem code_single_use:
  assumes "status_of (result (authorizationCodeGrant S r c) s) = 200"
    and "reachable S (final (authorizationCodeGrant S r c) s) s'"
    and "form r' ''code'' = form r ''code''"
  shows "status_of (result (authorizationCodeGrant S r' c) s') \<noteq> 200"
  using auth_codes.at_most_once [of S "(r, c)" s _ _ s' "(r', c)" "result (authorizationCodeGrant S r' c) s'"
      "final (authorizationCodeGrant S r' c) s'", simplified, OF run_result assms(1) reachable_tokens [OF assms(2)] run_result]
  by (simp add: assms(3))

theorem code_single_use_witness:
  "status_of (result (authorizationCodeGrant demo (with_form exchange_form) demo_client)
     (served logout_request (final (authorizationCodeGrant demo (with_form exchange_form) demo_client) code_world))) \<noteq> 200"
  by (rule code_single_use [OF exchange_grants served_reachable refl])

section \<open>Refresh tokens\<close>

definition refresh_form :: "(string \<times> string) list" where
  "refresh_form = [(''grant_type'', ''refresh_token''), (''refresh_token'', ''abc'')]"

definition family :: "instant option \<Rightarrow> refresh_token list" where
  "family used = [demo_refresh\<lparr>rt_hash := SHA256String ''abc'', rt_consumed := used\<rparr>]"

definition refresh_world :: "instant option \<Rightarrow> st" where
  "refresh_world used = with_db (\<lambda>d. d\<lparr>refresh_tokens := family used\<rparr>)"

text \<open>Here the next 48 random bytes are such that the new token is the empty string.\<close>

abbreviation demo48 :: server where
  "demo48 \<equiv> demo_with (\<lambda>i n. Some (if n = 48 then [] else replicate n CHR ''r''))"

lemma refresh_answers: "status_of (result (tokenEndpoint demo48 (with_form refresh_form)) (refresh_world None)) = 200"
proof -
  have "wp (refreshTokenGrant demo48 (with_form refresh_form) demo_client) (\<lambda>resp _. status_of resp = 200) s"
    if "main s = main (refresh_world None)" "keys s = demo_keys" "go_now s = minutes 100" "pg_now s = minutes 100" for s
    using that stored_differ by (simp add: wp refreshTokenGrant_def refresh_form_def demo_eval
      consume_refresh_def demo_issue demo_active refresh_world_def family_def base64_encode_def del: wp_Active)
  then show ?thesis
    by (intro wp_resultD [where P = "\<lambda>resp. status_of resp = 200"])
      (simp add: wp tokenEndpoint_def demo_allow demo_authenticate dispatch_grant_def refresh_form_def
        refresh_world_def demo_db_def)
qed

text \<open>
  C10. Refreshing rotates. The token presented belongs to the authenticated client, was never used or
  revoked and has not expired; it is spent, and the one new refresh token continues its family, names
  it as parent and carries its user and scope. An \<open>openid\<close> token of a deactivated user is refused.
\<close>

theorem refresh_rotation:
  assumes "status_of (result (tokenEndpoint S r) s) = 200" and "form r ''grant_type'' = ''refresh_token''"
  shows "\<exists>c. authenticated r (main s) c \<and> refresh_rotated r c s (main (final (tokenEndpoint S r) s))"
  using tokenEndpoint_wp [of S r s] assms by (auto simp: wp_result token_answer_def token_granted_def)

theorem refresh_rotation_witness:
  "\<exists>c. authenticated (with_form refresh_form) (main (refresh_world None)) c
     \<and> refresh_rotated (with_form refresh_form) c (refresh_world None)
         (main (final (tokenEndpoint demo48 (with_form refresh_form)) (refresh_world None)))"
  by (rule refresh_rotation [OF refresh_answers]) (simp add: refresh_form_def)

text \<open>
  C12. A refresh token presented a second time revokes its family. When the operations on the database
  succeed, the answer is 400 and every token of the family, the successors included, is revoked.
\<close>

theorem refresh_reuse_revokes:
  assumes "refresh_found (form r ''refresh_token'') c (main s) = Some k"
    and "rt_consumed k \<noteq> None \<or> rt_revoked k \<noteq> None" and "\<And>n. \<not> fault S n" and "form r ''refresh_token'' \<noteq> []"
    and "t \<in> set (refresh_tokens (main (final (refreshTokenGrant S r c) s)))" and "rt_family t = rt_family k"
  shows "status_of (result (refreshTokenGrant S r c) s) = 400 \<and> rt_revoked t \<noteq> None"
proof
  from reuse_wp [OF assms(1-4)] show "status_of (result (refreshTokenGrant S r c) s) = 400"
    by (simp add: wp_result)
  from reuse_wp [OF assms(1-4)] assms(5)
  have "t \<in> set (refresh_tokens (family_revoked (rt_family k) (pg_now s) (main s)))" by (simp add: wp_result)
  from revoked_in_family [OF this assms(6)] show "rt_revoked t \<noteq> None" .
qed

theorem refresh_reuse_revokes_witness:
  "status_of (result (refreshTokenGrant demo (with_form refresh_form) demo_client) (refresh_world (Some 7))) = 400
   \<and> rt_revoked (hd (refresh_tokens (main (final (refreshTokenGrant demo (with_form refresh_form) demo_client) (refresh_world (Some 7)))))) \<noteq> None"
proof -
  let ?k = "demo_refresh\<lparr>rt_hash := SHA256String ''abc'', rt_consumed := Some 7\<rparr>"
  let ?ts = "refresh_tokens (main (final (refreshTokenGrant demo (with_form refresh_form) demo_client) (refresh_world (Some 7))))"
  have found: "refresh_found (form (with_form refresh_form) ''refresh_token'') demo_client (main (refresh_world (Some 7))) = Some ?k"
    by (simp add: refresh_found_def refresh_form_def refresh_world_def family_def demo_eval)
  have "?ts = refresh_tokens (family_revoked (rt_family ?k) (minutes 100) (main (refresh_world (Some 7))))"
    using reuse_wp [OF found, of demo] by (simp add: wp_result refresh_form_def refresh_world_def)
  then have "?ts = [?k\<lparr>rt_revoked := Some (minutes 100)\<rparr>]"
    by (simp add: family_revoked_def refresh_world_def family_def update_where_def demo_rows)
  then show ?thesis
    using refresh_reuse_revokes [OF found, of demo "hd ?ts"] by (simp add: refresh_form_def)
qed

lemma refresh_grants:
  "status_of (result (refreshTokenGrant demo48 (with_form refresh_form) demo_client) (refresh_world None)) = 200"
  by (rule wp_resultD) (use stored_differ in \<open>simp add: wp refreshTokenGrant_def refresh_form_def demo_eval consume_refresh_def
      demo_issue demo_active refresh_world_def family_def base64_encode_def del: wp_Active\<close>)

text \<open>
  C11. A refresh token works once: after it was rotated, no request of its client with it is answered
  with tokens in any state the server can reach.
\<close>

theorem refresh_single_use:
  assumes "status_of (result (refreshTokenGrant S r c) s) = 200"
    and "reachable S (final (refreshTokenGrant S r c) s) s'"
    and "form r' ''refresh_token'' = form r ''refresh_token''"
  shows "status_of (result (refreshTokenGrant S r' c) s') \<noteq> 200"
  using refreshes.at_most_once [of S "(r, c)" s _ _ s' "(r', c)" "result (refreshTokenGrant S r' c) s'"
      "final (refreshTokenGrant S r' c) s'", simplified, OF run_result assms(1) reachable_tokens [OF assms(2)] run_result]
  by (simp add: assms(3))

theorem refresh_single_use_witness:
  "status_of (result (refreshTokenGrant demo48 (with_form refresh_form) demo_client)
     (final (refreshTokenGrant demo48 (with_form refresh_form) demo_client) (refresh_world None))) \<noteq> 200"
  by (rule refresh_single_use [OF refresh_grants reachable.start refl])

section \<open>Authorization and consent\<close>

text \<open>
  C7. The authorization endpoint adds at most one row besides touching the session: a code, or a
  request that waits for consent. A code is granted only to a registered redirect URI of the client,
  with PKCE, a valid scope that includes \<open>openid\<close>, a signed-in user who satisfies the MFA policies, and
  a consent that covers every scope; it is bound to exactly these.
\<close>

theorem authorize_grants: "authorize_effect S r s (result (authorize S r) s) (final (authorize S r) s)"
  using authorize_wp [of S r s] by (simp add: wp_result)

text \<open>
  C8. The consent page's answer: either refused, with nothing changed but the session, or given by the
  user the request was opened for, before it expired, with the CSRF cookie repeated; then the request
  is spent, and an approval stores the consent and one code of the request.
\<close>

theorem consent_answer: "consent_effect S r s (result (authorizeConsent S r) s) (final (authorizeConsent S r) s)"
  using authorizeConsent_wp [of S r s] by (simp add: wp_result)

definition deny_form :: "(string \<times> string) list" where
  "deny_form = [(''csrf'', ''csrf''), (''request_token'', ''token''), (''action'', ''deny'')]"

definition consent_world :: st where
  "consent_world = with_db (\<lambda>d. d\<lparr>auth_requests := [demo_request]\<rparr>)"

lemma consent_answers: "status_of (result (authorizeConsent demo (with_form deny_form)) consent_world) = 302"
proof -
  have "url_Parse demo_ucd ''https://app/cb'' \<noteq> None" by code_simp
  then obtain u where "url_Parse demo_ucd ''https://app/cb'' = Some u" by auto
  then show ?thesis
  by (intro wp_resultD [where P = "\<lambda>resp. status_of resp = 302"])
    (simp add: authorizeConsent_def deny_form_def wp sessionPrincipal_def consent_world_def session_row_def session_live_def
      principal_of_def touch_session_def effect_def auth_request_usable_def consume_auth_request_def redirectOAuthError_def
      demo_eval)
qed

text \<open>
  C9. A consent request is answered once: after the user approved or denied it, the same request is not
  redirected again in any state the server can reach.
\<close>

theorem consent_single_use:
  assumes "status_of (result (authorizeConsent S r) s) = 302"
    and "reachable S (final (authorizeConsent S r) s) s'"
    and "form r' ''request_token'' = form r ''request_token''"
  shows "status_of (result (authorizeConsent S r') s') \<noteq> 302"
  using consent_requests.at_most_once [of S r s _ _ s' r' "result (authorizeConsent S r') s'"
      "final (authorizeConsent S r') s'", OF run_result assms(1) reachable_tokens [OF assms(2)] run_result]
  by (simp add: assms(3))

theorem consent_single_use_witness:
  "status_of (result (authorizeConsent demo (with_form deny_form)) (final (authorizeConsent demo (with_form deny_form)) consent_world)) \<noteq> 302"
  by (rule consent_single_use [OF consent_answers reachable.start refl])

section \<open>The other answers of the token endpoint\<close>




definition machine_form :: "(string \<times> string) list" where
  "machine_form = [(''grant_type'', ''client_credentials''), (''scope'', ''profile'')]"

lemma machine_answers: "status_of (result (tokenEndpoint demo (with_form machine_form)) demo_st) = 200"
proof -
  have scope: "normalizeRequestedScope ''profile'' = Some (''profile'', [''profile''])"
    by (simp add: normalizeRequestedScope_def splitScope_def strings_Fields_def isSpace_def runes_def scope_rune_ok_def)
  have "wp (clientCredentialsGrant demo (with_form machine_form) demo_client) (\<lambda>resp _. status_of resp = 200) s"
    if "main s = demo_db" "keys s = demo_keys" "go_now s = minutes 100" "pg_now s = minutes 100" for s
    using that by (simp add: wp clientCredentialsGrant_def machine_form_def demo_eval scope containsAll_def
      demo_issue demo_active del: wp_Active)
  then show ?thesis
    by (intro wp_resultD [where P = "\<lambda>resp. status_of resp = 200"])
      (simp add: wp tokenEndpoint_def demo_allow demo_authenticate dispatch_grant_def machine_form_def demo_db_def)
qed

text \<open>
  C14. A client acting for itself gets one access token, bound to no user, within its allowed scopes and
  never for \<open>openid\<close>, and no refresh token; a public client gets none.
\<close>

theorem machine_tokens:
  assumes "status_of (result (tokenEndpoint S r) s) = 200" and "form r ''grant_type'' = ''client_credentials''"
  shows "\<exists>c. authenticated r (main s) c \<and> machine_token r c s (main (final (tokenEndpoint S r) s))"
  using tokenEndpoint_wp [of S r s] assms by (auto simp: wp_result token_answer_def token_granted_def)

theorem machine_tokens_witness:
  "\<exists>c. authenticated (with_form machine_form) demo_db c
     \<and> machine_token (with_form machine_form) c demo_st (main (final (tokenEndpoint demo (with_form machine_form)) demo_st))"
  using machine_tokens [OF machine_answers] by (simp add: machine_form_def)

end
