(* ===== verification/Token_Claims.thy ===== *)
theory Token_Claims imports Demo_Run Vectors begin

text \<open>
  The properties of access tokens at the resource end, of scopes and of PKCE.
\<close>

section \<open>Access tokens\<close>

lemma reads_only_parse: "reads_only (parseAccessToken S raw)"
  by (rule reads_onlyI) (auto simp: parseAccessToken_def wp split: sum.splits option.splits)

lemmas final_parse [simp] = reads_only_simps [OF reads_only_parse]
lemmas wp_parse [wp] = wp_result [of "parseAccessToken S raw" for S raw]

text \<open>A token is accepted if a key of the ring, active or retired, verifies it.\<close>

definition token_verified :: "server \<Rightarrow> string \<Rightarrow> st \<Rightarrow> jwt_claims \<Rightarrow> bool" where
  "token_verified S raw s claims \<longleftrightarrow> (\<exists>kid k key. jwt_header S raw = Some (''RS256'', kid)
     \<and> k \<in> set (signing_keys (keys s)) \<and> sk_kid k = kid \<and> publicKeyOfJWK (sk_jwk k) = Some key
     \<and> jwt_check S key raw (go_now s) (PublicURL S) = Some claims)"

lemma PublicKeyByKID_result:
  "if_ok (\<lambda>key. \<exists>k \<in> set (signing_keys (keys s)). sk_kid k = kid \<and> publicKeyOfJWK (sk_jwk k) = Some key)
     (result (PublicKeyByKID S kid) s)"
  by (rule wp_resultD) (auto simp: PublicKeyByKID_def wp query_result_def dest!: find_in_set split: sum.splits option.splits)

lemma token_verifiedI:
  "result (PublicKeyByKID S kid) s = Inr key \<Longrightarrow> jwt_header S raw = Some (''RS256'', kid) \<Longrightarrow>
     jwt_check S key raw (go_now s) (PublicURL S) = Some claims \<Longrightarrow> token_verified S raw s claims"
  using if_okD [OF PublicKeyByKID_result, of S kid s key] unfolding token_verified_def by blast

lemma parse_result: "if_ok (token_verified S raw s) (result (parseAccessToken S raw) s)"
  by (rule wp_resultD) (auto simp: parseAccessToken_def wp intro: token_verifiedI split: sum.splits option.splits)

definition resource_served :: "server \<Rightarrow> request \<Rightarrow> st \<Rightarrow> bool" where
  "resource_served S r s \<longleftrightarrow> (\<exists>claims a u. token_verified S (bearerToken S r) s claims \<and> jc_token_use claims = ''access''
     \<and> a \<in> set (access_tokens (main s)) \<and> to_uuid S (jc_jti claims) = Some (at_jti a) \<and> at_revoked a = None
     \<and> pg_now s < at_expires a \<and> u \<in> set (users (main s)) \<and> u_active u \<and> at_user a = Some (u_id u)
     \<and> jc_sub claims = u_id u)"

lemma resource_servedI:
  "token_verified S (bearerToken S r) s claims \<Longrightarrow> jc_token_use claims = ''access'' \<Longrightarrow> a \<in> set (access_tokens (main s)) \<Longrightarrow>
     to_uuid S (jc_jti claims) = Some (at_jti a) \<Longrightarrow> at_revoked a = None \<Longrightarrow> pg_now s < at_expires a \<Longrightarrow>
     u \<in> set (users (main s)) \<Longrightarrow> u_active u \<Longrightarrow> at_user a = Some (jc_sub claims) \<Longrightarrow> u_id u = jc_sub claims \<Longrightarrow>
     resource_served S r s"
  unfolding resource_served_def by metis

lemma userinfo_wp: "wp (userinfo S r) (\<lambda>resp t. status_of resp = 200 \<longrightarrow> resource_served S r s) s"
proof -
  have tok: "token_verified S (bearerToken S r) s claims" if "result (parseAccessToken S (bearerToken S r)) s = Inr claims" for claims
    using if_okD [OF parse_result that] .
  show ?thesis
    unfolding userinfo_def Let_def
    by (auto simp: wp query_result_def access_row_def userGroups_def intro: resource_servedI
        dest!: tok find_in_set split: sum.splits option.splits)
qed

definition token_world :: "instant option \<Rightarrow> st" where
  "token_world revoked = with_db (\<lambda>d. d\<lparr>access_tokens := [demo_access\<lparr>at_revoked := revoked\<rparr>]\<rparr>)"

definition bearer_request :: request where
  "bearer_request = demo_http\<lparr>rq_headers := [(''Authorization'', ''Bearer jwt'')]\<rparr>"

lemma demo_bearer: "bearerToken demo bearer_request = ''jwt''"
proof -
  have "equalFold demo_ucd ''Bearer '' ''Bearer ''" "trimSpace ''jwt'' = ''jwt''" by code_simp+
  then show ?thesis by (simp add: bearerToken_def bearer_request_def demo_http_def Let_def)
qed

lemma demo_jwk: "publicKeyOfJWK (jwkFromPublicKey ''kid'' (77, 65537)) = Some (77, 65537)"
  by (rule jwk_roundtrip_key) simp_all

lemma demo_parse: "keys s = demo_keys \<Longrightarrow> result (parseAccessToken demo ''jwt'') s = Inr demo_claims"
  by (rule wp_resultD) (simp add: parseAccessToken_def PublicKeyByKID_def wp demo_keys_def demo_jwk del: wp_PublicKeyByKID)

lemma userinfo_answers: "status_of (result (userinfo demo bearer_request) (token_world None)) = 200"
  by (rule wp_resultD)
    (simp add: userinfo_def demo_bearer wp demo_parse [simplified] token_world_def demo_claims_def access_row_def demo_eval)

text \<open>
  C15. Userinfo is served only for a bearer token that a key of the ring verifies, that was issued as
  access token, whose row is neither revoked nor expired and belongs to an active user named as subject.
\<close>

theorem userinfo_needs_live_token:
  assumes "status_of (result (userinfo S r) s) = 200"
  shows "resource_served S r s"
  using userinfo_wp [of S r s] assms by (simp add: wp_result)

theorem userinfo_needs_live_token_witness: "resource_served demo bearer_request (token_world None)"
  by (rule userinfo_needs_live_token [OF userinfo_answers])

lemma access_le_revoked: "access_le a a' \<Longrightarrow> at_revoked a \<noteq> None \<Longrightarrow> at_revoked a' \<noteq> None \<and> at_jti a' = at_jti a"
  using row_le_same(4) [of a a'] by (auto simp: access_le_def access_stage_def stage_of_def less_eq_stage_def split: if_splits)

lemma revoked_token_rows:
  assumes "reachable S s0 s" "db_ok S (main s0)" "a \<in> set (access_tokens (main s0))" "at_revoked a \<noteq> None"
    and "b \<in> set (access_tokens (main s))" "at_jti b = at_jti a"
  shows "at_revoked b \<noteq> None"
proof -
  have "evolves access_le (access_tokens (main s0)) (access_tokens (main s))"
    using reachable_db(1) [OF assms(1)] by (simp add: db_le_def tables_later_def)
  from evolves_member [OF this assms(3)] obtain c where c: "c \<in> set (access_tokens (main s))" "access_le a c" by blast
  have "inj_on at_jti (set (access_tokens (main s)))"
    using reachable_db(2) [OF assms(1,2)] by (simp add: db_ok_def schema_ok_def token_ok_def distinct_map)
  from inj_onD [OF this _ assms(5) c(1)] show ?thesis using access_le_revoked [OF c(2) assms(4)] assms(6) by simp
qed

text \<open>
  C16. A revoked access token is dead: in every state the server can reach after its revocation, a
  request that presents it is not served, however often its signature still verifies.
\<close>

theorem revoked_token_refused:
  assumes "a \<in> set (access_tokens (main s0))" "at_revoked a \<noteq> None" "reachable S s0 s" "db_ok S (main s0)"
    and "\<And>claims. token_verified S (bearerToken S r) s claims \<Longrightarrow> to_uuid S (jc_jti claims) = Some (at_jti a)"
  shows "status_of (result (userinfo S r) s) \<noteq> 200"
proof
  assume "status_of (result (userinfo S r) s) = 200"
  then have "resource_served S r s" using userinfo_wp [of S r s] by (simp add: wp_result)
  then obtain claims b where "token_verified S (bearerToken S r) s claims" "b \<in> set (access_tokens (main s))"
    "to_uuid S (jc_jti claims) = Some (at_jti b)" "at_revoked b = None"
    unfolding resource_served_def by blast
  with revoked_token_rows [OF assms(3,4,1,2), of b] assms(5) show False by fastforce
qed

lemma demo_token_ok: "db_ok demo (main (token_world revoked))"
  using demo_db_ok by (simp add: token_world_def db_ok_def schema_ok_def identity_ok_def session_ok_def directory_ok_def
      application_ok_def assignment_ok_def token_ok_def factor_ok_def saml_ok_def credentials_ok_def stored_policy_ok_def
      branding_ok_def uris_ok_def clients_ok_def demo_db_def demo_rows)

theorem revoked_token_refused_witness:
  "status_of (result (userinfo demo bearer_request) (token_world (Some 5))) \<noteq> 200"
proof (rule revoked_token_refused [OF _ _ reachable.start demo_token_ok])
  show "demo_access\<lparr>at_revoked := Some 5\<rparr> \<in> set (access_tokens (main (token_world (Some 5))))" by (simp add: token_world_def)
  show "to_uuid demo (jc_jti claims) = Some (at_jti (demo_access\<lparr>at_revoked := Some 5\<rparr>))"
    if "token_verified demo (bearerToken demo bearer_request) (token_world (Some 5)) claims" for claims
    using that by (auto simp: token_verified_def demo_bearer demo_claims_def demo_access_def)
qed simp

section \<open>Scopes\<close>

text \<open>
  C22. The scope string that is stored is read back as the very list of scopes that was checked, and
  normalising it again changes nothing.
\<close>

theorem scope_round_trip:
  assumes "normalizeRequestedScope raw = Some (scope, scopes)"
  shows "scopes_or_nil scope = scopes \<and> normalizeRequestedScope scope = Some (scope, scopes)
    \<and> distinct scopes \<and> set scopes = set (strings_Fields raw)"
  using normalized_scopes [OF assms] assms splitScope_props [of raw scopes]
  by (auto simp: normalizeRequestedScope_def split: option.splits)

theorem scope_round_trip_witness:
  "scopes_or_nil ''openid profile'' = [''openid'', ''profile''] \<and> normalizeRequestedScope ''openid profile'' = Some (''openid profile'', [''openid'', ''profile''])
   \<and> distinct [''openid'', ''profile''] \<and> set [''openid'', ''profile''] = set (strings_Fields ''  openid profile openid'')"
proof (rule scope_round_trip)
  show "normalizeRequestedScope ''  openid profile openid'' = Some (''openid profile'', [''openid'', ''profile''])"
    by (simp add: normalizeRequestedScope_def splitScope_def strings_Fields_def isSpace_def runes_def scope_rune_ok_def)
qed

section \<open>PKCE\<close>

definition unreserved :: "char \<Rightarrow> bool" where
  "unreserved c \<longleftrightarrow> (let n = of_char c :: nat in 97 \<le> n \<and> n \<le> 122 \<or> 65 \<le> n \<and> n \<le> 90 \<or> 48 \<le> n \<and> n \<le> 57)
     \<or> c \<in> set ''-._~''"

text \<open>
  C23. The verifiers accepted are exactly those of RFC 7636: 43 to 128 bytes, each an unreserved
  character. The code decodes runes and measures bytes; on accepted input the two agree.
\<close>

theorem pkce_verifier_iff:
  "validPKCEVerifier v \<longleftrightarrow> 43 \<le> length v \<and> length v \<le> 128 \<and> list_all unreserved v"
proof -
  have ok: "pkce_rune_ok (of_char c) \<longleftrightarrow> unreserved c" for c
  proof -
    have "runes ''-._~'' = map of_char ''-._~''" by (rule runes_ascii) (simp add: ascii_def)
    then have "of_char c \<in> set (runes ''-._~'') \<longleftrightarrow> (of_char c :: nat) \<in> of_char ` set ''-._~''" by (simp only: set_map)
    also have "\<dots> \<longleftrightarrow> c \<in> set ''-._~''" by (simp only: image_iff of_char_eq_iff bex_simps) blast
    finally show ?thesis by (simp only: pkce_rune_ok_def unreserved_def Let_def) blast
  qed
  have a: "ascii v" if "list_all unreserved v"
    using that by (auto simp: ascii_def unreserved_def Let_def list_all_iff)
  have "list_all pkce_rune_ok (runes v) \<longleftrightarrow> list_all unreserved v"
  proof (cases "ascii v")
    case True
    then show ?thesis by (simp add: runes_ascii list_all_iff ok)
  next
    case False
    then show ?thesis using a pkce_runes_ascii by blast
  qed
  then show ?thesis unfolding validPKCEVerifier_def by (simp only: not_less de_Morgan_disj) blast
qed

text \<open>
  The check agrees with the published example of RFC 7636, appendix B, through the whole of
  SHA-256 and unpadded base64url, and with no other challenge.
\<close>

lemma pkce_rfc7636: "verifyPKCE rfc_verifier challenge \<longleftrightarrow> challenge = ''E9Melhoa2OwvFrEMTJguCHaoeK1t8URWbuGJSstw-cM''"
proof -
  have "validPKCEVerifier rfc_verifier"
    by (simp add: validPKCEVerifier_def runes_ascii ascii_def rfc_verifier_def pkce_rune_ok_def)
  then show ?thesis by (auto simp: verifyPKCE_def rfc_encoded rfc_challenge_def)
qed

end
