(* ===== verification/Account_Claims.thy ===== *)
theory Account_Claims imports Demo_Run Portal begin

text \<open>
  The properties of accounts: setup, login and lockout, passwords, sessions.
\<close>

lemmas trims = trimSpace_def isSpace_def unchunks_def
lemmas lowers = toLower_def runes_def toLowerRune_def utf8_encode_def char_of_eq_iff take_bit_eq_mod

section \<open>Setup\<close>

definition bootstrapped :: "st \<Rightarrow> st \<Rightarrow> bool" where
  "bootstrapped s t \<longleftrightarrow> system_state (main s) = Some False \<and> system_state (main t) = Some True
     \<and> (\<exists>u. users (main t) = users (main s) @ [u] \<and> (\<forall>ro \<in> set (roles (main s)). ro_name ro = ''Super Admin'' \<longrightarrow>
       (u_id u, ro_id ro) \<in> set (role_assignments (main t))))"

lemma bootstrap_wp: "wp (bootstrap S r body) (\<lambda>resp t. status_of resp = 201 \<longrightarrow> bootstrapped s t) s"
  by (auto simp: bootstrap_def Let_def with_hash_def wp exec_result_def insert_user_def insert_credential_def assign_role_by_name_def
      new_assignments_def mark_initialized_def bootstrapped_def dest!: insert_audit_frame split: option.splits sum.splits if_splits)

lemma bootstrap_only_fresh: "system_state (main s) = Some True \<Longrightarrow> wp (bootstrap S r body) (\<lambda>resp t. status_of resp \<noteq> 201) s"
  by (rule wp_mono [OF bootstrap_wp]) (auto simp: bootstrapped_def)

text \<open>
  C24. Setup happens once. It creates one user, who gets the role \<open>Super Admin\<close>, and in no state the
  server can reach afterwards does another request succeed, whatever credentials it brings.
\<close>

theorem bootstrap_once:
  assumes "status_of (result (bootstrap S r body) s) = 201" and "reachable S (final (bootstrap S r body) s) s'"
  shows "bootstrapped s (final (bootstrap S r body) s) \<and> status_of (result (bootstrap S r' body') s') \<noteq> 201"
proof -
  have b: "bootstrapped s (final (bootstrap S r body) s)"
    using bootstrap_wp [of S r body s] assms(1) by (simp add: wp_result)
  then have "system_state (main s') = Some True"
    using reachable_db(1) [OF assms(2)] by (simp add: bootstrapped_def db_le_def settings_later_def)
  with b show ?thesis using bootstrap_only_fresh [of s' S r' body'] by (simp add: wp_result)
qed

definition fresh_world :: st where
  "fresh_world = with_db (\<lambda>d. d\<lparr>system_state := Some False, users := [], credentials := [], sessions := [],
     roles := [\<lparr>ro_id = ''ro1'', ro_name = ''Super Admin'', ro_description = []\<rparr>], role_assignments := []\<rparr>)"

definition setup_request :: request where
  "setup_request = demo_http\<lparr>rq_headers := [(''Authorization'', ''Bearer bootstrap-token'')]\<rparr>"

definition setup_form :: "(string \<times> string \<times> string \<times> string) option" where
  "setup_form = Some (''root'', ''root@sso'', ''Root'', demo_password)"

lemma demo_password_ok: "passwordPolicyViolation demo_ucd demo_policy demo_password = []"
  by code_simp

lemma demo_password_meets: "password_meets demo_ucd demo_policy demo_password"
  using demo_password_ok by (simp add: no_violation_iff)

lemma demo_password_long: "length demo_password = 15"
  by (simp add: demo_password_def)

lemma setup_answers: "status_of (result (bootstrap demo setup_request setup_form) fresh_world) = 201"
proof -
  have "trimSpace ''root'' = ''root''" by (simp add: trims)
  moreover have "trimSpace ''root@sso'' = ''root@sso''" by (simp add: trims)
  moreover have "toLower demo_ucd ''root'' = ''root''" by (simp add: lowers)
  moreover have "toLower demo_ucd ''root@sso'' = ''root@sso''" by (simp add: lowers)
  moreover have "strings_Contains ''root@sso'' ''@''" by code_simp
  moreover have "header setup_request ''Authorization'' = ''Bearer bootstrap-token''"
    by (simp add: setup_request_def demo_http_def)
  ultimately have "wp (bootstrap demo setup_request setup_form) (\<lambda>resp _. status_of resp = 201) fresh_world"
    by (simp add: bootstrap_def setup_form_def fresh_world_def wp with_hash_def Let_def demo_db_def demo_password_meets
      no_violation_iff demo_password_long query_result_def exec_result_def insert_user_def insert_credential_def
      assign_role_by_name_def new_assignments_def mark_initialized_def exists_where_def insert_audit_def)
  then show ?thesis by (simp add: wp_result)
qed

theorem bootstrap_once_witness:
  "bootstrapped fresh_world (final (bootstrap demo setup_request setup_form) fresh_world)
   \<and> status_of (result (bootstrap demo setup_request setup_form) (final (bootstrap demo setup_request setup_form) fresh_world)) \<noteq> 201"
  by (rule bootstrap_once [OF setup_answers reachable.start])

section \<open>Login\<close>
















section \<open>Login attempts\<close>

text \<open>
  C28. From the first attempt of an address to the end of its five minutes, at most thirty attempts of
  that address are let through, in whatever order those of other addresses come in between.
\<close>

theorem login_attempts_bounded:
  assumes "counter_fresh (''opensso:login:'' @ ip) t0 s"
    and "run_state (allowLogin S ip) (set_redis_clock t0 s) = (True, s1)"
    and "\<forall>(ip', now) \<in> set reqs. now < t0 + minutes 5"
    and "attempts (\<lambda>ip. run_state (allowLogin S ip)) set_redis_clock reqs s1 = (out, s2)"
  shows "1 + allowed ip out \<le> 30"
proof -
  have "counter_opens (''opensso:login:'' @ ip) (t0 + minutes 5) s1" "counter_load (''opensso:login:'' @ ip) s1 = 1"
    using login_window.first [OF assms(1,2)] by auto
  from login_window.bounded [OF this(1) assms(3,4)] this(2) show ?thesis by simp
qed

theorem login_attempts_bounded_witness:
  "\<exists>out s1 s2. run_state (allowLogin demo ''10.0.0.1'') (set_redis_clock (minutes 100) demo_st) = (True, s1)
     \<and> attempts (\<lambda>ip. run_state (allowLogin demo ip)) set_redis_clock [(''10.0.0.1'', minutes 101), (''10.0.0.2'', minutes 102)] s1 = (out, s2)
     \<and> 1 + allowed ''10.0.0.1'' out \<le> 30"
proof -
  have fresh: "counter_fresh (''opensso:login:'' @ ''10.0.0.1'') (minutes 100) demo_st"
    by (simp add: counter_fresh_def live_counter_def)
  have "result (allowLogin demo ''10.0.0.1'') (set_redis_clock (minutes 100) demo_st) = True"
    unfolding limiters_hit by (rule wp_resultD) (simp add: wp_hit incr_counter_def live_counter_def set_redis_clock_def)
  then obtain s1 where first: "run_state (allowLogin demo ''10.0.0.1'') (set_redis_clock (minutes 100) demo_st) = (True, s1)"
    by (cases "run_state (allowLogin demo ''10.0.0.1'') (set_redis_clock (minutes 100) demo_st)") (simp add: result_def)
  moreover obtain out s2 where rest: "attempts (\<lambda>ip. run_state (allowLogin demo ip)) set_redis_clock
     [(''10.0.0.1'', minutes 101), (''10.0.0.2'', minutes 102)] s1 = (out, s2)"
    by (cases "attempts (\<lambda>ip. run_state (allowLogin demo ip)) set_redis_clock [(''10.0.0.1'', minutes 101), (''10.0.0.2'', minutes 102)] s1") simp
  moreover have "1 + allowed ''10.0.0.1'' out \<le> 30"
    by (rule login_attempts_bounded [OF fresh first _ rest]) simp
  ultimately show ?thesis by blast
qed







section \<open>Passwords\<close>

text \<open>
  C30. What \<open>HashPassword\<close> stores, \<open>VerifyPassword\<close> accepts for that password; for another password it
  accepts exactly when Argon2 gives the same key, and it never panics on it.
\<close>

theorem password_round_trip:
  assumes "run_state (HashPassword S pw) s = (Inr stored, s')" and "argon2_length S"
  shows "VerifyPassword S stored pw = Some True \<and> (\<exists>salt. \<forall>other. VerifyPassword S stored other
    = Some (argon2_key S pw salt argonIterations argonMemory argonParallelism argonKeyLen
        = argon2_key S other salt argonIterations argonMemory argonParallelism argonKeyLen))"
proof -
  obtain salt where "stored = password_record salt (argon2_key S pw salt argonIterations argonMemory argonParallelism argonKeyLen)"
    using HashPassword_record [OF assms(1)] by (auto simp: password_record_of_def)
  moreover have "length (argon2_key S pw salt argonIterations argonMemory argonParallelism argonKeyLen) = argonKeyLen"
    using assms(2) by (simp add: argon2_length_def)
  ultimately show ?thesis
    by (auto simp: VerifyPassword_record argonIterations_def argonMemory_def argonParallelism_def)
qed

theorem password_round_trip_witness:
  "\<exists>stored. result (HashPassword demo demo_password) demo_st = Inr stored \<and> VerifyPassword demo stored demo_password = Some True"
proof -
  obtain stored s' where "run_state (HashPassword demo demo_password) demo_st = (Inr stored, s')"
    by (simp add: HashPassword_def rand_bytes_def demo_password_long)
  with password_round_trip [OF this demo_argon2] show ?thesis by (auto simp: result_def)
qed

text \<open>
  C31. The password rule gives no message exactly when all rules of the policy hold, and under every
  policy that the server stores such a password also passes the length check of \<open>HashPassword\<close>.
\<close>

theorem password_rule:
  "(passwordPolicyViolation U p pw = [] \<longleftrightarrow> password_meets U p pw)
   \<and> (policy_ok p \<longrightarrow> password_meets U p pw \<longrightarrow> 12 \<le> length pw)"
  using no_violation_iff [of U p pw] policy_implies_length [of p U pw] by simp

theorem password_rule_witness: "password_meets demo_ucd demo_policy demo_password \<and> 12 \<le> length demo_password"
proof -
  have "policy_ok demo_policy" by (simp add: policy_ok_def policy_values_invalid_def demo_policy_def)
  with password_rule [of demo_ucd demo_policy demo_password] demo_password_ok show ?thesis by simp
qed














end
