(* ===== verification/Mfa_Claims.thy ===== *)
theory Mfa_Claims imports Demo_Run Mfa_Http begin

text \<open>
  The properties of multi-factor authentication: recovery codes and WebAuthn ceremonies work once, the
  last factor of a user who needs one cannot be removed, a session is raised only by a factor, and
  what is sealed for one user opens for nobody else.
\<close>

section \<open>Recovery codes\<close>

definition recovery_hash :: "server \<Rightarrow> string \<Rightarrow> string" where
  "recovery_hash S code = SHA256String (normalizeRecoveryCode S code)"








section \<open>The last factor\<close>







section \<open>Raising a session\<close>

text \<open>The factor that was shown.\<close>

definition factor_shown :: "server \<Rightarrow> uuid \<Rightarrow> string \<Rightarrow> string \<Rightarrow> st \<Rightarrow> bool" where
  "factor_shown S uid method code s \<longleftrightarrow>
     (if method = ''totp'' then \<exists>row secret. row \<in> set (totp_rows (main s)) \<and> tp_user row = uid \<and> tp_active row
          \<and> decrypt S (tp_secret row) (totp_name uid) = Some secret
          \<and> totp_validate S (trimSpace code) secret (go_now s) = Some True
      else method = ''recovery'' \<and> (\<exists>row \<in> set (recovery_codes (main s)). rc_user row = uid
          \<and> rc_hash row = recovery_hash S code \<and> rc_used row = None))"








lemma factor_shown_counted [simp]: "factor_shown S uid m c (final (Allow S b k l w) s) = factor_shown S uid m c s"
  by (simp add: factor_shown_def)





section \<open>WebAuthn ceremonies\<close>











section \<open>Sealed secrets\<close>

text \<open>
  C37. What the server encrypts for one purpose and owner opens for exactly that purpose and owner: the
  box of a user's authenticator secret, moved to the row of another user or presented as a security
  key, is refused.
\<close>

theorem sealed_for_owner:
  assumes "aead_sound S" and "run_state (encrypt S secret name) s = (Some box, s')"
  shows "decrypt S box name' = (if name' = name then Some secret else None)"
  using mfa_box.opens [OF assms] mfa_box.not_elsewhere [OF assms] by simp


theorem sealed_for_owner_witness:
  "\<exists>box. result (encrypt demo ''secret'' (totp_name ''u1'')) demo_st = Some box
     \<and> decrypt demo box (totp_name ''u1'') = Some ''secret'' \<and> decrypt demo box (totp_name ''u2'') = None"
proof -
  have "result (encrypt demo ''secret'' (totp_name ''u1'')) demo_st
      = Some (replicate 12 CHR ''r'' @ toy_seal (totp_name ''u1'') ''secret'')"
    by (rule wp_resultD) (simp add: encrypt_def wp aes_key_ok_def)
  then obtain box s' where box: "run_state (encrypt demo ''secret'' (totp_name ''u1'')) demo_st = (Some box, s')"
    by (cases "run_state (encrypt demo ''secret'' (totp_name ''u1'')) demo_st") (simp add: result_def)
  show ?thesis
    using sealed_for_owner [OF demo_aead box, of "totp_name ''u1''"] sealed_for_owner [OF demo_aead box, of "totp_name ''u2''"] box
    by (simp add: totp_name_def result_def)
qed

end
