(* ===== verification/Provider_Claims.thy ===== *)
theory Provider_Claims imports Demo_Run Portal begin

text \<open>
  The properties of the SAML identity provider's storage, and of what the portal tells a user about
  his rights.
\<close>

section \<open>SAML requests\<close>

definition saml_row :: "string \<Rightarrow> uuid \<Rightarrow> uuid \<Rightarrow> saml_request \<Rightarrow> bool" where
  "saml_row reqkey app uid q \<longleftrightarrow> sr_key q = reqkey \<and> sr_app q = app \<and> sr_user q = Some uid \<and> sr_completed q \<noteq> None"

lemma FinalizeAuthRequest_wp:
  "wp (FinalizeAuthRequest S reqkey uid) (\<lambda>x t. \<forall>app. x = Inr app \<longrightarrow> saml_allowed app uid (main s)
     \<and> (\<exists>q \<in> set (saml_requests (main t)). saml_row reqkey app uid q)) s"
proof -
  have "open_request reqkey now d = Some q \<Longrightarrow> sr_completed q = None \<Longrightarrow> \<exists>q' \<in> set (update_where (\<lambda>q. sr_key q = reqkey \<and> sr_completed q = None \<and> sr_consumed q = None)
      (\<lambda>q. q\<lparr>sr_user := Some uid, sr_completed := Some now'\<rparr>) (saml_requests d)). saml_row reqkey (sr_app q) uid q'" for now d q now'
    by (rule bexI [of _ "q\<lparr>sr_user := Some uid, sr_completed := Some now'\<rparr>"])
      (auto simp: saml_row_def open_request_def update_where_def image_iff dest!: find_in_set intro!: bexI [of _ q])
  then show ?thesis
    by (auto simp: FinalizeAuthRequest_def wp query_result_def exec_result_def complete_saml_request_def Let_def bind_eq_Some_conv
        split: option.splits sum.splits if_splits)
qed

lemma AuthRequestByID_wp:
  "wp (AuthRequestByID S reqkey) (\<lambda>x t. \<forall>ar. x = Inr ar \<longrightarrow>
     (\<exists>q \<in> set (saml_requests (main s)). saml_row reqkey (ar_app ar) (ar_user ar) q \<and> sr_consumed q = None
       \<and> pg_now s < sr_expires q \<and> ar_acs ar = sr_acs q \<and> ar_issuer ar = sr_issuer q \<and> ar_saml_id ar = sr_saml_id q
       \<and> (\<exists>q' \<in> set (saml_requests (main t)). sr_key q' = reqkey \<and> sr_consumed q' \<noteq> None))) s"
proof -
  have "open_request reqkey now d = Some q \<Longrightarrow> \<exists>q' \<in> set (update_where (\<lambda>q. sr_key q = reqkey \<and> sr_consumed q = None)
      (\<lambda>q. q\<lparr>sr_consumed := Some now'\<rparr>) (saml_requests d)). sr_key q' = reqkey \<and> sr_consumed q' \<noteq> None" for now d q now'
    by (rule bexI [of _ "q\<lparr>sr_consumed := Some now'\<rparr>"])
      (auto simp: open_request_def update_where_def image_iff dest!: find_in_set intro!: bexI [of _ q])
  then show ?thesis
    by (auto simp: AuthRequestByID_def wp query_result_def exec_result_def consume_saml_request_def Let_def saml_row_def open_request_def
        dest!: find_in_set split: option.splits sum.splits if_splits)
qed

lemma within_ok:
  assumes "\<And>d0 k0. within (reaching S d0 k0) m" "db_ok S (main s)"
  shows "db_ok S (main (final m s))"
proof -
  have "reaching S (main s) (keys s) (final m s)"
    using assms(1) [of "main s" "keys s"] by (simp add: within_def wp_result reaching_def db_later.db_refl keys_later.keys_refl)
  then show ?thesis using assms(2) db_later_ok by (auto simp: reaching_def)
qed

lemma later_request:
  assumes "reachable S s t" "db_ok S (main s)" "q \<in> set (saml_requests (main s))"
    "q' \<in> set (saml_requests (main t))" "sr_key q' = sr_key q"
  shows "saml_le q q'"
proof -
  have "evolves saml_le (saml_requests (main s)) (saml_requests (main t))"
    using reachable_db(1) [OF assms(1)] by (simp add: db_le_def rows_later_def)
  from evolves_member [OF this assms(3)] obtain q2 where q2: "q2 \<in> set (saml_requests (main t))" "saml_le q q2" by blast
  have "sr_key q2 = sr_key q" using arg_cong [where f = sr_key, OF conjunct1 [OF q2(2) [unfolded saml_le_def]]] by simp
  then have "sr_key q2 = sr_key q'" using assms(5) by simp
  moreover have "inj_on sr_key (set (saml_requests (main t)))"
    using reachable_db(2) [OF assms(1,2)] by (simp add: db_ok_def schema_ok_def saml_ok_def distinct_map)
  ultimately have "q2 = q'" using q2(1) assms(4) by (simp add: inj_onD)
  with q2(2) show ?thesis by simp
qed

text \<open>
  C38. A SAML request is completed only for a user who is assigned to the enabled SAML application. The
  library gets it, whenever it asks later, for exactly this user and application, and it gets it once.
\<close>

theorem saml_request_once:
  assumes "db_ok S (main s)" and "result (FinalizeAuthRequest S reqkey uid) s = Inr app"
    and "reachable S (final (FinalizeAuthRequest S reqkey uid) s) s1" and "result (AuthRequestByID S reqkey) s1 = Inr ar"
    and "reachable S (final (AuthRequestByID S reqkey) s1) s2"
  shows "saml_allowed app uid (main s) \<and> ar_user ar = uid \<and> ar_app ar = app \<and> result (AuthRequestByID S reqkey) s2 \<noteq> Inr ar'"
proof -
  obtain q where q: "saml_allowed app uid (main s)" "saml_row reqkey app uid q"
      "q \<in> set (saml_requests (main (final (FinalizeAuthRequest S reqkey uid) s)))"
    using FinalizeAuthRequest_wp [of S reqkey uid s] assms(2) by (auto simp: wp_result)
  obtain q1 q2 where q1: "q1 \<in> set (saml_requests (main s1))" "saml_row reqkey (ar_app ar) (ar_user ar) q1"
    and q2: "q2 \<in> set (saml_requests (main (final (AuthRequestByID S reqkey) s1)))" "sr_key q2 = reqkey" "sr_consumed q2 \<noteq> None"
    using AuthRequestByID_wp [of S reqkey s1] assms(4) by (auto simp: wp_result)
  have ok: "db_ok S (main (final (FinalizeAuthRequest S reqkey uid) s))"
    by (rule within_ok [OF within_FinalizeAuthRequest assms(1)])
  have ok1: "db_ok S (main (final (AuthRequestByID S reqkey) s1))"
    by (rule within_ok [OF within_AuthRequestByID reachable_db(2) [OF assms(3) ok]])
  have "saml_le q q1" by (rule later_request [OF assms(3) ok q(3) q1(1)]) (use q(2) q1(2) in \<open>simp add: saml_row_def\<close>)
  then have "sr_app q1 = sr_app q"
    using arg_cong [where f = sr_app, OF conjunct1 [OF \<open>saml_le q q1\<close> [unfolded saml_le_def]]] by simp
  moreover have "sr_user q1 = sr_user q" using \<open>saml_le q q1\<close> q(2) by (auto simp: saml_le_def saml_row_def)
  ultimately have "sr_app q1 = sr_app q \<and> sr_user q1 = sr_user q" by simp
  with q(2) q1(2) have same: "ar_user ar = uid" "ar_app ar = app" by (auto simp: saml_row_def)
  have "result (AuthRequestByID S reqkey) s2 \<noteq> Inr ar'"
  proof
    assume "result (AuthRequestByID S reqkey) s2 = Inr ar'"
    then obtain q3 where q3: "q3 \<in> set (saml_requests (main s2))" "sr_key q3 = reqkey" "sr_consumed q3 = None"
      using AuthRequestByID_wp [of S reqkey s2] by (auto simp: wp_result saml_row_def)
    have "saml_le q2 q3" by (rule later_request [OF assms(5) ok1 q2(1) q3(1)]) (simp add: q2(2) q3(2))
    with q2(3) q3(3) show False by (auto simp: saml_le_def)
  qed
  with q(1) same show ?thesis by simp
qed

definition saml_world :: st where
  "saml_world = with_db (\<lambda>d. d\<lparr>applications := [demo_app\<lparr>a_protocol := ''saml''\<rparr>], oauth_clients := [], redirect_uris := [], consents := [],
     user_assignments := [(''a1'', ''u1'')],
     saml_sps := [], saml_requests := [\<lparr>sr_key = ''abc'', sr_saml_id = ''id1'', sr_app = ''a1'', sr_issuer = ''sp'', sr_destination = [],
       sr_acs = ''https://sp/acs'', sr_binding = ''binding'', sr_relay = [], sr_user = None, sr_expires = minutes 105,
       sr_completed = None, sr_consumed = None\<rparr>]\<rparr>)"

lemma saml_world_ok: "db_ok demo (main saml_world)"
  using demo_db_ok
  by (simp add: db_ok_def schema_ok_def identity_ok_def session_ok_def directory_ok_def application_ok_def assignment_ok_def
      token_ok_def factor_ok_def saml_ok_def saml_world_def demo_db_def demo_rows credentials_ok_def stored_policy_ok_def
      branding_ok_def clients_ok_def uris_ok_def)

lemma saml_finalized: "result (FinalizeAuthRequest demo ''abc'' ''u1'') saml_world = Inr ''a1''"
  by (rule wp_resultD) (simp add: FinalizeAuthRequest_def wp saml_world_def query_result_def exec_result_def open_request_def
      saml_allowed_def assigned_def complete_saml_request_def Let_def exists_where_def count_where_def demo_db_def demo_app_def alice_def)

theorem saml_request_once_witness:
  "\<exists>ar. result (AuthRequestByID demo ''abc'') (final (FinalizeAuthRequest demo ''abc'' ''u1'') saml_world) = Inr ar
     \<and> ar_user ar = ''u1''
     \<and> (\<forall>ar'. result (AuthRequestByID demo ''abc'') (final (AuthRequestByID demo ''abc'') (final (FinalizeAuthRequest demo ''abc'' ''u1'') saml_world)) \<noteq> Inr ar')"
proof -
  have "wp (FinalizeAuthRequest demo ''abc'' ''u1'') (\<lambda>_ t. wp (AuthRequestByID demo ''abc'') (\<lambda>x _. \<exists>ar. x = Inr ar) t) saml_world"
    by (simp add: FinalizeAuthRequest_def AuthRequestByID_def wp saml_world_def query_result_def exec_result_def open_request_def
      saml_allowed_def assigned_def complete_saml_request_def consume_saml_request_def update_where_def Let_def exists_where_def
      count_where_def demo_db_def demo_app_def alice_def)
  then obtain ar where ar: "result (AuthRequestByID demo ''abc'') (final (FinalizeAuthRequest demo ''abc'' ''u1'') saml_world) = Inr ar"
    by (auto simp: wp_result)
  from saml_request_once [OF saml_world_ok saml_finalized reachable.start ar reachable.start] ar show ?thesis by blast
qed

section \<open>The portal\<close>

text \<open>
  C39. What the portal tells a user is what the gates enforce: the permissions it lists are exactly those
  for which a guarded route lets him in, and the SAML applications it lists are exactly those for which
  the identity provider completes a request of his.
\<close>

theorem portal_shows_rights:
  "(perm \<in> set (permission_names S uid d) \<longleftrightarrow> has_permission uid perm d)
   \<and> ((\<exists>a \<in> set (my_applications S uid d). a_id a = app \<and> a_protocol a = ''saml'') \<longleftrightarrow> saml_allowed app uid d)"
  by (auto simp: permission_names_def has_permission_def my_applications_def saml_allowed_def exists_where_iff image_iff Bex_def)

end
