(* ===== verification/Startup.thy ===== *)
theory Startup imports Store begin

text \<open>
  What runs before the first request: \<open>backend/internal/config/config.go\<close> reads the settings from
  the environment, \<open>backend/internal/database/database.go\<close> brings the schema up to date.
\<close>

section \<open>Settings\<close>

text \<open>\<open>getenv\<close> is \<open>os.Getenv\<close>: a variable that is not set reads as empty.\<close>

definition env :: "(string \<Rightarrow> string) \<Rightarrow> string \<Rightarrow> string \<Rightarrow> string" where
  "env getenv k d = (if getenv k \<noteq> [] then getenv k else d)"

definition parseBool :: "string \<Rightarrow> bool option" where
  "parseBool v =
     (if v \<in> {''1'', ''t'', ''T'', ''TRUE'', ''true'', ''True''} then Some True
      else if v \<in> {''0'', ''f'', ''F'', ''FALSE'', ''false'', ''False''} then Some False else None)"

definition envBool :: "(string \<Rightarrow> string) \<Rightarrow> string \<Rightarrow> bool \<Rightarrow> bool" where
  "envBool getenv k d = (if getenv k = [] then d else case parseBool (getenv k) of None \<Rightarrow> d | Some b \<Rightarrow> b)"

text \<open>\<open>dur\<close> is \<open>time.ParseDuration\<close>, which computes in floating point.\<close>

definition envDuration :: "(string \<Rightarrow> int option) \<Rightarrow> (string \<Rightarrow> string) \<Rightarrow> string \<Rightarrow> int \<Rightarrow> int" where
  "envDuration dur getenv k d = (if getenv k = [] then d else case dur (getenv k) of None \<Rightarrow> d | Some x \<Rightarrow> x)"

definition Load :: "(string \<Rightarrow> int option) \<Rightarrow> (string \<Rightarrow> string) \<Rightarrow> string + config" where
  "Load dur getenv =
     (let database = getenv ''OPENSSO_DATABASE_URL''; token = getenv ''OPENSSO_BOOTSTRAP_TOKEN'';
          rawMaster = getenv ''OPENSSO_MASTER_KEY'' in
      if database = [] then Inl ''OPENSSO_DATABASE_URL is required''
      else if token \<noteq> [] \<and> length token < 24 then Inl ''OPENSSO_BOOTSTRAP_TOKEN must contain at least 24 characters''
      else if rawMaster = [] then Inl ''OPENSSO_MASTER_KEY is required''
      else case std64_decode rawMaster of
        None \<Rightarrow> Inl ''OPENSSO_MASTER_KEY must be base64-encoded 32-byte key''
      | Some master \<Rightarrow>
          if length master \<noteq> 32 then Inl ''OPENSSO_MASTER_KEY must be base64-encoded 32-byte key''
          else Inr \<lparr>ListenAddr = env getenv ''OPENSSO_LISTEN_ADDR'' '':8080'',
            PublicURL = trimRight_byte CHR ''/'' (env getenv ''OPENSSO_PUBLIC_URL'' ''http://localhost:8080''),
            DatabaseURL = database, RedisURL = env getenv ''OPENSSO_REDIS_URL'' ''redis://redis:6379/0'',
            CookieSecure = envBool getenv ''OPENSSO_COOKIE_SECURE'' False,
            TrustProxyHeaders = envBool getenv ''OPENSSO_TRUST_PROXY_HEADERS'' False,
            SessionTTL = envDuration dur getenv ''OPENSSO_SESSION_TTL'' (minutes 720),
            BootstrapToken = token, MasterKey = master\<rparr>)"

section \<open>Migrations\<close>

text \<open>
  \<open>'d\<close> is the schema and data that a script changes; a script is the partial function its SQL denotes.
  \<open>versions\<close> is the table \<open>schema_migrations\<close>, \<^const>\<open>None\<close> before it exists.
\<close>

record 'd schema =
  versions :: "string list option"
  content :: 'd
  ops :: nat

text \<open>One statement on the pool; \<open>fails n\<close>: the \<open>n\<close>-th one fails and changes nothing.\<close>

definition pool ::
  "(nat \<Rightarrow> bool) \<Rightarrow> ('d schema \<Rightarrow> (unit + 'a) \<times> 'd schema) \<Rightarrow> ('d schema, unit + 'a) state" where
  "pool fails f = State (\<lambda>s. let s1 = s\<lparr>ops := Suc (ops s)\<rparr> in if fails (ops s) then (Inl (), s1) else f s1)"

definition applied :: "'d schema \<Rightarrow> string list" where
  "applied s = (case versions s of None \<Rightarrow> [] | Some vs \<Rightarrow> vs)"

fun bytes_le :: "string \<Rightarrow> string \<Rightarrow> bool" where
  "bytes_le [] t = True"
| "bytes_le (c # s) [] = False"
| "bytes_le (c # s) (d # t) =
     ((of_char c :: nat) < of_char d \<or> c = d \<and> bytes_le s t)"

definition migrate_one ::
  "(nat \<Rightarrow> bool) \<Rightarrow> string \<Rightarrow> ('d \<Rightarrow> 'd option) \<Rightarrow> ('d schema, unit + unit) state" where
  "migrate_one fails n script =
     orfail (pool fails (\<lambda>s. (Inr (n \<in> set (applied s)), s))) id (\<lambda>done.
     if done then State_Monad.return (Inr ())
     else orfail (pool fails (\<lambda>s. (Inr (), s))) id (\<lambda>_.
       orfail (pool fails (\<lambda>s. (case script (content s) of None \<Rightarrow> Inl () | Some c \<Rightarrow> Inr c, s))) id (\<lambda>c.
       orfail (pool fails (\<lambda>s. (if n \<in> set (applied s) then Inl () else Inr (applied s @ [n]), s))) id (\<lambda>vs.
       pool fails (\<lambda>s. (Inr (), s\<lparr>versions := Some vs, content := c\<rparr>))))))"

fun migrate_all ::
  "(nat \<Rightarrow> bool) \<Rightarrow> (string \<Rightarrow> 'd \<Rightarrow> 'd option) \<Rightarrow> string list \<Rightarrow> ('d schema, unit + unit) state" where
  "migrate_all fails script [] = State_Monad.return (Inr ())"
| "migrate_all fails script (n # ns) =
     orfail (migrate_one fails n (script n)) id (\<lambda>_. migrate_all fails script ns)"

text \<open>The embedded files (name, directory?) and what each script does.\<close>

definition migration_names :: "(string \<times> bool) list \<Rightarrow> string list" where
  "migration_names files = order_by bytes_le
     (map fst (filter (\<lambda>(n, dir). \<not> dir \<and> hasSuffix n ''.sql'') files))"

definition Migrate ::
  "(nat \<Rightarrow> bool) \<Rightarrow> (string \<times> bool) list \<Rightarrow> (string \<Rightarrow> 'd \<Rightarrow> 'd option) \<Rightarrow> ('d schema, unit + unit) state" where
  "Migrate fails files script =
     orfail (pool fails (\<lambda>s. (Inr (), s\<lparr>versions := Some (applied s)\<rparr>))) id (\<lambda>_.
     migrate_all fails script (migration_names files))"

end
