(* ===== verification/Startup_Claims.thy ===== *)
theory Startup_Claims imports Startup begin

text \<open>
  The property of the migrations: however often and wherever a start of the server is interrupted, the
  scripts take effect in order and once each.
\<close>

section \<open>The order of the scripts\<close>

lemma bytes_le_total: "bytes_le s t \<or> bytes_le t s"
  by (induction s t rule: bytes_le.induct) auto

lemma bytes_le_trans: "bytes_le s t \<Longrightarrow> bytes_le t u \<Longrightarrow> bytes_le s u"
proof (induction s t arbitrary: u rule: bytes_le.induct)
  case (3 c s d t)
  then show ?case by (cases u) auto
qed auto

lemma sorted_insort_by:
  "\<forall>a b. le a b \<or> le b a \<Longrightarrow> \<forall>a b c. le a b \<longrightarrow> le b c \<longrightarrow> le a c \<Longrightarrow> sorted_wrt le xs \<Longrightarrow> sorted_wrt le (insort_by le x xs)"
  by (induction xs) auto

lemma sorted_migration_names: "sorted_wrt bytes_le (migration_names files)"
  unfolding migration_names_def order_by_def
  using bytes_le_total bytes_le_trans by (induction files) (auto intro!: sorted_insort_by)

section \<open>One script and all scripts\<close>

text \<open>What the scripts that are still to be applied do, one after the other.\<close>

fun run_scripts :: "(string \<Rightarrow> 'd \<Rightarrow> 'd option) \<Rightarrow> string list \<Rightarrow> 'd \<Rightarrow> 'd option" where
  "run_scripts script [] c = Some c"
| "run_scripts script (n # ns) c = Option.bind (script n c) (run_scripts script ns)"

definition pending :: "string list \<Rightarrow> 'd schema \<Rightarrow> string list" where
  "pending ns s = filter (\<lambda>n. n \<notin> set (applied s)) ns"

lemma wp_pool [wp]:
  "wp (pool fails f) Q s = (let s1 = s\<lparr>ops := Suc (ops s)\<rparr> in
     if fails (ops s) then Q (Inl ()) s1 else case f s1 of (x, t) \<Rightarrow> Q x t)"
  by (simp add: wp_def pool_def Let_def)

definition advanced :: "string list \<Rightarrow> (string \<Rightarrow> 'd \<Rightarrow> 'd option) \<Rightarrow> 'd schema \<Rightarrow> 'd schema \<Rightarrow> bool" where
  "advanced done script s t \<longleftrightarrow> applied t = applied s @ done \<and> run_scripts script done (content s) = Some (content t)"

lemma run_scripts_append: "run_scripts script (a @ b) c = Option.bind (run_scripts script a c) (run_scripts script b)"
  by (induction a arbitrary: c) (auto split: bind_splits)

lemma advanced_trans: "advanced a script s t \<Longrightarrow> advanced b script t u \<Longrightarrow> advanced (a @ b) script s u"
  by (auto simp: advanced_def run_scripts_append)

lemma migrate_one_wp:
  "wp (migrate_one fails n (script n)) (\<lambda>x t. advanced (if x = Inr () then pending [n] s else []) script s t
     \<and> ((\<forall>i. \<not> fails i) \<longrightarrow> run_scripts script (pending [n] s) (content s) \<noteq> None \<longrightarrow> x = Inr ())) s"
  by (auto simp: migrate_one_def wp Let_def advanced_def pending_def applied_def split: option.splits)

definition migrated ::
  "(nat \<Rightarrow> bool) \<Rightarrow> (string \<Rightarrow> 'd \<Rightarrow> 'd option) \<Rightarrow> string list \<Rightarrow> 'd schema \<Rightarrow> unit + unit \<Rightarrow> 'd schema \<Rightarrow> bool" where
  "migrated fails script names s x t \<longleftrightarrow> (\<exists>done rest. pending names s = done @ rest \<and> advanced done script s t
     \<and> (x = Inr () \<longrightarrow> rest = [])
     \<and> ((\<forall>i. \<not> fails i) \<longrightarrow> run_scripts script (pending names s) (content s) \<noteq> None \<longrightarrow> x = Inr ()))"

lemma pending_Cons: "pending (n # ns) s = pending [n] s @ pending ns s"
  by (simp add: pending_def)

lemma pending_advanced: "advanced done script s t \<Longrightarrow> set done \<inter> set ns = {} \<Longrightarrow> pending ns t = pending ns s"
  by (auto simp: pending_def advanced_def intro!: filter_cong)

lemma migrate_all_wp: "distinct ns \<Longrightarrow> wp (migrate_all fails script ns) (migrated fails script ns s) s"
proof (induction ns arbitrary: s)
  case Nil
  then show ?case by (simp add: wp migrated_def pending_def advanced_def)
next
  case (Cons n ns)
  let ?ok = "\<lambda>x t. advanced (if x = Inr () then pending [n] s else []) script s t
     \<and> ((\<forall>i. \<not> fails i) \<longrightarrow> run_scripts script (pending [n] s) (content s) \<noteq> None \<longrightarrow> x = Inr ())"
  have stopped: "migrated fails script (n # ns) s (Inl ()) t" if "?ok (Inl ()) t" for t
    unfolding migrated_def
    by (rule exI [of _ "[]"], rule exI [of _ "pending (n # ns) s"])
      (use that in \<open>auto simp: pending_Cons [of n ns] run_scripts_append\<close>)
  have went: "migrated fails script (n # ns) s x u" if one: "advanced (pending [n] s) script s t" and all_ok: "migrated fails script ns t x u" for x t u
  proof -
    have same: "pending ns t = pending ns s"
      by (rule pending_advanced [OF one]) (use Cons.prems in \<open>auto simp: pending_def\<close>)
    obtain done' rest where r: "pending ns s = done' @ rest" "advanced done' script t u" "x = Inr () \<longrightarrow> rest = []"
      "(\<forall>i. \<not> fails i) \<longrightarrow> run_scripts script (pending ns s) (content t) \<noteq> None \<longrightarrow> x = Inr ()"
      using all_ok unfolding migrated_def same by blast
    have split: "pending (n # ns) s = (pending [n] s @ done') @ rest" using r(1) by (simp only: pending_Cons [of n ns] append_assoc)
    have "run_scripts script (pending (n # ns) s) (content s) = run_scripts script (pending ns s) (content t)"
      unfolding pending_Cons [of n ns] run_scripts_append using one by (simp only: advanced_def bind.simps)
    with split advanced_trans [OF one r(2)] r(3,4) show ?thesis unfolding migrated_def by metis
  qed
  have rest: "wp (migrate_all fails script ns) (migrated fails script (n # ns) s) t" if "advanced (pending [n] s) script s t" for t
    by (rule wp_mono [where Q = "migrated fails script ns t"]) (use Cons went [OF that] in simp_all)
  show ?case
    by (auto simp: wp intro!: wp_mono [OF migrate_one_wp] rest split: sum.splits) (auto intro: stopped)
qed

lemma distinct_insort_by: "distinct (insort_by le x xs) \<longleftrightarrow> x \<notin> set xs \<and> distinct xs"
  by (induction xs) auto

lemma distinct_migration_names:
  assumes "distinct (map fst files)"
  shows "distinct (migration_names files)"
proof -
  have "distinct (order_by le xs) \<longleftrightarrow> distinct xs" for le and xs :: "string list"
    unfolding order_by_def by (induction xs) (simp_all add: distinct_insort_by set_order_by [unfolded order_by_def])
  then show ?thesis using assms by (auto simp: migration_names_def distinct_map intro: inj_on_subset)
qed

lemma migrated_same: "applied s1 = applied s \<Longrightarrow> content s1 = content s \<Longrightarrow> migrated fails script ns s1 x t = migrated fails script ns s x t"
  by (simp add: migrated_def pending_def advanced_def)

lemma Migrate_wp:
  assumes "distinct (map fst files)"
  shows "wp (Migrate fails files script) (migrated fails script (migration_names files) s) s"
proof -
  let ?s1 = "s\<lparr>ops := Suc (ops s), versions := Some (applied s)\<rparr>"
  have s1: "applied ?s1 = applied s" "content ?s1 = content s" by (simp_all add: applied_def)
  have "wp (migrate_all fails script (migration_names files)) (migrated fails script (migration_names files) s) ?s1"
    by (rule wp_mono [OF migrate_all_wp [OF distinct_migration_names [OF assms]]]) (simp add: migrated_same [OF s1])
  moreover have "migrated fails script ns s (Inl ()) (s\<lparr>ops := Suc (ops s)\<rparr>)" if "fails (ops s)" for ns
    using that by (auto simp: migrated_def advanced_def applied_def)
  ultimately show ?thesis by (simp add: Migrate_def wp Let_def applied_def)
qed

section \<open>The property\<close>

text \<open>
  C40. A start that fails anywhere leaves the schema with a prefix of the pending scripts applied, in
  byte order of their names, each recorded and run exactly once; a start that succeeds has applied all
  of them, so the next one runs none; and without failures a start succeeds.
\<close>

theorem migrations_once:
  assumes "distinct (map fst files)"
  shows "sorted_wrt bytes_le (migration_names files)
    \<and> migrated fails script (migration_names files) s (result (Migrate fails files script) s) (final (Migrate fails files script) s)
    \<and> (result (Migrate fails files script) s = Inr () \<longrightarrow> pending (migration_names files) (final (Migrate fails files script) s) = [])"
proof -
  have m: "migrated fails script (migration_names files) s (result (Migrate fails files script) s) (final (Migrate fails files script) s)"
    using Migrate_wp [OF assms] by (simp add: wp_result)
  moreover have "pending ns t = []" if "migrated fails script ns s (Inr ()) t" for ns t
    using that by (auto simp: migrated_def advanced_def) (auto simp: pending_def dest: arg_cong [where f = set])
  ultimately show ?thesis using sorted_migration_names [of files] by auto
qed

text \<open>Two scripts of which the second fails at first; \<open>content\<close> is what has been run.\<close>

definition demo_files :: "(string \<times> bool) list" where
  "demo_files = [(''0002_oauth.sql'', False), (''notes.txt'', False), (''0001_init.sql'', False)]"

definition demo_script :: "string \<Rightarrow> string list \<Rightarrow> string list option" where
  "demo_script n c = Some (c @ [n])"

definition empty_schema :: "string list schema" where
  "empty_schema = \<lparr>versions = None, content = [], ops = 0\<rparr>"

theorem migrations_once_witness:
  "content (final (Migrate (\<lambda>_. False) demo_files demo_script) empty_schema) = [''0001_init.sql'', ''0002_oauth.sql'']"
proof -
  have names: "migration_names demo_files = [''0001_init.sql'', ''0002_oauth.sql'']"
    by (simp add: demo_files_def migration_names_def order_by_def hasSuffix_def)
  have "migrated (\<lambda>_. False) demo_script (migration_names demo_files) empty_schema
      (result (Migrate (\<lambda>_. False) demo_files demo_script) empty_schema) (final (Migrate (\<lambda>_. False) demo_files demo_script) empty_schema)"
    using migrations_once [of demo_files "\<lambda>_. False" demo_script empty_schema] by (simp add: demo_files_def)
  then show ?thesis
    by (simp add: names migrated_def pending_def empty_schema_def applied_def demo_script_def) (auto simp: advanced_def demo_script_def)
qed

end
